(* ===== verification/Mdm_Prelude.thy ===== *)
theory Mdm_Prelude
  imports Main "HOL-Library.Monad_Syntax"
begin

text \<open>
  What the components of the development share: the reading of C strings, the option monad
  that stands for a process that may abort, and the run of an event-driven component over a
  list of events together with the interface (a locale) every such component satisfies.

  Conventions. A \<open>char *\<close> that may be NULL is a \<^typ>\<open>string option\<close>. A procedure that can
  fail an assertion or dereference NULL returns an option: the value \<^term>\<open>None\<close> is the abnormal
  termination of the process, nothing that follows it is executed.
\<close>

named_theorems frame_simps \<open>fields an operation leaves alone\<close>
named_theorems mdm_step_defs \<open>definitions unfolded when a single step is analysed\<close>

subsection \<open>C strings\<close>

text \<open>What the C library sees of a buffer: the bytes before the first NUL.\<close>

definition c_string :: "string \<Rightarrow> string" where
  "c_string s = takeWhile (\<lambda>c. c \<noteq> CHR 0x00) s"

lemma c_string_no_nul [simp]: "CHR 0x00 \<notin> set s \<Longrightarrow> c_string s = s"
  unfolding c_string_def by (rule takeWhile_eq_all_conv [THEN iffD2]) auto

lemma c_string_idem [simp]: "c_string (c_string s) = c_string s"
  by (simp add: c_string_def)

text \<open>\<open>NULL\<close> or the empty string.\<close>

fun null_or_empty :: "string option \<Rightarrow> bool" where
  "null_or_empty None = True"
| "null_or_empty (Some s) = (s = [])"

lemma null_or_empty_iff: "null_or_empty x \<longleftrightarrow> x = None \<or> x = Some []"
  by (cases x) auto

text \<open>\<open>g_string_insert\<close> of GLib: it inserts a C string, a negative position appends, and a
  position behind the end leaves the buffer alone.\<close>

definition g_string_insert :: "string \<Rightarrow> int \<Rightarrow> string \<Rightarrow> string" where
  "g_string_insert dest pos val =
     (if pos < 0 then dest @ c_string val
      else if nat pos \<le> length dest then take (nat pos) dest @ c_string val @ drop (nat pos) dest
      else dest)"

lemma g_string_insert_append [simp]: "g_string_insert dest (-1) val = dest @ c_string val"
  by (simp add: g_string_insert_def)

text \<open>\<open>g_build_filename\<close> of GLib: the non-empty elements joined by exactly one separator, with the
  leading separators of the first and the trailing ones of the last kept.\<close>

definition is_sep :: "char \<Rightarrow> bool" where
  "is_sep c \<longleftrightarrow> c = CHR ''/''"

definition strip_sep :: "string \<Rightarrow> string" where
  "strip_sep s = rev (dropWhile is_sep (rev (dropWhile is_sep s)))"

fun join_with :: "string \<Rightarrow> string list \<Rightarrow> string" where
  "join_with sep [] = []"
| "join_with sep [x] = x"
| "join_with sep (x # y # xs) = x @ sep @ join_with sep (y # xs)"

definition g_build_filename :: "string list \<Rightarrow> string" where
  "g_build_filename elements =
     (let es = filter (\<lambda>e. e \<noteq> []) elements;
          cores = filter (\<lambda>e. e \<noteq> []) (map strip_sep es)
      in if es = [] then []
         else if cores = [] then hd es
         else takeWhile is_sep (hd es) @ join_with ''/'' cores @ takeWhile is_sep (rev (last es)))"

text \<open>\<open>g_path_get_dirname\<close> of GLib: what is in front of the last separator.\<close>

definition g_path_get_dirname :: "string \<Rightarrow> string" where
  "g_path_get_dirname path =
     (if \<forall>c \<in> set path. \<not> is_sep c then ''.''
      else let dir = rev (dropWhile is_sep (dropWhile (\<lambda>c. \<not> is_sep c) (rev path)))
           in if dir = [] then ''/'' else dir)"

subsection \<open>Decimal numbers\<close>

definition digit_char :: "nat \<Rightarrow> char" where
  "digit_char n = ''0123456789'' ! n"

fun string_of_nat :: "nat \<Rightarrow> string" where
  "string_of_nat n =
     (if n < 10 then [digit_char n] else string_of_nat (n div 10) @ [digit_char (n mod 10)])"

declare string_of_nat.simps [simp del]

definition string_of_int :: "int \<Rightarrow> string" where
  "string_of_int i = (if i < 0 then ''-'' @ string_of_nat (nat (- i)) else string_of_nat (nat i))"

lemma digit_char_inj: "m < 10 \<Longrightarrow> n < 10 \<Longrightarrow> digit_char m = digit_char n \<Longrightarrow> m = n"
proof -
  have "\<forall>m \<in> set [0..<10]. \<forall>n \<in> set [0..<10]. digit_char m = digit_char n \<longrightarrow> m = n"
    by code_simp
  then show "m < 10 \<Longrightarrow> n < 10 \<Longrightarrow> digit_char m = digit_char n \<Longrightarrow> m = n" by simp
qed

text \<open>The decimal form determines the number.\<close>

lemma string_of_nat_cases:
  "n < 10 \<Longrightarrow> string_of_nat n = [digit_char n]"
  "\<not> n < 10 \<Longrightarrow> string_of_nat n = string_of_nat (n div 10) @ [digit_char (n mod 10)]"
  by (subst string_of_nat.simps, simp)+

lemma string_of_nat_not_Nil [simp]: "string_of_nat n \<noteq> []" "[] \<noteq> string_of_nat n"
  by (cases "n < 10"; simp add: string_of_nat_cases)+

lemma string_of_nat_inj: "string_of_nat m = string_of_nat n \<Longrightarrow> m = n"
proof (induction m arbitrary: n rule: string_of_nat.induct)
  case (1 m)
  show ?case
  proof (cases "m < 10 \<or> n < 10")
    case True
    with "1.prems" show ?thesis
      by (cases "m < 10"; cases "n < 10") (auto simp: string_of_nat_cases dest: digit_char_inj)
  next
    case False
    with "1.prems" have "string_of_nat (m div 10) = string_of_nat (n div 10)"
      and "digit_char (m mod 10) = digit_char (n mod 10)" by (simp_all add: string_of_nat_cases)
    then have "m div 10 = n div 10" and "m mod 10 = n mod 10"
      using "1.IH" False digit_char_inj by simp_all
    then show ?thesis by (metis div_mult_mod_eq)
  qed
qed

subsection \<open>Event-driven components\<close>

text \<open>The main loop delivers one event after the other; the run stops when a handler aborts.\<close>

fun run :: "('e \<Rightarrow> 's \<Rightarrow> 's option) \<Rightarrow> 'e list \<Rightarrow> 's \<Rightarrow> 's option" where
  "run step [] s = Some s"
| "run step (e # es) s = Option.bind (step e s) (run step es)"

lemma bind_run_Nil [simp]: "Option.bind x (run step []) = x"
  by (cases x) simp_all

lemma run_append: "run step (es @ fs) s = Option.bind (run step es s) (run step fs)"
  by (induction es arbitrary: s) (auto split: Option.bind_splits)

lemma run_snoc: "run step (es @ [e]) s = Option.bind (run step es s) (step e)"
  by (cases "run step es s") (auto simp: run_append split: Option.bind_splits)

text \<open>
  The contract of an event-driven component: its steps keep an invariant. What every client
  of such a component uses is that its runs keep it.
\<close>

locale event_machine =
  fixes step :: "'e \<Rightarrow> 's \<Rightarrow> 's option"
    and inv :: "'s \<Rightarrow> bool"
  assumes step_inv: "inv s \<Longrightarrow> step e s = Some t \<Longrightarrow> inv t"
begin

lemma run_inv: "inv s \<Longrightarrow> run step es s = Some t \<Longrightarrow> inv t"
proof (induction es arbitrary: s)
  case Nil
  then show ?case by simp
next
  case (Cons e es)
  then show ?case by (auto simp: bind_eq_Some_conv intro: step_inv)
qed

lemma run_prefix_inv:
  assumes "inv s" and "run step (es @ fs) s = Some t"
  obtains u where "run step es s = Some u" and "inv u" and "run step fs u = Some t"
  using assms by (auto simp: run_append bind_eq_Some_conv intro: run_inv)

end

text \<open>
  A component that also promises never to abort on the events its environment can deliver.
\<close>

locale live_machine = event_machine step inv
  for step :: "'e \<Rightarrow> 's \<Rightarrow> 's option" and inv :: "'s \<Rightarrow> bool" +
  fixes legal :: "'e \<Rightarrow> bool"
  assumes step_total: "inv s \<Longrightarrow> legal e \<Longrightarrow> \<exists>t. step e s = Some t"
begin

lemma run_total: "inv s \<Longrightarrow> (\<forall>e \<in> set es. legal e) \<Longrightarrow> \<exists>t. run step es s = Some t"
proof (induction es arbitrary: s)
  case Nil
  then show ?case by simp
next
  case (Cons e es)
  then obtain t where t: "step e s = Some t"
    using step_total by fastforce
  with Cons.prems have "inv t" by (blast intro: step_inv)
  with Cons obtain u where "run step es t = Some u" by fastforce
  with t show ?case by simp
qed

end

end
