(* ===== verification/Mdm_Common.thy ===== *)
theory Mdm_Common
  imports Mdm_Prelude "HOL-Library.Word"
begin

text \<open>
  The daemon's utility routines, \<open>common/mdm-common.c\<close>: the hexadecimal encoder and decoder,
  the reader of random bytes, and the system calls wrapped in a retry loop.

  The system calls are parameters: a function from the number of the attempt to what the call
  answers. A loop that retries on \<open>EINTR\<close> may retry for ever, so it is a
  \<^theory_text>\<open>partial_function (option)\<close> whose value \<^term>\<open>None\<close> is "does not return".
\<close>

unbundle bit_operations_syntax

type_synonym u64 = "64 word"

datatype errno = EINTR | ENOENT | EACCES | ENOEXEC | ESTALE | ENOTDIR | ECHILD | ESRCH | ENODEV
  | E_OTHER nat

subsection \<open>Hexadecimal encoding\<close>

definition hexdigits :: "char list" where
  "hexdigits = ''0123456789abcdef''"

definition mdm_string_append_byte_as_hex :: "string \<Rightarrow> nat \<Rightarrow> string" where
  "mdm_string_append_byte_as_hex str byte =
     (let str = str @ [hexdigits ! (drop_bit 4 byte)]
      in str @ [hexdigits ! (byte AND 0x0f)])"

text \<open>The loop over the source bytes, with the buffer \<open>result\<close> as its accumulator.\<close>

fun hex_encode_loop :: "string \<Rightarrow> string \<Rightarrow> string" where
  "hex_encode_loop [] result = result"
| "hex_encode_loop (p # ps) result =
     hex_encode_loop ps (mdm_string_append_byte_as_hex result (of_char p))"

text \<open>
  The result is the returned boolean and the new contents of \<open>dest\<close>; \<open>source\<close> and \<open>dest\<close> are
  two different buffers, as the code requires.
\<close>

definition mdm_string_hex_encode :: "string \<Rightarrow> int \<Rightarrow> string \<Rightarrow> int \<Rightarrow> (bool \<times> string) option" where
  "mdm_string_hex_encode source start dest insert_at =
     (if start < 0 then Some (False, dest)
      else if int (length source) < start then None
      else let result = hex_encode_loop (drop (nat start) source) []
           in Some (True, g_string_insert dest insert_at result))"

definition hex_digit_table :: "(char \<times> nat) list" where
  "hex_digit_table =
     [(CHR ''0'', 0), (CHR ''1'', 1), (CHR ''2'', 2), (CHR ''3'', 3), (CHR ''4'', 4),
      (CHR ''5'', 5), (CHR ''6'', 6), (CHR ''7'', 7), (CHR ''8'', 8), (CHR ''9'', 9),
      (CHR ''a'', 10), (CHR ''A'', 10), (CHR ''b'', 11), (CHR ''B'', 11),
      (CHR ''c'', 12), (CHR ''C'', 12), (CHR ''d'', 13), (CHR ''D'', 13),
      (CHR ''e'', 14), (CHR ''E'', 14), (CHR ''f'', 15), (CHR ''F'', 15)]"

text \<open>
  The decoder's loop: \<open>high_bits\<close> alternates, a first digit appends a byte, a second one is
  or-ed into the last byte, and the first character that is no digit stops it. The second
  component of the result counts the characters consumed.
\<close>

fun hex_decode_loop :: "string \<Rightarrow> bool \<Rightarrow> string \<Rightarrow> nat \<Rightarrow> string \<times> nat" where
  "hex_decode_loop [] high_bits result n = (result, n)"
| "hex_decode_loop (p # ps) high_bits result n =
     (case map_of hex_digit_table p of
        None \<Rightarrow> (result, n)
      | Some val \<Rightarrow>
          (if high_bits
           then hex_decode_loop ps False (result @ [char_of (push_bit 4 val)]) (Suc n)
           else let len = length result; b = of_char (result ! (len - 1)) OR val
                in hex_decode_loop ps True (result[len - 1 := char_of b]) (Suc n)))"

definition mdm_string_hex_decode ::
  "string \<Rightarrow> int \<Rightarrow> string \<Rightarrow> int \<Rightarrow> (bool \<times> string \<times> int) option" where
  "mdm_string_hex_decode source start dest insert_at =
     (if start < 0 then Some (False, dest, 0)
      else if int (length source) < start then None
      else let (result, n) = hex_decode_loop (drop (nat start) source) True [] 0
           in Some (True, g_string_insert dest insert_at result, start + int n))"

subsubsection \<open>The decoder inverts the encoder, up to the first NUL byte\<close>

definition hex_of :: "string \<Rightarrow> string" where
  "hex_of s = concat (map (\<lambda>c. mdm_string_append_byte_as_hex [] (of_char c)) s)"

lemma hex_encode_loop_eq: "hex_encode_loop s r = r @ hex_of s"
  by (induction s arbitrary: r)
     (simp_all add: hex_of_def mdm_string_append_byte_as_hex_def Let_def)

lemma of_char_less_256: "(of_char c :: nat) < 256"
  by (cases c) (simp add: of_char_def)

lemma nibble_bounds:
  fixes n :: nat
  assumes "n < 256"
  shows "drop_bit 4 n < 16" and "n AND 15 < 16"
    and "push_bit 4 (drop_bit 4 n) OR (n AND 15) = n"
proof -
  show "drop_bit 4 n < 16"
    using assms by (simp add: drop_bit_eq_div)
  have m: "n AND 15 = take_bit 4 n"
    by (simp add: take_bit_eq_mask mask_eq_exp_minus_1)
  then show "n AND 15 < 16" by (simp add: take_bit_eq_mod)
  show "push_bit 4 (drop_bit 4 n) OR (n AND 15) = n"
    unfolding m by (rule bit_eqI) (auto simp: bit_simps not_less)
qed

lemma hex_digit_lookup: "n < 16 \<Longrightarrow> map_of hex_digit_table (hexdigits ! n) = Some n"
proof -
  have "\<forall>n \<in> set [0..<16]. map_of hex_digit_table (hexdigits ! n) = Some n"
    by code_simp
  then show "n < 16 \<Longrightarrow> ?thesis" by simp
qed

lemma hexdigits_no_nul: "n < 16 \<Longrightarrow> hexdigits ! n \<noteq> CHR 0x00"
proof -
  have "\<forall>n \<in> set [0..<16]. hexdigits ! n \<noteq> CHR 0x00"
    by code_simp
  then show "n < 16 \<Longrightarrow> ?thesis" by simp
qed

lemma hex_of_no_nul: "CHR 0x00 \<notin> set (hex_of s)"
proof (induction s)
  case Nil
  then show ?case by (simp add: hex_of_def)
next
  case (Cons c s)
  note nb = nibble_bounds [OF of_char_less_256 [of c]]
  from Cons show ?case
    using hexdigits_no_nul [OF nb(1)] hexdigits_no_nul [OF nb(2)]
    by (auto simp: hex_of_def mdm_string_append_byte_as_hex_def Let_def)
qed

lemma hex_decode_loop_byte:
  "hex_decode_loop (mdm_string_append_byte_as_hex [] (of_char c) @ ps) True r n =
     hex_decode_loop ps True (r @ [c]) (n + 2)"
proof -
  note nb = nibble_bounds [OF of_char_less_256 [of c]]
  have "(of_char (char_of (push_bit 4 (drop_bit 4 (of_char c :: nat))) :: char) :: nat)
      = push_bit 4 (drop_bit 4 (of_char c))"
    using nb(1) by (simp add: push_bit_eq_mult)
  then show ?thesis
    using nb
    by (simp add: mdm_string_append_byte_as_hex_def hex_digit_lookup Let_def nth_append
        list_update_append)
qed

lemma hex_decode_loop_hex_of:
  "hex_decode_loop (hex_of s) True r n = (r @ s, n + 2 * length s)"
proof (induction s arbitrary: r n)
  case Nil
  then show ?case by (simp add: hex_of_def)
next
  case (Cons c s)
  have "hex_of (c # s) = mdm_string_append_byte_as_hex [] (of_char c) @ hex_of s"
    by (simp add: hex_of_def)
  with Cons show ?case by (simp add: hex_decode_loop_byte)
qed

lemma length_hex_of: "length (hex_of s) = 2 * length s"
  by (induction s) (simp_all add: hex_of_def mdm_string_append_byte_as_hex_def Let_def)

text \<open>
  encoding any byte string to hexadecimal and decoding it again gives back the string up
  to its first NUL byte, for every position it is inserted at; the decoder consumes the whole
  of the encoder's output. The loss behind the NUL is the code's: the decoded bytes are inserted
  with \<open>g_string_insert\<close>, which reads a C string.
\<close>

theorem hex_decode_encode_roundtrip:
  "mdm_string_hex_encode s 0 [] (-1) = Some (True, hex_of s) \<and>
   mdm_string_hex_decode (hex_of s) 0 dest at =
     Some (True, g_string_insert dest at s, 2 * int (length s)) \<and>
   g_string_insert [] (-1) s = c_string s"
  by (simp add: mdm_string_hex_encode_def mdm_string_hex_decode_def hex_encode_loop_eq
      hex_decode_loop_hex_of hex_of_no_nul)

subsection \<open>Reading random bytes\<close>

text \<open>
  \<open>_read_bytes\<close> keeps the result of \<open>read\<close>, an \<open>ssize_t\<close>, in the \<open>size_t\<close> variable
  \<open>bytes_read\<close>: an error, -1, becomes the largest 64-bit word. The model records each request
  that the loop makes, as the offset into the buffer and the number of bytes asked for.
\<close>

datatype read_answer = Read_count nat | Read_error errno

datatype read_error = No_data_available | Read_failed errno

fun size_of_read :: "read_answer \<Rightarrow> u64" where
  "size_of_read (Read_count n) = of_nat n"
| "size_of_read (Read_error e) = - 1"

fun errno_of_read :: "read_answer \<Rightarrow> errno" where
  "errno_of_read (Read_count n) = E_OTHER 0"
| "errno_of_read (Read_error e) = e"

type_synonym requests = "(u64 \<times> u64) list"

partial_function (option) read_bytes_loop ::
  "(nat \<Rightarrow> u64 \<Rightarrow> read_answer) \<Rightarrow> nat \<Rightarrow> u64 \<Rightarrow> u64 \<Rightarrow> requests
     \<Rightarrow> (bool \<times> u64 \<times> errno \<times> requests) option" where
  "read_bytes_loop rd i total_bytes_read bytes_left_to_read reqs =
     (let reqs = reqs @ [(total_bytes_read, bytes_left_to_read)];
          answer = rd i bytes_left_to_read;
          bytes_read = size_of_read answer;
          errno = errno_of_read answer
      in if bytes_read > 0 then
           (let total_bytes_read = total_bytes_read + bytes_read;
                bytes_left_to_read = bytes_left_to_read - bytes_read
            in if bytes_left_to_read > 0
               then read_bytes_loop rd (Suc i) total_bytes_read bytes_left_to_read reqs
               else Some (False, bytes_left_to_read, errno, reqs))
         else if bytes_read = 0 then Some (True, bytes_left_to_read, errno, reqs)
         else if errno \<noteq> EINTR then Some (False, bytes_left_to_read, errno, reqs)
         else if bytes_left_to_read > 0
         then read_bytes_loop rd (Suc i) total_bytes_read bytes_left_to_read reqs
         else Some (False, bytes_left_to_read, errno, reqs))"

definition read_bytes ::
  "(nat \<Rightarrow> u64 \<Rightarrow> read_answer) \<Rightarrow> u64 \<Rightarrow> ((read_error + unit) \<times> requests) option" where
  "read_bytes rd number_of_bytes =
     Option.bind (read_bytes_loop rd 0 0 number_of_bytes [])
       (\<lambda>(premature_eof, bytes_left_to_read, errno, reqs).
          Some (if premature_eof then Inl No_data_available
                else if bytes_left_to_read > 0 then Inl (Read_failed errno)
                else Inr (), reqs))"

datatype random_error = Open_failed errno | Not_a_character_device | Read_bytes_failed read_error

text \<open>
  \<open>opened\<close> is what \<open>open\<close> answers (\<open>Inl\<close> the error), \<open>is_chr\<close> whether the descriptor is a
  character device; the bytes themselves are the kernel's and are not modelled.
\<close>

definition mdm_generate_random_bytes ::
  "(errno + unit) \<Rightarrow> bool \<Rightarrow> (nat \<Rightarrow> u64 \<Rightarrow> read_answer) \<Rightarrow> u64 \<Rightarrow> ((random_error + unit) \<times> requests) option"
where
  "mdm_generate_random_bytes opened is_chr rd n =
     (case opened of
        Inl e \<Rightarrow> Some (Inl (Open_failed e), [])
      | Inr _ \<Rightarrow>
          if \<not> is_chr then Some (Inl Not_a_character_device, [])
          else Option.bind (read_bytes rd n)
                 (\<lambda>(res, reqs). Some (case res of Inl e \<Rightarrow> Inl (Read_bytes_failed e)
                                               | Inr _ \<Rightarrow> Inr (), reqs)))"

lemma word_0_less_minus_1 [simp]: "(0 :: u64) < - 1"
  by (subst word_gt_0) simp

text \<open>A well-behaved device: it answers every non-empty request with at least one byte and at
  most the number asked for.\<close>

definition reads_some :: "(nat \<Rightarrow> u64 \<Rightarrow> read_answer) \<Rightarrow> bool" where
  "reads_some rd \<longleftrightarrow> (\<forall>i l. l \<noteq> 0 \<longrightarrow> (\<exists>k. rd i l = Read_count k \<and> 0 < k \<and> k \<le> unat l))"

lemma reads_some_word:
  assumes "reads_some rd" and "l \<noteq> 0"
  obtains k where "size_of_read (rd i l) = k" and "k \<noteq> 0" and "unat k \<le> unat l"
    and "unat (l - k) < unat l"
proof -
  from assms obtain n where n: "rd i l = Read_count n" "0 < n" "n \<le> unat l"
    by (auto simp: reads_some_def)
  have lt: "n < 2 ^ 64"
    using n(3) unsigned_less [of l, where ?'a = nat] by simp
  then have u: "unat (of_nat n :: u64) = n"
    by (simp add: unat_of_nat take_bit_eq_mod)
  then have "(of_nat n :: u64) \<noteq> 0" using n(2) by (metis neq0_conv unat_0)
  moreover have "unat (l - of_nat n) = unat l - n"
    using n(3) u by (simp add: unat_sub word_le_nat_alt)
  ultimately show ?thesis
    using n u that [of "of_nat n"] by simp
qed

lemma read_bytes_loop_ok:
  assumes "reads_some rd" and "l \<noteq> 0"
  shows "\<exists>e qs. read_bytes_loop rd i tot l reqs = Some (False, 0, e, reqs @ qs) \<and> qs \<noteq> [] \<and>
           (\<forall>(off, len) \<in> set qs. off + len = tot + l \<and> unat len \<le> unat l)"
  using assms(2)
proof (induction "unat l" arbitrary: i tot l reqs rule: less_induct)
  case less
  obtain k where k: "size_of_read (rd i l) = k" "k \<noteq> 0" "unat k \<le> unat l"
      and shrink: "unat (l - k) < unat l"
    using reads_some_word [OF assms(1) less.prems] by metis
  then have pos: "k > 0" by (simp add: word_gt_0)
  show ?case
  proof (cases "l - k = 0")
    case True
    with k pos show ?thesis
      by (subst read_bytes_loop.simps) (auto simp: Let_def)
  next
    case False
    from less.hyps [OF shrink False, of "Suc i" "tot + k" "reqs @ [(tot, l)]"]
    obtain e qs where rec:
      "read_bytes_loop rd (Suc i) (tot + k) (l - k) (reqs @ [(tot, l)])
         = Some (False, 0, e, (reqs @ [(tot, l)]) @ qs)"
      and qs: "\<forall>(off, len) \<in> set qs. off + len = tot + k + (l - k) \<and> unat len \<le> unat (l - k)"
      by auto
    have "read_bytes_loop rd i tot l reqs = Some (False, 0, e, reqs @ ((tot, l) # qs))"
      using k pos False rec by (subst read_bytes_loop.simps) (simp add: Let_def word_gt_0)
    moreover have "\<forall>(off, len) \<in> set ((tot, l) # qs). off + len = tot + l \<and> unat len \<le> unat l"
      using qs shrink by auto
    ultimately show ?thesis by blast
  qed
qed

text \<open>
  on a device that never fails, \<open>_read_bytes\<close> returns, it returns success, and every request
  it makes ends exactly at the end of the buffer, so no byte outside of it is written.
\<close>

theorem read_bytes_fills_buffer:
  assumes "reads_some rd" and "n \<noteq> 0"
  shows "\<exists>reqs. read_bytes rd n = Some (Inr (), reqs) \<and> reqs \<noteq> [] \<and>
           (\<forall>(off, len) \<in> set reqs. off + len = n \<and> unat len \<le> unat n)"
  using read_bytes_loop_ok [OF assms, of 0 0 "[]"] by (auto simp: read_bytes_def)

theorem read_bytes_fills_buffer_witness:
  "\<exists>reqs. read_bytes (\<lambda>i l. Read_count 1) 2 = Some (Inr (), reqs) \<and> reqs \<noteq> []"
proof -
  have "reads_some (\<lambda>i l. Read_count 1)"
    by (auto simp: reads_some_def Suc_le_eq unat_gt_0)
  moreover have "(2 :: u64) \<noteq> 0" by simp
  ultimately show ?thesis using read_bytes_fills_buffer [of "\<lambda>i l. Read_count 1" 2] by blast
qed

text \<open>
  when the first \<open>read\<close> fails, the loop does not stop. The error is taken for a count of
  2^64 - 1 bytes: the next request is for one byte more than the buffer holds, at the offset in
  front of the buffer.
\<close>

theorem read_bytes_error_underflows:
  assumes "rd 0 n = Read_error e" and "n + 1 \<noteq> 0"
    and "read_bytes rd n = Some (res, reqs)"
  shows "take 2 reqs = [(0, n), (- 1, n + 1)]"
proof -
  have grow: "\<exists>qs. reqs' = reqs0 @ (tot, l) # qs"
    if "read_bytes_loop rd i tot l reqs0 = Some (p, b, er, reqs')" for i tot l reqs0 p b er reqs'
    using read_bytes_loop.raw_induct
        [where P = "\<lambda>rd i tot l reqs0 r. \<exists>qs. snd (snd (snd r)) = reqs0 @ (tot, l) # qs", OF _ that]
    by (fastforce simp: Let_def split: if_splits)
  have first: "read_bytes_loop rd 0 0 n [] = read_bytes_loop rd (Suc 0) (- 1) (n + 1) [(0, n)]"
    using assms(1,2) by (subst read_bytes_loop.simps) (auto simp: Let_def word_gt_0)
  from assms(3) obtain p b er where
      "read_bytes_loop rd 0 0 n [] = Some (p, b, er, reqs)"
    by (auto simp: read_bytes_def bind_eq_Some_conv)
  then obtain qs where "reqs = [(0, n)] @ (- 1, n + 1) # qs"
    unfolding first using grow by blast
  then show ?thesis by simp
qed

theorem read_bytes_error_underflows_witness:
  "take 2 [(0, 16), (- 1, 17)] = [(0 :: u64, 16 :: u64), (- 1, 16 + 1)]"
proof (rule read_bytes_error_underflows
    [where rd = "\<lambda>i l. if i = 0 then Read_error EINTR else Read_count 0" and e = EINTR
       and res = "Inl No_data_available"])
  show "read_bytes (\<lambda>i l. if i = 0 then Read_error EINTR else Read_count 0) 16
      = Some (Inl No_data_available, [(0, 16), (- 1, 17)])"
    by (simp add: read_bytes_def read_bytes_loop.simps Let_def)
qed simp_all

subsection \<open>The password database and waiting for a child\<close>

record passwd =
  pw_name :: string
  pw_uid :: nat
  pw_gid :: nat
  pw_dir :: string
  pw_shell :: string

text \<open>\<open>getpwnam\<close> answers an entry or NULL, and sets \<open>errno\<close> (\<^term>\<open>None\<close>: left at 0).\<close>

partial_function (option) pwent_loop ::
  "(nat \<Rightarrow> passwd option \<times> errno option) \<Rightarrow> nat \<Rightarrow> passwd option option" where
  "pwent_loop getpwnam i =
     (case getpwnam i of (pwent, errno) \<Rightarrow>
        if pwent = None \<and> errno = Some EINTR then pwent_loop getpwnam (Suc i) else Some pwent)"

definition mdm_get_pwent_for_name ::
  "(nat \<Rightarrow> passwd option \<times> errno option) \<Rightarrow> (bool \<times> passwd option) option" where
  "mdm_get_pwent_for_name getpwnam =
     Option.bind (pwent_loop getpwnam 0) (\<lambda>pwent. Some (pwent \<noteq> None, pwent))"

text \<open>
  \<open>waitpid\<close> answers an error or the status. The status the function returns is
  \<^term>\<open>None\<close> when the call failed: the local variable is then read uninitialised.
\<close>

partial_function (option) mdm_wait_on_pid ::
  "(nat \<Rightarrow> errno + int) \<Rightarrow> nat \<Rightarrow> int option option" where
  "mdm_wait_on_pid waitpid i =
     (case waitpid i of
        Inl e \<Rightarrow> if e = EINTR then mdm_wait_on_pid waitpid (Suc i) else Some None
      | Inr status \<Rightarrow> Some (Some status))"

declare pwent_loop.simps [code] mdm_wait_on_pid.simps [code]

lemma pwent_loop_returns:
  assumes "\<forall>j < n. getpwnam (i + j) = (None, Some EINTR)"
    and "getpwnam (i + n) = (p, e)" and "\<not> (p = None \<and> e = Some EINTR)"
  shows "pwent_loop getpwnam i = Some p"
  using assms
proof (induction n arbitrary: i)
  case 0
  then show ?case by (subst pwent_loop.simps) auto
next
  case (Suc n)
  then have "pwent_loop getpwnam (Suc i) = Some p"
    by (intro Suc.IH) (auto dest: spec [of _ "Suc _"])
  moreover have "getpwnam i = (None, Some EINTR)"
    using Suc.prems(1) by auto
  ultimately show ?case by (subst pwent_loop.simps) simp
qed

end
