(* ===== verification/Session_Settings.thy ===== *)
theory Session_Settings
  imports Mdm_Prelude
begin

text \<open>
  The settings of one user's session, \<open>daemon/mdm-session-settings.c\<close>: the session, language and
  layout names with their setters, which notify an observer when the value changes, and the
  reading and writing of the user's \<open>dmrc\<close> file.

  The parsed key file belongs to GLib and is a parameter: \<open>get\<close> and \<open>set\<close> over an abstract type.
  A notification is delivered synchronously, so a setter returns the notified property together
  with the settings as they are when the observer runs.
\<close>

record session_settings =
  session_name :: "string option"
  failsafe :: bool
  language_name :: "string option"
  layout_name :: "string option"
  langlist_name :: "string option"
  lcmess_name :: "string option"

datatype setting = SESSION_NAME | LANGUAGE_NAME | LAYOUT_NAME | LANGLIST_NAME | LCMESS_NAME
  | IS_FAILSAFE

type_synonym notifications = "(setting \<times> session_settings) list"

definition mdm_session_settings_new :: session_settings where
  "mdm_session_settings_new =
     \<lparr>session_name = None, failsafe = False, language_name = None, layout_name = None,
      langlist_name = None, lcmess_name = None\<rparr>"

subsection \<open>The setters\<close>

definition mdm_session_settings_set_language_name ::
  "session_settings \<Rightarrow> string \<Rightarrow> session_settings \<times> notifications" where
  "mdm_session_settings_set_language_name s name =
     (if language_name s = None \<or> language_name s \<noteq> Some name
      then let s = s\<lparr>language_name := Some name\<rparr> in (s, [(LANGUAGE_NAME, s)])
      else (s, []))"

definition mdm_session_settings_set_layout_name ::
  "session_settings \<Rightarrow> string \<Rightarrow> session_settings \<times> notifications" where
  "mdm_session_settings_set_layout_name s name =
     (if layout_name s = None \<or> layout_name s \<noteq> Some name
      then let s = s\<lparr>layout_name := Some name\<rparr> in (s, [(LAYOUT_NAME, s)])
      else (s, []))"

definition mdm_session_settings_set_session_name ::
  "session_settings \<Rightarrow> string \<Rightarrow> session_settings \<times> notifications" where
  "mdm_session_settings_set_session_name s name =
     (if session_name s = None \<or> session_name s \<noteq> Some name
      then let s = s\<lparr>session_name := Some name\<rparr> in (s, [(SESSION_NAME, s)])
      else (s, []))"

definition mdm_session_settings_set_langlist_name ::
  "session_settings \<Rightarrow> string \<Rightarrow> session_settings \<times> notifications" where
  "mdm_session_settings_set_langlist_name s name =
     (if langlist_name s = None \<or> langlist_name s \<noteq> Some name
      then let s = s\<lparr>langlist_name := Some name\<rparr> in (s, [(LANGLIST_NAME, s)])
      else (s, []))"

definition mdm_session_settings_set_lcmess_name ::
  "session_settings \<Rightarrow> string \<Rightarrow> session_settings \<times> notifications" where
  "mdm_session_settings_set_lcmess_name s name =
     (if lcmess_name s = None \<or> lcmess_name s \<noteq> Some name
      then let s = s\<lparr>lcmess_name := Some name\<rparr> in (s, [(LCMESS_NAME, s)])
      else (s, []))"

definition mdm_session_settings_set_is_failsafe ::
  "session_settings \<Rightarrow> bool \<Rightarrow> session_settings \<times> notifications" where
  "mdm_session_settings_set_is_failsafe s b =
     (if failsafe s \<noteq> b
      then let s = s\<lparr>failsafe := b\<rparr> in (s, [(IS_FAILSAFE, s)])
      else (s, []))"

lemmas settings_setter_defs =
  mdm_session_settings_set_language_name_def mdm_session_settings_set_layout_name_def
  mdm_session_settings_set_session_name_def mdm_session_settings_set_langlist_name_def
  mdm_session_settings_set_lcmess_name_def mdm_session_settings_set_is_failsafe_def

definition mdm_session_settings_is_loaded :: "session_settings \<Rightarrow> bool" where
  "mdm_session_settings_is_loaded s \<longleftrightarrow>
     session_name s \<noteq> None \<or> language_name s \<noteq> None \<or> layout_name s \<noteq> None \<or>
     langlist_name s \<noteq> None \<or> lcmess_name s \<noteq> None"

subsection \<open>Loading\<close>

datatype key_file_error = KEY_NOT_FOUND | GROUP_NOT_FOUND | KEY_FILE_ERROR nat

type_synonym key_reader = "string \<Rightarrow> string \<Rightarrow> key_file_error + string"

type_synonym setter = "session_settings \<Rightarrow> string \<Rightarrow> session_settings \<times> notifications"

text \<open>The five blocks of \<open>mdm_session_settings_load\<close> that read a key, in the code's order.\<close>

definition settings_keys :: "(string \<times> setter) list" where
  "settings_keys =
     [(''Session'', mdm_session_settings_set_session_name),
      (''Language'', mdm_session_settings_set_language_name),
      (''Layout'', mdm_session_settings_set_layout_name),
      (''Langlist'', mdm_session_settings_set_langlist_name),
      (''LCMess'', mdm_session_settings_set_lcmess_name)]"

text \<open>One block: a value is set, a missing key is skipped, any other error ends the load.\<close>

fun load_keys ::
  "key_reader \<Rightarrow> (string \<times> setter) list \<Rightarrow> session_settings \<Rightarrow> notifications
     \<Rightarrow> key_file_error option \<times> session_settings \<times> notifications" where
  "load_keys get [] s ns = (None, s, ns)"
| "load_keys get ((key, setter) # ks) s ns =
     (case get ''Desktop'' key of
        Inr value \<Rightarrow> (case setter s value of (s', ns') \<Rightarrow> load_keys get ks s' (ns @ ns'))
      | Inl KEY_NOT_FOUND \<Rightarrow> load_keys get ks s ns
      | Inl e \<Rightarrow> (Some e, s, ns))"

definition MDM_CACHE_DIR :: string where
  "MDM_CACHE_DIR = ''/var/cache/mdm''"

text \<open>
  \<open>key_files\<close> is the file system seen through GLib's parser: \<^term>\<open>None\<close> for a file that is missing
  or does not parse. The guards are \<open>g_return_val_if_fail\<close>, which return without effect.
\<close>

definition mdm_session_settings_load ::
  "(string \<Rightarrow> key_reader option) \<Rightarrow> session_settings \<Rightarrow> string option
     \<Rightarrow> bool \<times> session_settings \<times> notifications" where
  "mdm_session_settings_load key_files s username =
     (case username of
        None \<Rightarrow> (False, s, [])
      | Some user \<Rightarrow>
          if mdm_session_settings_is_loaded s then (False, s, [])
          else (case key_files (g_build_filename [MDM_CACHE_DIR, user, ''dmrc'']) of
                  None \<Rightarrow> (False, s, [])
                | Some get \<Rightarrow>
                    (case load_keys get settings_keys s [] of
                       (Some e, s, ns) \<Rightarrow> (False, s, ns)
                     | (None, s, ns) \<Rightarrow>
                         (case mdm_session_settings_set_is_failsafe s False of
                            (s', ns') \<Rightarrow> (True, s', ns @ ns')))))"

subsection \<open>Saving\<close>

definition set_if_some ::
  "('k \<Rightarrow> string \<Rightarrow> string \<Rightarrow> string \<Rightarrow> 'k) \<Rightarrow> string \<Rightarrow> string option \<Rightarrow> 'k \<Rightarrow> 'k" where
  "set_if_some key_set key value k =
     (case value of None \<Rightarrow> k | Some v \<Rightarrow> key_set k ''Desktop'' key v)"

definition settings_to_key_file ::
  "('k \<Rightarrow> string \<Rightarrow> string \<Rightarrow> string \<Rightarrow> 'k) \<Rightarrow> session_settings \<Rightarrow> 'k \<Rightarrow> 'k" where
  "settings_to_key_file key_set s k =
     (let k = set_if_some key_set ''Session'' (session_name s) k;
          k = set_if_some key_set ''Language'' (language_name s) k;
          k = set_if_some key_set ''Layout'' (layout_name s) k;
          k = set_if_some key_set ''Langlist'' (langlist_name s) k
      in set_if_some key_set ''LCMess'' (lcmess_name s) k)"

text \<open>
  \<open>load\<close> is what the parser leaves in a new key file for the name (an empty one when the file
  cannot be read: its error is ignored), \<open>to_data\<close> the serialised text, or the error, and
  \<open>set_contents\<close> whether the write succeeds. The last component is what was written, and where.
\<close>

definition mdm_session_settings_save ::
  "(string \<Rightarrow> 'k) \<Rightarrow> ('k \<Rightarrow> string \<Rightarrow> string \<Rightarrow> string \<Rightarrow> 'k) \<Rightarrow> ('k \<Rightarrow> 'd option) \<Rightarrow>
   (string \<Rightarrow> 'd \<Rightarrow> bool) \<Rightarrow> session_settings \<Rightarrow> string option \<Rightarrow> bool \<times> (string \<times> 'd) option" where
  "mdm_session_settings_save load key_set to_data set_contents s home_directory =
     (case home_directory of
        None \<Rightarrow> (False, None)
      | Some home \<Rightarrow>
          if \<not> mdm_session_settings_is_loaded s then (False, None)
          else let filename = g_build_filename [home, ''.dmrc''] in
            if failsafe s then (True, None)
            else (case to_data (settings_to_key_file key_set s (load filename)) of
                    None \<Rightarrow> (False, None)
                  | Some contents \<Rightarrow>
                      if \<not> set_contents filename contents then (False, None)
                      else (True, Some (filename, contents))))"


subsection \<open>What loading and saving do\<close>

text \<open>The value the file gives a key, if any.\<close>

definition desktop_value :: "key_reader \<Rightarrow> string \<Rightarrow> string option" where
  "desktop_value get key = (case get ''Desktop'' key of Inr v \<Rightarrow> Some v | Inl _ \<Rightarrow> None)"

definition desktop_ok :: "key_reader \<Rightarrow> string \<Rightarrow> bool" where
  "desktop_ok get key \<longleftrightarrow> (case get ''Desktop'' key of Inr _ \<Rightarrow> True | Inl e \<Rightarrow> e = KEY_NOT_FOUND)"

definition readable :: "key_reader \<Rightarrow> bool" where
  "readable get \<longleftrightarrow> list_all (desktop_ok get) (map fst settings_keys)"

lemmas desktop_defs = desktop_value_def desktop_ok_def readable_def settings_keys_def

definition settings_of_file :: "key_reader \<Rightarrow> session_settings" where
  "settings_of_file get =
     \<lparr>session_name = desktop_value get ''Session'', failsafe = False,
      language_name = desktop_value get ''Language'', layout_name = desktop_value get ''Layout'',
      langlist_name = desktop_value get ''Langlist'', lcmess_name = desktop_value get ''LCMess''\<rparr>"

definition present_settings :: "key_reader \<Rightarrow> setting list" where
  "present_settings get =
     [p. (p, key) \<leftarrow> [(SESSION_NAME, ''Session''), (LANGUAGE_NAME, ''Language''),
       (LAYOUT_NAME, ''Layout''), (LANGLIST_NAME, ''Langlist''), (LCMESS_NAME, ''LCMess'')],
       desktop_value get key \<noteq> None]"

lemma load_keys_skip:
  "desktop_ok get key \<Longrightarrow> desktop_value get key = None \<Longrightarrow>
     load_keys get ((key, setter) # ks) s ns = load_keys get ks s ns"
  by (auto simp: desktop_defs split: sum.splits)

lemma load_keys_value:
  "desktop_value get key = Some v \<Longrightarrow> setter s v = (s', ns') \<Longrightarrow>
     load_keys get ((key, setter) # ks) s ns = load_keys get ks s' (ns @ ns')"
  by (auto simp: desktop_defs split: sum.splits)

lemma load_keys_readable:
  assumes "readable get"
    and "s = mdm_session_settings_new"
  shows "\<exists>ns. load_keys get settings_keys s [] = (None, settings_of_file get, ns) \<and>
           map fst ns = present_settings get"
proof -
  have ok: "desktop_ok get ''Session''" "desktop_ok get ''Language''" "desktop_ok get ''Layout''"
      "desktop_ok get ''Langlist''" "desktop_ok get ''LCMess''"
    using assms(1) by (simp_all add: readable_def settings_keys_def)
  show ?thesis
    unfolding settings_keys_def assms(2)
    by (cases "desktop_value get ''Session''"; cases "desktop_value get ''Language''";
        cases "desktop_value get ''Layout''"; cases "desktop_value get ''Langlist''";
        cases "desktop_value get ''LCMess''")
       (simp_all del: load_keys.simps(2) add: ok load_keys_skip load_keys_value settings_setter_defs
          settings_of_file_def present_settings_def mdm_session_settings_new_def Let_def)
qed

lemma load_new_readable:
  assumes "key_files (g_build_filename [MDM_CACHE_DIR, user, ''dmrc'']) = Some get"
    and "readable get"
  shows "\<exists>ns. mdm_session_settings_load key_files mdm_session_settings_new (Some user) =
           (True, settings_of_file get, ns) \<and> map fst ns = present_settings get"
proof -
  have "\<not> mdm_session_settings_is_loaded mdm_session_settings_new"
    by (simp add: mdm_session_settings_is_loaded_def mdm_session_settings_new_def)
  moreover obtain ns where
    "load_keys get settings_keys mdm_session_settings_new [] = (None, settings_of_file get, ns)"
    "map fst ns = present_settings get"
    using load_keys_readable [OF assms(2)] by blast
  ultimately show ?thesis
    using assms(1)
    by (simp add: mdm_session_settings_load_def mdm_session_settings_set_is_failsafe_def
        settings_of_file_def)
qed

text \<open>What GLib documents of a key file: a key that was set reads back, the others are untouched
  except that their group now exists.\<close>

definition key_file_laws ::
  "('k \<Rightarrow> key_reader) \<Rightarrow> ('k \<Rightarrow> string \<Rightarrow> string \<Rightarrow> string \<Rightarrow> 'k) \<Rightarrow> bool" where
  "key_file_laws get key_set \<longleftrightarrow>
     (\<forall>k g a v. get (key_set k g a v) g a = Inr v) \<and>
     (\<forall>k g a b v. a \<noteq> b \<longrightarrow> get (key_set k g a v) g b =
        (case get k g b of Inl GROUP_NOT_FOUND \<Rightarrow> Inl KEY_NOT_FOUND | r \<Rightarrow> r))"

definition benign :: "key_reader \<Rightarrow> bool" where
  "benign get \<longleftrightarrow> (\<forall>key e. get ''Desktop'' key = Inl e \<longrightarrow> e \<in> {KEY_NOT_FOUND, GROUP_NOT_FOUND})"

definition or_else :: "string option \<Rightarrow> string option \<Rightarrow> string option" where
  "or_else x y = (case x of None \<Rightarrow> y | Some _ \<Rightarrow> x)"

lemma desktop_value_set_if_some:
  assumes "key_file_laws get key_set"
  shows "desktop_value (get (set_if_some key_set key value k)) b =
           (if b = key then or_else value (desktop_value (get k) key) else desktop_value (get k) b)"
  using assms
  by (auto simp: key_file_laws_def desktop_value_def set_if_some_def or_else_def
      split: option.splits sum.splits key_file_error.splits)

definition grouped :: "key_reader \<Rightarrow> bool" where
  "grouped get \<longleftrightarrow> (\<forall>key e. get ''Desktop'' key = Inl e \<longrightarrow> e = KEY_NOT_FOUND)"

lemma grouped_readable: "grouped get \<Longrightarrow> readable get"
  by (auto simp: grouped_def readable_def settings_keys_def desktop_ok_def split: sum.splits)

lemma grouped_benign: "grouped get \<Longrightarrow> benign get"
  by (auto simp: grouped_def benign_def)

lemma grouped_set:
  assumes "key_file_laws get key_set" and "benign (get k)"
  shows "grouped (get (key_set k ''Desktop'' key v))"
  unfolding grouped_def
proof (intro allI impI)
  fix b e
  assume e: "get (key_set k ''Desktop'' key v) ''Desktop'' b = Inl e"
  show "e = KEY_NOT_FOUND"
  proof (cases "b = key")
    case True
    with assms(1) e show ?thesis by (simp add: key_file_laws_def)
  next
    case False
    with assms(1) e have "(case get k ''Desktop'' b of Inl GROUP_NOT_FOUND \<Rightarrow> Inl KEY_NOT_FOUND
        | r \<Rightarrow> r) = Inl e"
      unfolding key_file_laws_def by metis
    with assms(2) show ?thesis
      by (cases "get k ''Desktop'' b") (auto simp: benign_def split: key_file_error.splits)
  qed
qed

lemma benign_set_if_some:
  "key_file_laws get key_set \<Longrightarrow> benign (get k) \<Longrightarrow> benign (get (set_if_some key_set key value k))"
  by (cases "value") (auto simp: set_if_some_def intro: grouped_benign grouped_set)

lemma grouped_set_if_some:
  "key_file_laws get key_set \<Longrightarrow> benign (get k) \<Longrightarrow> value \<noteq> None \<or> grouped (get k) \<Longrightarrow>
     grouped (get (set_if_some key_set key value k))"
  by (cases "value") (auto simp: set_if_some_def intro: grouped_set)

lemma grouped_settings_to_key_file:
  assumes "key_file_laws get key_set" and "benign (get k)" and "mdm_session_settings_is_loaded s"
  shows "grouped (get (settings_to_key_file key_set s k))"
  using assms(3) unfolding settings_to_key_file_def Let_def mdm_session_settings_is_loaded_def
  by (auto intro!: grouped_set_if_some [OF assms(1)] benign_set_if_some [OF assms(1)] assms(2))

text \<open>
  C40: saving the settings of a session and loading them for a new one gives back every value that
  was set, and for the others what the file held before; nothing else is lost or invented. The
  hypotheses: the documented laws of GLib's key files, a serialiser that parses back, an old file
  without corrupt entries, and a session that is not a failsafe one.
\<close>

theorem settings_save_load_roundtrip:
  assumes laws: "key_file_laws get key_set"
    and data: "\<And>k. \<exists>d. to_data k = Some d \<and> parse d = k"
    and old: "benign (get (old (g_build_filename [home, ''.dmrc''])))"
    and s: "mdm_session_settings_is_loaded s" "\<not> failsafe s"
    and saved: "mdm_session_settings_save old key_set to_data (\<lambda>f d. True) s (Some home)
                  = (ok, Some (filename, contents))"
    and cached: "key_files (g_build_filename [MDM_CACHE_DIR, user, ''dmrc'']) = Some (get (parse contents))"
  shows "ok \<and> (\<exists>ns. mdm_session_settings_load key_files mdm_session_settings_new (Some user) =
      (True,
       \<lparr>session_name = or_else (session_name s) (desktop_value (get (old filename)) ''Session''),
        failsafe = False,
        language_name = or_else (language_name s) (desktop_value (get (old filename)) ''Language''),
        layout_name = or_else (layout_name s) (desktop_value (get (old filename)) ''Layout''),
        langlist_name = or_else (langlist_name s) (desktop_value (get (old filename)) ''Langlist''),
        lcmess_name = or_else (lcmess_name s) (desktop_value (get (old filename)) ''LCMess'')\<rparr>, ns))"
proof -
  let ?k = "settings_to_key_file key_set s (old filename)"
  from data [of "settings_to_key_file key_set s (old (g_build_filename [home, ''.dmrc'']))"] saved s
  have ok: "ok" and f: "filename = g_build_filename [home, ''.dmrc'']"
    and c: "parse contents = ?k"
    by (auto simp: mdm_session_settings_save_def Let_def)
  from laws old s(1) have "readable (get ?k)"
    unfolding f by (intro grouped_readable grouped_settings_to_key_file)
  then obtain ns where "mdm_session_settings_load key_files mdm_session_settings_new (Some user) =
      (True, settings_of_file (get ?k), ns)"
    using load_new_readable [where get = "get ?k" and key_files = key_files and user = user] cached
    by (auto simp: c)
  then show ?thesis
    using ok by (simp add: settings_of_file_def settings_to_key_file_def Let_def
        desktop_value_set_if_some [OF laws])
qed

text \<open>The witness: key files as functions from group and key to an optional value.\<close>

definition fun_get :: "(string \<Rightarrow> string \<Rightarrow> string option) \<Rightarrow> key_reader" where
  "fun_get k g a = (case k g a of None \<Rightarrow> Inl KEY_NOT_FOUND | Some v \<Rightarrow> Inr v)"

definition fun_set :: "(string \<Rightarrow> string \<Rightarrow> string option) \<Rightarrow> string \<Rightarrow> string \<Rightarrow> string \<Rightarrow>
    string \<Rightarrow> string \<Rightarrow> string option" where
  "fun_set k g a v = k(g := (k g)(a \<mapsto> v))"

theorem settings_save_load_roundtrip_witness:
  "\<exists>ns. mdm_session_settings_load
      (\<lambda>f. Some (fun_get (fun_set (\<lambda>g a. if a = ''Language'' then Some ''de'' else None)
                           ''Desktop'' ''Session'' ''mate'')))
      mdm_session_settings_new (Some ''ann'') =
     (True, \<lparr>session_name = Some ''mate'', failsafe = False, language_name = Some ''de'',
             layout_name = None, langlist_name = None, lcmess_name = None\<rparr>, ns)"
proof -
  let ?k = "\<lambda>g a. if a = ''Language'' then Some ''de'' else None"
  let ?s = "mdm_session_settings_new\<lparr>session_name := Some ''mate''\<rparr>"
  have laws: "key_file_laws fun_get fun_set"
    by (auto simp: key_file_laws_def fun_get_def fun_set_def split: option.splits)
  have benign: "benign (fun_get ?k)"
    by (auto simp: benign_def fun_get_def split: option.splits if_splits)
  note inst = settings_save_load_roundtrip [OF laws, where to_data = Some and parse = "\<lambda>k. k"
      and s = ?s and home = "''/home/ann''" and user = "''ann''"
      and filename = "''/home/ann/.dmrc''"
      and contents = "fun_set ?k ''Desktop'' ''Session'' ''mate''" and ok = True
      and old = "\<lambda>f. ?k"
      and key_files = "\<lambda>f. Some (fun_get (fun_set ?k ''Desktop'' ''Session'' ''mate''))"]
  have name: "g_build_filename [''/home/ann'', ''.dmrc''] = ''/home/ann/.dmrc''"
    by code_simp
  show ?thesis
    using inst benign
    by (simp add: mdm_session_settings_is_loaded_def mdm_session_settings_new_def name
        mdm_session_settings_save_def settings_to_key_file_def set_if_some_def or_else_def
        desktop_value_def fun_get_def fun_set_def)
qed

end
