(* ===== verification/Session_Auditor.thy ===== *)
theory Session_Auditor
  imports Mdm_Prelude
begin

text \<open>
  The base class of the session auditors, \<open>daemon/mdm-session-auditor.c\<close>. The reports are virtual
  methods; a class that does not define one gives NULL and the report is dropped. A subclass's
  method (the Linux and Solaris auditors are not compiled in this configuration) is a parameter.
\<close>

record session_auditor =
  aud_username :: "string option"
  aud_hostname :: "string option"
  aud_display_device :: "string option"

definition mdm_session_auditor_new :: "string option \<Rightarrow> string option \<Rightarrow> session_auditor" where
  "mdm_session_auditor_new hostname display_device =
     \<lparr>aud_username = None, aud_hostname = hostname, aud_display_device = display_device\<rparr>"

text \<open>The auditor keeps the name unless it is the one it has; the flag is the notification.\<close>

definition mdm_session_auditor_set_username ::
  "session_auditor \<Rightarrow> string option \<Rightarrow> session_auditor \<times> bool" where
  "mdm_session_auditor_set_username auditor username =
     (if username = aud_username auditor then (auditor, False)
      else if (username = None \<or> aud_username auditor = None) \<or> username \<noteq> aud_username auditor
      then (auditor\<lparr>aud_username := username\<rparr>, True)
      else (auditor, False))"

lemma set_username_value [simp]:
  "fst (mdm_session_auditor_set_username a u) = a\<lparr>aud_username := u\<rparr>"
  by (auto simp: mdm_session_auditor_set_username_def)

datatype audit_report = Password_changed | Password_change_failure | User_accredited | Login
  | Login_failure string | Logout

text \<open>The six \<open>report_*\<close> functions: the class's method, when it has one, on the auditor.\<close>

definition mdm_session_auditor_report ::
  "(audit_report \<Rightarrow> (session_auditor \<Rightarrow> 'r) option) \<Rightarrow> audit_report \<Rightarrow> session_auditor \<Rightarrow> 'r option" where
  "mdm_session_auditor_report class_method report auditor =
     (case class_method report of None \<Rightarrow> None | Some method \<Rightarrow> Some (method auditor))"

end
