(* ===== verification/Worker_Types.thy ===== *)
theory Worker_Types
  imports Mdm_Common Session_Settings Session_Auditor "HOL-Library.AList"
begin

text \<open>
  The state of the session worker, \<open>daemon/mdm-session-worker.c\<close>: the process that talks to PAM
  on behalf of the daemon and starts the user's session.

  \<^item> \<open>worker\<close> is \<open>MdmSessionWorkerPrivate\<close>, plus the trace of what the worker did to the
    outside world, newest first.
  \<^item> \<open>env\<close> is the outside world: PAM, the daemon at the other end of the D-Bus connection, the
    kernel and the file system. Each of its answers may depend on the whole trace so far, so it
    ranges over all deterministic environments.
  \<^item> A call into PAM is an interaction tree: PAM may call the conversation function any number
    of times, each time depending on the replies it got, before it returns.

  An operation of the worker takes the worker and returns it, inside an option: \<^term>\<open>None\<close> is the
  abnormal end of the process (a failed \<open>g_assert\<close> or a NULL dereference).
\<close>

subsection \<open>PAM\<close>

datatype pam_rc = PAM_SUCCESS | PAM_ABORT | PAM_BUF_ERR | PAM_SYSTEM_ERR | PAM_USER_UNKNOWN
  | PAM_AUTH_ERR | PAM_NEW_AUTHTOK_REQD | PAM_AUTHINFO_UNAVAIL | PAM_CONV_ERR | PAM_OTHER nat

datatype pam_style = PAM_PROMPT_ECHO_ON | PAM_PROMPT_ECHO_OFF | PAM_TEXT_INFO | PAM_ERROR_MSG
  | PAM_STYLE_OTHER nat

record pam_message =
  msg_style :: pam_style
  msg :: string

type_synonym pam_replies = "string option list option"

datatype pam_io =
    Pam_return pam_rc
  | Pam_conv "pam_message list" "pam_rc \<times> pam_replies \<Rightarrow> pam_io"

datatype cred_flag = PAM_NO_FLAG | PAM_ESTABLISH_CRED | PAM_DELETE_CRED | PAM_REFRESH_CRED

datatype pam_item = PAM_USER_PROMPT string | PAM_RHOST string | PAM_TTY "string option"
  | PAM_XDISPLAY "string option" | PAM_XAUTHDATA "(string \<times> string) option"

text \<open>The boolean of the second and third call is the flag \<open>PAM_DISALLOW_NULL_AUTHTOK\<close>.\<close>

datatype pam_call = Pam_start "string option" "string option" | Pam_set_item pam_item
  | Pam_authenticate bool | Pam_acct_mgmt bool | Pam_chauthtok | Pam_setcred cred_flag
  | Pam_open_session | Pam_close_session | Pam_end pam_rc

subsection \<open>The trace\<close>

datatype payload = P_string string | P_int int | P_void

datatype syscall = Setgid nat | Initgroups string nat | Setuid nat | Setsid | Fork | Geteuid
  | Chdir string | Execve string "string list" "string list" | Exit nat
  | Access string | Rename string string | Open string | Mkstemp string | Close int
  | Fstat_is_regular int | Ftruncate int | Fchmod int | Dup2 int nat
  | Mkdir string | Chmod string | Chown string nat nat | Copy_file string string
  | Write_settings string

datatype effect = Pam_called pam_call | Pam_returned pam_call pam_rc
  | DBus_method string payload
  | Audit audit_report session_auditor
  | CK_open string string string string bool nat | CK_close
  | Sys syscall

type_synonym trace = "effect list"

subsection \<open>The outside world\<close>

text \<open>The reply to a blocking method call: the first string argument, or the name of the error.\<close>

datatype dbus_reply = Reply string | Reply_error string

record file_stat =
  st_mtime :: int
  st_is_regular :: bool
  st_uid :: nat
  st_size :: int

text \<open>
  The fields of \<open>env\<close>: how a PAM call proceeds; what \<open>pam_start\<close>, which does not converse,
  returns; whether a failed \<open>pam_start\<close> leaves a handle;
  the item \<open>PAM_USER\<close> (the outer \<^term>\<open>None\<close>: \<open>pam_get_item\<close> fails); the list of
  \<open>pam_getenvlist\<close>; the message of a code; whether D-Bus can allocate a message and what the daemon
  replies; GLib's character conversions; the password database (by attempt); the file system; X
  authority files; ConsoleKit's connector, whether it opens the session, and its cookie; the
  result of a system call (the newest entry of the trace is that call) and its \<open>errno\<close>, with the text of an error; the
  answers of \<open>waitpid\<close> by attempt; GLib's parser of command lines; the variable \<open>PATH\<close> of the
  worker's own environment.
\<close>

record env =
  pam_behaviour :: "trace \<Rightarrow> pam_io"
  pam_start_rc :: "trace \<Rightarrow> pam_rc"
  failed_start_handle :: "trace \<Rightarrow> bool"
  pam_user_item :: "trace \<Rightarrow> string option option"
  pam_environment :: "trace \<Rightarrow> string list"
  pam_strerror :: "pam_rc \<Rightarrow> string"
  dbus_alloc :: "trace \<Rightarrow> bool"
  dbus_answer :: "trace \<Rightarrow> dbus_reply"
  locale_to_utf8 :: "string \<Rightarrow> string option"
  utf8_valid_prefix :: "string \<Rightarrow> nat"
  getpwnam_r_answer :: "trace \<Rightarrow> string \<Rightarrow> nat \<Rightarrow> errno option \<times> passwd option"
  getpwnam_answer :: "trace \<Rightarrow> string \<Rightarrow> nat \<Rightarrow> passwd option \<times> errno option"
  key_files_of :: "trace \<Rightarrow> string \<Rightarrow> key_reader option"
  stat_of :: "trace \<Rightarrow> string \<Rightarrow> file_stat option"
  xauth_of :: "string \<Rightarrow> (string \<times> string) option"
  ck_connector :: "trace \<Rightarrow> bool"
  ck_opens :: "trace \<Rightarrow> bool"
  ck_cookie :: "trace \<Rightarrow> string option"
  sys_result :: "trace \<Rightarrow> int"
  sys_errno :: "trace \<Rightarrow> errno"
  strerror :: "errno \<Rightarrow> string"
  waitpid_answer :: "trace \<Rightarrow> nat \<Rightarrow> errno + int"
  shell_parse_argv :: "string \<Rightarrow> string list option"
  getenv_path :: "string option"

subsection \<open>The worker\<close>

abbreviation MDM_SESSION_WORKER_STATE_NONE :: nat where
  "MDM_SESSION_WORKER_STATE_NONE \<equiv> 0"
abbreviation MDM_SESSION_WORKER_STATE_SETUP_COMPLETE :: nat where
  "MDM_SESSION_WORKER_STATE_SETUP_COMPLETE \<equiv> 1"
abbreviation MDM_SESSION_WORKER_STATE_AUTHENTICATED :: nat where
  "MDM_SESSION_WORKER_STATE_AUTHENTICATED \<equiv> 2"
abbreviation MDM_SESSION_WORKER_STATE_AUTHORIZED :: nat where
  "MDM_SESSION_WORKER_STATE_AUTHORIZED \<equiv> 3"
abbreviation MDM_SESSION_WORKER_STATE_ACCREDITED :: nat where
  "MDM_SESSION_WORKER_STATE_ACCREDITED \<equiv> 4"
abbreviation MDM_SESSION_WORKER_STATE_SESSION_OPENED :: nat where
  "MDM_SESSION_WORKER_STATE_SESSION_OPENED \<equiv> 5"
abbreviation MDM_SESSION_WORKER_STATE_SESSION_STARTED :: nat where
  "MDM_SESSION_WORKER_STATE_SESSION_STARTED \<equiv> 6"
abbreviation MDM_SESSION_WORKER_STATE_REAUTHENTICATED :: nat where
  "MDM_SESSION_WORKER_STATE_REAUTHENTICATED \<equiv> 7"
abbreviation MDM_SESSION_WORKER_STATE_REAUTHORIZED :: nat where
  "MDM_SESSION_WORKER_STATE_REAUTHORIZED \<equiv> 8"
abbreviation MDM_SESSION_WORKER_STATE_REACCREDITED :: nat where
  "MDM_SESSION_WORKER_STATE_REACCREDITED \<equiv> 9"

text \<open>
  Pointers to objects of the libraries (\<open>pam_handle\<close>, \<open>ckc\<close>, \<open>connection\<close>) are the booleans "not
  NULL"; so are the source identifiers of the main loop: \<open>state_change_idle_id\<close> (the idle callback
  is queued) and \<open>child_watch_id\<close> (the child watch was added); \<open>child_watch_armed\<close> is the main
  loop's side of the latter, which delivers it once. The environment table maps a name to a
  value that may be NULL.
\<close>

record worker =
  state :: nat
  ckc :: bool
  pam_handle :: bool
  child_pid :: int
  child_watch_id :: bool
  child_watch_armed :: bool
  service :: "string option"
  x11_display_name :: "string option"
  x11_authority_file :: "string option"
  display_device :: "string option"
  hostname :: "string option"
  username :: "string option"
  uid :: nat
  gid :: nat
  password_is_required :: bool
  cred_flags :: cred_flag
  arguments :: "string list option"
  environment :: "(string \<times> string option) list"
  cancelled :: bool
  timed_out :: bool
  state_change_idle_id :: bool
  connection :: bool
  auditor :: "session_auditor option"
  user_settings :: "session_settings option"
  trace :: trace

text \<open>A new worker: a zeroed private structure, an empty table, an open connection.\<close>

definition mdm_session_worker_init :: worker where
  "mdm_session_worker_init =
     \<lparr>state = MDM_SESSION_WORKER_STATE_NONE, ckc = False, pam_handle = False, child_pid = 0,
      child_watch_id = False, child_watch_armed = False, service = None, x11_display_name = None,
      x11_authority_file = None, display_device = None, hostname = None, username = None,
      uid = 0, gid = 0, password_is_required = False, cred_flags = PAM_NO_FLAG,
      arguments = None, environment = [], cancelled = False, timed_out = False,
      state_change_idle_id = False, connection = True, auditor = None, user_settings = None,
      trace = []\<rparr>"

type_synonym 'a wop = "worker \<Rightarrow> ('a \<times> worker) option"

definition emit :: "effect \<Rightarrow> worker \<Rightarrow> worker" where
  "emit e w = w\<lparr>trace := e # trace w\<rparr>"

definition syscall :: "env \<Rightarrow> syscall \<Rightarrow> worker \<Rightarrow> int \<times> worker" where
  "syscall env c w = (let w = emit (Sys c) w in (sys_result env (trace w), w))"

lemma emit_simps [simp]:
  "trace (emit e w) = e # trace w" "state (emit e w) = state w"
  "pam_handle (emit e w) = pam_handle w" "username (emit e w) = username w"
  by (simp_all add: emit_def)

end
