(* ===== verification/Pam_Protocol.thy ===== *)
theory Pam_Protocol
  imports Worker_Types
begin

text \<open>
  The abstract specification of the session worker: the order in which an application has to call
  PAM to log a user in. It is an automaton over the returned PAM calls of a trace; a call out of
  order has no successor. Everything else in the trace is ignored.

  A \<open>pam_start\<close> that fails leaves the handle undefined. The worker tells a transaction by a handle that
  is not NULL, so it may hand the undefined one to \<open>pam_end\<close>: \<open>Start_failed\<close> is the phase in which
  that is the only call it makes before the next \<open>pam_start\<close>.
\<close>

datatype pam_phase = No_transaction | Start_failed | Started | Authenticated | Token_expired | Account_ok
  | Credentialed | Open_failed | Session_open | Session_closed | Ending

definition on_success :: "pam_phase \<Rightarrow> pam_phase \<Rightarrow> pam_rc \<Rightarrow> pam_phase option" where
  "on_success good bad rc = Some (if rc = PAM_SUCCESS then good else bad)"

definition pam_phase_step :: "pam_phase \<Rightarrow> pam_call \<Rightarrow> pam_rc \<Rightarrow> pam_phase option" where
  "pam_phase_step p c rc =
     (case c of
        Pam_start _ _ \<Rightarrow>
          if p = No_transaction \<or> p = Start_failed then on_success Started Start_failed rc else None
      | Pam_set_item _ \<Rightarrow> if p = Started then on_success Started Ending rc else None
      | Pam_authenticate _ \<Rightarrow> if p = Started then on_success Authenticated Ending rc else None
      | Pam_acct_mgmt _ \<Rightarrow>
          if p = Authenticated
          then (if rc = PAM_NEW_AUTHTOK_REQD then Some Token_expired
                else on_success Account_ok Ending rc)
          else None
      | Pam_chauthtok \<Rightarrow> if p = Token_expired then on_success Account_ok Ending rc else None
      | Pam_setcred flag \<Rightarrow>
          if flag = PAM_ESTABLISH_CRED \<and> p = Account_ok then on_success Credentialed Ending rc
          else if flag = PAM_DELETE_CRED \<and> (p = Open_failed \<or> p = Session_closed) then Some Ending
          else None
      | Pam_open_session \<Rightarrow> if p = Credentialed then on_success Session_open Open_failed rc else None
      | Pam_close_session \<Rightarrow> if p = Session_open then Some Session_closed else None
      | Pam_end _ \<Rightarrow>
          if p = Ending \<or> p = Account_ok \<or> p = Start_failed then Some No_transaction else None)"

fun pam_phase_after :: "pam_phase option \<Rightarrow> effect \<Rightarrow> pam_phase option" where
  "pam_phase_after (Some p) (Pam_returned c rc) = pam_phase_step p c rc"
| "pam_phase_after p _ = p"

text \<open>The phase a trace (newest first) ends in; \<^term>\<open>None\<close> when a call was out of order.\<close>

fun pam_phase_of :: "trace \<Rightarrow> pam_phase option" where
  "pam_phase_of [] = Some No_transaction"
| "pam_phase_of (e # es) = pam_phase_after (pam_phase_of es) e"

fun is_pam_return :: "effect \<Rightarrow> bool" where
  "is_pam_return (Pam_returned _ _) = True"
| "is_pam_return _ = False"

lemma pam_phase_of_ignored:
  "list_all (\<lambda>e. \<not> is_pam_return e) es \<Longrightarrow> pam_phase_of (es @ t) = pam_phase_of t"
proof (induction es)
  case Nil
  then show ?case by simp
next
  case (Cons e es)
  then show ?case by (cases e; cases "pam_phase_of t") auto
qed

subsection \<open>What the phases mean\<close>

text \<open>The part of a trace behind its last successful \<open>pam_start\<close>.\<close>

fun starts_transaction :: "effect \<Rightarrow> bool" where
  "starts_transaction (Pam_returned (Pam_start _ _) PAM_SUCCESS) = True"
| "starts_transaction _ = False"

definition this_transaction :: "trace \<Rightarrow> trace" where
  "this_transaction t = takeWhile (\<lambda>e. \<not> starts_transaction e) t"

definition authenticated_in :: "trace \<Rightarrow> bool" where
  "authenticated_in t \<longleftrightarrow> (\<exists>b. Pam_returned (Pam_authenticate b) PAM_SUCCESS \<in> set t)"

definition authorized_in :: "trace \<Rightarrow> bool" where
  "authorized_in t \<longleftrightarrow> (\<exists>b. Pam_returned (Pam_acct_mgmt b) PAM_SUCCESS \<in> set t \<or>
     (Pam_returned (Pam_acct_mgmt b) PAM_NEW_AUTHTOK_REQD \<in> set t \<and>
      Pam_returned Pam_chauthtok PAM_SUCCESS \<in> set t))"

definition accredited_in :: "trace \<Rightarrow> bool" where
  "accredited_in t \<longleftrightarrow> Pam_returned (Pam_setcred PAM_ESTABLISH_CRED) PAM_SUCCESS \<in> set t"

definition opened_in :: "trace \<Rightarrow> bool" where
  "opened_in t \<longleftrightarrow> Pam_returned Pam_open_session PAM_SUCCESS \<in> set t"

lemmas transaction_defs = authenticated_in_def authorized_in_def accredited_in_def opened_in_def

fun phase_evidence :: "pam_phase \<Rightarrow> trace \<Rightarrow> bool" where
  "phase_evidence Authenticated t = authenticated_in t"
| "phase_evidence Token_expired t = (authenticated_in t \<and>
     (\<exists>b. Pam_returned (Pam_acct_mgmt b) PAM_NEW_AUTHTOK_REQD \<in> set t))"
| "phase_evidence Account_ok t = (authenticated_in t \<and> authorized_in t)"
| "phase_evidence Credentialed t = (authenticated_in t \<and> authorized_in t \<and> accredited_in t)"
| "phase_evidence Session_open t =
     (authenticated_in t \<and> authorized_in t \<and> accredited_in t \<and> opened_in t)"
| "phase_evidence _ t = True"

lemma transaction_mono:
  "authenticated_in t \<Longrightarrow> authenticated_in (e # t)"
  "authorized_in t \<Longrightarrow> authorized_in (e # t)"
  "accredited_in t \<Longrightarrow> accredited_in (e # t)"
  "opened_in t \<Longrightarrow> opened_in (e # t)"
  by (auto simp: transaction_defs)

lemma phase_evidence_mono: "phase_evidence p t \<Longrightarrow> phase_evidence p (e # t)"
  by (cases p) (auto intro: transaction_mono)

lemma pam_phase_step_evidence:
  assumes "pam_phase_step p c rc = Some q" and "phase_evidence p t"
  shows "phase_evidence q (Pam_returned c rc # t)"
  using assms
  by (cases c) (auto simp: pam_phase_step_def on_success_def transaction_defs split: if_splits)

lemma pam_phase_step_start:
  "pam_phase_step p (Pam_start a b) PAM_SUCCESS = Some q \<Longrightarrow> q = Started"
  by (cases p) (auto simp: pam_phase_step_def on_success_def)

text \<open>
  A phase is only reached with the evidence for it inside the current transaction.
\<close>

lemma pam_phase_of_evidence:
  "pam_phase_of t = Some p \<Longrightarrow> phase_evidence p (this_transaction t)"
proof (induction t arbitrary: p)
  case Nil
  then show ?case by auto
next
  case (Cons e t)
  then obtain q where q: "pam_phase_of t = Some q" and p: "pam_phase_after (Some q) e = Some p"
    by (cases "pam_phase_of t") auto
  show ?case
  proof (cases "starts_transaction e")
    case True
    then have "p = Started"
      using p by (cases e rule: starts_transaction.cases) (auto dest: pam_phase_step_start)
    then show ?thesis by simp
  next
    case False
    then have t: "this_transaction (e # t) = e # this_transaction t"
      by (simp add: this_transaction_def)
    show ?thesis
    proof (cases "is_pam_return e")
      case True
      then obtain c rc where "e = Pam_returned c rc" by (cases e) auto
      then show ?thesis
        unfolding t using p Cons.IH [OF q] by (auto intro: pam_phase_step_evidence)
    next
      case False
      then have "p = q" using p by (cases e) auto
      then show ?thesis
        unfolding t using Cons.IH [OF q] by (auto intro: phase_evidence_mono)
    qed
  qed
qed

end
