(* ===== verification/Worker_Conversation.thy ===== *)
theory Worker_Conversation
  imports Pam_Protocol
begin

text \<open>
  The worker's two conversations: the D-Bus methods it calls on the daemon, and the PAM
  conversation function, which turns PAM's messages into such calls. Ends with the frame of these
  operations: whatever they do, the login state of the worker is untouched and no PAM call
  returns.
\<close>

subsection \<open>Methods of the daemon\<close>

text \<open>Allocate the message, send it, block until the reply. \<^term>\<open>None\<close>: it could not be allocated.\<close>

definition dbus_call :: "env \<Rightarrow> string \<Rightarrow> payload \<Rightarrow> worker \<Rightarrow> dbus_reply option \<times> worker" where
  "dbus_call env member p w =
     (if dbus_alloc env (trace w)
      then let w = emit (DBus_method member p) w in (Some (dbus_answer env (trace w)), w)
      else (None, w))"

definition send_dbus_string_method ::
  "env \<Rightarrow> string \<Rightarrow> string option \<Rightarrow> worker \<Rightarrow> bool \<times> worker" where
  "send_dbus_string_method env member p w =
     (let str = (case p of Some s \<Rightarrow> s | None \<Rightarrow> [])
      in case dbus_call env member (P_string str) w of
           (None, w) \<Rightarrow> (False, w)
         | (Some (Reply_error _), w) \<Rightarrow> (False, w)
         | (Some (Reply _), w) \<Rightarrow> (True, w))"

definition send_dbus_int_method :: "env \<Rightarrow> string \<Rightarrow> int \<Rightarrow> worker \<Rightarrow> bool \<times> worker" where
  "send_dbus_int_method env member p w =
     (case dbus_call env member (P_int p) w of
        (None, w) \<Rightarrow> (False, w)
      | (Some (Reply_error _), w) \<Rightarrow> (False, w)
      | (Some (Reply _), w) \<Rightarrow> (True, w))"

definition send_dbus_void_method :: "env \<Rightarrow> string \<Rightarrow> worker \<Rightarrow> bool \<times> worker" where
  "send_dbus_void_method env member w =
     (case dbus_call env member P_void w of
        (None, w) \<Rightarrow> (False, w)
      | (Some (Reply_error _), w) \<Rightarrow> (False, w)
      | (Some (Reply _), w) \<Rightarrow> (True, w))"

definition MDM_SESSION_DBUS_ERROR_CANCEL :: string where
  "MDM_SESSION_DBUS_ERROR_CANCEL = ''org.mate.DisplayManager.Session.Error.Cancel''"

definition DBUS_ERROR_NO_REPLY :: string where
  "DBUS_ERROR_NO_REPLY = ''org.freedesktop.DBus.Error.NoReply''"

text \<open>A question: the answer on success, and the flags that record why there is none.\<close>

definition send_question_method ::
  "env \<Rightarrow> string \<Rightarrow> string \<Rightarrow> worker \<Rightarrow> bool \<times> string option \<times> worker" where
  "send_question_method env member question w =
     (case dbus_call env member (P_string question) w of
        (None, w) \<Rightarrow> (False, None, w)
      | (Some (Reply_error name), w) \<Rightarrow>
          (False, None,
           if name = MDM_SESSION_DBUS_ERROR_CANCEL then w\<lparr>cancelled := True\<rparr>
           else if name = DBUS_ERROR_NO_REPLY then w\<lparr>timed_out := True\<rparr>
           else w)
      | (Some (Reply answer), w) \<Rightarrow> (True, Some answer, w))"

definition mdm_session_worker_ask_question ::
  "env \<Rightarrow> string \<Rightarrow> worker \<Rightarrow> bool \<times> string option \<times> worker" where
  "mdm_session_worker_ask_question env = send_question_method env ''InfoQuery''"

definition mdm_session_worker_ask_for_secret ::
  "env \<Rightarrow> string \<Rightarrow> worker \<Rightarrow> bool \<times> string option \<times> worker" where
  "mdm_session_worker_ask_for_secret env = send_question_method env ''SecretInfoQuery''"

definition mdm_session_worker_report_info :: "env \<Rightarrow> string \<Rightarrow> worker \<Rightarrow> bool \<times> worker" where
  "mdm_session_worker_report_info env info = send_dbus_string_method env ''Info'' (Some info)"

definition mdm_session_worker_report_problem :: "env \<Rightarrow> string \<Rightarrow> worker \<Rightarrow> bool \<times> worker" where
  "mdm_session_worker_report_problem env problem =
     send_dbus_string_method env ''Problem'' (Some problem)"

subsection \<open>The settings of the user\<close>

definition on_saved_language_name_read :: "env \<Rightarrow> session_settings \<Rightarrow> worker \<Rightarrow> worker" where
  "on_saved_language_name_read env settings w =
     snd (send_dbus_string_method env ''SavedLanguageNameRead'' (language_name settings) w)"

definition on_saved_layout_name_read :: "env \<Rightarrow> session_settings \<Rightarrow> worker \<Rightarrow> worker" where
  "on_saved_layout_name_read env settings w =
     snd (send_dbus_string_method env ''SavedLayoutNameRead'' (layout_name settings) w)"

definition on_saved_session_name_read :: "env \<Rightarrow> session_settings \<Rightarrow> worker \<Rightarrow> worker" where
  "on_saved_session_name_read env settings w =
     snd (send_dbus_string_method env ''SavedSessionNameRead'' (session_name settings) w)"

text \<open>The handlers \<open>do_setup\<close> connects: three of the properties have an observer.\<close>

fun deliver_notifications :: "env \<Rightarrow> notifications \<Rightarrow> worker \<Rightarrow> worker" where
  "deliver_notifications env [] w = w"
| "deliver_notifications env ((p, settings) # ns) w =
     deliver_notifications env ns
       (case p of
          LANGUAGE_NAME \<Rightarrow> on_saved_language_name_read env settings w
        | LAYOUT_NAME \<Rightarrow> on_saved_layout_name_read env settings w
        | SESSION_NAME \<Rightarrow> on_saved_session_name_read env settings w
        | _ \<Rightarrow> w)"

text \<open>The guard of \<open>mdm_session_settings_load\<close> against a NULL object is the first case.\<close>

definition attempt_to_load_user_settings :: "env \<Rightarrow> string \<Rightarrow> worker \<Rightarrow> worker" where
  "attempt_to_load_user_settings env user w =
     (case user_settings w of
        None \<Rightarrow> w
      | Some settings \<Rightarrow>
          (case mdm_session_settings_load (key_files_of env (trace w)) settings (Some user) of
             (_, settings, ns) \<Rightarrow>
               deliver_notifications env ns (w\<lparr>user_settings := Some settings\<rparr>)))"

subsection \<open>The name PAM has for the user\<close>

text \<open>The result is the boolean and the name that is passed back; asserts that there is a handle.\<close>

definition mdm_session_worker_get_username :: "env \<Rightarrow> worker \<Rightarrow> (bool \<times> string option) option" where
  "mdm_session_worker_get_username env w =
     (if \<not> pam_handle w then None
      else case pam_user_item env (trace w) of
             Some item \<Rightarrow> Some (True, item)
           | None \<Rightarrow> Some (False, None))"

definition set_auditor_username :: "string option \<Rightarrow> worker \<Rightarrow> worker" where
  "set_auditor_username user w =
     w\<lparr>auditor := map_option (\<lambda>a. fst (mdm_session_auditor_set_username a user)) (auditor w)\<rparr>"

text \<open>\<open>mdm_session_settings_is_loaded\<close> reads the object; a NULL one would be dereferenced.\<close>

definition mdm_session_worker_update_username :: "env \<Rightarrow> worker \<Rightarrow> worker option" where
  "mdm_session_worker_update_username env w =
     do {
       (res, new_name) \<leftarrow> mdm_session_worker_get_username env w;
       if res then
         let w = set_auditor_username (username w) w
         in if username w = new_name then Some w
            else
              let w = w\<lparr>username := new_name\<rparr>;
                  w = snd (send_dbus_string_method env ''UsernameChanged'' (username w) w)
              in case username w of
                   None \<Rightarrow> Some w
                 | Some user \<Rightarrow>
                     (case user_settings w of
                        None \<Rightarrow> None
                      | Some settings \<Rightarrow>
                          Some (if \<not> mdm_session_settings_is_loaded settings
                                then attempt_to_load_user_settings env user w else w))
       else Some w
     }"

subsection \<open>Conversion to UTF-8\<close>

text \<open>
  \<open>valid_prefix\<close> is \<open>g_utf8_validate\<close>: the number of bytes in front of the first invalid one, the
  length when there is none. The loop overwrites invalid bytes one by one.
\<close>

function replace_invalid :: "(string \<Rightarrow> nat) \<Rightarrow> string \<Rightarrow> string" where
  "replace_invalid valid_prefix p =
     (if p \<noteq> [] \<and> valid_prefix p < length p
      then let q = valid_prefix p
           in take q p @ CHR ''?'' # replace_invalid valid_prefix (drop (Suc q) p)
      else p)"
  by pat_completeness auto
termination
  by (relation "measure (\<lambda>(v, p). length p)") auto

declare replace_invalid.simps [simp del]

definition convert_to_utf8 :: "env \<Rightarrow> string \<Rightarrow> string" where
  "convert_to_utf8 env str =
     (case locale_to_utf8 env str of
        Some utf8 \<Rightarrow> utf8
      | None \<Rightarrow> replace_invalid (utf8_valid_prefix env) str)"

subsection \<open>The PAM conversation function\<close>

text \<open>The \<open>switch\<close> over the style of a message, whose default asserts.\<close>

definition pam_prompt ::
  "env \<Rightarrow> pam_style \<Rightarrow> string \<Rightarrow> worker \<Rightarrow> (bool \<times> string option \<times> worker) option" where
  "pam_prompt env style utf8_msg w =
     (case style of
        PAM_PROMPT_ECHO_ON \<Rightarrow> Some (mdm_session_worker_ask_question env utf8_msg w)
      | PAM_PROMPT_ECHO_OFF \<Rightarrow> Some (mdm_session_worker_ask_for_secret env utf8_msg w)
      | PAM_TEXT_INFO \<Rightarrow>
          (case mdm_session_worker_report_info env utf8_msg w of (r, w) \<Rightarrow> Some (r, None, w))
      | PAM_ERROR_MSG \<Rightarrow>
          (case mdm_session_worker_report_problem env utf8_msg w of (r, w) \<Rightarrow> Some (r, None, w))
      | PAM_STYLE_OTHER _ \<Rightarrow> None)"

definition mdm_session_worker_process_pam_message ::
  "env \<Rightarrow> pam_message \<Rightarrow> (bool \<times> string option) wop" where
  "mdm_session_worker_process_pam_message env query w =
     do {
       w \<leftarrow> mdm_session_worker_update_username env w;
       let utf8_msg = convert_to_utf8 env (msg query);
       let w = w\<lparr>cancelled := False, timed_out := False\<rparr>;
       (res, user_answer, w) \<leftarrow> pam_prompt env (msg_style query) utf8_msg w;
       let w = (if timed_out w
                then (snd (send_dbus_void_method env ''CancelPendingQuery'' w))\<lparr>timed_out := False\<rparr>
                else w);
       (case user_answer of
          Some answer \<Rightarrow> Some ((True, if res then Some answer else None), w)
        | None \<Rightarrow> Some ((res, None), w))
     }"

text \<open>The loop of the handler; \<^term>\<open>None\<close> in the result: a message got no response.\<close>

fun pam_messages_loop ::
  "env \<Rightarrow> pam_message list \<Rightarrow> string option list \<Rightarrow> (string option list option) wop" where
  "pam_messages_loop env [] replies w = Some (Some replies, w)"
| "pam_messages_loop env (m # ms) replies w =
     do {
       ((got_response, response_text), w) \<leftarrow> mdm_session_worker_process_pam_message env m w;
       if \<not> got_response then Some (None, w)
       else pam_messages_loop env ms (replies @ [response_text]) w
     }"

text \<open>On failure the replies are wiped and NULL is handed back, with no message at all it is
  NULL too.\<close>

definition mdm_session_worker_pam_new_messages_handler ::
  "env \<Rightarrow> pam_message list \<Rightarrow> (pam_rc \<times> pam_replies) wop" where
  "mdm_session_worker_pam_new_messages_handler env messages w =
     (if messages = [] then Some ((PAM_SUCCESS, None), w)
      else do {
        (replies, w) \<leftarrow> pam_messages_loop env messages [] w;
        Some (case replies of None \<Rightarrow> ((PAM_CONV_ERR, None), w)
                            | Some rs \<Rightarrow> ((PAM_SUCCESS, Some rs), w))
      })"

subsection \<open>Calling PAM\<close>

text \<open>A call runs its interaction tree against the conversation function.\<close>

primrec run_pam_io :: "env \<Rightarrow> pam_io \<Rightarrow> pam_rc wop" where
  "run_pam_io env (Pam_return rc) = (\<lambda>w. Some (rc, w))"
| "run_pam_io env (Pam_conv messages k) =
     (\<lambda>w. do {
        (answer, w) \<leftarrow> mdm_session_worker_pam_new_messages_handler env messages w;
        run_pam_io env (k answer) w
      })"

definition call_pam :: "env \<Rightarrow> pam_call \<Rightarrow> pam_rc wop" where
  "call_pam env c w =
     do {
       let w = emit (Pam_called c) w;
       (rc, w) \<leftarrow> run_pam_io env (pam_behaviour env (trace w)) w;
       Some (rc, emit (Pam_returned c rc) w)
     }"

subsection \<open>The frame of the conversation\<close>

text \<open>
  The core of a worker: every field but the ones a conversation writes (the user's name and
  settings, the auditor, the two flags of the last question, and the trace).
\<close>

definition core :: "worker \<Rightarrow> worker" where
  "core w = w\<lparr>username := None, user_settings := None, auditor := None, cancelled := False,
              timed_out := False, trace := []\<rparr>"

definition harmless :: "effect \<Rightarrow> bool" where
  "harmless e \<longleftrightarrow> \<not> is_pam_return e \<and> (\<forall>c. e \<noteq> Sys c)"

text \<open>From \<open>w\<close> to \<open>w'\<close> only the conversation's fields changed, objects that existed still do,
  and the trace grew by harmless effects.\<close>

definition quiet :: "worker \<Rightarrow> worker \<Rightarrow> bool" where
  "quiet w w' \<longleftrightarrow> core w' = core w \<and> (user_settings w' = None \<longleftrightarrow> user_settings w = None) \<and>
     (auditor w' = None \<longleftrightarrow> auditor w = None) \<and>
     (\<exists>es. trace w' = es @ trace w \<and> list_all harmless es)"

lemma quiet_refl [simp, intro]: "quiet w w"
  by (simp add: quiet_def)

lemma quiet_trans [trans]: "quiet u v \<Longrightarrow> quiet v w \<Longrightarrow> quiet u w"
proof -
  assume uv: "quiet u v" and vw: "quiet v w"
  from uv obtain es where es: "trace v = es @ trace u" "list_all harmless es"
    by (auto simp: quiet_def)
  from vw obtain fs where fs: "trace w = fs @ trace v" "list_all harmless fs"
    by (auto simp: quiet_def)
  from es fs have "trace w = (fs @ es) @ trace u" "list_all harmless (fs @ es)" by simp_all
  with uv vw show ?thesis by (auto simp: quiet_def)
qed

lemma core_cong:
  assumes "core w' = core w"
  shows "state w' = state w" "ckc w' = ckc w" "pam_handle w' = pam_handle w"
    "child_pid w' = child_pid w" "child_watch_armed w' = child_watch_armed w"
    "password_is_required w' = password_is_required w" "cred_flags w' = cred_flags w"
    "arguments w' = arguments w" "environment w' = environment w"
    "state_change_idle_id w' = state_change_idle_id w" "connection w' = connection w"
    "uid w' = uid w" "gid w' = gid w"
  using arg_cong [OF assms, of state] arg_cong [OF assms, of ckc]
    arg_cong [OF assms, of pam_handle] arg_cong [OF assms, of child_pid]
    arg_cong [OF assms, of child_watch_armed] arg_cong [OF assms, of password_is_required]
    arg_cong [OF assms, of cred_flags] arg_cong [OF assms, of arguments]
    arg_cong [OF assms, of environment] arg_cong [OF assms, of state_change_idle_id]
    arg_cong [OF assms, of connection] arg_cong [OF assms, of uid] arg_cong [OF assms, of gid]
  by (simp_all add: core_def)

lemma quiet_fields:
  assumes "quiet w w'"
  shows "state w' = state w" "ckc w' = ckc w" "pam_handle w' = pam_handle w"
    "child_pid w' = child_pid w" "child_watch_armed w' = child_watch_armed w"
    "password_is_required w' = password_is_required w" "cred_flags w' = cred_flags w"
    "arguments w' = arguments w" "environment w' = environment w"
    "state_change_idle_id w' = state_change_idle_id w" "connection w' = connection w"
    "uid w' = uid w" "gid w' = gid w" "pam_phase_of (trace w') = pam_phase_of (trace w)"
    "user_settings w' = None \<longleftrightarrow> user_settings w = None" "auditor w' = None \<longleftrightarrow> auditor w = None"
proof -
  from assms have c: "core w' = core w" by (simp add: quiet_def)
  show "state w' = state w" "ckc w' = ckc w" "pam_handle w' = pam_handle w"
    "child_pid w' = child_pid w" "child_watch_armed w' = child_watch_armed w"
    "password_is_required w' = password_is_required w" "cred_flags w' = cred_flags w"
    "arguments w' = arguments w" "environment w' = environment w"
    "state_change_idle_id w' = state_change_idle_id w" "connection w' = connection w"
    "uid w' = uid w" "gid w' = gid w"
    using core_cong [OF c] by simp_all
  from assms obtain es where "trace w' = es @ trace w" and "list_all harmless es"
    by (auto simp: quiet_def)
  then show "pam_phase_of (trace w') = pam_phase_of (trace w)"
    by (auto simp: harmless_def list_all_iff intro!: pam_phase_of_ignored)
  from assms show "user_settings w' = None \<longleftrightarrow> user_settings w = None"
    "auditor w' = None \<longleftrightarrow> auditor w = None"
    by (simp_all add: quiet_def)
qed

lemma quiet_emit [simp]: "harmless e \<Longrightarrow> quiet w (emit e w)"
  by (auto simp: quiet_def core_def emit_def intro: exI [of _ "[e]"])

lemma harmless_simps [simp]:
  "harmless (DBus_method m p)" "harmless (Pam_called c)" "harmless (Audit r a)"
  "harmless (CK_open a1 b1 c1 d1 l1 n1)" "harmless CK_close"
  by (simp_all add: harmless_def)

lemma dbus_call_quiet: "dbus_call env m p w = (r, w') \<Longrightarrow> quiet w w'"
  by (auto simp: dbus_call_def Let_def split: if_splits)

lemma send_dbus_quiet:
  "send_dbus_string_method env m s w = (r, w') \<Longrightarrow> quiet w w'"
  "send_dbus_int_method env m i w = (r, w') \<Longrightarrow> quiet w w'"
  "send_dbus_void_method env m w = (r, w') \<Longrightarrow> quiet w w'"
  by (auto simp: send_dbus_string_method_def send_dbus_int_method_def send_dbus_void_method_def Let_def
      split: prod.splits option.splits dbus_reply.splits dest: dbus_call_quiet)

lemma send_dbus_quiet_snd [simp]:
  "quiet w (snd (send_dbus_string_method env m s w))"
  "quiet w (snd (send_dbus_int_method env m i w))"
  "quiet w (snd (send_dbus_void_method env m w))"
  using send_dbus_quiet by (metis prod.collapse)+

lemma quiet_flags [simp]:
  "quiet w (w\<lparr>cancelled := b\<rparr>)" "quiet w (w\<lparr>timed_out := b\<rparr>)" "quiet w (w\<lparr>username := u\<rparr>)"
  "quiet w (set_auditor_username u w)"
  by (simp_all add: quiet_def core_def set_auditor_username_def)

lemma send_question_quiet: "send_question_method env m q w = (r, a, w') \<Longrightarrow> quiet w w'"
  by (auto simp: send_question_method_def split: prod.splits option.splits dbus_reply.splits if_splits
      dest!: dbus_call_quiet elim: quiet_trans)

lemma deliver_notifications_quiet: "quiet w (deliver_notifications env ns w)"
proof (induction ns arbitrary: w)
  case Nil
  then show ?case by simp
next
  case (Cons n ns)
  obtain p s where n: "n = (p, s)" by (cases n)
  show ?case
    unfolding n
    by (cases p) (auto simp: on_saved_language_name_read_def on_saved_layout_name_read_def
        on_saved_session_name_read_def intro: Cons.IH quiet_trans [OF _ Cons.IH])
qed

lemma quiet_settings: "user_settings w \<noteq> None \<Longrightarrow> quiet w (w\<lparr>user_settings := Some s\<rparr>)"
  by (simp add: quiet_def core_def)

lemma attempt_to_load_quiet: "quiet w (attempt_to_load_user_settings env user w)"
  by (auto simp: attempt_to_load_user_settings_def split: option.splits prod.splits
      intro!: quiet_trans [OF quiet_settings deliver_notifications_quiet])

lemma update_username_quiet: "mdm_session_worker_update_username env w = Some w' \<Longrightarrow> quiet w w'"
proof -
  let ?v = "set_auditor_username (username w) w"
  assume "mdm_session_worker_update_username env w = Some w'"
  then consider "w' = w" | "w' = ?v"
    | u where "w' = snd (send_dbus_string_method env ''UsernameChanged'' u (?v\<lparr>username := u\<rparr>))"
    | u x where "w' = attempt_to_load_user_settings env x
        (snd (send_dbus_string_method env ''UsernameChanged'' u (?v\<lparr>username := u\<rparr>)))"
    by (auto simp: mdm_session_worker_update_username_def Let_def bind_eq_Some_conv
        split: if_splits option.splits)
  moreover have "quiet w (snd (send_dbus_string_method env m u (?v\<lparr>username := u\<rparr>)))" for m u
    by (rule quiet_trans [OF quiet_flags(4) quiet_trans [OF quiet_flags(3) send_dbus_quiet_snd(1)]])
  ultimately show "quiet w w'"
    by cases (auto intro: quiet_trans [OF _ attempt_to_load_quiet])
qed

lemma ask_quiet:
  "mdm_session_worker_ask_question env q w = (r, a, w') \<Longrightarrow> quiet w w'"
  "mdm_session_worker_ask_for_secret env q w = (r, a, w') \<Longrightarrow> quiet w w'"
  "mdm_session_worker_report_info env q w = (r, w') \<Longrightarrow> quiet w w'"
  "mdm_session_worker_report_problem env q w = (r, w') \<Longrightarrow> quiet w w'"
  by (auto simp: mdm_session_worker_ask_question_def mdm_session_worker_ask_for_secret_def
      mdm_session_worker_report_info_def mdm_session_worker_report_problem_def
      dest: send_question_quiet send_dbus_quiet)

lemma pam_prompt_quiet: "pam_prompt env style text w = Some (r, a, w') \<Longrightarrow> quiet w w'"
  by (auto simp: pam_prompt_def split: pam_style.splits prod.splits dest: ask_quiet)

lemma clear_flags_quiet: "quiet w (w\<lparr>cancelled := False, timed_out := False\<rparr>)"
  by (simp add: quiet_def core_def)

lemma process_pam_message_quiet:
  assumes "mdm_session_worker_process_pam_message env q w = Some (r, w')"
  shows "quiet w w'"
proof -
  let ?text = "convert_to_utf8 env (msg q)"
  from assms obtain u res a v where
      u: "mdm_session_worker_update_username env w = Some u"
    and v: "pam_prompt env (msg_style q) ?text (u\<lparr>cancelled := False, timed_out := False\<rparr>)
              = Some (res, a, v)"
    and w': "w' = (if timed_out v
        then (snd (send_dbus_void_method env ''CancelPendingQuery'' v))\<lparr>timed_out := False\<rparr> else v)"
    unfolding mdm_session_worker_process_pam_message_def
    by (auto simp: bind_eq_Some_conv Let_def split: option.splits)
  have "quiet v w'"
    unfolding w' using quiet_trans [OF send_dbus_quiet_snd(3) quiet_flags(2)] by auto
  with pam_prompt_quiet [OF v] have "quiet (u\<lparr>cancelled := False, timed_out := False\<rparr>) w'"
    by (rule quiet_trans)
  then show ?thesis
    using update_username_quiet [OF u] clear_flags_quiet [of u] by (blast intro: quiet_trans)
qed

lemma pam_messages_loop_quiet: "pam_messages_loop env ms rs w = Some (r, w') \<Longrightarrow> quiet w w'"
  by (induction ms arbitrary: rs w)
     (auto simp: bind_eq_Some_conv split: if_splits dest!: process_pam_message_quiet
        intro: quiet_trans)

lemma pam_new_messages_handler_quiet:
  "mdm_session_worker_pam_new_messages_handler env ms w = Some (r, w') \<Longrightarrow> quiet w w'"
  by (auto simp: mdm_session_worker_pam_new_messages_handler_def bind_eq_Some_conv
      split: if_splits option.splits dest!: pam_messages_loop_quiet)

lemma run_pam_io_quiet: "run_pam_io env io w = Some (rc, w') \<Longrightarrow> quiet w w'"
proof (induction io arbitrary: w)
  case (Pam_return x)
  then show ?case by simp
next
  case (Pam_conv ms k)
  then obtain a v where v: "mdm_session_worker_pam_new_messages_handler env ms w = Some (a, v)"
      and "run_pam_io env (k a) v = Some (rc, w')"
    by (auto simp: bind_eq_Some_conv)
  then have "quiet v w'" using Pam_conv.IH by blast
  with pam_new_messages_handler_quiet [OF v] show ?case by (rule quiet_trans)
qed

lemma call_pam_quiet:
  assumes "call_pam env c w = Some (rc, w')"
  obtains u where "quiet w u" and "w' = emit (Pam_returned c rc) u"
proof -
  from assms obtain u where
      u: "run_pam_io env (pam_behaviour env (trace (emit (Pam_called c) w))) (emit (Pam_called c) w)
            = Some (rc, u)" and w': "w' = emit (Pam_returned c rc) u"
    by (auto simp: call_pam_def bind_eq_Some_conv Let_def)
  have "quiet w (emit (Pam_called c) w)" by simp
  also note run_pam_io_quiet [OF u]
  finally have "quiet w u" .
  then show ?thesis using w' by (rule that)
qed

text \<open>The summary the other components use: a PAM call changes the phase by its step, and leaves
  the core and the existence of the objects alone.\<close>

lemma call_pam_effect:
  assumes "call_pam env c w = Some (rc, w')"
  shows "core w' = core w" and "user_settings w' = None \<longleftrightarrow> user_settings w = None"
    and "auditor w' = None \<longleftrightarrow> auditor w = None"
    and "pam_phase_of (trace w') = pam_phase_after (pam_phase_of (trace w)) (Pam_returned c rc)"
proof -
  obtain u where u: "quiet w u" and w': "w' = emit (Pam_returned c rc) u"
    using assms by (rule call_pam_quiet)
  have "core w' = core u" by (simp add: w' core_def emit_def)
  with u show "core w' = core w" by (simp add: quiet_def)
  show "user_settings w' = None \<longleftrightarrow> user_settings w = None" "auditor w' = None \<longleftrightarrow> auditor w = None"
    using quiet_fields (15,16) [OF u] by (simp_all add: w' emit_def)
  show "pam_phase_of (trace w') = pam_phase_after (pam_phase_of (trace w)) (Pam_returned c rc)"
    using quiet_fields (14) [OF u] by (simp add: w')
qed

subsection \<open>The conversation does not abort\<close>

text \<open>PAM only sends messages of the four documented styles.\<close>

definition known_style :: "pam_message \<Rightarrow> bool" where
  "known_style m \<longleftrightarrow> (\<forall>n. msg_style m \<noteq> PAM_STYLE_OTHER n)"

primrec known_io :: "pam_io \<Rightarrow> bool" where
  "known_io (Pam_return rc) = True"
| "known_io (Pam_conv ms k) = (list_all known_style ms \<and> (\<forall>a. known_io (k a)))"

definition conversing :: "worker \<Rightarrow> bool" where
  "conversing w \<longleftrightarrow> pam_handle w \<and> user_settings w \<noteq> None"

lemma conversing_quiet: "quiet w w' \<Longrightarrow> conversing w \<Longrightarrow> conversing w'"
  by (simp add: conversing_def quiet_fields)

lemma update_username_total:
  assumes "conversing w"
  obtains w' where "mdm_session_worker_update_username env w = Some w'"
proof -
  have "user_settings (snd (send_dbus_string_method env m u
      ((set_auditor_username x w)\<lparr>username := y\<rparr>))) \<noteq> None" for m u x y
    using quiet_fields (15) [OF quiet_trans [OF quiet_trans [OF quiet_flags(4) quiet_flags(3)]
        send_dbus_quiet_snd(1)]] assms
    by (metis conversing_def)
  then have loaded: "\<exists>s. user_settings (snd (send_dbus_string_method env m u
      ((set_auditor_username x w)\<lparr>username := y\<rparr>))) = Some s" for m u x y
    by (metis option.exhaust)
  have "\<exists>w'. mdm_session_worker_update_username env w = Some w'"
  proof (cases "pam_user_item env (trace w)")
    case None
    with assms show ?thesis
      by (simp add: mdm_session_worker_update_username_def mdm_session_worker_get_username_def
          conversing_def)
  next
    case (Some u)
    obtain s where "user_settings (snd (send_dbus_string_method env ''UsernameChanged'' u
        ((set_auditor_username (username w) w)\<lparr>username := u\<rparr>))) = Some s"
      using loaded by blast
    with Some assms show ?thesis
      by (auto simp: mdm_session_worker_update_username_def mdm_session_worker_get_username_def
          conversing_def Let_def split: option.split)
  qed
  then show ?thesis using that by blast
qed

lemma process_pam_message_total:
  assumes "conversing w" and "known_style m"
  shows "\<exists>r w'. mdm_session_worker_process_pam_message env m w = Some (r, w')"
proof -
  obtain u where u: "mdm_session_worker_update_username env w = Some u"
    using assms(1) by (rule update_username_total)
  let ?p = "pam_prompt env (msg_style m) (convert_to_utf8 env (msg m))
      (u\<lparr>cancelled := False, timed_out := False\<rparr>)"
  have "?p \<noteq> None"
    using assms(2) by (cases "msg_style m") (auto simp: pam_prompt_def known_style_def split: prod.splits)
  then obtain r a v where "?p = Some (r, a, v)"
    by (cases ?p) auto
  with u show ?thesis
    by (auto simp: mdm_session_worker_process_pam_message_def Let_def split: option.splits)
qed

lemma pam_messages_loop_total:
  "conversing w \<Longrightarrow> list_all known_style ms \<Longrightarrow> \<exists>r w'. pam_messages_loop env ms rs w = Some (r, w')"
proof (induction ms arbitrary: rs w)
  case Nil
  then show ?case by simp
next
  case (Cons m ms)
  then obtain b x u where u: "mdm_session_worker_process_pam_message env m w = Some ((b, x), u)"
    using process_pam_message_total by fastforce
  have "conversing u"
    using Cons.prems(1) by (rule conversing_quiet [OF process_pam_message_quiet [OF u]])
  with Cons u show ?case by simp
qed

lemma pam_new_messages_handler_total:
  assumes "conversing w" and "list_all known_style ms"
  shows "\<exists>r w'. mdm_session_worker_pam_new_messages_handler env ms w = Some (r, w')"
proof -
  obtain r w' where "pam_messages_loop env ms [] w = Some (r, w')"
    using pam_messages_loop_total [OF assms] by blast
  then show ?thesis
    by (auto simp: mdm_session_worker_pam_new_messages_handler_def split: option.splits)
qed

lemma run_pam_io_total: "conversing w \<Longrightarrow> known_io io \<Longrightarrow> \<exists>rc w'. run_pam_io env io w = Some (rc, w')"
proof (induction io arbitrary: w)
  case (Pam_return x)
  then show ?case by simp
next
  case (Pam_conv ms k)
  then obtain a v where v: "mdm_session_worker_pam_new_messages_handler env ms w = Some (a, v)"
    using pam_new_messages_handler_total by fastforce
  have "conversing v"
    using Pam_conv.prems(1) by (rule conversing_quiet [OF pam_new_messages_handler_quiet [OF v]])
  moreover have "known_io (k a)"
    using Pam_conv.prems(2) by (cases a) simp
  ultimately have "\<exists>rc w'. run_pam_io env (k a) v = Some (rc, w')"
    using Pam_conv.IH by blast
  with v show ?case by simp
qed

lemma call_pam_total:
  assumes "conversing w" and "known_io (pam_behaviour env (Pam_called c # trace w))"
  shows "\<exists>rc w'. call_pam env c w = Some (rc, w')"
proof -
  have "conversing (emit (Pam_called c) w)"
    using assms(1) by (simp add: conversing_def emit_def)
  then obtain rc w' where
    "run_pam_io env (pam_behaviour env (Pam_called c # trace w)) (emit (Pam_called c) w) = Some (rc, w')"
    using run_pam_io_total [OF _ assms(2)] by blast
  then show ?thesis by (simp add: call_pam_def Let_def)
qed

end
