(* ===== verification/Worker_Files.thy ===== *)
theory Worker_Files
  imports Worker_Conversation
begin

text \<open>
  The worker's copies of the user's files into the cache directory: the check of a file before it
  is copied, the creation of the directory, and the search for a face image.

  The last search step of \<open>mdm_session_worker_cache_userfiles\<close> reads a string after it was freed;
  the behaviour of the process from there on is undefined, and the model gives \<^term>\<open>None\<close>.
\<close>

definition MAX_FILE_SIZE :: int where
  "MAX_FILE_SIZE = 65536"

text \<open>A negative limit is replaced by \<open>G_MAXSIZE\<close>, which is -1 in the signed parameter.\<close>

definition G_MAXSIZE_as_gssize :: int where
  "G_MAXSIZE_as_gssize = - 1"

definition check_user_copy_file ::
  "(string \<Rightarrow> file_stat option) \<Rightarrow> string \<Rightarrow> string option \<Rightarrow> nat \<Rightarrow> int \<Rightarrow> bool" where
  "check_user_copy_file stat srcfile destfile user max_file_size =
     (let max_file_size = (if max_file_size < 0 then G_MAXSIZE_as_gssize else max_file_size)
      in case stat srcfile of
           None \<Rightarrow> False
         | Some src \<Rightarrow>
             if (case destfile of
                   None \<Rightarrow> False
                 | Some dest \<Rightarrow> (case stat dest of None \<Rightarrow> False
                                               | Some d \<Rightarrow> st_mtime src \<le> st_mtime d))
             then False
             else if \<not> st_is_regular src then False
             else if st_uid src \<noteq> user then False
             else if st_size src > max_file_size then False
             else True)"

text \<open>The copy overwrites and does not follow symbolic links; it answers whether it succeeded.\<close>

definition mdm_cache_copy_file :: "env \<Rightarrow> string \<Rightarrow> string \<Rightarrow> worker \<Rightarrow> bool \<times> worker" where
  "mdm_cache_copy_file env userfilename cachefilename w =
     (if check_user_copy_file (stat_of env (trace w)) userfilename (Some cachefilename) (uid w)
           MAX_FILE_SIZE
      then (case syscall env (Copy_file userfilename cachefilename) w of (r, w) \<Rightarrow> (0 \<le> r, w))
      else (False, w))"

definition user_path :: "worker \<Rightarrow> string list" where
  "user_path w = (case username w of None \<Rightarrow> [] | Some user \<Rightarrow> [user])"

definition mdm_session_worker_create_cachedir :: "env \<Rightarrow> worker \<Rightarrow> string \<times> worker" where
  "mdm_session_worker_create_cachedir env w =
     (let cachedir = g_build_filename (MDM_CACHE_DIR # user_path w);
          w = (if stat_of env (trace w) cachedir = None
               then snd (syscall env (Chmod cachedir) (snd (syscall env (Mkdir cachedir) w)))
               else w);
          w = snd (syscall env (Chown cachedir (uid w) (gid w)) w)
      in (cachedir, w))"

definition mdm_session_worker_cache_userfiles :: "env \<Rightarrow> worker \<Rightarrow> worker option" where
  "mdm_session_worker_cache_userfiles env w =
     do {
       user \<leftarrow> username w;
       (_, pwent) \<leftarrow> mdm_get_pwent_for_name (getpwnam_answer env (trace w) user);
       (case pwent of
          None \<Rightarrow> Some w
        | Some passwd_entry \<Rightarrow>
            (let (cachedir, w) = mdm_session_worker_create_cachedir env w;
                 cachefile = g_build_filename [cachedir, ''dmrc''];
                 userfile = g_build_filename [pw_dir passwd_entry, ''.dmrc''];
                 w = snd (mdm_cache_copy_file env userfile cachefile w);
                 cachefile = g_build_filename [cachedir, ''face''];
                 userfile = g_build_filename [pw_dir passwd_entry, ''.face''];
                 (res, w) = mdm_cache_copy_file env userfile cachefile w;
                 (res, w) =
                   (if \<not> res
                    then mdm_cache_copy_file env
                           (g_build_filename [pw_dir passwd_entry, ''.face.icon'']) cachefile w
                    else (res, w))
             in if \<not> res then
                  let tempfilename = g_build_filename [pw_dir passwd_entry, ''.mate'', ''mdm'']
                  in if check_user_copy_file (stat_of env (trace w)) tempfilename None (uid w)
                          MAX_FILE_SIZE
                     then None
                     else Some w
                else Some w))
     }"

text \<open>The process the worker forks when a session is over: it becomes the user and copies.\<close>

definition cache_child :: "env \<Rightarrow> worker \<Rightarrow> (nat \<times> worker) option" where
  "cache_child env w =
     (case syscall env (Setuid (uid w)) w of
        (r, w) \<Rightarrow>
          if r < 0 then Some (1, emit (Sys (Exit 1)) w)
          else do {
            w \<leftarrow> mdm_session_worker_cache_userfiles env w;
            Some (0, emit (Sys (Exit 0)) w)
          })"

subsection \<open>What is copied\<close>

lemma check_user_copy_fileD:
  assumes "check_user_copy_file stat src dest user n"
  obtains s where "stat src = Some s" and "st_is_regular s" and "st_uid s = user"
    and "0 \<le> n \<longrightarrow> st_size s \<le> n" and "n < 0 \<longrightarrow> st_size s < 0"
    and "\<And>d dst. dest = Some dst \<Longrightarrow> stat dst = Some d \<Longrightarrow> st_mtime d < st_mtime s"
  using assms
  by (auto simp: check_user_copy_file_def Let_def G_MAXSIZE_as_gssize_def split: option.splits if_splits)

text \<open>A limit that means "no limit" rejects every file.\<close>

lemma check_user_copy_file_no_limit:
  "stat src = Some s \<Longrightarrow> 0 \<le> st_size s \<Longrightarrow> n < 0 \<Longrightarrow> \<not> check_user_copy_file stat src dest user n"
  by (auto elim!: check_user_copy_fileD)

text \<open>An entry of the trace that copies only what the check allows.\<close>

fun copy_allowed :: "env \<Rightarrow> nat \<Rightarrow> trace \<Rightarrow> bool" where
  "copy_allowed env user [] = True"
| "copy_allowed env user (e # t) = (copy_allowed env user t \<and>
     (case e of
        Sys (Copy_file src dst) \<Rightarrow>
          check_user_copy_file (stat_of env t) src (Some dst) user MAX_FILE_SIZE
      | _ \<Rightarrow> True))"

lemma cache_copy_file_snd:
  "uid (snd (mdm_cache_copy_file env src dst w)) = uid w"
  "copy_allowed env (uid w) (trace w) \<Longrightarrow>
     copy_allowed env (uid w) (trace (snd (mdm_cache_copy_file env src dst w)))"
  by (simp_all add: mdm_cache_copy_file_def syscall_def Let_def emit_def)

lemma create_cachedir_snd:
  "uid (snd (mdm_session_worker_create_cachedir env w)) = uid w"
  "copy_allowed env u (trace w) \<Longrightarrow>
     copy_allowed env u (trace (snd (mdm_session_worker_create_cachedir env w)))"
  by (simp_all add: mdm_session_worker_create_cachedir_def syscall_def Let_def emit_def)

lemma cache_userfiles_allowed:
  assumes "mdm_session_worker_cache_userfiles env w = Some w'" and "copy_allowed env (uid w) (trace w)"
  shows "copy_allowed env (uid w) (trace w') \<and> uid w' = uid w"
proof -
  note f = cache_copy_file_snd create_cachedir_snd
  have step: "copy_allowed env (uid w) (trace (snd (mdm_cache_copy_file env src dst v)))"
    if "copy_allowed env (uid w) (trace v)" and "uid v = uid w" for src dst v
    using f(2) [of env v src dst] that by simp
  from assms show ?thesis
    by (auto simp: mdm_session_worker_cache_userfiles_def bind_eq_Some_conv Let_def split_beta f step
        split: option.splits if_splits)
qed

end
