(* ===== verification/Worker_Pam.thy ===== *)
theory Worker_Pam
  imports Worker_Files
begin

text \<open>
  The worker's PAM transaction: starting it, authenticating, authorizing and accrediting the user,
  opening the session, and tearing everything down. An operation that the code ends with an error
  returns \<^term>\<open>Inl\<close> of the message it sets, after it has uninitialized PAM.
\<close>

type_synonym 'a result = "string + 'a"

subsection \<open>The auditor\<close>

definition mdm_session_worker_start_auditor :: "worker \<Rightarrow> worker" where
  "mdm_session_worker_start_auditor w =
     w\<lparr>auditor := Some (mdm_session_auditor_new (hostname w) (display_device w))\<rparr>"

definition mdm_session_worker_stop_auditor :: "worker \<Rightarrow> worker" where
  "mdm_session_worker_stop_auditor w = w\<lparr>auditor := None\<rparr>"

text \<open>A report looks up the class of the object, so a NULL auditor is dereferenced.\<close>

definition report :: "audit_report \<Rightarrow> worker \<Rightarrow> worker option" where
  "report r w = (case auditor w of None \<Rightarrow> None | Some a \<Rightarrow> Some (emit (Audit r a) w))"

subsection \<open>The end of a transaction\<close>

text \<open>
  The branch for a session that was opened forks a child that copies the user's files
  (\<^const>\<open>cache_child\<close>) and waits for it. In the child \<open>fork\<close> answers 0, and the process ends there:
  for the worker proper that answer is \<^term>\<open>None\<close>.
\<close>

definition close_opened_session :: "env \<Rightarrow> worker \<Rightarrow> worker option" where
  "close_opened_session env w =
     do {
       let (pid, w) = syscall env Fork w;
       if pid = 0 then None
       else do {
         _ \<leftarrow> (if pid > 0 then mdm_wait_on_pid (waitpid_answer env (trace w)) 0 else Some None);
         (_, w) \<leftarrow> call_pam env Pam_close_session w;
         report Logout w
       }
     }"

definition report_failed_login :: "env \<Rightarrow> pam_rc \<Rightarrow> worker \<Rightarrow> worker option" where
  "report_failed_login env status w =
     (let w = (case pam_user_item env (trace w) of
                 Some item \<Rightarrow> set_auditor_username item w
               | None \<Rightarrow> w)
      in report (Login_failure (pam_strerror env status)) w)"

definition mdm_session_worker_uninitialize_pam :: "env \<Rightarrow> pam_rc \<Rightarrow> worker \<Rightarrow> worker option" where
  "mdm_session_worker_uninitialize_pam env status w =
     (if \<not> pam_handle w then Some w
      else do {
        w \<leftarrow> (if state w \<ge> MDM_SESSION_WORKER_STATE_SESSION_OPENED
             then close_opened_session env w
             else report_failed_login env status w);
        w \<leftarrow> (if state w \<ge> MDM_SESSION_WORKER_STATE_ACCREDITED
             then map_option snd (call_pam env (Pam_setcred PAM_DELETE_CRED) w)
             else Some w);
        (_, w) \<leftarrow> call_pam env (Pam_end status) w;
        let w = w\<lparr>pam_handle := False\<rparr>;
        let w = mdm_session_worker_stop_auditor w;
        Some (w\<lparr>state := MDM_SESSION_WORKER_STATE_NONE\<rparr>)
      })"

text \<open>The common exit of the operations below: an error uninitializes PAM.\<close>

definition fail_pam :: "env \<Rightarrow> pam_rc \<Rightarrow> string \<Rightarrow> unit result wop" where
  "fail_pam env error_code message w =
     do {
       w \<leftarrow> mdm_session_worker_uninitialize_pam env error_code w;
       Some (Inl message, w)
     }"

subsection \<open>Starting a transaction\<close>

text \<open>Not a Solaris build: the terminal is the X display.\<close>

definition get_tty_for_pam :: "string option \<Rightarrow> string option \<Rightarrow> string option" where
  "get_tty_for_pam display_name device = display_name"

text \<open>The name and data of the first entry of the X authority file, if it can be read.\<close>

definition get_xauth_for_pam :: "env \<Rightarrow> string option \<Rightarrow> (string \<times> string) option" where
  "get_xauth_for_pam env authority_file =
     (case authority_file of None \<Rightarrow> None | Some file \<Rightarrow> xauth_of env file)"

definition start_error :: "pam_rc \<Rightarrow> string" where
  "start_error rc = ''error initiating conversation with authentication system: '' @
     (if rc = PAM_ABORT then ''general failure''
      else if rc = PAM_BUF_ERR then ''out of memory''
      else if rc = PAM_SYSTEM_ERR then ''application programmer error''
      else ''unknown error'')"

text \<open>The items set on the new transaction, in order, each with its error message.\<close>

definition initial_items :: "env \<Rightarrow> worker \<Rightarrow> (pam_item \<times> string) list" where
  "initial_items env w =
     (if username w = None
      then [(PAM_USER_PROMPT ''Username:'',
             ''error informing authentication system of preferred username prompt: '')]
      else []) @
     (case hostname w of
        Some host \<Rightarrow>
          if host \<noteq> []
          then [(PAM_RHOST host, ''error informing authentication system of user's hostname: '')]
          else []
      | None \<Rightarrow> []) @
     [(PAM_TTY (get_tty_for_pam (x11_display_name w) (display_device w)),
       ''error informing authentication system of user's console: ''),
      (PAM_XDISPLAY (x11_display_name w),
       ''error informing authentication system of display string: ''),
      (PAM_XAUTHDATA (get_xauth_for_pam env (x11_authority_file w)),
       ''error informing authentication system of display xauth credentials: '')]"

fun set_pam_items :: "env \<Rightarrow> (pam_item \<times> string) list \<Rightarrow> (pam_rc \<times> string) option wop" where
  "set_pam_items env [] w = Some (None, w)"
| "set_pam_items env ((item, message) # items) w =
     do {
       (rc, w) \<leftarrow> call_pam env (Pam_set_item item) w;
       if rc \<noteq> PAM_SUCCESS then Some (Some (rc, message @ pam_strerror env rc), w)
       else set_pam_items env items w
     }"

definition mdm_session_worker_initialize_pam :: "env \<Rightarrow> unit result wop" where
  "mdm_session_worker_initialize_pam env w =
     (if pam_handle w then None
      else do {
        let items = initial_items env w;
        let w = mdm_session_worker_start_auditor w;
        let call = Pam_start (service w) (username w);
        let w = emit (Pam_called call) w;
        let rc = pam_start_rc env (trace w);
        let w = emit (Pam_returned call rc) w;
        let w = w\<lparr>pam_handle := (rc = PAM_SUCCESS \<or> failed_start_handle env (trace w))\<rparr>;
        if rc \<noteq> PAM_SUCCESS then fail_pam env rc (start_error rc) w
        else do {
          (err, w) \<leftarrow> set_pam_items env items w;
          (case err of
             Some (rc, message) \<Rightarrow> fail_pam env rc message w
           | None \<Rightarrow> Some (Inr (), w\<lparr>state := MDM_SESSION_WORKER_STATE_SETUP_COMPLETE\<rparr>))
        }
      })"

subsection \<open>Authentication and authorization\<close>

definition mdm_session_worker_authenticate_user :: "env \<Rightarrow> bool \<Rightarrow> unit result wop" where
  "mdm_session_worker_authenticate_user env password_required w =
     do {
       (error_code, w) \<leftarrow> call_pam env (Pam_authenticate password_required) w;
       if error_code \<noteq> PAM_SUCCESS then
         let error_code = (if error_code = PAM_USER_UNKNOWN then PAM_AUTH_ERR else error_code)
         in fail_pam env error_code (pam_strerror env error_code) w
       else Some (Inr (), w\<lparr>state := MDM_SESSION_WORKER_STATE_AUTHENTICATED\<rparr>)
     }"

definition mdm_session_worker_authorize_user :: "env \<Rightarrow> bool \<Rightarrow> unit result wop" where
  "mdm_session_worker_authorize_user env password_required w =
     do {
       (error_code, w) \<leftarrow> call_pam env (Pam_acct_mgmt password_required) w;
       (error_code, w) \<leftarrow>
         (if error_code = PAM_NEW_AUTHTOK_REQD then do {
            (error_code, w) \<leftarrow> call_pam env Pam_chauthtok w;
            w \<leftarrow> report (if error_code \<noteq> PAM_SUCCESS then Password_change_failure
                        else Password_changed) w;
            Some (error_code, w)
          } else Some (error_code, w));
       if error_code \<noteq> PAM_SUCCESS
       then fail_pam env error_code (pam_strerror env error_code) w
       else Some (Inr (), w\<lparr>state := MDM_SESSION_WORKER_STATE_AUTHORIZED\<rparr>)
     }"

subsection \<open>The environment of the session\<close>

definition mdm_session_worker_set_environment_variable ::
  "string \<Rightarrow> string option \<Rightarrow> worker \<Rightarrow> worker" where
  "mdm_session_worker_set_environment_variable key val w =
     w\<lparr>environment := AList.update key val (environment w)\<rparr>"

definition mdm_session_worker_update_environment_from_passwd_info ::
  "string \<Rightarrow> string \<Rightarrow> worker \<Rightarrow> worker" where
  "mdm_session_worker_update_environment_from_passwd_info home shell w =
     (let w = mdm_session_worker_set_environment_variable ''LOGNAME'' (username w) w;
          w = mdm_session_worker_set_environment_variable ''USER'' (username w) w;
          w = mdm_session_worker_set_environment_variable ''USERNAME'' (username w) w;
          w = mdm_session_worker_set_environment_variable ''HOME'' (Some home) w
      in mdm_session_worker_set_environment_variable ''SHELL'' (Some shell) w)"

definition mdm_session_worker_environment_variable_is_set :: "string \<Rightarrow> worker \<Rightarrow> bool" where
  "mdm_session_worker_environment_variable_is_set name w \<longleftrightarrow>
     (case map_of (environment w) name of Some (Some _) \<Rightarrow> True | _ \<Rightarrow> False)"

definition BINDIR :: string where
  "BINDIR = ''/usr/bin''"

definition MDM_SESSION_DEFAULT_PATH :: string where
  "MDM_SESSION_DEFAULT_PATH = ''/usr/local/bin:/usr/bin:/bin''"

definition default_path :: "worker \<Rightarrow> worker" where
  "default_path w =
     (if \<not> mdm_session_worker_environment_variable_is_set ''PATH'' w
      then mdm_session_worker_set_environment_variable ''PATH''
             (Some (if BINDIR = ''/usr/bin'' then MDM_SESSION_DEFAULT_PATH
                    else BINDIR @ '':'' @ MDM_SESSION_DEFAULT_PATH)) w
      else w)"

subsection \<open>Accreditation\<close>

text \<open>\<open>getpwnam_r\<close> answers an error, or no error and perhaps an entry; \<open>EINTR\<close> is retried.\<close>

partial_function (option) lookup_passwd_loop ::
  "(nat \<Rightarrow> errno option \<times> passwd option) \<Rightarrow> nat \<Rightarrow> passwd option option" where
  "lookup_passwd_loop getpwnam_r i =
     (case getpwnam_r i of
        (Some e, _) \<Rightarrow> if e = EINTR then lookup_passwd_loop getpwnam_r (Suc i) else Some None
      | (None, passwd_entry) \<Rightarrow> Some passwd_entry)"

declare lookup_passwd_loop.simps [code]

definition lookup_passwd_info :: "env \<Rightarrow> string \<Rightarrow> worker \<Rightarrow> passwd option option" where
  "lookup_passwd_info env user w = lookup_passwd_loop (getpwnam_r_answer env (trace w) user) 0"

text \<open>\<open>initgroups\<close> is only called once \<open>setgid\<close> has worked.\<close>

definition change_user :: "env \<Rightarrow> nat \<Rightarrow> nat \<Rightarrow> string \<Rightarrow> worker \<Rightarrow> bool \<times> worker" where
  "change_user env new_uid new_gid user w =
     (let w = w\<lparr>uid := new_uid, gid := new_gid\<rparr>;
          (r, w) = syscall env (Setgid new_gid) w
      in if r < 0 then (False, w)
         else let (r, w) = syscall env (Initgroups user new_gid) w
              in (\<not> r < 0, w))"

definition mdm_session_worker_accredit_user :: "env \<Rightarrow> unit result wop" where
  "mdm_session_worker_accredit_user env w =
     (case username w of
        None \<Rightarrow> fail_pam env PAM_USER_UNKNOWN ''no user account available'' w
      | Some user \<Rightarrow>
          do {
            entry \<leftarrow> lookup_passwd_info env user w;
            (case entry of
               None \<Rightarrow> fail_pam env PAM_AUTHINFO_UNAVAIL ''no user account available'' w
             | Some pw \<Rightarrow>
                 do {
                   let w = mdm_session_worker_update_environment_from_passwd_info
                             (pw_dir pw) (pw_shell pw) w;
                   let w = default_path w;
                   let (changed, w) = change_user env (pw_uid pw) (pw_gid pw) user w;
                   if \<not> changed
                   then fail_pam env PAM_SYSTEM_ERR ''Unable to change to user'' w
                   else do {
                     (error_code, w) \<leftarrow> call_pam env (Pam_setcred (cred_flags w)) w;
                     if error_code \<noteq> PAM_SUCCESS
                     then fail_pam env error_code (pam_strerror env error_code) w
                     else do {
                       w \<leftarrow> report User_accredited w;
                       Some (Inr (), w\<lparr>state := MDM_SESSION_WORKER_STATE_ACCREDITED\<rparr>)
                     }
                   }
                 })
          })"

subsection \<open>Opening the session\<close>

definition mdm_session_worker_open_user_session :: "env \<Rightarrow> unit result wop" where
  "mdm_session_worker_open_user_session env w =
     (if state w \<noteq> MDM_SESSION_WORKER_STATE_ACCREDITED then None
      else let (euid, w) = syscall env Geteuid w
      in if euid \<noteq> 0 then None
      else do {
        (error_code, w) \<leftarrow> call_pam env Pam_open_session w;
        if error_code \<noteq> PAM_SUCCESS
        then fail_pam env error_code (pam_strerror env error_code) w
        else do {
          let w = w\<lparr>state := MDM_SESSION_WORKER_STATE_SESSION_OPENED\<rparr>;
          w \<leftarrow> report Login w;
          Some (Inr (), w)
        }
      })"

end
