(* ===== verification/Worker_Session.thy ===== *)
theory Worker_Session
  imports Worker_Pam
begin

text \<open>
  Starting the user's session: the environment PAM contributes, the registration with ConsoleKit,
  the child process with its log file and saved settings, and the search of \<open>PATH\<close> for the
  session's program.
\<close>

subsection \<open>The environment from PAM\<close>

text \<open>\<open>g_strsplit (s, "=", 2)\<close>: the name, and the value unless there is no sign at all.\<close>

definition split_variable :: "string \<Rightarrow> string \<times> string option" where
  "split_variable s =
     (takeWhile (\<lambda>c. c \<noteq> CHR ''='') s,
      (case dropWhile (\<lambda>c. c \<noteq> CHR ''='') s of [] \<Rightarrow> None | _ # val \<Rightarrow> Some val))"

definition mdm_session_worker_update_environment_from_pam :: "env \<Rightarrow> worker \<Rightarrow> worker" where
  "mdm_session_worker_update_environment_from_pam env w =
     fold (\<lambda>variable w. case split_variable variable of
             (key, val) \<Rightarrow> mdm_session_worker_set_environment_variable key val w)
       (pam_environment env (trace w)) w"

text \<open>The array for the program: a variable without a value is left out. The order is that of
  the hash table in the code.\<close>

definition mdm_session_worker_fill_environment_array ::
  "string \<times> string option \<Rightarrow> string list \<Rightarrow> string list" where
  "mdm_session_worker_fill_environment_array kv array =
     (case snd kv of None \<Rightarrow> array | Some val \<Rightarrow> array @ [fst kv @ ''='' @ val])"

definition mdm_session_worker_get_environment :: "worker \<Rightarrow> string list" where
  "mdm_session_worker_get_environment w =
     fold mdm_session_worker_fill_environment_array (environment w) []"

subsection \<open>ConsoleKit\<close>

definition or_empty :: "string option \<Rightarrow> string" where
  "or_empty s = (case s of Some x \<Rightarrow> x | None \<Rightarrow> [])"

definition open_ck_session :: "env \<Rightarrow> bool wop" where
  "open_ck_session env w =
     (let display_name = or_empty (x11_display_name w);
          display_hostname = or_empty (hostname w);
          device = or_empty (display_device w)
      in case username w of
           None \<Rightarrow> None
         | Some user \<Rightarrow>
             let is_local = (display_hostname = [] \<or> display_hostname = ''localhost'')
             in do {
               (_, pwent) \<leftarrow> mdm_get_pwent_for_name (getpwnam_answer env (trace w) user);
               (case pwent of
                  None \<Rightarrow> Some (False, w)
                | Some pw \<Rightarrow>
                    let w = w\<lparr>ckc := ck_connector env (trace w)\<rparr>
                    in if \<not> ckc w then Some (False, w)
                    else let w = emit (CK_open display_name device display_hostname user is_local
                                         (pw_uid pw)) w
                    in Some (ck_opens env (trace w), w))
             })"

definition register_ck_session :: "env \<Rightarrow> worker \<Rightarrow> worker option" where
  "register_ck_session env w =
     do {
       (res, w) \<leftarrow> open_ck_session env w;
       let session_cookie = (if res then ck_cookie env (trace w) else None);
       Some (case session_cookie of
               None \<Rightarrow> w
             | Some cookie \<Rightarrow>
                 mdm_session_worker_set_environment_variable ''XDG_SESSION_COOKIE'' (Some cookie) w)
     }"

subsection \<open>Executing a program\<close>

text \<open>
  \<open>execve\<close> does not return when it works; the sum is \<^term>\<open>Inl\<close> of the worker whose process now
  runs the program, \<^term>\<open>Inr\<close> of the error. The second function is \<open>script_execute\<close>: the shell
  runs the file.
\<close>

definition execve :: "env \<Rightarrow> string \<Rightarrow> string list \<Rightarrow> string list \<Rightarrow> worker \<Rightarrow> worker + errno \<times> worker" where
  "execve env path argv envp w =
     (case syscall env (Execve path argv envp) w of
        (r, w) \<Rightarrow> if r < 0 then Inr (sys_errno env (trace w), w) else Inl w)"

definition script_execute ::
  "env \<Rightarrow> string \<Rightarrow> string list \<Rightarrow> string list \<Rightarrow> worker \<Rightarrow> worker + errno \<times> worker" where
  "script_execute env file argv envp w =
     execve env ''/bin/sh'' (''/bin/sh'' # file # tl argv) envp w"

text \<open>One attempt: the program itself, and the shell on it when it is no executable format.\<close>

definition try_execute ::
  "env \<Rightarrow> string \<Rightarrow> string list \<Rightarrow> string list \<Rightarrow> worker \<Rightarrow> worker + errno \<times> worker" where
  "try_execute env file argv envp w =
     (case execve env file argv envp w of
        Inl w \<Rightarrow> Inl w
      | Inr (e, w) \<Rightarrow> if e = ENOEXEC then script_execute env file argv envp w else Inr (e, w))"

text \<open>The elements of a search path; \<open>n\<close> colons separate \<open>n + 1\<close> elements, which may be empty.\<close>

fun path_elements :: "string \<Rightarrow> string list" where
  "path_elements [] = [[]]"
| "path_elements (c # cs) =
     (if c = CHR '':'' then [] # path_elements cs
      else (c # hd (path_elements cs)) # tl (path_elements cs))"

text \<open>An empty element is the current directory: the name is used as it is.\<close>

definition path_candidate :: "string \<Rightarrow> string \<Rightarrow> string" where
  "path_candidate dir file = (if dir = [] then file else dir @ ''/'' @ file)"

text \<open>The loop over the search path: a missing or forbidden program moves it on.\<close>

fun search_path_loop ::
  "env \<Rightarrow> string \<Rightarrow> string list \<Rightarrow> string list \<Rightarrow> string list \<Rightarrow> bool \<Rightarrow> errno \<Rightarrow> worker
     \<Rightarrow> worker + errno \<times> worker" where
  "search_path_loop env file argv envp [] got_eacces err w =
     Inr (if got_eacces then EACCES else err, w)"
| "search_path_loop env file argv envp (dir # dirs) got_eacces err w =
     (case try_execute env (path_candidate dir file) argv envp w of
        Inl w \<Rightarrow> Inl w
      | Inr (e, w) \<Rightarrow>
          if e = EACCES then search_path_loop env file argv envp dirs True e w
          else if e = ENOENT \<or> e = ESTALE \<or> e = ENOTDIR
          then search_path_loop env file argv envp dirs got_eacces e w
          else Inr (e, w))"

definition default_search_path :: string where
  "default_search_path = ''/bin:/usr/bin:.''"

definition mdm_session_execute ::
  "env \<Rightarrow> string \<Rightarrow> string list \<Rightarrow> string list \<Rightarrow> bool \<Rightarrow> worker \<Rightarrow> worker + errno \<times> worker" where
  "mdm_session_execute env file argv envp search_path w =
     (if file = [] then Inr (ENOENT, w)
      else if \<not> search_path \<or> CHR ''/'' \<in> set file
      then try_execute env file argv envp w
      else let path = (case getenv_path env of Some p \<Rightarrow> p | None \<Rightarrow> default_search_path)
           in search_path_loop env file argv envp (path_elements path) False ENOENT w)"

subsection \<open>The child's log file\<close>

definition MDM_SESSION_LOG_FILENAME :: string where
  "MDM_SESSION_LOG_FILENAME = ''.xsession-errors''"

definition fd_is_normal_file :: "env \<Rightarrow> int \<Rightarrow> worker \<Rightarrow> bool \<times> worker" where
  "fd_is_normal_file env fd w =
     (case syscall env (Fstat_is_regular fd) w of (r, w) \<Rightarrow> (r > 0, w))"

text \<open>The rename of an old log; the \<open>access\<close> calls are short-circuited.\<close>

definition rotate_log :: "env \<Rightarrow> string \<Rightarrow> string \<Rightarrow> worker \<Rightarrow> worker" where
  "rotate_log env dir filename w =
     (case syscall env (Access dir) w of
        (r, w) \<Rightarrow> if r \<noteq> 0 then w
                  else case syscall env (Access filename) w of
                         (r, w) \<Rightarrow> if r \<noteq> 0 then w
                                   else snd (syscall env (Rename filename (filename @ ''.old'')) w))"

text \<open>The descriptor to log to, -1 for none: the log file, or a temporary one next to it.\<close>

definition open_log_file :: "env \<Rightarrow> string \<Rightarrow> worker \<Rightarrow> int \<times> worker" where
  "open_log_file env filename w =
     (let (fd, w) = syscall env (Open filename) w;
          (normal, w) = (if fd < 0 then (False, w) else fd_is_normal_file env fd w)
      in if fd < 0 \<or> \<not> normal
         then let w = snd (syscall env (Close fd) w)
              in syscall env (Mkstemp (filename @ ''.XXXXXXXX'')) w
         else let (r, w) = syscall env (Ftruncate fd) w
              in if r < 0 then (-1, snd (syscall env (Close fd) w)) else (fd, w))"

definition open_session_log :: "env \<Rightarrow> string option \<Rightarrow> worker \<Rightarrow> int \<times> worker" where
  "open_session_log env home_dir w =
     (let dir = or_empty home_dir;
          filename = g_build_filename (case home_dir of None \<Rightarrow> [] | Some d \<Rightarrow> [d, MDM_SESSION_LOG_FILENAME]);
          w = (if home_dir = None then w else rotate_log env dir filename w);
          (fd, w) = open_log_file env filename w;
          (fd, w) =
            (if fd < 0 then (fd, w)
             else let (r, w) = syscall env (Fchmod fd) w
                  in if r < 0 then (-1, snd (syscall env (Close fd) w)) else (fd, w))
      in if fd < 0 then syscall env (Open ''/dev/null'') w else (fd, w))"

subsection \<open>The child process\<close>

text \<open>
  The settings are written when there are any, and the user's files are cached. Without a home
  directory \<open>mdm_session_settings_save\<close> returns \<open>FALSE\<close> and sets no error, whose message is
  then read: a NULL dereference. For a failsafe session it writes nothing.
\<close>

definition save_user_settings :: "env \<Rightarrow> string option \<Rightarrow> worker \<Rightarrow> worker option" where
  "save_user_settings env home_dir w =
     (case user_settings w of
        None \<Rightarrow> None
      | Some settings \<Rightarrow>
          if \<not> mdm_session_settings_is_loaded settings
          then mdm_session_worker_cache_userfiles env w
          else do {
            home \<leftarrow> home_dir;
            let w = (if failsafe settings then w
                     else snd (syscall env (Write_settings (g_build_filename [home, ''.dmrc''])) w));
            mdm_session_worker_cache_userfiles env w
          })"

datatype child_end = Exited nat | Runs_program

text \<open>
  The child between \<open>fork\<close> and \<open>execve\<close>. The assertion on the user ids holds after a \<open>setuid\<close> that
  worked and is not modelled.
\<close>

definition session_child :: "env \<Rightarrow> worker \<Rightarrow> (child_end \<times> worker) option" where
  "session_child env w =
     do {
       let w = snd (mdm_session_worker_create_cachedir env w);
       let (r, w) = syscall env (Setuid (uid w)) w;
       if r < 0 then Some (Exited 1, w)
       else do {
         let (r, w) = syscall env Setsid w;
         if r < 0 then Some (Exited 2, w)
         else do {
           let envp = mdm_session_worker_get_environment w;
           let home_dir = (case map_of (environment w) ''HOME'' of Some h \<Rightarrow> h | None \<Rightarrow> None);
           let w = (case home_dir of
                      None \<Rightarrow> snd (syscall env (Chdir ''/'') w)
                    | Some dir \<Rightarrow> (case syscall env (Chdir dir) w of
                        (r, w) \<Rightarrow> if r < 0 then snd (syscall env (Chdir ''/'') w) else w));
           let (fd, w) = syscall env (Open ''/dev/null'') w;
           let w = snd (syscall env (Close fd) (snd (syscall env (Dup2 fd 0) w)));
           let (fd, w) = open_session_log env home_dir w;
           let w = snd (syscall env (Dup2 fd 2) (snd (syscall env (Dup2 fd 1) w)));
           let w = snd (syscall env (Close fd) w);
           w \<leftarrow> save_user_settings env home_dir w;
           argv \<leftarrow> arguments w;
           (case argv of
              [] \<Rightarrow> None
            | file # _ \<Rightarrow>
                (case mdm_session_execute env file argv envp True w of
                   Inl w \<Rightarrow> Some (Runs_program, w)
                 | Inr (e, w) \<Rightarrow> Some (Exited 127, w)))
         }
       }
     }"

subsection \<open>The worker's side\<close>

definition mdm_session_worker_watch_child :: "worker \<Rightarrow> worker" where
  "mdm_session_worker_watch_child w = w\<lparr>child_watch_id := True, child_watch_armed := True\<rparr>"

text \<open>
  In the child \<open>fork\<close> answers 0 and the code continues with \<^const>\<open>session_child\<close>: for the worker
  proper that answer is \<^term>\<open>None\<close>. So is a NULL \<open>arguments\<close>, whose first element is read.
\<close>

definition mdm_session_worker_start_user_session :: "env \<Rightarrow> unit result wop" where
  "mdm_session_worker_start_user_session env w =
     do {
       let w = mdm_session_worker_update_environment_from_pam env w;
       w \<leftarrow> register_ck_session env w;
       user \<leftarrow> username w;
       _ \<leftarrow> mdm_get_pwent_for_name (getpwnam_answer env (trace w) user);
       _ \<leftarrow> arguments w;
       let (session_pid, w) = syscall env Fork w;
       if session_pid < 0
       then fail_pam env PAM_ABORT (strerror env (sys_errno env (trace w))) w
       else if session_pid = 0 then None
       else do {
         let w = w\<lparr>child_pid := session_pid\<rparr>;
         let w = w\<lparr>state := MDM_SESSION_WORKER_STATE_SESSION_STARTED\<rparr>;
         Some (Inr (), mdm_session_worker_watch_child w)
       }
     }"

end
