(* ===== verification/Worker_Machine.thy ===== *)
theory Worker_Machine
  imports Worker_Session
begin

text \<open>
  The session worker as an event-driven machine: the six steps of the login, the handlers of the
  daemon's signals, the idle callback that takes the next step, and the end of the session's
  process. \<open>worker_step\<close> delivers one event; what the main loop cannot deliver in a state (the
  idle callback when none is queued, the child watch when none is armed, a message after the
  connection is gone) changes nothing.
\<close>

subsection \<open>The steps of the login\<close>

text \<open>The answer of a step to the daemon: a failure with its message, or success.\<close>

definition answer_step ::
  "env \<Rightarrow> string \<Rightarrow> string \<Rightarrow> unit result \<times> worker \<Rightarrow> worker" where
  "answer_step env failed done rw =
     (case rw of
        (Inl message, w) \<Rightarrow> snd (send_dbus_string_method env failed (Some message) w)
      | (Inr _, w) \<Rightarrow> snd (send_dbus_void_method env done w))"

definition do_setup :: "env \<Rightarrow> worker \<Rightarrow> worker option" where
  "do_setup env w =
     do {
       let w = w\<lparr>user_settings := Some mdm_session_settings_new\<rparr>;
       let w = (case username w of
                  None \<Rightarrow> w
                | Some user \<Rightarrow> attempt_to_load_user_settings env user w);
       rw \<leftarrow> mdm_session_worker_initialize_pam env w;
       Some (answer_step env ''SetupFailed'' ''SetupComplete'' rw)
     }"

definition do_authenticate :: "env \<Rightarrow> worker \<Rightarrow> worker option" where
  "do_authenticate env w =
     do {
       (res, w) \<leftarrow> mdm_session_worker_authenticate_user env (password_is_required w) w;
       (case res of
          Inl message \<Rightarrow>
            Some (snd (send_dbus_string_method env ''AuthenticationFailed'' (Some message) w))
        | Inr _ \<Rightarrow> do {
            w \<leftarrow> mdm_session_worker_update_username env w;
            Some (snd (send_dbus_void_method env ''Authenticated'' w))
          })
     }"

definition do_authorize :: "env \<Rightarrow> worker \<Rightarrow> worker option" where
  "do_authorize env w =
     do {
       rw \<leftarrow> mdm_session_worker_authorize_user env (password_is_required w) w;
       Some (answer_step env ''AuthorizationFailed'' ''Authorized'' rw)
     }"

definition do_accredit :: "env \<Rightarrow> worker \<Rightarrow> worker option" where
  "do_accredit env w =
     do {
       rw \<leftarrow> mdm_session_worker_accredit_user env w;
       Some (answer_step env ''AccreditationFailed'' ''Accredited'' rw)
     }"

definition do_open_session :: "env \<Rightarrow> worker \<Rightarrow> worker option" where
  "do_open_session env w =
     do {
       rw \<leftarrow> mdm_session_worker_open_user_session env w;
       Some (answer_step env ''OpenFailed'' ''SessionOpened'' rw)
     }"

definition do_start_session :: "env \<Rightarrow> worker \<Rightarrow> worker option" where
  "do_start_session env w =
     do {
       (res, w) \<leftarrow> mdm_session_worker_start_user_session env w;
       Some (case res of
               Inl message \<Rightarrow> snd (send_dbus_string_method env ''StartFailed'' (Some message) w)
             | Inr _ \<Rightarrow> snd (send_dbus_int_method env ''SessionStarted'' (child_pid w) w))
     }"

text \<open>The name of a state; the states behind \<open>SESSION_STARTED\<close> have none and assert.\<close>

definition get_state_name :: "nat \<Rightarrow> string option" where
  "get_state_name s =
     (if s = MDM_SESSION_WORKER_STATE_NONE then Some ''NONE''
      else if s = MDM_SESSION_WORKER_STATE_SETUP_COMPLETE then Some ''SETUP_COMPLETE''
      else if s = MDM_SESSION_WORKER_STATE_AUTHENTICATED then Some ''AUTHENTICATED''
      else if s = MDM_SESSION_WORKER_STATE_AUTHORIZED then Some ''AUTHORIZED''
      else if s = MDM_SESSION_WORKER_STATE_ACCREDITED then Some ''ACCREDITED''
      else if s = MDM_SESSION_WORKER_STATE_SESSION_OPENED then Some ''SESSION_OPENED''
      else if s = MDM_SESSION_WORKER_STATE_SESSION_STARTED then Some ''SESSION_STARTED''
      else None)"

definition state_change_idle :: "env \<Rightarrow> worker \<Rightarrow> worker option" where
  "state_change_idle env w =
     do {
       let new_state = state w + 1;
       _ \<leftarrow> get_state_name new_state;
       let w = w\<lparr>state_change_idle_id := False\<rparr>;
       if new_state = MDM_SESSION_WORKER_STATE_SETUP_COMPLETE then do_setup env w
       else if new_state = MDM_SESSION_WORKER_STATE_AUTHENTICATED then do_authenticate env w
       else if new_state = MDM_SESSION_WORKER_STATE_AUTHORIZED then do_authorize env w
       else if new_state = MDM_SESSION_WORKER_STATE_ACCREDITED then do_accredit env w
       else if new_state = MDM_SESSION_WORKER_STATE_SESSION_OPENED then do_open_session env w
       else if new_state = MDM_SESSION_WORKER_STATE_SESSION_STARTED then do_start_session env w
       else None
     }"

definition queue_state_change :: "worker \<Rightarrow> worker" where
  "queue_state_change w =
     (if state_change_idle_id w then w else w\<lparr>state_change_idle_id := True\<rparr>)"

subsection \<open>The handlers of the daemon's signals\<close>

text \<open>A signal carries its arguments, \<^term>\<open>None\<close> when they cannot be read.\<close>

datatype signal =
    Setup "(string \<times> string \<times> string \<times> string \<times> string) option"
  | SetupForUser "(string \<times> string \<times> string \<times> string \<times> string \<times> string) option"
  | Authenticate | Authorize | EstablishCredentials | OpenSession
  | StartProgram "string option" | Reauthenticate | Reauthorize | RefreshCredentials
  | SetEnvironmentVariable "(string \<times> string) option"
  | SetLanguageName "string option" | SetLayoutName "string option"
  | SetSessionName "string option" | SetIsFailsafe "bool option"
  | Unknown_signal

text \<open>A message that does not fit the state is only logged, with the state's name.\<close>

definition ignore_spurious :: "worker \<Rightarrow> worker option" where
  "ignore_spurious w = do { _ \<leftarrow> get_state_name (state w); Some w }"

definition on_start_program :: "env \<Rightarrow> string option \<Rightarrow> worker \<Rightarrow> worker option" where
  "on_start_program env args w =
     (if state w \<noteq> MDM_SESSION_WORKER_STATE_SESSION_OPENED then ignore_spurious w
      else case args of
             None \<Rightarrow> Some w
           | Some text \<Rightarrow>
               let w = w\<lparr>arguments := None\<rparr>
               in (case shell_parse_argv env text of
                     None \<Rightarrow> Some w
                   | Some argv \<Rightarrow> Some (queue_state_change (w\<lparr>arguments := Some argv\<rparr>))))"

definition on_setup ::
  "(string \<times> string \<times> string \<times> string \<times> string) option \<Rightarrow> worker \<Rightarrow> worker option" where
  "on_setup args w =
     (if state w \<noteq> MDM_SESSION_WORKER_STATE_NONE then ignore_spurious w
      else case args of
             None \<Rightarrow> Some w
           | Some (service', display', console', host', authority') \<Rightarrow>
               Some (queue_state_change
                 (w\<lparr>service := Some service', x11_display_name := Some display',
                    x11_authority_file := Some authority', display_device := Some console',
                    hostname := Some host', username := None\<rparr>)))"

definition on_setup_for_user ::
  "(string \<times> string \<times> string \<times> string \<times> string \<times> string) option \<Rightarrow> worker \<Rightarrow> worker option" where
  "on_setup_for_user args w =
     (if state w \<noteq> MDM_SESSION_WORKER_STATE_NONE then ignore_spurious w
      else case args of
             None \<Rightarrow> Some w
           | Some (service', display', console', host', authority', user') \<Rightarrow>
               Some (queue_state_change
                 (w\<lparr>service := Some service', x11_display_name := Some display',
                    x11_authority_file := Some authority', display_device := Some console',
                    hostname := Some host', username := Some user'\<rparr>)))"

definition on_authenticate :: "worker \<Rightarrow> worker option" where
  "on_authenticate w =
     (if state w \<noteq> MDM_SESSION_WORKER_STATE_SETUP_COMPLETE then ignore_spurious w
      else Some (queue_state_change w))"

definition on_authorize :: "worker \<Rightarrow> worker option" where
  "on_authorize w =
     (if state w \<noteq> MDM_SESSION_WORKER_STATE_AUTHENTICATED then ignore_spurious w
      else Some (queue_state_change w))"

definition on_establish_credentials :: "worker \<Rightarrow> worker option" where
  "on_establish_credentials w =
     (if state w \<noteq> MDM_SESSION_WORKER_STATE_AUTHORIZED then ignore_spurious w
      else Some (queue_state_change (w\<lparr>cred_flags := PAM_ESTABLISH_CRED\<rparr>)))"

definition on_open_session :: "worker \<Rightarrow> worker option" where
  "on_open_session w =
     (if state w \<noteq> MDM_SESSION_WORKER_STATE_ACCREDITED then ignore_spurious w
      else Some (queue_state_change w))"

definition on_reauthenticate :: "worker \<Rightarrow> worker option" where
  "on_reauthenticate w =
     (if state w \<noteq> MDM_SESSION_WORKER_STATE_SESSION_STARTED then ignore_spurious w
      else Some (queue_state_change w))"

definition on_reauthorize :: "worker \<Rightarrow> worker option" where
  "on_reauthorize w =
     (if state w \<noteq> MDM_SESSION_WORKER_STATE_REAUTHENTICATED then ignore_spurious w
      else Some (queue_state_change w))"

definition on_refresh_credentials :: "env \<Rightarrow> worker \<Rightarrow> worker option" where
  "on_refresh_credentials env w =
     (if state w \<noteq> MDM_SESSION_WORKER_STATE_REAUTHORIZED then ignore_spurious w
      else map_option snd (call_pam env (Pam_setcred PAM_REFRESH_CRED) w))"

definition on_set_environment_variable :: "(string \<times> string) option \<Rightarrow> worker \<Rightarrow> worker option" where
  "on_set_environment_variable args w =
     (case args of
        None \<Rightarrow> Some w
      | Some (key, val) \<Rightarrow> Some (mdm_session_worker_set_environment_variable key (Some val) w))"

text \<open>A setter of the settings object, whose guard lets a NULL object pass without effect.\<close>

definition change_settings ::
  "env \<Rightarrow> (session_settings \<Rightarrow> session_settings \<times> notifications) \<Rightarrow> worker \<Rightarrow> worker" where
  "change_settings env change w =
     (case user_settings w of
        None \<Rightarrow> w
      | Some settings \<Rightarrow>
          (case change settings of
             (settings, ns) \<Rightarrow> deliver_notifications env ns (w\<lparr>user_settings := Some settings\<rparr>)))"

definition on_set_session_name :: "env \<Rightarrow> string option \<Rightarrow> worker \<Rightarrow> worker option" where
  "on_set_session_name env args w =
     (case args of
        None \<Rightarrow> Some w
      | Some name \<Rightarrow>
          Some (change_settings env (\<lambda>s. mdm_session_settings_set_session_name s name) w))"

definition on_set_is_session_failsafe :: "env \<Rightarrow> bool option \<Rightarrow> worker \<Rightarrow> worker option" where
  "on_set_is_session_failsafe env args w =
     (case args of
        None \<Rightarrow> Some w
      | Some b \<Rightarrow> Some (change_settings env (\<lambda>s. mdm_session_settings_set_is_failsafe s b) w))"

definition on_set_language_name :: "env \<Rightarrow> string option \<Rightarrow> worker \<Rightarrow> worker option" where
  "on_set_language_name env args w =
     (case args of
        None \<Rightarrow> Some w
      | Some name \<Rightarrow>
          Some (change_settings env (\<lambda>s. mdm_session_settings_set_language_name s name) w))"

definition on_set_layout_name :: "env \<Rightarrow> string option \<Rightarrow> worker \<Rightarrow> worker option" where
  "on_set_layout_name env args w =
     (case args of
        None \<Rightarrow> Some w
      | Some name \<Rightarrow>
          Some (change_settings env (\<lambda>s. mdm_session_settings_set_layout_name s name) w))"

definition worker_dbus_handle_message :: "env \<Rightarrow> signal \<Rightarrow> worker \<Rightarrow> worker option" where
  "worker_dbus_handle_message env message w =
     (case message of
        Setup args \<Rightarrow> on_setup args w
      | SetupForUser args \<Rightarrow> on_setup_for_user args w
      | Authenticate \<Rightarrow> on_authenticate w
      | Authorize \<Rightarrow> on_authorize w
      | EstablishCredentials \<Rightarrow> on_establish_credentials w
      | OpenSession \<Rightarrow> on_open_session w
      | StartProgram args \<Rightarrow> on_start_program env args w
      | Reauthenticate \<Rightarrow> on_reauthenticate w
      | Reauthorize \<Rightarrow> on_reauthorize w
      | RefreshCredentials \<Rightarrow> on_refresh_credentials env w
      | SetEnvironmentVariable args \<Rightarrow> on_set_environment_variable args w
      | SetLanguageName args \<Rightarrow> on_set_language_name env args w
      | SetLayoutName args \<Rightarrow> on_set_layout_name env args w
      | SetSessionName args \<Rightarrow> on_set_session_name env args w
      | SetIsFailsafe args \<Rightarrow> on_set_is_session_failsafe env args w
      | Unknown_signal \<Rightarrow> Some w)"

subsection \<open>The end of the session's process\<close>

datatype wait_status = Status int | Signal int | Unknown_status

definition close_ck_session :: "worker \<Rightarrow> worker" where
  "close_ck_session w = (if ckc w then emit CK_close (w\<lparr>ckc := False\<rparr>) else w)"

definition session_worker_child_watch :: "env \<Rightarrow> wait_status \<Rightarrow> worker \<Rightarrow> worker option" where
  "session_worker_child_watch env status w =
     do {
       let w = (case status of
                  Status code \<Rightarrow> snd (send_dbus_int_method env ''SessionExited'' code w)
                | Signal num \<Rightarrow> snd (send_dbus_int_method env ''SessionDied'' num w)
                | Unknown_status \<Rightarrow> w);
       let w = close_ck_session w;
       w \<leftarrow> mdm_session_worker_uninitialize_pam env PAM_SUCCESS w;
       Some (w\<lparr>child_pid := -1\<rparr>)
     }"

subsection \<open>The machine\<close>

datatype event = Message signal | Idle | Child_ended wait_status | Disconnected

text \<open>The connection's filter: after the disconnection the library ends the process.\<close>

definition worker_dbus_filter_function :: "env \<Rightarrow> event \<Rightarrow> worker \<Rightarrow> worker option" where
  "worker_dbus_filter_function env e w =
     (case e of
        Disconnected \<Rightarrow> Some (w\<lparr>connection := False\<rparr>)
      | Message message \<Rightarrow> worker_dbus_handle_message env message w
      | _ \<Rightarrow> Some w)"

definition worker_step :: "env \<Rightarrow> event \<Rightarrow> worker \<Rightarrow> worker option" where
  "worker_step env e w =
     (if \<not> connection w then Some w
      else case e of
             Idle \<Rightarrow> if state_change_idle_id w then state_change_idle env w else Some w
           | Child_ended status \<Rightarrow>
               if child_watch_armed w
               then session_worker_child_watch env status (w\<lparr>child_watch_armed := False\<rparr>)
               else Some w
           | _ \<Rightarrow> worker_dbus_filter_function env e w)"

end
