(* ===== verification/Worker_Invariant.thy ===== *)
theory Worker_Invariant
  imports Worker_Machine
begin

text \<open>
  The worker refines the PAM protocol: an invariant ties its state variable to the phase of the
  abstract automaton of \<^theory_text>\<open>Pam_Protocol\<close>, every operation keeps it, and so does every event.

  Nothing is asked of the outside world: PAM answers any call in any way, and a failed \<open>pam_start\<close> may
  leave a handle or not.
\<close>

definition phase_of_state :: "nat \<Rightarrow> pam_phase" where
  "phase_of_state s =
     (if s = MDM_SESSION_WORKER_STATE_NONE then No_transaction
      else if s = MDM_SESSION_WORKER_STATE_SETUP_COMPLETE then Started
      else if s = MDM_SESSION_WORKER_STATE_AUTHENTICATED then Authenticated
      else if s = MDM_SESSION_WORKER_STATE_AUTHORIZED then Account_ok
      else if s = MDM_SESSION_WORKER_STATE_ACCREDITED then Credentialed
      else Session_open)"

text \<open>Without a transaction the worker does not remember whether its last \<open>pam_start\<close> failed.\<close>

definition phase_fits :: "nat \<Rightarrow> pam_phase \<Rightarrow> bool" where
  "phase_fits s p \<longleftrightarrow>
     p = phase_of_state s \<or> (s = MDM_SESSION_WORKER_STATE_NONE \<and> p = Start_failed)"

definition worker_inv :: "worker \<Rightarrow> bool" where
  "worker_inv w \<longleftrightarrow>
     state w \<le> MDM_SESSION_WORKER_STATE_SESSION_STARTED \<and>
     (\<exists>p. pam_phase_of (trace w) = Some p \<and> phase_fits (state w) p) \<and>
     (pam_handle w \<longleftrightarrow> state w \<noteq> MDM_SESSION_WORKER_STATE_NONE) \<and>
     (pam_handle w \<longrightarrow> auditor w \<noteq> None \<and> user_settings w \<noteq> None) \<and>
     (state w = MDM_SESSION_WORKER_STATE_AUTHORIZED \<and> state_change_idle_id w \<longrightarrow>
        cred_flags w = PAM_ESTABLISH_CRED) \<and>
     (child_watch_armed w \<longleftrightarrow> state w = MDM_SESSION_WORKER_STATE_SESSION_STARTED) \<and>
     \<not> password_is_required w"

lemma worker_inv_init: "worker_inv mdm_session_worker_init"
  by (simp add: worker_inv_def mdm_session_worker_init_def phase_fits_def phase_of_state_def)

lemma worker_inv_phase:
  assumes "worker_inv w" and "state w \<noteq> MDM_SESSION_WORKER_STATE_NONE"
  shows "pam_phase_of (trace w) = Some (phase_of_state (state w))"
  using assms by (auto simp: worker_inv_def phase_fits_def)

subsection \<open>Workers that differ in their conversation only\<close>

definition alike :: "worker \<Rightarrow> worker \<Rightarrow> bool" where
  "alike w w' \<longleftrightarrow> core w' = core w \<and> (user_settings w' = None \<longleftrightarrow> user_settings w = None) \<and>
     (auditor w' = None \<longleftrightarrow> auditor w = None)"

lemma alike_refl [simp, intro]: "alike w w"
  by (simp add: alike_def)

lemma alike_trans [trans]: "alike u v \<Longrightarrow> alike v w \<Longrightarrow> alike u w"
  by (simp add: alike_def)

lemma alike_fields:
  assumes "alike w w'"
  shows "state w' = state w" "pam_handle w' = pam_handle w"
    "child_pid w' = child_pid w" "child_watch_armed w' = child_watch_armed w"
    "password_is_required w' = password_is_required w" "cred_flags w' = cred_flags w"
    "arguments w' = arguments w" "environment w' = environment w"
    "state_change_idle_id w' = state_change_idle_id w" "connection w' = connection w"
    "uid w' = uid w" "gid w' = gid w"
    "user_settings w' = None \<longleftrightarrow> user_settings w = None" "auditor w' = None \<longleftrightarrow> auditor w = None"
    "ckc w' = ckc w"
  using assms core_cong [of w' w] by (simp_all add: alike_def)

lemma alike_emit [simp, intro]: "alike w (emit e w)"
  by (simp add: alike_def core_def emit_def)

lemma alike_quiet: "quiet w w' \<Longrightarrow> alike w w'"
  by (simp add: alike_def quiet_def)

lemma alike_call_pam: "call_pam env c w = Some (rc, w') \<Longrightarrow> alike w w'"
  using call_pam_effect by (auto simp: alike_def)

lemma syscall_alike [simp]: "alike w (snd (syscall env c w))"
  by (simp add: syscall_def Let_def)

lemma syscall_phase [simp]: "pam_phase_of (trace (snd (syscall env c w))) = pam_phase_of (trace w)"
  by (cases "pam_phase_of (trace w)") (simp_all add: syscall_def Let_def)

lemma report_effect:
  assumes "report r w = Some w'"
  shows "alike w w'" and "pam_phase_of (trace w') = pam_phase_of (trace w)"
  using assms by (cases "pam_phase_of (trace w)"; auto simp: report_def split: option.splits)+

text \<open>The part of the invariant that no step of the login changes.\<close>

definition stable :: "worker \<Rightarrow> worker \<Rightarrow> bool" where
  "stable w w' \<longleftrightarrow> state_change_idle_id w' = state_change_idle_id w \<and>
     password_is_required w' = password_is_required w \<and> connection w' = connection w \<and>
     (user_settings w' = None \<longleftrightarrow> user_settings w = None)"

lemma stable_trans [trans]: "stable u v \<Longrightarrow> stable v w \<Longrightarrow> stable u w"
  by (simp add: stable_def)

lemma alike_stable: "alike w w' \<Longrightarrow> stable w w'"
  by (simp add: stable_def alike_fields)

lemma worker_inv_alike:
  assumes "alike w w'" and "pam_phase_of (trace w') = pam_phase_of (trace w)"
  shows "worker_inv w' = worker_inv w"
  using assms(2) by (simp add: worker_inv_def alike_fields [OF assms(1)])

lemma worker_inv_quiet: "quiet w w' \<Longrightarrow> worker_inv w' = worker_inv w"
  by (rule worker_inv_alike [OF alike_quiet quiet_fields(14)])

subsection \<open>The end of a transaction\<close>

lemma close_opened_session_effect:
  assumes "close_opened_session env w = Some w'"
    and "pam_phase_of (trace w) = Some Session_open"
  shows "alike w w'" and "pam_phase_of (trace w') = Some Session_closed"
proof -
  let ?u = "snd (syscall env Fork w)"
  from assms(1) obtain rc v where v: "call_pam env Pam_close_session ?u = Some (rc, v)"
    and w': "report Logout v = Some w'"
    by (auto simp: close_opened_session_def bind_eq_Some_conv Let_def split_beta split: if_splits)
  have "alike ?u w'" using alike_call_pam [OF v] report_effect(1) [OF w'] by (rule alike_trans)
  with syscall_alike show "alike w w'" by (rule alike_trans)
  show "pam_phase_of (trace w') = Some Session_closed"
    using assms(2) by (simp add: report_effect(2) [OF w'] call_pam_effect(4) [OF v] pam_phase_step_def)
qed

lemma report_failed_login_effect:
  assumes "report_failed_login env status w = Some w'"
  shows "alike w w'" and "pam_phase_of (trace w') = pam_phase_of (trace w)"
proof -
  define u where "u = (case pam_user_item env (trace w) of
      Some item \<Rightarrow> set_auditor_username item w | None \<Rightarrow> w)"
  have u: "quiet w u" by (simp add: u_def split: option.split)
  have w': "report (Login_failure (pam_strerror env status)) u = Some w'"
    using assms by (simp add: report_failed_login_def u_def)
  show "alike w w'" using alike_quiet [OF u] report_effect(1) [OF w'] by (rule alike_trans)
  show "pam_phase_of (trace w') = pam_phase_of (trace w)"
    by (simp add: report_effect(2) [OF w'] quiet_fields(14) [OF u])
qed

text \<open>The phases in which the code gives up, by the state it is in then.\<close>

definition gives_up_in :: "nat \<Rightarrow> pam_phase \<Rightarrow> bool" where
  "gives_up_in s p \<longleftrightarrow>
     (if s \<ge> MDM_SESSION_WORKER_STATE_SESSION_OPENED then p = Session_open
      else if s = MDM_SESSION_WORKER_STATE_ACCREDITED then p = Open_failed
      else p = Ending \<or> p = Account_ok \<or> p = Start_failed)"

text \<open>No transaction: the state in which every step to \<open>s\<close> that fails ends. Only the first step, the one
  that calls \<open>pam_start\<close>, can end with the failure of this call.\<close>

definition torn_down :: "nat \<Rightarrow> worker \<Rightarrow> bool" where
  "torn_down s w \<longleftrightarrow> state w = MDM_SESSION_WORKER_STATE_NONE \<and> \<not> pam_handle w \<and>
     (pam_phase_of (trace w) = Some No_transaction \<or>
      (s = MDM_SESSION_WORKER_STATE_SETUP_COMPLETE \<and> pam_phase_of (trace w) = Some Start_failed))"

lemma uninitialize_effect:
  assumes "mdm_session_worker_uninitialize_pam env status w = Some w'" and "pam_handle w"
    and "pam_phase_of (trace w) = Some p" and "gives_up_in (state w) p"
  shows "torn_down s w'" and "stable w w'" and "child_watch_armed w' = child_watch_armed w"
    and "ckc w' = ckc w"
proof -
  from assms(1,2) obtain u v rc x where
      u: "(if state w \<ge> 5 then close_opened_session env w else report_failed_login env status w) = Some u"
    and v: "(if state u \<ge> 4 then map_option snd (call_pam env (Pam_setcred PAM_DELETE_CRED) u)
             else Some u) = Some v"
    and x: "call_pam env (Pam_end status) v = Some (rc, x)"
    and w': "w' = x\<lparr>pam_handle := False, auditor := None, state := 0\<rparr>"
    by (auto simp: mdm_session_worker_uninitialize_pam_def bind_eq_Some_conv Let_def
        mdm_session_worker_stop_auditor_def)
  have wu: "alike w u" and pu: "pam_phase_of (trace u) = Some (if state w \<ge> 5 then Session_closed else p)"
    using u assms(3,4) close_opened_session_effect report_failed_login_effect
    by (auto simp: gives_up_in_def split: if_splits)
  have uv: "alike u v" using v alike_call_pam by (auto split: if_splits)
  have "pam_phase_of (trace v) = Some (if state w \<ge> 4 then Ending else p)"
    using v assms(4) pu call_pam_effect(4) alike_fields(1) [OF wu]
    by (auto simp: gives_up_in_def pam_phase_step_def split: if_splits)
  then have px: "pam_phase_of (trace x) = Some No_transaction"
    using assms(4) call_pam_effect(4) [OF x]
    by (auto simp: gives_up_in_def pam_phase_step_def split: if_splits)
  have wx: "alike w x" using wu uv alike_call_pam [OF x] by (blast intro: alike_trans)
  show "torn_down s w'" using px by (simp add: torn_down_def w')
  show "stable w w'" "child_watch_armed w' = child_watch_armed w" "ckc w' = ckc w"
    using alike_fields [OF wx] by (simp_all add: stable_def w')
qed

lemma fail_pam_effect:
  assumes "fail_pam env rc message w = Some (r, w')" and "pam_handle w"
    and "pam_phase_of (trace w) = Some p" and "gives_up_in (state w) p"
  shows "r = Inl message" and "torn_down s w'" and "stable w w'"
    and "child_watch_armed w' = child_watch_armed w"
  using assms uninitialize_effect
  by (auto simp: fail_pam_def bind_eq_Some_conv)

subsection \<open>The outcome of a step\<close>

text \<open>A step to state \<open>s\<close> either fails, and nothing of the transaction is left, or gets there.\<close>

definition outcome :: "nat \<Rightarrow> worker \<Rightarrow> unit result \<Rightarrow> worker \<Rightarrow> bool" where
  "outcome s w r w' \<longleftrightarrow> stable w w' \<and>
     (case r of
        Inl _ \<Rightarrow> torn_down s w' \<and> \<not> child_watch_armed w'
      | Inr _ \<Rightarrow> state w' = s \<and> pam_phase_of (trace w') = Some (phase_of_state s) \<and>
          pam_handle w' \<and> auditor w' \<noteq> None \<and>
          (child_watch_armed w' \<longleftrightarrow> s = MDM_SESSION_WORKER_STATE_SESSION_STARTED))"

lemma outcome_fail:
  assumes "fail_pam env rc message u = Some (r, w')" and "stable w u" and "pam_handle u"
    and "pam_phase_of (trace u) = Some p" and "gives_up_in (state u) p" and "\<not> child_watch_armed u"
  shows "outcome s w r w'"
  using fail_pam_effect [OF assms(1,3,4,5)] stable_trans [OF assms(2)] assms(6)
  by (simp add: outcome_def)

lemma outcome_inv:
  assumes "outcome s w r w'" and "user_settings w \<noteq> None" and "\<not> password_is_required w"
    and "\<not> state_change_idle_id w" and "0 < s" and "s \<le> MDM_SESSION_WORKER_STATE_SESSION_STARTED"
  shows "worker_inv w'"
  using assms
  by (cases r) (auto simp: outcome_def worker_inv_def stable_def torn_down_def phase_of_state_def phase_fits_def)

lemma outcome_stable: "outcome s w r w' \<Longrightarrow> stable w w'"
  by (simp add: outcome_def)

lemma answer_step_quiet: "quiet w (answer_step env f d (r, w))"
  by (auto simp: answer_step_def split: sum.split)

subsection \<open>The steps\<close>

lemma set_pam_items_effect:
  assumes "set_pam_items env items w = Some (err, w')" and "pam_phase_of (trace w) = Some Started"
  shows "alike w w' \<and> pam_phase_of (trace w') = Some (if err = None then Started else Ending)"
  using assms
proof (induction env items w rule: set_pam_items.induct)
  case (1 env w)
  then show ?case by auto
next
  case (2 env item message items w)
  then obtain rc u where u: "call_pam env (Pam_set_item item) w = Some (rc, u)"
    and rest: "(if rc \<noteq> PAM_SUCCESS then Some (Some (rc, message @ pam_strerror env rc), u)
                else set_pam_items env items u) = Some (err, w')"
    by (auto simp: bind_eq_Some_conv)
  have pu: "pam_phase_of (trace u) = Some (if rc = PAM_SUCCESS then Started else Ending)"
    using "2.prems"(2) by (simp add: call_pam_effect(4) [OF u] pam_phase_step_def on_success_def)
  show ?case
  proof (cases "rc = PAM_SUCCESS")
    case True
    with rest pu "2.IH" u have "alike u w' \<and>
        pam_phase_of (trace w') = Some (if err = None then Started else Ending)" by auto
    with alike_call_pam [OF u] show ?thesis by (blast intro: alike_trans)
  next
    case False
    with rest pu alike_call_pam [OF u] show ?thesis by auto
  qed
qed

lemma initialize_pam_outcome:
  assumes "worker_inv w" and "mdm_session_worker_initialize_pam env w = Some (r, w')"
  shows "outcome MDM_SESSION_WORKER_STATE_SETUP_COMPLETE w r w'"
proof -
  have h: "\<not> pam_handle w" using assms(2) by (auto simp: mdm_session_worker_initialize_pam_def split: if_splits)
  with assms(1) have s: "state w = 0" and c: "\<not> child_watch_armed w"
    and p: "pam_phase_of (trace w) = Some No_transaction \<or> pam_phase_of (trace w) = Some Start_failed"
    by (auto simp: worker_inv_def phase_fits_def phase_of_state_def)
  let ?a = "mdm_session_worker_start_auditor w"
  let ?call = "Pam_start (service ?a) (username ?a)"
  let ?u = "emit (Pam_called ?call) ?a"
  define rc where "rc = pam_start_rc env (trace ?u)"
  define x where "x = emit (Pam_returned ?call rc) ?u"
  define v where "v = x\<lparr>pam_handle := (rc = PAM_SUCCESS \<or> failed_start_handle env (trace x))\<rparr>"
  have f: "state v = 0" "\<not> child_watch_armed v" "rc = PAM_SUCCESS \<Longrightarrow> pam_handle v" "stable w v"
    "auditor v \<noteq> None"
    using s c by (simp_all add: v_def x_def mdm_session_worker_start_auditor_def emit_def stable_def)
  have pv: "pam_phase_of (trace v) = Some (if rc = PAM_SUCCESS then Started else Start_failed)"
    using p by (auto simp: v_def x_def mdm_session_worker_start_auditor_def pam_phase_step_def on_success_def)
  have run: "(if rc \<noteq> PAM_SUCCESS then fail_pam env rc (start_error rc) v
      else Option.bind (set_pam_items env (initial_items env w) v)
        (\<lambda>(err, w). case err of Some (rc, message) \<Rightarrow> fail_pam env rc message w
           | None \<Rightarrow> Some (Inr (), w\<lparr>state := 1\<rparr>))) = Some (r, w')"
    using assms(2) h
    unfolding mdm_session_worker_initialize_pam_def Let_def rc_def [symmetric]
      x_def [symmetric] v_def
    by (simp split: if_splits)
  show ?thesis
  proof (cases "rc = PAM_SUCCESS")
    case False
    with run have r: "fail_pam env rc (start_error rc) v = Some (r, w')" by simp
    show ?thesis
    proof (cases "pam_handle v")
      case True
      from r f(4) True show ?thesis
        by (rule outcome_fail [where p = Start_failed]) (use pv False f in \<open>simp_all add: gives_up_in_def\<close>)
    next
      case False
      with r f pv \<open>rc \<noteq> PAM_SUCCESS\<close> show ?thesis
        by (auto simp: fail_pam_def mdm_session_worker_uninitialize_pam_def outcome_def torn_down_def)
    qed
  next
    case True
    with run obtain err x where x: "set_pam_items env (initial_items env w) v = Some (err, x)"
      and rest: "(case err of Some (rc, message) \<Rightarrow> fail_pam env rc message x
           | None \<Rightarrow> Some (Inr (), x\<lparr>state := 1\<rparr>)) = Some (r, w')"
      by (auto simp: bind_eq_Some_conv)
    have vx: "alike v x" and px: "pam_phase_of (trace x) = Some (if err = None then Started else Ending)"
      using set_pam_items_effect [OF x] pv True by auto
    note fx = alike_fields [OF vx]
    have wx: "stable w x" using f(4) alike_stable [OF vx] by (rule stable_trans)
    show ?thesis
    proof (cases err)
      case None
      with rest have "r = Inr ()" and "w' = x\<lparr>state := 1\<rparr>" by auto
      with None px fx f wx True show ?thesis
        by (simp add: outcome_def phase_of_state_def stable_def)
    next
      case (Some e)
      then obtain rc' message where "fail_pam env rc' message x = Some (r, w')"
        using rest by (cases e) auto
      then show ?thesis
        by (rule outcome_fail [OF _ wx]) (use px Some fx f True in \<open>auto simp: gives_up_in_def\<close>)
    qed
  qed
qed

text \<open>A call of PAM that fails ends the step, one that works reaches the next phase.\<close>

lemma call_pam_then:
  assumes "call_pam env c w = Some (rc, u)" and "worker_inv w" and "state w \<noteq> MDM_SESSION_WORKER_STATE_NONE"
  shows "stable w u" and "state u = state w" and "pam_handle u = pam_handle w"
    and "child_watch_armed u = child_watch_armed w" and "auditor u = None \<longleftrightarrow> auditor w = None"
    and "pam_phase_of (trace u) = pam_phase_step (phase_of_state (state w)) c rc"
  using alike_stable [OF alike_call_pam [OF assms(1)]] alike_fields [OF alike_call_pam [OF assms(1)]]
    call_pam_effect(4) [OF assms(1)] worker_inv_phase [OF assms(2,3)]
  by simp_all

lemma worker_inv_handle:
  assumes "worker_inv w" and "state w \<noteq> 0"
  shows "pam_handle w" and "auditor w \<noteq> None" and "user_settings w \<noteq> None"
  using assms by (auto simp: worker_inv_def)

lemma authenticate_user_outcome:
  assumes "worker_inv w" and "state w = MDM_SESSION_WORKER_STATE_SETUP_COMPLETE"
    and "mdm_session_worker_authenticate_user env b w = Some (r, w')"
  shows "outcome MDM_SESSION_WORKER_STATE_AUTHENTICATED w r w'"
proof -
  from assms(3) obtain rc u where u: "call_pam env (Pam_authenticate b) w = Some (rc, u)"
    and rest: "(if rc \<noteq> PAM_SUCCESS then
         let rc = (if rc = PAM_USER_UNKNOWN then PAM_AUTH_ERR else rc)
         in fail_pam env rc (pam_strerror env rc) u
       else Some (Inr (), u\<lparr>state := MDM_SESSION_WORKER_STATE_AUTHENTICATED\<rparr>)) = Some (r, w')"
    by (auto simp: mdm_session_worker_authenticate_user_def bind_eq_Some_conv)
  have nz: "state w \<noteq> 0" using assms(2) by simp
  note f = call_pam_then [OF u assms(1) nz]
  have c: "\<not> child_watch_armed w" using assms(1,2) by (simp add: worker_inv_def)
  note h = worker_inv_handle [OF assms(1)]
  show ?thesis
  proof (cases "rc = PAM_SUCCESS")
    case True
    with rest f assms(2) h c show ?thesis
      by (auto simp: outcome_def phase_of_state_def stable_def pam_phase_step_def on_success_def)
  next
    case False
    with rest obtain e where "fail_pam env e (pam_strerror env e) u = Some (r, w')"
      by (auto simp: Let_def)
    then show ?thesis
      by (rule outcome_fail [OF _ f(1), where p = Ending])
         (use f assms(2) h c False in
           \<open>auto simp: gives_up_in_def phase_of_state_def pam_phase_step_def on_success_def\<close>)
  qed
qed

lemma authorize_user_outcome:
  assumes "worker_inv w" and "state w = MDM_SESSION_WORKER_STATE_AUTHENTICATED"
    and "mdm_session_worker_authorize_user env b w = Some (r, w')"
  shows "outcome MDM_SESSION_WORKER_STATE_AUTHORIZED w r w'"
proof -
  from assms(3) obtain rc u rc' v where u: "call_pam env (Pam_acct_mgmt b) w = Some (rc, u)"
    and v: "(if rc = PAM_NEW_AUTHTOK_REQD then do {
            (error_code, w) \<leftarrow> call_pam env Pam_chauthtok u;
            w \<leftarrow> report (if error_code \<noteq> PAM_SUCCESS then Password_change_failure
                        else Password_changed) w;
            Some (error_code, w)
          } else Some (rc, u)) = Some (rc', v)"
    and rest: "(if rc' \<noteq> PAM_SUCCESS then fail_pam env rc' (pam_strerror env rc') v
       else Some (Inr (), v\<lparr>state := MDM_SESSION_WORKER_STATE_AUTHORIZED\<rparr>)) = Some (r, w')"
    by (auto simp: mdm_session_worker_authorize_user_def bind_eq_Some_conv)
  have nz: "state w \<noteq> 0" using assms(2) by simp
  note f = call_pam_then [OF u assms(1) nz]
  have c: "\<not> child_watch_armed w" using assms(1,2) by (simp add: worker_inv_def)
  note h = worker_inv_handle [OF assms(1)]
  have "alike u v \<and> pam_phase_of (trace v) = Some (if rc' = PAM_SUCCESS then Account_ok else Ending)"
  proof (cases "rc = PAM_NEW_AUTHTOK_REQD")
    case False
    with v f(6) assms(2) show ?thesis
      by (auto simp: phase_of_state_def pam_phase_step_def on_success_def)
  next
    case True
    with v obtain x q where x: "call_pam env Pam_chauthtok u = Some (rc', x)" and q: "report q x = Some v"
      by (auto simp: bind_eq_Some_conv)
    have "pam_phase_of (trace u) = Some Token_expired"
      using True f(6) assms(2) by (simp add: phase_of_state_def pam_phase_step_def)
    then show ?thesis
      using alike_trans [OF alike_call_pam [OF x] report_effect(1) [OF q]]
      by (simp add: report_effect(2) [OF q] call_pam_effect(4) [OF x] pam_phase_step_def on_success_def)
  qed
  then have uv: "alike u v" and pv: "pam_phase_of (trace v)
      = Some (if rc' = PAM_SUCCESS then Account_ok else Ending)" by auto
  note g = alike_fields [OF uv]
  have wv: "stable w v" using f(1) alike_stable [OF uv] by (rule stable_trans)
  show ?thesis
  proof (cases "rc' = PAM_SUCCESS")
    case True
    with rest have r: "r = Inr ()" and w': "w' = v\<lparr>state := MDM_SESSION_WORKER_STATE_AUTHORIZED\<rparr>" by auto
    from True pv have "pam_phase_of (trace v) = Some Account_ok" by simp
    with f g assms(2) h c wv show ?thesis
      unfolding r w' by (simp add: outcome_def phase_of_state_def stable_def)
  next
    case False
    with rest have "fail_pam env rc' (pam_strerror env rc') v = Some (r, w')" by simp
    then show ?thesis
      by (rule outcome_fail [OF _ wv, where p = Ending])
         (use f g pv assms(2) h c False in \<open>auto simp: gives_up_in_def\<close>)
  qed
qed

text \<open>Bookkeeping outside the core of the transaction: the environment table, the user's ids.\<close>

definition same_login :: "worker \<Rightarrow> worker \<Rightarrow> bool" where
  "same_login w w' \<longleftrightarrow> state w' = state w \<and> pam_handle w' = pam_handle w \<and>
     child_watch_armed w' = child_watch_armed w \<and> cred_flags w' = cred_flags w \<and>
     (auditor w' = None \<longleftrightarrow> auditor w = None) \<and> stable w w' \<and>
     pam_phase_of (trace w') = pam_phase_of (trace w)"

lemma same_login_refl [simp, intro]: "same_login w w"
  by (simp add: same_login_def stable_def)

lemma same_login_trans [trans]: "same_login u v \<Longrightarrow> same_login v w \<Longrightarrow> same_login u w"
  by (simp add: same_login_def stable_def)

lemma same_login_inv: "same_login w w' \<Longrightarrow> worker_inv w' = worker_inv w"
  by (simp add: same_login_def worker_inv_def stable_def)

lemma same_login_syscall [simp]: "same_login w (snd (syscall env c w))"
  using alike_fields [OF syscall_alike, of env c w]
  by (simp add: same_login_def alike_stable)

lemma same_login_syscall_trans [simp]: "same_login w u \<Longrightarrow> same_login w (snd (syscall env c u))"
  using same_login_syscall by (rule same_login_trans [rotated])

lemma same_login_environment [simp]:
  "same_login w (mdm_session_worker_set_environment_variable k v w)"
  "same_login w (w\<lparr>environment := e\<rparr>)" "same_login w (w\<lparr>ckc := b\<rparr>)"
  "same_login w (w\<lparr>uid := u, gid := g\<rparr>)" "same_login w (w\<lparr>child_pid := i\<rparr>)"
  by (simp_all add: same_login_def stable_def mdm_session_worker_set_environment_variable_def)

lemma same_login_quiet: "quiet w w' \<Longrightarrow> same_login w w'"
  using alike_fields [OF alike_quiet] alike_stable [OF alike_quiet] quiet_fields(14)
  by (simp add: same_login_def)

lemma same_login_accreditation:
  "same_login w (mdm_session_worker_update_environment_from_passwd_info home shell w)"
  "same_login w (default_path w)"
  "same_login w (snd (change_user env u g user w))"
proof -
  show "same_login w (mdm_session_worker_update_environment_from_passwd_info home shell w)"
    by (simp add: mdm_session_worker_update_environment_from_passwd_info_def Let_def same_login_def
        stable_def mdm_session_worker_set_environment_variable_def)
  show "same_login w (default_path w)"
    by (simp add: default_path_def)
  show "same_login w (snd (change_user env u g user w))"
    by (simp add: change_user_def Let_def split_beta)
qed

lemma accredit_user_outcome:
  assumes "worker_inv w" and "state w = MDM_SESSION_WORKER_STATE_AUTHORIZED"
    and "cred_flags w = PAM_ESTABLISH_CRED"
    and "mdm_session_worker_accredit_user env w = Some (r, w')"
  shows "outcome MDM_SESSION_WORKER_STATE_ACCREDITED w r w'"
proof -
  have give_up: ?thesis if "fail_pam env e m v = Some (r, w')" and "same_login w v" for e m v
    using that(1)
    by (rule outcome_fail [where p = Account_ok])
       (use that(2) assms(1,2) in
         \<open>auto simp: same_login_def worker_inv_def phase_fits_def phase_of_state_def gives_up_in_def\<close>)
  show ?thesis
  proof (cases "username w")
    case None
    with assms(4) show ?thesis
      by (auto simp: mdm_session_worker_accredit_user_def intro: give_up)
  next
    case (Some user)
    with assms(4) obtain entry where entry: "lookup_passwd_info env user w = Some entry"
      by (auto simp: mdm_session_worker_accredit_user_def bind_eq_Some_conv)
    note body = assms(4) [unfolded mdm_session_worker_accredit_user_def, unfolded Some, simplified,
        unfolded entry, simplified]
    show ?thesis
    proof (cases entry)
      case None
      with body show ?thesis by (auto intro: give_up)
    next
      case (Some pw)
      define v where "v = change_user env (pw_uid pw) (pw_gid pw) user
        (default_path (mdm_session_worker_update_environment_from_passwd_info (pw_dir pw) (pw_shell pw) w))"
      have wv: "same_login w (snd v)"
        unfolding v_def using same_login_accreditation by (blast intro: same_login_trans)
      show ?thesis
      proof (cases "fst v")
        case False
        with body Some have "fail_pam env PAM_SYSTEM_ERR ''Unable to change to user'' (snd v) = Some (r, w')"
          by (simp add: v_def Let_def split_beta)
        then show ?thesis using wv by (rule give_up)
      next
        case True
        have iv: "worker_inv (snd v)" and sv: "state (snd v) = 3"
          and cv: "cred_flags (snd v) = PAM_ESTABLISH_CRED"
          using wv assms(1-3) by (simp_all add: same_login_inv) (simp_all add: same_login_def)
        from True body Some obtain rc u where
            u: "call_pam env (Pam_setcred PAM_ESTABLISH_CRED) (snd v) = Some (rc, u)"
          and last: "(if rc \<noteq> PAM_SUCCESS then fail_pam env rc (pam_strerror env rc) u
                     else do {
                       w \<leftarrow> report User_accredited u;
                       Some (Inr (), w\<lparr>state := MDM_SESSION_WORKER_STATE_ACCREDITED\<rparr>)
                     }) = Some (r, w')"
          by (auto simp: v_def Let_def split_beta bind_eq_Some_conv cv [unfolded v_def] cong: if_cong)
        have nz: "state (snd v) \<noteq> 0" using sv by simp
        note f = call_pam_then [OF u iv nz]
        have wu: "stable w u" using wv f(1) by (auto simp: same_login_def intro: stable_trans)
        have cu: "\<not> child_watch_armed u" using iv sv f(4) by (simp add: worker_inv_def)
        note h = worker_inv_handle [OF iv]
        show ?thesis
        proof (cases "rc = PAM_SUCCESS")
          case True
          with last obtain x where x: "report User_accredited u = Some x"
            and w': "r = Inr ()" "w' = x\<lparr>state := MDM_SESSION_WORKER_STATE_ACCREDITED\<rparr>"
            by (auto simp: bind_eq_Some_conv)
          note g = alike_fields [OF report_effect(1) [OF x]] report_effect(2) [OF x]
          have "stable w x" using wu alike_stable [OF report_effect(1) [OF x]] by (rule stable_trans)
          then show ?thesis
            using w' g f sv h cu True
            by (simp add: outcome_def stable_def phase_of_state_def pam_phase_step_def on_success_def)
        next
          case False
          with last have "fail_pam env rc (pam_strerror env rc) u = Some (r, w')" by simp
          then show ?thesis
            by (rule outcome_fail [OF _ wu, where p = Ending])
               (use f sv h cu False in
                 \<open>auto simp: gives_up_in_def phase_of_state_def pam_phase_step_def on_success_def\<close>)
        qed
      qed
    qed
  qed
qed

lemma open_user_session_outcome:
  assumes "worker_inv w" and "mdm_session_worker_open_user_session env w = Some (r, w')"
  shows "outcome MDM_SESSION_WORKER_STATE_SESSION_OPENED w r w'"
proof -
  define v where "v = snd (syscall env Geteuid w)"
  have wv: "same_login w v" by (simp add: v_def)
  from assms(2) have sw: "state w = 4"
    by (auto simp: mdm_session_worker_open_user_session_def split: if_splits)
  have iv: "worker_inv v" and sv: "state v = 4"
    using wv assms(1) sw by (simp_all add: same_login_inv) (simp_all add: same_login_def)
  from assms(2) obtain rc u where u: "call_pam env Pam_open_session v = Some (rc, u)"
    and rest: "(if rc \<noteq> PAM_SUCCESS then fail_pam env rc (pam_strerror env rc) u
        else do {
          let w = u\<lparr>state := MDM_SESSION_WORKER_STATE_SESSION_OPENED\<rparr>;
          w \<leftarrow> report Login w;
          Some (Inr (), w)
        }) = Some (r, w')"
    by (auto simp: mdm_session_worker_open_user_session_def v_def Let_def split_beta bind_eq_Some_conv
        split: if_splits)
  have nz: "state v \<noteq> 0" using sv by simp
  note f = call_pam_then [OF u iv nz]
  have wu: "stable w u" using wv f(1) by (auto simp: same_login_def intro: stable_trans)
  have cu: "\<not> child_watch_armed u" using iv sv f(4) by (simp add: worker_inv_def)
  note h = worker_inv_handle [OF iv]
  show ?thesis
  proof (cases "rc = PAM_SUCCESS")
    case True
    with rest have q: "report Login (u\<lparr>state := 5\<rparr>) = Some w'" and r: "r = Inr ()"
      by (auto simp: bind_eq_Some_conv)
    note g = alike_fields [OF report_effect(1) [OF q]] report_effect(2) [OF q]
    show ?thesis
      using r g f sv h cu True wu
      by (simp add: outcome_def stable_def phase_of_state_def pam_phase_step_def on_success_def)
  next
    case False
    with rest have "fail_pam env rc (pam_strerror env rc) u = Some (r, w')" by simp
    then show ?thesis
      by (rule outcome_fail [OF _ wu, where p = Open_failed])
         (use f sv h cu False in
           \<open>auto simp: gives_up_in_def phase_of_state_def pam_phase_step_def on_success_def\<close>)
  qed
qed

lemma same_login_set_variable_trans [simp]:
  "same_login w u \<Longrightarrow> same_login w (mdm_session_worker_set_environment_variable k v u)"
  using same_login_environment(1) by (rule same_login_trans [rotated])

lemma same_login_environment_from_pam:
  "same_login w (mdm_session_worker_update_environment_from_pam env w)"
proof -
  have "same_login w (fold (\<lambda>variable w. case split_variable variable of
      (key, val) \<Rightarrow> mdm_session_worker_set_environment_variable key val w) vs u)"
    if "same_login w u" for vs u
    using that
    by (induction vs arbitrary: u) (auto simp: split_beta)
  then show ?thesis
    by (simp add: mdm_session_worker_update_environment_from_pam_def)
qed

lemma same_login_emit: "harmless e \<Longrightarrow> same_login w (emit e w)"
  by (rule same_login_quiet) simp

lemma same_login_open_ck_session:
  assumes "open_ck_session env w = Some (res, u)"
  shows "same_login w u"
proof -
  from assms obtain user b pwent where "username w = Some user"
    and pw: "mdm_get_pwent_for_name (getpwnam_answer env (trace w) user) = Some (b, pwent)"
    by (auto simp: open_ck_session_def bind_eq_Some_conv Let_def split: option.split_asm)
  with assms show ?thesis
    by (cases pwent)
       (auto simp: open_ck_session_def Let_def split: if_split_asm
          intro: same_login_trans [OF same_login_environment(3) same_login_emit])
qed

lemma same_login_register_ck_session:
  assumes "register_ck_session env w = Some w'"
  shows "same_login w w'"
proof -
  from assms obtain res u where u: "open_ck_session env w = Some (res, u)"
    and w': "same_login u w'"
    by (auto simp: register_ck_session_def bind_eq_Some_conv Let_def split: option.splits if_splits)
  have "same_login w u"
    using u by (rule same_login_open_ck_session)
  then show ?thesis using w' by (rule same_login_trans)
qed

lemma start_user_session_outcome:
  assumes "worker_inv w" and "state w = MDM_SESSION_WORKER_STATE_SESSION_OPENED"
    and "mdm_session_worker_start_user_session env w = Some (r, w')"
  shows "outcome MDM_SESSION_WORKER_STATE_SESSION_STARTED w r w'"
proof -
  from assms(3) obtain u where
      u: "register_ck_session env (mdm_session_worker_update_environment_from_pam env w) = Some u"
    and rest: "(let (pid, w) = syscall env Fork u
       in if pid < 0 then fail_pam env PAM_ABORT (strerror env (sys_errno env (trace w))) w
       else if pid = 0 then None
       else Some (Inr (), mdm_session_worker_watch_child (w\<lparr>child_pid := pid, state := 6\<rparr>)))
      = Some (r, w')"
    by (auto simp: mdm_session_worker_start_user_session_def bind_eq_Some_conv Let_def split_beta
        cong: if_cong)
  define v where "v = snd (syscall env Fork u)"
  have "same_login w u"
    using same_login_environment_from_pam same_login_register_ck_session [OF u] by (rule same_login_trans)
  then have wv: "same_login w v" by (simp add: v_def)
  have iv: "worker_inv v" and sv: "state v = 5"
    using wv assms(1,2) by (simp_all add: same_login_inv) (simp_all add: same_login_def)
  note h = worker_inv_handle [OF iv]
  show ?thesis
  proof (cases "fst (syscall env Fork u) < 0")
    case True
    with rest obtain m where "fail_pam env PAM_ABORT m v = Some (r, w')"
      by (auto simp: v_def Let_def split_beta)
    then show ?thesis
      by (rule outcome_fail [where p = Session_open])
         (use wv iv sv h in
           \<open>auto simp: same_login_def worker_inv_def phase_fits_def phase_of_state_def gives_up_in_def\<close>)
  next
    case False
    with rest obtain pid where "r = Inr ()"
      and w': "w' = mdm_session_worker_watch_child (v\<lparr>child_pid := pid, state := 6\<rparr>)"
      by (auto simp: v_def Let_def split_beta split: if_splits)
    then show ?thesis
      using wv iv sv h
      by (auto simp: outcome_def mdm_session_worker_watch_child_def same_login_def stable_def
          worker_inv_def phase_fits_def phase_of_state_def)
  qed
qed

subsection \<open>Every event keeps the invariant\<close>

lemma answer_step_inv: "worker_inv (answer_step env f d rw) = worker_inv (snd rw)"
  using worker_inv_quiet [OF answer_step_quiet] by (cases rw) simp

lemma step_inv:
  assumes "outcome (state w + 1) w r w'" and "worker_inv w" and "\<not> state_change_idle_id w"
    and "user_settings w \<noteq> None" and "state w < MDM_SESSION_WORKER_STATE_SESSION_STARTED"
  shows "worker_inv w'"
  by (rule outcome_inv [OF assms(1,4)]) (use assms(2,3,5) in \<open>simp_all add: worker_inv_def\<close>)

text \<open>Where the idle callback leaves the worker: in the next state, or without a transaction.\<close>

definition progressed :: "nat \<Rightarrow> worker \<Rightarrow> bool" where
  "progressed s w \<longleftrightarrow> \<not> state_change_idle_id w \<and> (state w = s \<or> torn_down s w)"

lemma progressed_outcome:
  assumes "outcome s w r x" and "\<not> state_change_idle_id w" and "quiet x w'"
  shows "progressed s w'"
  using assms(1,2) quiet_fields [OF assms(3)]
  by (cases r) (auto simp: outcome_def stable_def progressed_def torn_down_def)

lemma do_setup_inv:
  assumes "worker_inv w" and "\<not> state_change_idle_id w"
    and "state w = MDM_SESSION_WORKER_STATE_NONE" and "do_setup env w = Some w'"
  shows "worker_inv w'" and "progressed MDM_SESSION_WORKER_STATE_SETUP_COMPLETE w'"
proof -
  define u where "u = w\<lparr>user_settings := Some mdm_session_settings_new\<rparr>"
  define v where "v = (case username w of None \<Rightarrow> u | Some user \<Rightarrow> attempt_to_load_user_settings env user u)"
  have iu: "worker_inv u" using assms(1) by (simp add: u_def worker_inv_def)
  have uv: "quiet u v" by (simp add: v_def attempt_to_load_quiet split: option.split)
  have iv: "worker_inv v" using worker_inv_quiet [OF uv] iu by simp
  have fv: "state v = 0" "\<not> state_change_idle_id v" "user_settings v \<noteq> None"
    using quiet_fields [OF uv] assms(2,3) by (simp_all add: u_def)
  obtain r x where x: "mdm_session_worker_initialize_pam env v = Some (r, x)"
    and w': "w' = answer_step env ''SetupFailed'' ''SetupComplete'' (r, x)"
    using assms(4) unfolding do_setup_def Let_def bind_eq_Some_conv v_def u_def by auto
  have "worker_inv x"
    by (rule step_inv [OF _ iv fv(2,3)]) (use initialize_pam_outcome [OF iv x] fv(1) in simp_all)
  then show "worker_inv w'" by (simp add: w' answer_step_inv)
  show "progressed MDM_SESSION_WORKER_STATE_SETUP_COMPLETE w'"
    unfolding w' by (rule progressed_outcome [OF initialize_pam_outcome [OF iv x] fv(2) answer_step_quiet])
qed

lemma do_authenticate_inv:
  assumes "worker_inv w" and "\<not> state_change_idle_id w"
    and "state w = MDM_SESSION_WORKER_STATE_SETUP_COMPLETE" and "do_authenticate env w = Some w'"
  shows "worker_inv w'" and "progressed MDM_SESSION_WORKER_STATE_AUTHENTICATED w'"
proof -
  from assms(4) obtain r x where x: "mdm_session_worker_authenticate_user env (password_is_required w) w = Some (r, x)"
    and rest: "(case r of
          Inl message \<Rightarrow>
            Some (snd (send_dbus_string_method env ''AuthenticationFailed'' (Some message) x))
        | Inr _ \<Rightarrow> do {
            w \<leftarrow> mdm_session_worker_update_username env x;
            Some (snd (send_dbus_void_method env ''Authenticated'' w))
          }) = Some w'"
    by (auto simp: do_authenticate_def bind_eq_Some_conv)
  have w': "quiet x w'"
    using rest
    by (cases r) (auto simp: bind_eq_Some_conv intro: quiet_trans [OF update_username_quiet])
  have "worker_inv x"
    by (rule step_inv [OF _ assms(1,2)])
       (use authenticate_user_outcome [OF assms(1,3) x] worker_inv_handle [OF assms(1)] assms(3) in
         \<open>simp_all add: numeral_2_eq_2\<close>)
  then show "worker_inv w'" by (simp add: worker_inv_quiet [OF w'])
  show "progressed MDM_SESSION_WORKER_STATE_AUTHENTICATED w'"
    by (rule progressed_outcome [OF authenticate_user_outcome [OF assms(1,3) x] assms(2) w'])
qed

lemma do_authorize_inv:
  assumes "worker_inv w" and "\<not> state_change_idle_id w"
    and "state w = MDM_SESSION_WORKER_STATE_AUTHENTICATED" and "do_authorize env w = Some w'"
  shows "worker_inv w'" and "progressed MDM_SESSION_WORKER_STATE_AUTHORIZED w'"
proof -
  from assms(4) obtain r x where x: "mdm_session_worker_authorize_user env (password_is_required w) w = Some (r, x)"
    and w': "w' = answer_step env ''AuthorizationFailed'' ''Authorized'' (r, x)"
    by (auto simp: do_authorize_def bind_eq_Some_conv)
  have "worker_inv x"
    by (rule step_inv [OF _ assms(1,2)])
       (use authorize_user_outcome [OF assms(1,3) x] worker_inv_handle [OF assms(1)] assms(3) in simp_all)
  then show "worker_inv w'" by (simp add: w' answer_step_inv)
  show "progressed MDM_SESSION_WORKER_STATE_AUTHORIZED w'"
    unfolding w' by (rule progressed_outcome [OF authorize_user_outcome [OF assms(1,3) x] assms(2) answer_step_quiet])
qed

lemma do_accredit_inv:
  assumes "worker_inv w" and "\<not> state_change_idle_id w"
    and "state w = MDM_SESSION_WORKER_STATE_AUTHORIZED" and "cred_flags w = PAM_ESTABLISH_CRED"
    and "do_accredit env w = Some w'"
  shows "worker_inv w'" and "progressed MDM_SESSION_WORKER_STATE_ACCREDITED w'"
proof -
  from assms(5) obtain r x where x: "mdm_session_worker_accredit_user env w = Some (r, x)"
    and w': "w' = answer_step env ''AccreditationFailed'' ''Accredited'' (r, x)"
    by (auto simp: do_accredit_def bind_eq_Some_conv)
  have "worker_inv x"
    by (rule step_inv [OF _ assms(1,2)])
       (use accredit_user_outcome [OF assms(1,3,4) x] worker_inv_handle [OF assms(1)] assms(3) in simp_all)
  then show "worker_inv w'" by (simp add: w' answer_step_inv)
  show "progressed MDM_SESSION_WORKER_STATE_ACCREDITED w'"
    unfolding w' by (rule progressed_outcome [OF accredit_user_outcome [OF assms(1,3,4) x] assms(2) answer_step_quiet])
qed

lemma do_open_session_inv:
  assumes "worker_inv w" and "\<not> state_change_idle_id w"
    and "state w = MDM_SESSION_WORKER_STATE_ACCREDITED" and "do_open_session env w = Some w'"
  shows "worker_inv w'" and "progressed MDM_SESSION_WORKER_STATE_SESSION_OPENED w'"
proof -
  from assms(4) obtain r x where x: "mdm_session_worker_open_user_session env w = Some (r, x)"
    and w': "w' = answer_step env ''OpenFailed'' ''SessionOpened'' (r, x)"
    by (auto simp: do_open_session_def bind_eq_Some_conv)
  have "worker_inv x"
    by (rule step_inv [OF _ assms(1,2)])
       (use open_user_session_outcome [OF assms(1) x] worker_inv_handle [OF assms(1)] assms(3) in simp_all)
  then show "worker_inv w'" by (simp add: w' answer_step_inv)
  show "progressed MDM_SESSION_WORKER_STATE_SESSION_OPENED w'"
    unfolding w' by (rule progressed_outcome [OF open_user_session_outcome [OF assms(1) x] assms(2) answer_step_quiet])
qed

lemma do_start_session_inv:
  assumes "worker_inv w" and "\<not> state_change_idle_id w"
    and "state w = MDM_SESSION_WORKER_STATE_SESSION_OPENED" and "do_start_session env w = Some w'"
  shows "worker_inv w'" and "progressed MDM_SESSION_WORKER_STATE_SESSION_STARTED w'"
proof -
  from assms(4) obtain r x where x: "mdm_session_worker_start_user_session env w = Some (r, x)"
    and rest: "w' = (case r of
          Inl message \<Rightarrow> snd (send_dbus_string_method env ''StartFailed'' (Some message) x)
        | Inr _ \<Rightarrow> snd (send_dbus_int_method env ''SessionStarted'' (child_pid x) x))"
    by (auto simp: do_start_session_def bind_eq_Some_conv)
  have w': "quiet x w'" using rest by (cases r) auto
  have "worker_inv x"
    by (rule step_inv [OF _ assms(1,2)])
       (use start_user_session_outcome [OF assms(1,3) x] worker_inv_handle [OF assms(1)] assms(3) in simp_all)
  then show "worker_inv w'" by (simp add: worker_inv_quiet [OF w'])
  show "progressed MDM_SESSION_WORKER_STATE_SESSION_STARTED w'"
    by (rule progressed_outcome [OF start_user_session_outcome [OF assms(1,3) x] assms(2) w'])
qed

lemma state_change_idle_inv:
  assumes "worker_inv w" and "state_change_idle_id w"
    and "state_change_idle env w = Some w'"
  shows "worker_inv w'" and "progressed (state w + 1) w'"
proof -
  define v where "v = w\<lparr>state_change_idle_id := False\<rparr>"
  have iv: "worker_inv v" and q: "\<not> state_change_idle_id v" and c: "cred_flags v = cred_flags w"
    using assms(1) by (simp_all add: worker_inv_def v_def)
  have cf: "state v = 3 \<Longrightarrow> cred_flags v = PAM_ESTABLISH_CRED"
    using assms(1,2) by (simp add: worker_inv_def v_def)
  have "state w = state v" by (simp add: v_def)
  then show "worker_inv w'"
    using assms(3) do_setup_inv(1) [OF iv q] do_authenticate_inv(1) [OF iv q] do_authorize_inv(1) [OF iv q]
      do_accredit_inv(1) [OF iv q _ cf] do_open_session_inv(1) [OF iv q] do_start_session_inv(1) [OF iv q]
    unfolding state_change_idle_def Let_def v_def [symmetric]
    by (auto simp: bind_eq_Some_conv split: if_splits)
  have "state w = state v" by (simp add: v_def)
  then show "progressed (state w + 1) w'"
    using assms(3) do_setup_inv(2) [OF iv q] do_authenticate_inv(2) [OF iv q] do_authorize_inv(2) [OF iv q]
      do_accredit_inv(2) [OF iv q _ cf] do_open_session_inv(2) [OF iv q] do_start_session_inv(2) [OF iv q]
    unfolding state_change_idle_def Let_def v_def [symmetric]
    by (auto simp: bind_eq_Some_conv numeral_eq_Suc split: if_splits)
qed

text \<open>The handlers of the signals only queue the next step, or write what is not part of the login.\<close>

lemma queue_state_change_inv:
  "worker_inv w \<Longrightarrow> state w \<noteq> MDM_SESSION_WORKER_STATE_AUTHORIZED \<or> cred_flags w = PAM_ESTABLISH_CRED
     \<Longrightarrow> worker_inv (queue_state_change w)"
  by (auto simp: queue_state_change_def worker_inv_def)

lemma change_settings_quiet: "quiet w (change_settings env f w)"
  by (auto simp: change_settings_def split: option.splits prod.splits
      intro!: quiet_trans [OF quiet_settings deliver_notifications_quiet])

lemma handle_message_inv:
  assumes "worker_inv w" and "worker_dbus_handle_message env m w = Some w'"
  shows "worker_inv w'"
proof (cases m)
  case RefreshCredentials
  with assms show ?thesis
    by (auto simp: worker_dbus_handle_message_def on_refresh_credentials_def ignore_spurious_def
        bind_eq_Some_conv worker_inv_def)
next
  case (SetEnvironmentVariable x)
  with assms show ?thesis
    by (auto simp: worker_dbus_handle_message_def on_set_environment_variable_def
        same_login_inv [OF same_login_environment(1)] split: option.splits)
next
  case (StartProgram x)
  with assms show ?thesis
    by (auto simp: worker_dbus_handle_message_def on_start_program_def ignore_spurious_def Let_def
        bind_eq_Some_conv worker_inv_def queue_state_change_def split: option.splits if_splits)
next
  case (Setup x)
  with assms show ?thesis
    by (auto simp: worker_dbus_handle_message_def on_setup_def ignore_spurious_def
        bind_eq_Some_conv worker_inv_def queue_state_change_def split: option.splits if_splits)
next
  case (SetupForUser x)
  with assms show ?thesis
    by (auto simp: worker_dbus_handle_message_def on_setup_for_user_def ignore_spurious_def
        bind_eq_Some_conv worker_inv_def queue_state_change_def split: option.splits if_splits)
next
  case EstablishCredentials
  with assms show ?thesis
    by (auto simp: worker_dbus_handle_message_def on_establish_credentials_def ignore_spurious_def
        bind_eq_Some_conv worker_inv_def queue_state_change_def split: option.splits if_splits)
qed (use assms in \<open>auto simp: worker_dbus_handle_message_def on_authenticate_def on_authorize_def
    on_open_session_def on_reauthenticate_def on_reauthorize_def on_set_language_name_def
    on_set_layout_name_def on_set_session_name_def on_set_is_session_failsafe_def
    ignore_spurious_def bind_eq_Some_conv worker_inv_quiet [OF change_settings_quiet]
    intro: queue_state_change_inv split: if_splits option.splits\<close>)

lemma child_watch_effect:
  assumes "worker_inv w" and "state w = MDM_SESSION_WORKER_STATE_SESSION_STARTED"
    and "session_worker_child_watch env status (w\<lparr>child_watch_armed := False\<rparr>) = Some w'"
  shows "worker_inv w' \<and> torn_down MDM_SESSION_WORKER_STATE_SESSION_STARTED w' \<and> child_pid w' = -1 \<and> \<not> child_watch_armed w' \<and> \<not> ckc w'"
proof -
  define u where "u = w\<lparr>child_watch_armed := False\<rparr>"
  define v where "v = close_ck_session (case status of
      Status code \<Rightarrow> snd (send_dbus_int_method env ''SessionExited'' code u)
    | Signal num \<Rightarrow> snd (send_dbus_int_method env ''SessionDied'' num u)
    | Unknown_status \<Rightarrow> u)"
  have close: "same_login x (close_ck_session x)" for x
    by (simp add: close_ck_session_def same_login_trans [OF same_login_environment(3) same_login_emit])
  have uv: "same_login u v"
    by (cases status) (auto simp: v_def intro: same_login_trans [OF same_login_quiet close] close)
  obtain x where x: "mdm_session_worker_uninitialize_pam env PAM_SUCCESS v = Some x"
    and w': "w' = x\<lparr>child_pid := -1\<rparr>"
    using assms(3)
    unfolding session_worker_child_watch_def v_def u_def bind_eq_Some_conv Let_def by auto
  have f: "pam_handle v" "pam_phase_of (trace v) = Some Session_open" "state v = 6"
    "\<not> child_watch_armed v" "\<not> password_is_required v"
    using uv assms(1,2) by (auto simp: same_login_def u_def worker_inv_def phase_fits_def phase_of_state_def stable_def)
  have c: "\<not> ckc v" by (simp add: v_def close_ck_session_def emit_def)
  have "gives_up_in (state v) Session_open" by (simp add: gives_up_in_def f)
  note g = uninitialize_effect(1) [where s = 6, OF x f(1,2) this] uninitialize_effect(2-4) [OF x f(1,2) this]
  from g f c show ?thesis
    by (simp add: w' worker_inv_def torn_down_def stable_def phase_fits_def phase_of_state_def)
qed

lemmas child_watch_inv = child_watch_effect [THEN conjunct1]

lemma worker_step_inv:
  assumes "worker_inv w" and "worker_step env e w = Some w'"
  shows "worker_inv w'"
proof (cases "connection w")
  case False
  with assms show ?thesis by (simp add: worker_step_def)
next
  case True
  show ?thesis
  proof (cases e)
    case (Message m)
    with assms True show ?thesis
      by (simp add: worker_step_def worker_dbus_filter_function_def handle_message_inv)
  next
    case Idle
    with assms True state_change_idle_inv(1) show ?thesis
      by (auto simp: worker_step_def split: if_splits)
  next
    case (Child_ended status)
    have "child_watch_armed w \<Longrightarrow> state w = 6" using assms(1) by (simp add: worker_inv_def)
    with Child_ended assms(1,2) True child_watch_inv [OF assms(1)] show ?thesis
      by (auto simp: worker_step_def split: if_splits)
  next
    case Disconnected
    with assms True show ?thesis
      by (auto simp: worker_step_def worker_dbus_filter_function_def worker_inv_def)
  qed
qed

end
