(* ===== verification/Worker_Liveness.thy ===== *)
theory Worker_Liveness
  imports Worker_Invariant
begin

text \<open>
  The worker does not abort. Every assertion and every dereference of the code is a branch to
  \<^term>\<open>None\<close> in the model, and so is every loop that may not return; this theory names the
  behaviour of the outside world under which none of these branches is taken, and the messages a
  daemon may send. Of PAM it asks what \<open>pam_set_item(3)\<close> documents, that \<open>PAM_USER\<close> identifies the user
  once he is authenticated; before that, and with a greeter that sends no user name, it may be NULL.

  Two messages have to be excluded: \<open>Reauthenticate\<close>, which queues a step to a state that
  \<^const>\<open>get_state_name\<close> does not know, and a \<open>StartProgram\<close> whose command line cannot be parsed, which
  clears the arguments of one that is already queued.
\<close>

definition well_behaved :: "env \<Rightarrow> bool" where
  "well_behaved env \<longleftrightarrow>
     (\<forall>t. known_io (pam_behaviour env t)) \<and>
     (\<forall>t. authenticated_in (this_transaction t) \<longrightarrow> pam_user_item env t \<noteq> Some None) \<and>
     (\<forall>t. sys_result env (Sys Fork # t) \<noteq> 0) \<and> (\<forall>t. sys_result env (Sys Geteuid # t) = 0) \<and>
     (\<forall>t user. \<exists>n. getpwnam_answer env t user n \<noteq> (None, Some EINTR)) \<and>
     (\<forall>t user. \<exists>n. fst (getpwnam_r_answer env t user n) \<noteq> Some EINTR) \<and>
     (\<forall>t. \<exists>n. waitpid_answer env t n \<noteq> Inl EINTR)"

definition legal_event :: "env \<Rightarrow> event \<Rightarrow> bool" where
  "legal_event env e \<longleftrightarrow>
     (case e of
        Message Reauthenticate \<Rightarrow> False
      | Message (StartProgram (Some text)) \<Rightarrow> shell_parse_argv env text \<noteq> None
      | _ \<Rightarrow> True)"

subsection \<open>The retry loops return\<close>

lemma pwent_loop_total: "getpwnam (i + n) \<noteq> (None, Some EINTR) \<Longrightarrow> pwent_loop getpwnam i \<noteq> None"
proof (induction n arbitrary: i)
  case 0
  then show ?case by (subst pwent_loop.simps) (auto split: prod.split)
next
  case (Suc n)
  then have "pwent_loop getpwnam (Suc i) \<noteq> None" by simp
  then show ?case by (subst pwent_loop.simps) (auto split: prod.split)
qed

lemma lookup_passwd_loop_total:
  "fst (getpwnam_r (i + n)) \<noteq> Some EINTR \<Longrightarrow> lookup_passwd_loop getpwnam_r i \<noteq> None"
proof (induction n arbitrary: i)
  case 0
  then show ?case by (subst lookup_passwd_loop.simps) (auto split: prod.split option.split)
next
  case (Suc n)
  then have "lookup_passwd_loop getpwnam_r (Suc i) \<noteq> None" by simp
  then show ?case by (subst lookup_passwd_loop.simps) (auto split: prod.split option.split)
qed

lemma wait_on_pid_total: "waitpid (i + n) \<noteq> Inl EINTR \<Longrightarrow> mdm_wait_on_pid waitpid i \<noteq> None"
proof (induction n arbitrary: i)
  case 0
  then show ?case by (subst mdm_wait_on_pid.simps) (auto split: sum.split)
next
  case (Suc n)
  then have "mdm_wait_on_pid waitpid (Suc i) \<noteq> None" by simp
  then show ?case by (subst mdm_wait_on_pid.simps) (auto split: sum.split)
qed

lemma well_behaved_loops:
  assumes "well_behaved env"
  shows "\<exists>r. mdm_get_pwent_for_name (getpwnam_answer env t user) = Some r"
    and "\<exists>r. lookup_passwd_info env user w = Some r"
    and "\<exists>r. mdm_wait_on_pid (waitpid_answer env t) 0 = Some r"
proof -
  from assms obtain n where "getpwnam_answer env t user (0 + n) \<noteq> (None, Some EINTR)"
    unfolding well_behaved_def add_0 by blast
  from pwent_loop_total [of "getpwnam_answer env t user" 0 n, OF this] show "\<exists>r. mdm_get_pwent_for_name (getpwnam_answer env t user) = Some r"
    by (auto simp: mdm_get_pwent_for_name_def)
  from assms obtain n where "fst (getpwnam_r_answer env (trace w) user (0 + n)) \<noteq> Some EINTR"
    unfolding well_behaved_def add_0 by blast
  from lookup_passwd_loop_total [of "getpwnam_r_answer env (trace w) user" 0 n, OF this] show "\<exists>r. lookup_passwd_info env user w = Some r"
    by (simp add: lookup_passwd_info_def)
  from assms obtain n where "waitpid_answer env t (0 + n) \<noteq> Inl EINTR"
    unfolding well_behaved_def add_0 by blast
  from wait_on_pid_total [of "waitpid_answer env t" 0 n, OF this] show "\<exists>r. mdm_wait_on_pid (waitpid_answer env t) 0 = Some r"
    by simp
qed

subsection \<open>A user's name is never lost\<close>

definition named :: "worker \<Rightarrow> worker \<Rightarrow> bool" where
  "named w w' \<longleftrightarrow> (username w \<noteq> None \<longrightarrow> username w' \<noteq> None)"

lemma named_refl [simp, intro]: "named w w"
  by (simp add: named_def)

lemma named_trans [trans]: "named u v \<Longrightarrow> named v w \<Longrightarrow> named u w"
  by (simp add: named_def)

lemma username_same:
  "username (snd (dbus_call env m p w)) = username w"
  "username (snd (send_dbus_string_method env m s w)) = username w"
  "username (snd (send_dbus_int_method env m i w)) = username w"
  "username (snd (send_dbus_void_method env m w)) = username w"
proof -
  show c: "username (snd (dbus_call env m p w)) = username w" for p
    by (simp add: dbus_call_def Let_def)
  have d: "dbus_call env m p w = (x, w') \<Longrightarrow> username w' = username w" for p x w'
    using c [of p] by simp
  show "username (snd (send_dbus_string_method env m s w)) = username w"
    "username (snd (send_dbus_int_method env m i w)) = username w"
    "username (snd (send_dbus_void_method env m w)) = username w"
    by (auto simp: send_dbus_string_method_def send_dbus_int_method_def send_dbus_void_method_def
        Let_def split: prod.split option.split dbus_reply.split dest!: d)
qed

lemma username_settings:
  "username (deliver_notifications env ns w) = username w"
  "username (attempt_to_load_user_settings env user w) = username w"
proof -
  have d: "username (deliver_notifications env ns w) = username w" for ns w
  proof (induction ns arbitrary: w)
    case Nil
    then show ?case by simp
  next
    case (Cons n ns)
    obtain p s where n: "n = (p, s)" by (cases n)
    show ?case
      unfolding n
      by (cases p) (simp_all add: Cons.IH on_saved_language_name_read_def
          on_saved_layout_name_read_def on_saved_session_name_read_def username_same)
  qed
  then show "username (deliver_notifications env ns w) = username w" .
  show "username (attempt_to_load_user_settings env user w) = username w"
    by (simp add: attempt_to_load_user_settings_def d split: option.split prod.split)
qed

lemma auditor_same:
  "auditor (snd (send_dbus_string_method env m s w)) = auditor w"
  "auditor (attempt_to_load_user_settings env user w) = auditor w"
proof -
  have c: "auditor (snd (dbus_call env m p w)) = auditor w" for m p w
    by (simp add: dbus_call_def Let_def emit_def)
  have d: "dbus_call env m p w = (x, w') \<Longrightarrow> auditor w' = auditor w" for m p w x w'
    using c [of m p w] by simp
  show s: "auditor (snd (send_dbus_string_method env m s w)) = auditor w" for m s w
    by (auto simp: send_dbus_string_method_def Let_def split: prod.split option.split dbus_reply.split
        dest!: d)
  have "auditor (deliver_notifications env ns w) = auditor w" for ns w
  proof (induction ns arbitrary: w)
    case Nil
    then show ?case by simp
  next
    case (Cons n ns)
    obtain p q where n: "n = (p, q)" by (cases n)
    show ?case
      unfolding n
      by (cases p) (simp_all add: Cons.IH on_saved_language_name_read_def
          on_saved_layout_name_read_def on_saved_session_name_read_def s)
  qed
  then show "auditor (attempt_to_load_user_settings env user w) = auditor w"
    by (simp add: attempt_to_load_user_settings_def split: option.split prod.split)
qed

text \<open>The phases in which the user is authenticated and the worker still converses with him.\<close>

definition identified :: "worker \<Rightarrow> bool" where
  "identified w \<longleftrightarrow> pam_phase_of (trace w) = Some Account_ok \<or> pam_phase_of (trace w) = Some Credentialed"

lemma identified_authenticated: "identified w \<Longrightarrow> authenticated_in (this_transaction (trace w))"
  by (auto simp: identified_def dest: pam_phase_of_evidence)

lemma identified_quiet: "quiet w w' \<Longrightarrow> identified w' = identified w"
  by (simp add: identified_def quiet_fields(14))

lemma update_username_named:
  assumes "well_behaved env" and "identified w" and "mdm_session_worker_update_username env w = Some w'"
  shows "named w w'"
proof -
  have "pam_user_item env (trace w) \<noteq> Some None"
    using assms(1) identified_authenticated [OF assms(2)] by (simp add: well_behaved_def)
  with assms(3) show ?thesis
    by (auto simp: mdm_session_worker_update_username_def mdm_session_worker_get_username_def
        set_auditor_username_def named_def Let_def username_same username_settings
        split: if_splits option.splits)
qed

lemma pam_prompt_username: "pam_prompt env style text w = Some (r, a, w') \<Longrightarrow> username w' = username w"
  by (auto simp: pam_prompt_def mdm_session_worker_ask_question_def
      mdm_session_worker_ask_for_secret_def mdm_session_worker_report_info_def
      mdm_session_worker_report_problem_def send_question_method_def
      split: pam_style.split_asm prod.split_asm option.split_asm dbus_reply.split_asm if_split_asm
      simp: send_dbus_string_method_def Let_def username_same
      dest!: arg_cong [where f = "username \<circ> snd"])

lemma process_pam_message_named:
  assumes "well_behaved env" and "identified w"
    and "mdm_session_worker_process_pam_message env m w = Some (r, w')"
  shows "named w w'"
proof -
  from assms(3) obtain u res a v where u: "mdm_session_worker_update_username env w = Some u"
    and v: "pam_prompt env (msg_style m) (convert_to_utf8 env (msg m))
              (u\<lparr>cancelled := False, timed_out := False\<rparr>) = Some (res, a, v)"
    and w': "username w' = username v"
    unfolding mdm_session_worker_process_pam_message_def Let_def
    by (auto simp: bind_eq_Some_conv username_same split: option.splits)
  show ?thesis
    using update_username_named [OF assms(1,2) u] pam_prompt_username [OF v] w' by (simp add: named_def)
qed

lemma pam_messages_loop_named:
  "well_behaved env \<Longrightarrow> identified w \<Longrightarrow> pam_messages_loop env ms rs w = Some (r, w') \<Longrightarrow> named w w'"
proof (induction ms arbitrary: rs w)
  case Nil
  then show ?case by simp
next
  case (Cons m ms)
  then obtain x u where u: "mdm_session_worker_process_pam_message env m w = Some (x, u)"
    and rest: "named u w' \<or> (\<exists>rs. pam_messages_loop env ms rs u = Some (r, w'))"
    by (auto simp: bind_eq_Some_conv split: if_splits)
  have "identified u" using identified_quiet [OF process_pam_message_quiet [OF u]] Cons.prems(2) by simp
  with rest Cons have "named u w'" by blast
  with process_pam_message_named [OF Cons.prems(1,2) u] show ?case by (rule named_trans)
qed

lemma run_pam_io_named:
  "well_behaved env \<Longrightarrow> identified w \<Longrightarrow> run_pam_io env io w = Some (rc, w') \<Longrightarrow> named w w'"
proof (induction io arbitrary: w)
  case (Pam_return x)
  then show ?case by simp
next
  case (Pam_conv ms k)
  then obtain a v where v: "mdm_session_worker_pam_new_messages_handler env ms w = Some (a, v)"
      and "run_pam_io env (k a) v = Some (rc, w')"
    by (auto simp: bind_eq_Some_conv)
  moreover have "identified v"
    using identified_quiet [OF pam_new_messages_handler_quiet [OF v]] Pam_conv.prems(2) by simp
  ultimately have "named v w'" using Pam_conv by blast
  moreover have "named w v"
    using v pam_messages_loop_named [OF Pam_conv.prems(1,2)]
    by (auto simp: mdm_session_worker_pam_new_messages_handler_def bind_eq_Some_conv
        split: if_splits option.splits)
  ultimately show ?case by (blast intro: named_trans)
qed

lemma call_pam_named:
  assumes "well_behaved env" and "identified w" and "call_pam env c w = Some (rc, w')"
  shows "named w w'"
proof -
  define u where "u = emit (Pam_called c) w"
  have "identified u" using assms(2) by (cases "pam_phase_of (trace w)") (auto simp: u_def identified_def)
  moreover obtain v where "run_pam_io env (pam_behaviour env (trace u)) u = Some (rc, v)"
    and "username w' = username v"
    using assms(3) by (auto simp: call_pam_def u_def bind_eq_Some_conv Let_def)
  ultimately show ?thesis
    using run_pam_io_named [OF assms(1)] by (auto simp: named_def u_def)
qed

subsection \<open>No operation aborts\<close>

text \<open>What an operation inside a transaction needs.\<close>

definition in_transaction :: "worker \<Rightarrow> bool" where
  "in_transaction w \<longleftrightarrow> pam_handle w \<and> auditor w \<noteq> None \<and> user_settings w \<noteq> None"

lemma well_behavedD:
  assumes "well_behaved env"
  shows "known_io (pam_behaviour env t)"
    and "sys_result env (Sys Fork # t) \<noteq> 0" and "sys_result env (Sys Geteuid # t) = 0"
  using assms by (simp_all add: well_behaved_def)

lemma in_transaction_alike: "alike w w' \<Longrightarrow> in_transaction w \<Longrightarrow> in_transaction w'"
  by (simp add: in_transaction_def alike_fields)

lemma in_transaction_same_login: "same_login w w' \<Longrightarrow> in_transaction w \<Longrightarrow> in_transaction w'"
  by (simp add: in_transaction_def same_login_def stable_def)

lemma call_pam_ok:
  assumes "well_behaved env" and "in_transaction w"
  obtains rc w' where "call_pam env c w = Some (rc, w')" and "in_transaction w'" and "alike w w'"
proof -
  have "conversing w" using assms(2) by (simp add: conversing_def in_transaction_def)
  then obtain rc w' where c: "call_pam env c w = Some (rc, w')"
    using call_pam_total [OF _ well_behavedD(1) [OF assms(1)]] by metis
  then show ?thesis
    using that in_transaction_alike [OF alike_call_pam assms(2)] alike_call_pam by blast
qed

lemma report_ok: "in_transaction w \<Longrightarrow> \<exists>w'. report r w = Some w' \<and> in_transaction w' \<and> alike w w'"
  by (auto simp: in_transaction_def report_def emit_def alike_def core_def split: option.split)

lemma uninitialize_ok:
  assumes "well_behaved env" and "in_transaction w"
  shows "\<exists>w'. mdm_session_worker_uninitialize_pam env status w = Some w'"
proof -
  have h: "pam_handle w" using assms(2) by (simp add: in_transaction_def)
  have "\<exists>u. (if state w \<ge> 5 then close_opened_session env w else report_failed_login env status w) = Some u
      \<and> in_transaction u"
  proof (cases "state w \<ge> 5")
    case True
    have "in_transaction (snd (syscall env Fork w))"
      by (rule in_transaction_alike [OF syscall_alike assms(2)])
    then obtain rc v where v: "call_pam env Pam_close_session (snd (syscall env Fork w)) = Some (rc, v)"
      "in_transaction v"
      using call_pam_ok [OF assms(1)] by metis
    obtain x where x: "report Logout v = Some x" "in_transaction x"
      using report_ok [OF v(2)] by blast
    have "fst (syscall env Fork w) \<noteq> 0"
      using assms(1) by (simp add: well_behaved_def syscall_def Let_def)
    moreover obtain s where "mdm_wait_on_pid (waitpid_answer env (trace (snd (syscall env Fork w)))) 0 = Some s"
      using well_behaved_loops(3) [OF assms(1)] by blast
    ultimately show ?thesis
      using True v(1) x by (auto simp: close_opened_session_def Let_def split_beta)
  next
    case False
    define v where "v = (case pam_user_item env (trace w) of
      Some item \<Rightarrow> set_auditor_username item w | None \<Rightarrow> w)"
    have "quiet w v" by (simp add: v_def split: option.split)
    from report_ok [OF in_transaction_alike [OF alike_quiet [OF this] assms(2)]]
    have "\<exists>u. report (Login_failure (pam_strerror env status)) v = Some u \<and> in_transaction u" by blast
    with False show ?thesis by (simp add: report_failed_login_def v_def)
  qed
  then obtain u where u: "(if state w \<ge> 5 then close_opened_session env w
      else report_failed_login env status w) = Some u" "in_transaction u" by blast
  obtain v where v: "(if state u \<ge> 4 then map_option snd (call_pam env (Pam_setcred PAM_DELETE_CRED) u)
             else Some u) = Some v" "in_transaction v"
    using call_pam_ok [OF assms(1) u(2), of "Pam_setcred PAM_DELETE_CRED"] u(2)
    by (metis option.simps(9) snd_conv)
  obtain rc x where "call_pam env (Pam_end status) v = Some (rc, x)"
    using call_pam_ok [OF assms(1) v(2)] by metis
  with h u(1) v(1) show ?thesis
    by (simp add: mdm_session_worker_uninitialize_pam_def Let_def)
qed

lemma fail_pam_ok:
  assumes "well_behaved env" and "in_transaction w"
  shows "\<exists>w'. fail_pam env rc message w = Some (Inl message, w')"
proof -
  obtain w' where "mdm_session_worker_uninitialize_pam env rc w = Some w'"
    using uninitialize_ok [OF assms] by blast
  then show ?thesis by (simp add: fail_pam_def)
qed

lemma set_pam_items_ok:
  "well_behaved env \<Longrightarrow> in_transaction w \<Longrightarrow>
     \<exists>err w'. set_pam_items env items w = Some (err, w') \<and> in_transaction w'"
proof (induction env items w rule: set_pam_items.induct)
  case (1 env w)
  then show ?case by simp
next
  case (2 env item message items w)
  obtain rc u where u: "call_pam env (Pam_set_item item) w = Some (rc, u)" "in_transaction u"
    using call_pam_ok [OF "2.prems"] by metis
  with "2.IH" [OF u(1) refl] "2.prems"(1) show ?case by simp
qed

lemma initialize_pam_ok:
  assumes "well_behaved env" and "\<not> pam_handle w" and "user_settings w \<noteq> None"
  shows "\<exists>r. mdm_session_worker_initialize_pam env w = Some r"
proof -
  let ?a = "mdm_session_worker_start_auditor w"
  let ?call = "Pam_start (service ?a) (username ?a)"
  let ?u = "emit (Pam_called ?call) ?a"
  define rc where "rc = pam_start_rc env (trace ?u)"
  define x where "x = emit (Pam_returned ?call rc) ?u"
  define v where "v = x\<lparr>pam_handle := (rc = PAM_SUCCESS \<or> failed_start_handle env (trace x))\<rparr>"
  have run: "mdm_session_worker_initialize_pam env w =
     (if rc \<noteq> PAM_SUCCESS then fail_pam env rc (start_error rc) v
      else Option.bind (set_pam_items env (initial_items env w) v)
        (\<lambda>(err, w). case err of Some (rc, message) \<Rightarrow> fail_pam env rc message w
           | None \<Rightarrow> Some (Inr (), w\<lparr>state := 1\<rparr>)))"
    using assms(2)
    unfolding mdm_session_worker_initialize_pam_def Let_def rc_def [symmetric] x_def [symmetric] v_def
    by (simp cong: if_cong)
  have iv: "pam_handle v \<Longrightarrow> in_transaction v"
    using assms(3) by (simp add: in_transaction_def v_def x_def mdm_session_worker_start_auditor_def emit_def)
  show ?thesis
  proof (cases "rc = PAM_SUCCESS")
    case False
    moreover have "\<exists>r. fail_pam env rc (start_error rc) v = Some r"
    proof (cases "pam_handle v")
      case True
      from fail_pam_ok [OF assms(1) iv [OF this]] show ?thesis by blast
    next
      case False
      then show ?thesis by (simp add: fail_pam_def mdm_session_worker_uninitialize_pam_def)
    qed
    ultimately show ?thesis by (simp add: run)
  next
    case True
    then have "pam_handle v" by (simp add: v_def)
    with iv obtain err x where x: "set_pam_items env (initial_items env w) v = Some (err, x)"
      and ix: "in_transaction x"
      using set_pam_items_ok [OF assms(1)] by blast
    show ?thesis
    proof (cases err)
      case None
      with True x show ?thesis by (simp add: run)
    next
      case (Some e)
      obtain rc' message where e: "e = (rc', message)" by (cases e)
      obtain w' where "fail_pam env rc' message x = Some (Inl message, w')"
        using fail_pam_ok [OF assms(1) ix] by blast
      with True x Some e show ?thesis by (simp add: run)
    qed
  qed
qed

lemma authenticate_user_ok:
  assumes "well_behaved env" and "in_transaction w"
  shows "\<exists>r. mdm_session_worker_authenticate_user env b w = Some r"
proof -
  obtain rc u where u: "call_pam env (Pam_authenticate b) w = Some (rc, u)" "in_transaction u"
    using call_pam_ok [OF assms] by metis
  have "\<exists>r. fail_pam env e m u = Some r" for e m
    using fail_pam_ok [OF assms(1) u(2)] by blast
  with u(1) show ?thesis by (simp add: mdm_session_worker_authenticate_user_def Let_def)
qed

lemma authorize_user_ok:
  assumes "well_behaved env" and "in_transaction w"
  shows "\<exists>r. mdm_session_worker_authorize_user env b w = Some r"
proof -
  obtain rc u where u: "call_pam env (Pam_acct_mgmt b) w = Some (rc, u)" "in_transaction u"
    using call_pam_ok [OF assms] by metis
  obtain rc' v where v: "call_pam env Pam_chauthtok u = Some (rc', v)" "in_transaction v"
    using call_pam_ok [OF assms(1) u(2)] by metis
  obtain x where x: "report (if rc' \<noteq> PAM_SUCCESS then Password_change_failure else Password_changed) v
      = Some x" "in_transaction x"
    using report_ok [OF v(2)] by blast
  have "\<exists>r. fail_pam env e m y = Some r" if "y = u \<or> y = x" for e m y
    using fail_pam_ok [OF assms(1)] u(2) x(2) that by blast
  with u(1) v(1) x(1) show ?thesis by (simp add: mdm_session_worker_authorize_user_def Let_def)
qed

lemma named_basic [simp]:
  "named w (snd (syscall env c w))" "named w (emit e w)"
  "named w (mdm_session_worker_set_environment_variable k v w)"
  "report r w = Some w' \<Longrightarrow> named w w'"
  "named w (default_path w)"
  "named w (mdm_session_worker_update_environment_from_passwd_info home shell w)"
  "named w (snd (change_user env u g user w))"
  by (auto simp: named_def syscall_def Let_def emit_def report_def default_path_def change_user_def
      mdm_session_worker_set_environment_variable_def split_beta
      mdm_session_worker_update_environment_from_passwd_info_def split: option.splits)

lemma accredit_user_ok:
  assumes "well_behaved env" and "in_transaction w" and "identified w"
  shows "\<exists>r w'. mdm_session_worker_accredit_user env w = Some (r, w') \<and>
           (r = Inr () \<longrightarrow> username w' \<noteq> None)"
proof (cases "username w")
  case None
  then show ?thesis
    using fail_pam_ok [OF assms(1,2)] by (fastforce simp: mdm_session_worker_accredit_user_def)
next
  case (Some user)
  obtain entry where entry: "lookup_passwd_info env user w = Some entry"
    using well_behaved_loops(2) [OF assms(1)] by blast
  show ?thesis
  proof (cases entry)
    case None
    then show ?thesis
      using Some entry fail_pam_ok [OF assms(1,2)] by (fastforce simp: mdm_session_worker_accredit_user_def)
  next
    case pw: (Some pw)
    define v where "v = change_user env (pw_uid pw) (pw_gid pw) user
        (default_path (mdm_session_worker_update_environment_from_passwd_info (pw_dir pw) (pw_shell pw) w))"
    have "same_login w (snd v)"
      unfolding v_def using same_login_accreditation by (blast intro: same_login_trans)
    note sv = this
    then have tv: "in_transaction (snd v)" using assms(2) by (rule in_transaction_same_login)
    have idv: "identified (snd v)" using sv assms(3) by (simp add: same_login_def identified_def)
    have "named w (snd v)"
      unfolding v_def by (rule named_trans [OF named_trans [OF named_basic(6,5)] named_basic(7)])
    then have nv: "username (snd v) \<noteq> None" using Some by (simp add: named_def)
    obtain rc u where u: "call_pam env (Pam_setcred (cred_flags (snd v))) (snd v) = Some (rc, u)"
      "in_transaction u"
      using call_pam_ok [OF assms(1) tv] by metis
    obtain x where x: "report User_accredited u = Some x"
      using report_ok [OF u(2)] by blast
    have "named u x" using x by simp
    then have nx: "username x \<noteq> None"
      using call_pam_named [OF assms(1) idv u(1)] nv by (simp add: named_def)
    have body: "mdm_session_worker_accredit_user env w =
      (if \<not> fst v then fail_pam env PAM_SYSTEM_ERR ''Unable to change to user'' (snd v)
       else if rc \<noteq> PAM_SUCCESS then fail_pam env rc (pam_strerror env rc) u
       else Some (Inr (), x\<lparr>state := MDM_SESSION_WORKER_STATE_ACCREDITED\<rparr>))"
      using Some entry pw u(1) x
      by (simp add: mdm_session_worker_accredit_user_def v_def Let_def split_beta cong: if_cong)
    obtain w1 where "fail_pam env PAM_SYSTEM_ERR ''Unable to change to user'' (snd v)
        = Some (Inl ''Unable to change to user'', w1)"
      using fail_pam_ok [OF assms(1) tv] by blast
    moreover obtain w2 where "fail_pam env rc (pam_strerror env rc) u = Some (Inl (pam_strerror env rc), w2)"
      using fail_pam_ok [OF assms(1) u(2)] by blast
    ultimately show ?thesis using nx by (auto simp: body)
  qed
qed

lemma open_user_session_ok:
  assumes "well_behaved env" and "in_transaction w" and "username w \<noteq> None"
    and "state w = MDM_SESSION_WORKER_STATE_ACCREDITED" and "identified w"
  shows "\<exists>r w'. mdm_session_worker_open_user_session env w = Some (r, w') \<and>
           (r = Inr () \<longrightarrow> username w' \<noteq> None)"
proof -
  define v where "v = snd (syscall env Geteuid w)"
  have tv: "in_transaction v"
    unfolding v_def using syscall_alike assms(2) by (rule in_transaction_alike)
  have "named w v" by (simp add: v_def)
  have idv: "identified v" using assms(5) by (simp add: v_def identified_def)
  obtain rc u where u: "call_pam env Pam_open_session v = Some (rc, u)" "in_transaction u"
    using call_pam_ok [OF assms(1) tv] by metis
  have nu: "username u \<noteq> None"
    using call_pam_named [OF assms(1) idv u(1)] \<open>named w v\<close> assms(3) by (simp add: named_def)
  have "in_transaction (u\<lparr>state := MDM_SESSION_WORKER_STATE_SESSION_OPENED\<rparr>)"
    using u(2) by (simp add: in_transaction_def)
  from report_ok [OF this, of Login]
  obtain x where x: "report Login (u\<lparr>state := MDM_SESSION_WORKER_STATE_SESSION_OPENED\<rparr>) = Some x"
    by blast
  have nx: "username x \<noteq> None" using named_basic(4) [OF x] nu by (simp add: named_def)
  have "fst (syscall env Geteuid w) = 0"
    using well_behavedD(3) [OF assms(1)] by (simp add: syscall_def Let_def)
  then have body: "mdm_session_worker_open_user_session env w =
      (if rc \<noteq> PAM_SUCCESS then fail_pam env rc (pam_strerror env rc) u else Some (Inr (), x))"
    using assms(4) u(1) x
    by (simp add: mdm_session_worker_open_user_session_def v_def Let_def split_beta cong: if_cong)
  obtain w2 where "fail_pam env rc (pam_strerror env rc) u = Some (Inl (pam_strerror env rc), w2)"
    using fail_pam_ok [OF assms(1) u(2)] by blast
  then show ?thesis using nx by (auto simp: body)
qed

text \<open>The bookkeeping before the session's process is started does not touch the user's name.\<close>

lemma environment_from_pam_keeps:
  "username (mdm_session_worker_update_environment_from_pam env w) = username w"
  "arguments (mdm_session_worker_update_environment_from_pam env w) = arguments w"
proof -
  have "username (fold (\<lambda>variable w. case split_variable variable of
      (key, val) \<Rightarrow> mdm_session_worker_set_environment_variable key val w) vs u) = username u \<and>
    arguments (fold (\<lambda>variable w. case split_variable variable of
      (key, val) \<Rightarrow> mdm_session_worker_set_environment_variable key val w) vs u) = arguments u" for vs u
    by (induction vs arbitrary: u)
       (auto simp: split_beta mdm_session_worker_set_environment_variable_def)
  then show "username (mdm_session_worker_update_environment_from_pam env w) = username w"
    "arguments (mdm_session_worker_update_environment_from_pam env w) = arguments w"
    by (simp_all add: mdm_session_worker_update_environment_from_pam_def)
qed

lemma register_ck_session_ok:
  assumes "well_behaved env" and "username w = Some user"
  shows "\<exists>w'. register_ck_session env w = Some w' \<and> username w' = Some user \<and>
           arguments w' = arguments w"
proof -
  obtain b pwent where pw: "mdm_get_pwent_for_name (getpwnam_answer env (trace w) user) = Some (b, pwent)"
    using well_behaved_loops(1) [OF assms(1)] by fastforce
  have "\<exists>res u. open_ck_session env w = Some (res, u) \<and> username u = Some user \<and>
      arguments u = arguments w"
    using assms(2) pw by (cases pwent) (auto simp: open_ck_session_def Let_def emit_def)
  then show ?thesis
    by (auto simp: register_ck_session_def Let_def mdm_session_worker_set_environment_variable_def
        split: option.split)
qed

lemma register_ck_session_arguments:
  assumes "register_ck_session env w = Some w'"
  shows "arguments w' = arguments w"
proof -
  from assms obtain res u where u: "open_ck_session env w = Some (res, u)"
    and w': "arguments w' = arguments u"
    by (auto simp: register_ck_session_def bind_eq_Some_conv Let_def
        mdm_session_worker_set_environment_variable_def split: option.splits if_splits)
  from u obtain user b pwent where "username w = Some user"
    and pw: "mdm_get_pwent_for_name (getpwnam_answer env (trace w) user) = Some (b, pwent)"
    by (auto simp: open_ck_session_def bind_eq_Some_conv Let_def split: option.split_asm)
  with u have "arguments u = arguments w"
    by (cases pwent) (auto simp: open_ck_session_def Let_def emit_def split: if_split_asm)
  with w' show ?thesis by simp
qed

lemma start_user_session_ok:
  assumes "well_behaved env" and "in_transaction w" and "username w \<noteq> None" and "arguments w \<noteq> None"
  shows "\<exists>r w'. mdm_session_worker_start_user_session env w = Some (r, w') \<and>
           (r = Inr () \<longrightarrow> username w' \<noteq> None)"
proof -
  define p where "p = mdm_session_worker_update_environment_from_pam env w"
  obtain user where user: "username w = Some user" using assms(3) by blast
  have "username p = Some user" by (simp add: p_def environment_from_pam_keeps user)
  from register_ck_session_ok [OF assms(1) this]
  obtain u where u: "register_ck_session env p = Some u" "username u = Some user"
    "arguments u = arguments p" by blast
  obtain pw where pw: "mdm_get_pwent_for_name (getpwnam_answer env (trace u) user) = Some pw"
    using well_behaved_loops(1) [OF assms(1)] by blast
  obtain args where args: "arguments u = Some args"
    using u(3) assms(4) by (auto simp: p_def environment_from_pam_keeps)
  have "same_login w u"
    using same_login_environment_from_pam same_login_register_ck_session [OF u(1)]
    unfolding p_def by (rule same_login_trans)
  then have "same_login w (snd (syscall env Fork u))" by simp
  then have tv: "in_transaction (snd (syscall env Fork u))"
    using assms(2) by (rule in_transaction_same_login)
  have fork: "fst (syscall env Fork u) \<noteq> 0"
    using well_behavedD(2) [OF assms(1)] by (simp add: syscall_def Let_def)
  have nv: "username (snd (syscall env Fork u)) = Some user"
    using u(2) by (simp add: syscall_def Let_def)
  define m where "m = strerror env (sys_errno env (trace (snd (syscall env Fork u))))"
  obtain w2 where "fail_pam env PAM_ABORT m (snd (syscall env Fork u)) = Some (Inl m, w2)"
    using fail_pam_ok [OF assms(1) tv] by blast
  with fork u(1,2) pw args nv show ?thesis
    by (simp add: mdm_session_worker_start_user_session_def p_def Let_def split_beta m_def
        mdm_session_worker_watch_child_def)
qed

subsection \<open>The machine does not abort\<close>

definition live_inv :: "worker \<Rightarrow> bool" where
  "live_inv w \<longleftrightarrow> worker_inv w \<and>
     (state_change_idle_id w \<longrightarrow> state w \<noteq> MDM_SESSION_WORKER_STATE_SESSION_STARTED) \<and>
     (state_change_idle_id w \<and> state w = MDM_SESSION_WORKER_STATE_SESSION_OPENED \<longrightarrow>
        arguments w \<noteq> None) \<and>
     (state w \<ge> MDM_SESSION_WORKER_STATE_ACCREDITED \<longrightarrow> username w \<noteq> None)"

lemma live_inv_init: "live_inv mdm_session_worker_init"
  using worker_inv_init by (simp add: live_inv_def mdm_session_worker_init_def)

lemma answer_step_username [simp]: "username (answer_step env f d rw) = username (snd rw)"
  by (simp add: answer_step_def username_same split: prod.split sum.split)

lemma torn_down_or:
  "outcome s w r w' \<Longrightarrow> (r = Inr () \<longrightarrow> P w') \<Longrightarrow>
     stable w w' \<and> (state w' = MDM_SESSION_WORKER_STATE_NONE \<or> state w' = s \<and> P w')"
  by (cases r) (auto simp: outcome_def torn_down_def)

text \<open>What an idle callback leaves behind: nothing is queued, and the name is there when needed.\<close>

definition quiescent :: "worker \<Rightarrow> bool" where
  "quiescent w \<longleftrightarrow> \<not> state_change_idle_id w \<and>
     (state w \<ge> MDM_SESSION_WORKER_STATE_ACCREDITED \<longrightarrow> username w \<noteq> None)"

lemma quiescent_outcome:
  assumes "outcome s w r x" and "\<not> state_change_idle_id w"
    and "s \<ge> MDM_SESSION_WORKER_STATE_ACCREDITED \<longrightarrow> r = Inr () \<longrightarrow> username x \<noteq> None"
    and "quiet x w'" and "username w' = username x \<or> s < MDM_SESSION_WORKER_STATE_ACCREDITED"
  shows "quiescent w'"
  using assms quiet_fields [OF assms(4)]
  by (cases r) (auto simp: outcome_def torn_down_def quiescent_def stable_def)

lemma do_setup_ok:
  assumes "well_behaved env" and "worker_inv w" and "\<not> state_change_idle_id w"
    and "state w = MDM_SESSION_WORKER_STATE_NONE"
  shows "\<exists>w'. do_setup env w = Some w' \<and> quiescent w'"
proof -
  define u where "u = w\<lparr>user_settings := Some mdm_session_settings_new\<rparr>"
  define v where "v = (case username w of None \<Rightarrow> u | Some user \<Rightarrow> attempt_to_load_user_settings env user u)"
  have uv: "quiet u v" by (simp add: v_def attempt_to_load_quiet split: option.split)
  have iu: "worker_inv u" using assms(2) by (simp add: u_def worker_inv_def)
  have iv: "worker_inv v" using worker_inv_quiet [OF uv] iu by simp
  have fv: "state v = 0" "\<not> state_change_idle_id v" "user_settings v \<noteq> None" "\<not> pam_handle v"
    using quiet_fields [OF uv] assms(2-4) by (auto simp: u_def worker_inv_def)
  obtain r x where x: "mdm_session_worker_initialize_pam env v = Some (r, x)"
    using initialize_pam_ok [OF assms(1) fv(4,3)] by fastforce
  then have "do_setup env w = Some (answer_step env ''SetupFailed'' ''SetupComplete'' (r, x))"
    unfolding do_setup_def Let_def v_def u_def by simp
  moreover have "quiescent (answer_step env ''SetupFailed'' ''SetupComplete'' (r, x))"
    by (rule quiescent_outcome [OF initialize_pam_outcome [OF iv x] fv(2)
          _ answer_step_quiet]) simp_all
  ultimately show ?thesis by blast
qed

lemma do_authenticate_ok:
  assumes "well_behaved env" and "worker_inv w" and "\<not> state_change_idle_id w"
    and "state w = MDM_SESSION_WORKER_STATE_SETUP_COMPLETE"
  shows "\<exists>w'. do_authenticate env w = Some w' \<and> quiescent w'"
proof -
  have t: "in_transaction w" using worker_inv_handle [OF assms(2)] assms(4) by (simp add: in_transaction_def)
  obtain r x where x: "mdm_session_worker_authenticate_user env (password_is_required w) w = Some (r, x)"
    using authenticate_user_ok [OF assms(1) t] by fastforce
  note o = authenticate_user_outcome [OF assms(2,4) x]
  show ?thesis
  proof (cases r)
    case (Inl message)
    with x have "do_authenticate env w = Some (snd (send_dbus_string_method env ''AuthenticationFailed''
        (Some message) x))" by (simp add: do_authenticate_def)
    moreover have "quiescent (snd (send_dbus_string_method env ''AuthenticationFailed'' (Some message) x))"
      by (rule quiescent_outcome [OF o assms(3) _ send_dbus_quiet_snd(1)]) simp_all
    ultimately show ?thesis by blast
  next
    case (Inr u)
    have "conversing x"
      using o t Inr by (auto simp: outcome_def conversing_def stable_def in_transaction_def)
    then obtain y where y: "mdm_session_worker_update_username env x = Some y"
      by (rule update_username_total)
    with x Inr have "do_authenticate env w = Some (snd (send_dbus_void_method env ''Authenticated'' y))"
      by (simp add: do_authenticate_def)
    moreover have "quiescent (snd (send_dbus_void_method env ''Authenticated'' y))"
      by (rule quiescent_outcome [OF o assms(3) _ quiet_trans [OF update_username_quiet [OF y]
              send_dbus_quiet_snd(3)]]) simp_all
    ultimately show ?thesis by blast
  qed
qed

lemma do_authorize_ok:
  assumes "well_behaved env" and "worker_inv w" and "\<not> state_change_idle_id w"
    and "state w = MDM_SESSION_WORKER_STATE_AUTHENTICATED"
  shows "\<exists>w'. do_authorize env w = Some w' \<and> quiescent w'"
proof -
  have t: "in_transaction w" using worker_inv_handle [OF assms(2)] assms(4) by (simp add: in_transaction_def)
  obtain r x where x: "mdm_session_worker_authorize_user env (password_is_required w) w = Some (r, x)"
    using authorize_user_ok [OF assms(1) t] by fastforce
  then have "do_authorize env w = Some (answer_step env ''AuthorizationFailed'' ''Authorized'' (r, x))"
    by (simp add: do_authorize_def)
  moreover have "quiescent (answer_step env ''AuthorizationFailed'' ''Authorized'' (r, x))"
    by (rule quiescent_outcome [OF authorize_user_outcome [OF assms(2,4) x] assms(3) _ answer_step_quiet])
       simp_all
  ultimately show ?thesis by blast
qed

lemma do_accredit_ok:
  assumes "well_behaved env" and "worker_inv w" and "\<not> state_change_idle_id w"
    and "state w = MDM_SESSION_WORKER_STATE_AUTHORIZED" and "cred_flags w = PAM_ESTABLISH_CRED"
  shows "\<exists>w'. do_accredit env w = Some w' \<and> quiescent w'"
proof -
  have t: "in_transaction w" using worker_inv_handle [OF assms(2)] assms(4) by (simp add: in_transaction_def)
  have i: "identified w" using worker_inv_phase [OF assms(2)] assms(4) by (simp add: identified_def phase_of_state_def)
  obtain r x where x: "mdm_session_worker_accredit_user env w = Some (r, x)"
    and n: "r = Inr () \<longrightarrow> username x \<noteq> None"
    using accredit_user_ok [OF assms(1) t i] by blast
  then have "do_accredit env w = Some (answer_step env ''AccreditationFailed'' ''Accredited'' (r, x))"
    by (simp add: do_accredit_def)
  moreover have "quiescent (answer_step env ''AccreditationFailed'' ''Accredited'' (r, x))"
    by (rule quiescent_outcome [OF accredit_user_outcome [OF assms(2,4,5) x] assms(3) _ answer_step_quiet])
       (simp_all add: n)
  ultimately show ?thesis by blast
qed

lemma do_open_session_ok:
  assumes "well_behaved env" and "worker_inv w" and "\<not> state_change_idle_id w"
    and "state w = MDM_SESSION_WORKER_STATE_ACCREDITED" and "username w \<noteq> None"
  shows "\<exists>w'. do_open_session env w = Some w' \<and> quiescent w'"
proof -
  have t: "in_transaction w" using worker_inv_handle [OF assms(2)] assms(4) by (simp add: in_transaction_def)
  have i: "identified w" using worker_inv_phase [OF assms(2)] assms(4) by (simp add: identified_def phase_of_state_def)
  obtain r x where x: "mdm_session_worker_open_user_session env w = Some (r, x)"
    and n: "r = Inr () \<longrightarrow> username x \<noteq> None"
    using open_user_session_ok [OF assms(1) t assms(5,4) i] by blast
  then have "do_open_session env w = Some (answer_step env ''OpenFailed'' ''SessionOpened'' (r, x))"
    by (simp add: do_open_session_def)
  moreover have "quiescent (answer_step env ''OpenFailed'' ''SessionOpened'' (r, x))"
    by (rule quiescent_outcome [OF open_user_session_outcome [OF assms(2) x] assms(3) _ answer_step_quiet])
       (simp_all add: n)
  ultimately show ?thesis by blast
qed

lemma do_start_session_ok:
  assumes "well_behaved env" and "worker_inv w" and "\<not> state_change_idle_id w"
    and "state w = MDM_SESSION_WORKER_STATE_SESSION_OPENED" and "username w \<noteq> None"
    and "arguments w \<noteq> None"
  shows "\<exists>w'. do_start_session env w = Some w' \<and> quiescent w'"
proof -
  have t: "in_transaction w" using worker_inv_handle [OF assms(2)] assms(4) by (simp add: in_transaction_def)
  obtain r x where x: "mdm_session_worker_start_user_session env w = Some (r, x)"
    and n: "r = Inr () \<longrightarrow> username x \<noteq> None"
    using start_user_session_ok [OF assms(1) t assms(5,6)] by blast
  define y where "y = (case r of
      Inl message \<Rightarrow> snd (send_dbus_string_method env ''StartFailed'' (Some message) x)
    | Inr _ \<Rightarrow> snd (send_dbus_int_method env ''SessionStarted'' (child_pid x) x))"
  have "do_start_session env w = Some y" using x by (simp add: do_start_session_def y_def)
  moreover have "quiescent y"
    by (rule quiescent_outcome [OF start_user_session_outcome [OF assms(2,4) x] assms(3)])
       (simp_all add: n y_def username_same split: sum.split)
  ultimately show ?thesis by blast
qed

lemma state_change_idle_ok:
  assumes "well_behaved env" and "live_inv w" and "state_change_idle_id w"
  shows "\<exists>w'. state_change_idle env w = Some w' \<and> live_inv w'"
proof -
  define v where "v = w\<lparr>state_change_idle_id := False\<rparr>"
  have iw: "worker_inv w" using assms(2) by (simp add: live_inv_def)
  have iv: "worker_inv v" and q: "\<not> state_change_idle_id v" and s: "state v = state w"
    using iw by (simp_all add: worker_inv_def v_def)
  have cf: "state v = 3 \<Longrightarrow> cred_flags v = PAM_ESTABLISH_CRED"
    using iw assms(3) by (simp add: worker_inv_def v_def)
  have n: "state v \<ge> 4 \<Longrightarrow> username v \<noteq> None" and a: "state v = 5 \<Longrightarrow> arguments v \<noteq> None"
    and "state v < 6"
    using assms(2,3) by (auto simp: live_inv_def v_def worker_inv_def)
  then consider "state v = 0" | "state v = 1" | "state v = 2" | "state v = 3" | "state v = 4" | "state v = 5"
    by linarith
  then have "\<exists>w'. state_change_idle env w = Some w' \<and> quiescent w'"
    using do_setup_ok [OF assms(1) iv q] do_authenticate_ok [OF assms(1) iv q]
      do_authorize_ok [OF assms(1) iv q] do_accredit_ok [OF assms(1) iv q _ cf]
      do_open_session_ok [OF assms(1) iv q _ n] do_start_session_ok [OF assms(1) iv q _ n a]
    unfolding state_change_idle_def Let_def v_def [symmetric] s [symmetric]
    by cases (simp_all add: get_state_name_def)
  then obtain w' where w': "state_change_idle env w = Some w'" "quiescent w'" by blast
  have "worker_inv w'"
    using iw assms(3) w'(1) by (rule state_change_idle_inv(1))
  with w' show ?thesis by (auto simp: live_inv_def quiescent_def)
qed

lemma ignore_spurious_ok: "state w \<le> MDM_SESSION_WORKER_STATE_SESSION_STARTED \<Longrightarrow> ignore_spurious w = Some w"
proof -
  assume "state w \<le> MDM_SESSION_WORKER_STATE_SESSION_STARTED"
  then have "state w \<in> {0, 1, 2, 3, 4, 5, 6}" by auto
  then show ?thesis by (auto simp: ignore_spurious_def get_state_name_def)
qed

text \<open>The part of the live invariant beyond the invariant, and what keeps it.\<close>

definition unqueued_like :: "worker \<Rightarrow> worker \<Rightarrow> bool" where
  "unqueued_like w w' \<longleftrightarrow> state w' = state w \<and> (state_change_idle_id w' \<longrightarrow> state_change_idle_id w) \<and>
     (arguments w \<noteq> None \<longrightarrow> arguments w' \<noteq> None) \<and> (username w \<noteq> None \<longrightarrow> username w' \<noteq> None)"

lemma live_inv_unqueued:
  "live_inv w \<Longrightarrow> worker_inv w' \<Longrightarrow> unqueued_like w w' \<Longrightarrow> live_inv w'"
  by (auto simp: live_inv_def unqueued_like_def)

lemma change_settings_unqueued: "unqueued_like w (change_settings env f w)"
proof -
  have "username (change_settings env f w) = username w"
    by (simp add: change_settings_def username_settings split: option.split prod.split)
  then show ?thesis
    using quiet_fields [OF change_settings_quiet, of env f w] by (simp add: unqueued_like_def)
qed

lemma handle_message_ok:
  assumes "live_inv w" and "legal_event env (Message m)"
  shows "\<exists>w'. worker_dbus_handle_message env m w = Some w' \<and> live_inv w'"
proof -
  have iw: "worker_inv w" and s: "state w \<le> 6" using assms(1) by (simp_all add: live_inv_def worker_inv_def)
  note ignored = ignore_spurious_ok [OF s]
  have "\<exists>w'. worker_dbus_handle_message env m w = Some w' \<and> (worker_inv w' \<longrightarrow> live_inv w')"
  proof (cases m)
    case (Setup x)
    with assms(1) ignored show ?thesis
      by (auto simp: worker_dbus_handle_message_def on_setup_def live_inv_def queue_state_change_def
          split: option.split)
  next
    case (SetupForUser x)
    with assms(1) ignored show ?thesis
      by (auto simp: worker_dbus_handle_message_def on_setup_for_user_def live_inv_def
          queue_state_change_def split: option.split)
  next
    case (StartProgram x)
    with assms ignored show ?thesis
      by (auto simp: worker_dbus_handle_message_def on_start_program_def live_inv_def legal_event_def
          queue_state_change_def Let_def split: option.split)
  next
    case Reauthenticate
    with assms(2) show ?thesis by (simp add: legal_event_def)
  next
    case (SetEnvironmentVariable x)
    with assms(1) show ?thesis
      by (auto simp: worker_dbus_handle_message_def on_set_environment_variable_def live_inv_def
          mdm_session_worker_set_environment_variable_def split: option.split)
  next
    case (SetLanguageName x)
    then show ?thesis using live_inv_unqueued [OF assms(1) _ change_settings_unqueued]
      by (auto simp: worker_dbus_handle_message_def on_set_language_name_def assms(1) split: option.split)
  next
    case (SetLayoutName x)
    then show ?thesis using live_inv_unqueued [OF assms(1) _ change_settings_unqueued]
      by (auto simp: worker_dbus_handle_message_def on_set_layout_name_def assms(1) split: option.split)
  next
    case (SetSessionName x)
    then show ?thesis using live_inv_unqueued [OF assms(1) _ change_settings_unqueued]
      by (auto simp: worker_dbus_handle_message_def on_set_session_name_def assms(1) split: option.split)
  next
    case (SetIsFailsafe x)
    then show ?thesis using live_inv_unqueued [OF assms(1) _ change_settings_unqueued]
      by (auto simp: worker_dbus_handle_message_def on_set_is_session_failsafe_def assms(1)
          split: option.split)
  qed (use assms(1) s ignored in \<open>auto simp: worker_dbus_handle_message_def on_authenticate_def
      on_authorize_def on_open_session_def on_establish_credentials_def on_reauthorize_def
      on_refresh_credentials_def live_inv_def queue_state_change_def\<close>)
  then show ?thesis using handle_message_inv [OF iw] by blast
qed

lemma child_watch_ok:
  assumes "well_behaved env" and "worker_inv w" and "state w = MDM_SESSION_WORKER_STATE_SESSION_STARTED"
  shows "\<exists>w'. session_worker_child_watch env status (w\<lparr>child_watch_armed := False\<rparr>) = Some w' \<and>
           state w' = MDM_SESSION_WORKER_STATE_NONE"
proof -
  define u where "u = w\<lparr>child_watch_armed := False\<rparr>"
  define v where "v = close_ck_session (case status of
      Status code \<Rightarrow> snd (send_dbus_int_method env ''SessionExited'' code u)
    | Signal num \<Rightarrow> snd (send_dbus_int_method env ''SessionDied'' num u)
    | Unknown_status \<Rightarrow> u)"
  have close: "same_login x (close_ck_session x)" for x
    by (simp add: close_ck_session_def same_login_trans [OF same_login_environment(3) same_login_emit])
  have uv: "same_login u v"
    by (cases status) (auto simp: v_def intro: same_login_trans [OF same_login_quiet close] close)
  have "in_transaction u" using worker_inv_handle [OF assms(2)] assms(3) by (simp add: u_def in_transaction_def)
  then have tv: "in_transaction v" by (rule in_transaction_same_login [OF uv])
  then obtain x where x: "mdm_session_worker_uninitialize_pam env PAM_SUCCESS v = Some x"
    using uninitialize_ok [OF assms(1)] by blast
  have "session_worker_child_watch env status u = Some (x\<lparr>child_pid := -1\<rparr>)"
    unfolding session_worker_child_watch_def Let_def v_def [symmetric] using x by simp
  moreover have "state x = 0"
    using x tv by (auto simp: mdm_session_worker_uninitialize_pam_def in_transaction_def Let_def
        bind_eq_Some_conv)
  ultimately show ?thesis by (simp add: u_def)
qed

lemma worker_step_live:
  assumes "well_behaved env" and "live_inv w" and "legal_event env e"
  shows "\<exists>w'. worker_step env e w = Some w' \<and> live_inv w'"
proof -
  have iw: "worker_inv w" using assms(2) by (simp add: live_inv_def)
  show ?thesis
  proof (cases e)
    case (Message m)
    with assms(2,3) handle_message_ok show ?thesis
      by (simp add: worker_step_def worker_dbus_filter_function_def)
  next
    case Idle
    with assms state_change_idle_ok show ?thesis by (simp add: worker_step_def)
  next
    case Disconnected
    with assms(2) show ?thesis
      by (simp add: worker_step_def worker_dbus_filter_function_def live_inv_def worker_inv_def)
  next
    case (Child_ended status)
    have armed: "child_watch_armed w \<Longrightarrow> state w = 6" using iw by (simp add: worker_inv_def)
    show ?thesis
    proof (cases "connection w \<and> child_watch_armed w")
      case False
      with assms(2) Child_ended show ?thesis by (auto simp: worker_step_def)
    next
      case True
      then obtain w' where w': "session_worker_child_watch env status (w\<lparr>child_watch_armed := False\<rparr>) = Some w'"
        "state w' = 0" using child_watch_ok [OF assms(1) iw armed] by blast
      then have "live_inv w'"
        using child_watch_inv [OF iw armed w'(1)] True by (simp add: live_inv_def)
      with w'(1) True Child_ended show ?thesis by (simp add: worker_step_def)
    qed
  qed
qed

subsection \<open>The machine as an instance of the event machines\<close>

text \<open>With any events the worker keeps its invariant; with legal ones it does not abort.\<close>

interpretation worker_machine:
  event_machine "worker_step env" worker_inv for env
  by unfold_locales (use worker_step_inv in blast)

definition legal_step :: "env \<Rightarrow> event \<Rightarrow> worker \<Rightarrow> worker option" where
  "legal_step env e w = (if legal_event env e then worker_step env e w else None)"

interpretation live_worker:
  live_machine "legal_step env" "\<lambda>w. well_behaved env \<and> live_inv w" "legal_event env" for env
  by unfold_locales (use worker_step_live in \<open>fastforce simp: legal_step_def split: if_splits\<close>)+

lemma run_legal_step:
  "\<forall>e \<in> set es. legal_event env e \<Longrightarrow> run (legal_step env) es w = run (worker_step env) es w"
  by (induction es arbitrary: w) (auto simp: legal_step_def split: Option.bind_splits)

end
