(* ===== verification/Worker_Start.thy ===== *)
theory Worker_Start
  imports Worker_Session
begin

text \<open>
  What the start of a session guarantees: the session's process touches the user's files and runs
  the program only after it has become the user, the search of \<open>PATH\<close> agrees with a declarative
  specification, the environment it passes on is the table's, and what is cached is only what the
  check of the files allows.
\<close>

subsection \<open>Becoming the user\<close>

text \<open>System calls that act on the user's files, or run the program.\<close>

definition user_call :: "syscall \<Rightarrow> bool" where
  "user_call c \<longleftrightarrow>
     (case c of
        Chdir _ \<Rightarrow> True | Execve _ _ _ \<Rightarrow> True | Access _ \<Rightarrow> True | Rename _ _ \<Rightarrow> True
      | Open _ \<Rightarrow> True | Mkstemp _ \<Rightarrow> True | Ftruncate _ \<Rightarrow> True | Fchmod _ \<Rightarrow> True
      | Copy_file _ _ \<Rightarrow> True | Write_settings _ \<Rightarrow> True
      | _ \<Rightarrow> False)"

text \<open>Behind a trace the process runs as user \<open>u\<close>: a \<open>setuid\<close> to it has worked.\<close>

fun became_user :: "env \<Rightarrow> nat \<Rightarrow> trace \<Rightarrow> bool" where
  "became_user env u [] = False"
| "became_user env u (e # t) =
     (became_user env u t \<or> (e = Sys (Setuid u) \<and> 0 \<le> sys_result env (e # t)))"

fun only_as_user :: "env \<Rightarrow> nat \<Rightarrow> trace \<Rightarrow> bool" where
  "only_as_user env u [] = True"
| "only_as_user env u (e # t) = (only_as_user env u t \<and>
     (case e of Sys c \<Rightarrow> user_call c \<longrightarrow> became_user env u t | _ \<Rightarrow> True))"

text \<open>Both at once is kept by whatever the process does next.\<close>

definition as_user :: "env \<Rightarrow> nat \<Rightarrow> worker \<Rightarrow> bool" where
  "as_user env u w \<longleftrightarrow> became_user env u (trace w) \<and> only_as_user env u (trace w)"

lemma as_user_syscall [simp]: "as_user env u w \<Longrightarrow> as_user env u (snd (syscall env c w))"
  by (simp add: as_user_def syscall_def Let_def)

lemma as_user_files:
  "as_user env u w \<Longrightarrow> as_user env u (snd (mdm_cache_copy_file env src dst w))"
  "as_user env u w \<Longrightarrow> as_user env u (snd (mdm_session_worker_create_cachedir env w))"
  by (simp_all add: mdm_cache_copy_file_def mdm_session_worker_create_cachedir_def split_beta Let_def)

lemma as_user_cache_userfiles:
  assumes "as_user env u w" and "mdm_session_worker_cache_userfiles env w = Some w'"
  shows "as_user env u w'"
  using assms
  by (auto simp: mdm_session_worker_cache_userfiles_def bind_eq_Some_conv Let_def split_beta
      as_user_files split: option.split_asm if_split_asm)

lemma as_user_save_settings:
  assumes "as_user env u w" and "save_user_settings env home w = Some w'"
  shows "as_user env u w'"
  using assms
  by (auto simp: save_user_settings_def bind_eq_Some_conv Let_def
      split: option.split_asm if_split_asm elim: as_user_cache_userfiles [rotated])

lemma as_user_log:
  "as_user env u w \<Longrightarrow> as_user env u (rotate_log env dir filename w)"
  "as_user env u w \<Longrightarrow> as_user env u (snd (fd_is_normal_file env fd w))"
  "as_user env u w \<Longrightarrow> as_user env u (snd (open_log_file env filename w))"
  "as_user env u w \<Longrightarrow> as_user env u (snd (open_session_log env home w))"
proof -
  show r: "as_user env u w \<Longrightarrow> as_user env u (rotate_log env dir filename w)" for w dir filename
    by (simp add: rotate_log_def split_beta)
  show f: "as_user env u w \<Longrightarrow> as_user env u (snd (fd_is_normal_file env fd w))" for w fd
    by (simp add: fd_is_normal_file_def split_beta)
  show o: "as_user env u w \<Longrightarrow> as_user env u (snd (open_log_file env filename w))" for w filename
    by (simp add: open_log_file_def Let_def split_beta f)
  show "as_user env u w \<Longrightarrow> as_user env u (snd (open_session_log env home w))"
    by (simp add: open_session_log_def Let_def split_beta r o)
qed

text \<open>The worker in a result of an attempt to execute a program.\<close>

fun worker_of :: "worker + errno \<times> worker \<Rightarrow> worker" where
  "worker_of (Inl w) = w"
| "worker_of (Inr (e, w)) = w"

lemma as_user_try_execute:
  "as_user env u w \<Longrightarrow> as_user env u (worker_of (try_execute env file argv envp w))"
proof -
  have x: "as_user env u w \<Longrightarrow> as_user env u (worker_of (execve env f a p w))" for w f a p
    using as_user_syscall by (simp add: execve_def split_beta)
  assume "as_user env u w"
  then have f: "as_user env u (worker_of (execve env file argv envp w))" by (rule x)
  show "as_user env u (worker_of (try_execute env file argv envp w))"
  proof (cases "execve env file argv envp w")
    case (Inl v)
    with f show ?thesis by (simp add: try_execute_def)
  next
    case (Inr r)
    with f show ?thesis by (cases r) (simp add: try_execute_def script_execute_def x)
  qed
qed

lemma as_user_search:
  "as_user env u w \<Longrightarrow>
     as_user env u (worker_of (search_path_loop env file argv envp dirs got err w))"
proof (induction dirs arbitrary: got err w)
  case Nil
  then show ?case by simp
next
  case (Cons dir dirs)
  note step = as_user_try_execute [OF Cons.prems, of "path_candidate dir file" argv envp]
  show ?case
  proof (cases "try_execute env (path_candidate dir file) argv envp w")
    case (Inl v)
    with step show ?thesis by simp
  next
    case (Inr r)
    then obtain e v where r: "try_execute env (path_candidate dir file) argv envp w = Inr (e, v)"
      by (cases r) simp
    with step have "as_user env u v" by simp
    with r Cons.IH show ?thesis by simp
  qed
qed

lemma as_user_execute:
  "as_user env u w \<Longrightarrow> as_user env u (worker_of (mdm_session_execute env file argv envp search w))"
  by (simp add: mdm_session_execute_def Let_def as_user_try_execute as_user_search)

lemma create_cachedir_only_as_user:
  "only_as_user env u (trace w) \<Longrightarrow>
     only_as_user env u (trace (snd (mdm_session_worker_create_cachedir env w)))"
  "uid (snd (mdm_session_worker_create_cachedir env w)) = uid w"
  by (simp_all add: mdm_session_worker_create_cachedir_def syscall_def Let_def emit_def user_call_def)

text \<open>The child after its two guarded calls: everything in between is done as the user.\<close>

lemma session_child_as_user:
  assumes "session_child env w = Some (r, w')" and "only_as_user env (uid w) (trace w)"
  shows "only_as_user env (uid w) (trace w') \<and>
     (r = Runs_program \<or> r = Exited 127 \<longrightarrow> became_user env (uid w) (trace w')) \<and>
     (r = Runs_program \<or> r = Exited 1 \<or> r = Exited 2 \<or> r = Exited 127)"
proof -
  define a where "a = snd (mdm_session_worker_create_cachedir env w)"
  have u: "uid a = uid w" and oa: "only_as_user env (uid w) (trace a)"
    using create_cachedir_only_as_user assms(2) by (simp_all add: a_def)
  define b where "b = snd (syscall env (Setuid (uid w)) a)"
  define c where "c = snd (syscall env Setsid b)"
  have ob: "only_as_user env (uid w) (trace b)" and oc: "only_as_user env (uid w) (trace c)"
    using oa by (simp_all add: b_def c_def syscall_def Let_def user_call_def)
  consider "fst (syscall env (Setuid (uid w)) a) < 0"
    | "\<not> fst (syscall env (Setuid (uid w)) a) < 0" "fst (syscall env Setsid b) < 0"
    | "\<not> fst (syscall env (Setuid (uid w)) a) < 0" "\<not> fst (syscall env Setsid b) < 0" by blast
  then show ?thesis
  proof cases
    case 1
    then show ?thesis
      using assms(1) ob by (auto simp: session_child_def Let_def split_beta a_def [symmetric] b_def u)
  next
    case 2
    then show ?thesis
      using assms(1) oc
      by (auto simp: session_child_def Let_def split_beta a_def [symmetric] b_def c_def u)
  next
    case 3
    then have "as_user env (uid w) b"
      using ob by (simp add: as_user_def b_def syscall_def Let_def)
    then have c: "as_user env (uid w) c" by (simp add: c_def)
    define home where "home = (case map_of (environment c) ''HOME'' of Some h \<Rightarrow> h | None \<Rightarrow> None)"
    define d where "d = (case home of
        None \<Rightarrow> snd (syscall env (Chdir ''/'') c)
      | Some dir \<Rightarrow> (case syscall env (Chdir dir) c of
          (r, w) \<Rightarrow> if r < 0 then snd (syscall env (Chdir ''/'') w) else w))"
    define e where "e = (let (fd, w) = syscall env (Open ''/dev/null'') d;
        w = snd (syscall env (Close fd) (snd (syscall env (Dup2 fd 0) w)));
        (fd, w) = open_session_log env home w;
        w = snd (syscall env (Dup2 fd 2) (snd (syscall env (Dup2 fd 1) w)))
      in snd (syscall env (Close fd) w))"
    have "as_user env (uid w) d" using c by (simp add: d_def split_beta split: option.split)
    then have e: "as_user env (uid w) e" by (simp add: e_def Let_def split_beta as_user_log)
    from assms(1) 3 obtain f argv where f: "save_user_settings env home e = Some f"
      and rest: "(case argv of [] \<Rightarrow> None
            | file # _ \<Rightarrow> (case mdm_session_execute env file argv
                  (mdm_session_worker_get_environment c) True f of
                   Inl w \<Rightarrow> Some (Runs_program, w) | Inr (e, w) \<Rightarrow> Some (Exited 127, w)))
          = Some (r, w')"
      unfolding session_child_def Let_def split_beta a_def [symmetric] u b_def [symmetric]
        c_def [symmetric] home_def [symmetric] d_def [symmetric, unfolded split_beta] e_def
      by (auto simp: bind_eq_Some_conv)
    have "as_user env (uid w) f" using e f by (rule as_user_save_settings)
    note x = as_user_execute [OF this]
    obtain prog args where argv: "argv = prog # args"
      using rest by (cases argv) auto
    define res where "res = mdm_session_execute env prog argv (mdm_session_worker_get_environment c) True f"
    have "as_user env (uid w) (worker_of res)" by (simp add: res_def x)
    moreover have "(case res of Inl w \<Rightarrow> Some (Runs_program, w) | Inr (e, w) \<Rightarrow> Some (Exited 127, w))
        = Some (r, w')"
      using rest by (simp add: argv res_def)
    ultimately show ?thesis
      by (cases res) (auto simp: as_user_def split: prod.split_asm)
  qed
qed

subsection \<open>The search of the path\<close>

text \<open>A file system whose answers depend on the program alone: \<open>f p\<close> is the error, if any.\<close>

definition execve_answers :: "env \<Rightarrow> (string \<Rightarrow> errno option) \<Rightarrow> bool" where
  "execve_answers env f \<longleftrightarrow> (\<forall>p a e t.
     (case f p of
        None \<Rightarrow> 0 \<le> sys_result env (Sys (Execve p a e) # t)
      | Some err \<Rightarrow> sys_result env (Sys (Execve p a e) # t) < 0 \<and>
          sys_errno env (Sys (Execve p a e) # t) = err))"

text \<open>What one attempt comes to: a file that is no executable format is given to the shell.\<close>

definition attempt :: "(string \<Rightarrow> errno option) \<Rightarrow> string \<Rightarrow> errno option" where
  "attempt f p = (if f p = Some ENOEXEC then f ''/bin/sh'' else f p)"

definition skipped :: "(string \<Rightarrow> errno option) \<Rightarrow> string \<Rightarrow> bool" where
  "skipped f p \<longleftrightarrow> attempt f p \<in> {Some EACCES, Some ENOENT, Some ESTALE, Some ENOTDIR}"

text \<open>
  The specification of the search: the first candidate that is not skipped decides; when all are
  skipped, the error is \<open>EACCES\<close> if any of them was forbidden, and otherwise that of the last.
\<close>

definition search_spec :: "(string \<Rightarrow> errno option) \<Rightarrow> errno \<Rightarrow> string list \<Rightarrow> errno option" where
  "search_spec f err candidates =
     (case dropWhile (skipped f) candidates of
        p # _ \<Rightarrow> attempt f p
      | [] \<Rightarrow> if \<exists>p \<in> set candidates. attempt f p = Some EACCES then Some EACCES
              else if candidates = [] then Some err
              else attempt f (last candidates))"

fun error_of :: "worker + errno \<times> worker \<Rightarrow> errno option" where
  "error_of (Inl w) = None"
| "error_of (Inr (e, w)) = Some e"

lemma error_of_try_execute:
  assumes "execve_answers env f"
  shows "error_of (try_execute env file argv envp w) = attempt f file"
proof -
  have x: "error_of (execve env p a e v) = f p" for p a e v
    using assms [unfolded execve_answers_def, rule_format, of p a e "trace v"]
    by (cases "f p") (simp_all add: execve_def syscall_def Let_def)
  show ?thesis
    using x [of "file" argv envp w]
    by (cases "execve env file argv envp w")
       (auto simp: try_execute_def script_execute_def attempt_def x)
qed

lemma search_spec_skip:
  assumes "attempt f p = Some e" and "skipped f p"
  shows "(if got \<and> dropWhile (skipped f) (p # cs) = [] then Some EACCES else search_spec f err (p # cs)) =
    (if (got \<or> e = EACCES) \<and> dropWhile (skipped f) cs = [] then Some EACCES else search_spec f e cs)"
proof (cases "dropWhile (skipped f) cs")
  case Nil
  with assms show ?thesis by (auto simp: search_spec_def simp del: dropWhile_eq_Nil_conv)
next
  case (Cons c cs')
  with assms(2) show ?thesis by (simp add: search_spec_def)
qed

lemma error_of_search:
  assumes "execve_answers env f"
  shows "error_of (search_path_loop env file argv envp dirs got err w) =
    (let cs = map (\<lambda>d. path_candidate d file) dirs
     in if got \<and> dropWhile (skipped f) cs = [] then Some EACCES else search_spec f err cs)"
proof (induction dirs arbitrary: got err w)
  case Nil
  then show ?case by (simp add: search_spec_def)
next
  case (Cons dir dirs)
  let ?p = "path_candidate dir file"
  note a = error_of_try_execute [OF assms, of ?p argv envp w]
  show ?case
  proof (cases "try_execute env ?p argv envp w")
    case (Inl v)
    with a show ?thesis by (simp add: search_spec_def skipped_def)
  next
    case (Inr r)
    then obtain e v where r: "try_execute env ?p argv envp w = Inr (e, v)" by (cases r) simp
    with a have e: "attempt f ?p = Some e" by simp
    show ?thesis
    proof (cases "skipped f ?p")
      case True
      have "error_of (search_path_loop env file argv envp (dir # dirs) got err w) =
          error_of (search_path_loop env file argv envp dirs (got \<or> e = EACCES) e v)"
        using True e r by (auto simp: skipped_def)
      also have "\<dots> = (let cs = map (\<lambda>d. path_candidate d file) (dir # dirs)
          in if got \<and> dropWhile (skipped f) cs = [] then Some EACCES else search_spec f err cs)"
        unfolding Cons.IH Let_def list.map(2) by (rule search_spec_skip [OF e True, symmetric])
      finally show ?thesis .
    next
      case False
      with e r show ?thesis by (simp add: skipped_def search_spec_def)
    qed
  qed
qed

text \<open>The elements of a search path are its parts between the colons.\<close>

lemma path_elements_cons: "\<exists>d ds. path_elements p = d # ds"
  by (cases p) auto

lemma path_elements_join: "join_with '':'' (path_elements p) = p"
proof (induction p)
  case Nil
  then show ?case by simp
next
  case (Cons c p)
  obtain d ds where d: "path_elements p = d # ds"
    using path_elements_cons by blast
  then show ?case using Cons by (cases ds) auto
qed

lemma path_elements_no_colon: "d \<in> set (path_elements p) \<Longrightarrow> CHR '':'' \<notin> set d"
proof (induction p arbitrary: d)
  case Nil
  then show ?case by simp
next
  case (Cons c p)
  obtain e es where "path_elements p = e # es"
    using path_elements_cons by blast
  with Cons show ?case by (auto split: if_splits)
qed

subsection \<open>The environment of the program\<close>

lemma get_environment_set:
  "set (mdm_session_worker_get_environment w) = {k @ ''='' @ v |k v. (k, Some v) \<in> set (environment w)}"
proof -
  have "set (fold mdm_session_worker_fill_environment_array kvs a) =
      set a \<union> {k @ ''='' @ v |k v. (k, Some v) \<in> set kvs}" for kvs a
    by (induction kvs arbitrary: a)
       (auto simp: mdm_session_worker_fill_environment_array_def split: option.splits, blast+)
  then show ?thesis by (simp add: mdm_session_worker_get_environment_def)
qed

lemma split_variable_join:
  "CHR ''='' \<in> set s \<Longrightarrow> \<exists>v. split_variable s = (takeWhile (\<lambda>c. c \<noteq> CHR ''='') s, Some v) \<and>
     takeWhile (\<lambda>c. c \<noteq> CHR ''='') s @ ''='' @ v = s"
proof -
  assume "CHR ''='' \<in> set s"
  then obtain c v where v: "dropWhile (\<lambda>c. c \<noteq> CHR ''='') s = c # v"
    by (metis (mono_tags, lifting) dropWhile_eq_Nil_conv list.exhaust)
  then have "c = CHR ''=''" by (metis (mono_tags, lifting) dropWhile_eq_Cons_conv)
  with v show ?thesis
    using takeWhile_dropWhile_id [of "\<lambda>c. c \<noteq> CHR ''=''" s] by (simp add: split_variable_def)
qed

lemma environment_from_pam_map:
  "map_of (environment (mdm_session_worker_update_environment_from_pam env w)) =
     fold (\<lambda>s m. m(fst (split_variable s) \<mapsto> snd (split_variable s)))
       (pam_environment env (trace w)) (map_of (environment w))"
proof -
  have "map_of (environment (fold (\<lambda>variable w. case split_variable variable of
      (key, val) \<Rightarrow> mdm_session_worker_set_environment_variable key val w) vs u)) =
    fold (\<lambda>s m. m(fst (split_variable s) \<mapsto> snd (split_variable s))) vs (map_of (environment u))" for vs u
    by (induction vs arbitrary: u)
       (auto simp: split_beta mdm_session_worker_set_environment_variable_def update_conv')
  then show ?thesis by (simp add: mdm_session_worker_update_environment_from_pam_def)
qed

lemma fold_update_other:
  "\<forall>y \<in> set ys. f y \<noteq> k \<Longrightarrow> fold (\<lambda>s m. m(f s \<mapsto> g s)) ys m k = m k"
  by (induction ys arbitrary: m) auto

end
