(* ===== verification/Worker_Properties.thy ===== *)
theory Worker_Properties
  imports Worker_Liveness Worker_Start
begin

text \<open>
  The properties of the session worker, over its runs from the initial state and over its
  operations. The witnesses run the model on one concrete environment, in which a user logs in.
\<close>

subsection \<open>A concrete login\<close>

definition sample_user :: passwd where
  "sample_user =
     \<lparr>pw_name = ''ann'', pw_uid = 1000, pw_gid = 1000, pw_dir = ''/home/ann'', pw_shell = ''/bin/sh''\<rparr>"

fun sample_pam :: "trace \<Rightarrow> pam_io" where
  "sample_pam (Pam_called (Pam_authenticate b) # t) =
     Pam_conv [\<lparr>msg_style = PAM_PROMPT_ECHO_OFF, msg = ''Password:''\<rparr>]
       (\<lambda>a. Pam_return (if a = (PAM_SUCCESS, Some [Some ''secret'']) then PAM_SUCCESS else PAM_AUTH_ERR))"
| "sample_pam t = Pam_return PAM_SUCCESS"

fun sample_daemon :: "trace \<Rightarrow> dbus_reply" where
  "sample_daemon (DBus_method m p # t) = Reply (if m = ''SecretInfoQuery'' then ''secret'' else [])"
| "sample_daemon t = Reply []"

fun sample_kernel :: "trace \<Rightarrow> int" where
  "sample_kernel (Sys Fork # t) = 42"
| "sample_kernel (Sys (Execve p a e) # t) = (if p = ''/usr/bin/mate-session'' then 0 else -1)"
| "sample_kernel t = 0"

text \<open>A greeter that sends no user name: PAM knows the user once it has authenticated him.\<close>

definition sample_user_item :: "trace \<Rightarrow> string option option" where
  "sample_user_item t =
     Some (if authenticated_in (this_transaction t) then Some ''ann'' else None)"

definition sample_env :: env where
  "sample_env =
     \<lparr>pam_behaviour = sample_pam, pam_start_rc = (\<lambda>t. PAM_SUCCESS),
      failed_start_handle = (\<lambda>t. True), pam_user_item = sample_user_item,
      pam_environment = (\<lambda>t. [''LANG=C'']), pam_strerror = (\<lambda>rc. ''failure''),
      dbus_alloc = (\<lambda>t. True), dbus_answer = sample_daemon,
      locale_to_utf8 = Some, utf8_valid_prefix = length,
      getpwnam_r_answer = (\<lambda>t user i. (None, Some sample_user)),
      getpwnam_answer = (\<lambda>t user i. (Some sample_user, None)),
      key_files_of = (\<lambda>t f. None), stat_of = (\<lambda>t f. None), xauth_of = (\<lambda>f. None),
      ck_connector = (\<lambda>t. True), ck_opens = (\<lambda>t. True), ck_cookie = (\<lambda>t. Some ''cookie''),
      sys_result = sample_kernel, sys_errno = (\<lambda>t. ENOENT),
      strerror = (\<lambda>e. ''error''), waitpid_answer = (\<lambda>t i. Inr 0),
      shell_parse_argv = (\<lambda>s. if s = [] then None else Some [s]), getenv_path = None\<rparr>"

definition login_events :: "event list" where
  "login_events = [Message (Setup (Some (''mdm'', '':0'', [], [], []))), Idle,
     Message Authenticate, Idle, Message Authorize, Idle, Message EstablishCredentials, Idle,
     Message OpenSession, Idle, Message (StartProgram (Some ''mate-session'')), Idle]"

text \<open>The worker after the first \<open>n\<close> of these events; they log the user in.\<close>

definition after_events :: "nat \<Rightarrow> worker" where
  "after_events n = (case run (worker_step sample_env) (take n login_events) mdm_session_worker_init of
     Some w \<Rightarrow> w | None \<Rightarrow> mdm_session_worker_init)"

definition logged_in :: worker where
  "logged_in = after_events 12"




lemma login_run: "run (worker_step sample_env) login_events mdm_session_worker_init = Some logged_in"
  by code_simp

lemma logged_in_fields:
  "state logged_in = 6" "connection logged_in" "child_watch_armed logged_in"
  "\<not> state_change_idle_id logged_in" "auditor logged_in \<noteq> None" "username logged_in = Some ''ann''"
  by code_simp+

lemma run_inv_init:
  "run (worker_step env) es mdm_session_worker_init = Some w \<Longrightarrow> worker_inv w"
  by (rule worker_machine.run_inv [OF worker_inv_init])

lemma after_events_inv: "worker_inv (after_events n)"
  using run_inv_init worker_inv_init
  by (simp add: after_events_def split: option.split)

lemma logged_in_inv: "worker_inv logged_in"
  by (simp add: logged_in_def after_events_inv)

subsection \<open>The login as a whole\<close>

text \<open>
  C1: whatever messages, idle callbacks, child ends and disconnections the worker is given, and
  whatever PAM, the daemon and the system answer, the calls it has made to PAM are accepted by the
  automaton of the PAM protocol, and the automaton is in the phase that belongs to the worker's
  state, or, in the state \<open>NONE\<close>, in the one behind a \<open>pam_start\<close> that failed. The worker thus refines the
  protocol, on every error path too, and holds a handle exactly outside the state \<open>NONE\<close>.
\<close>

theorem worker_refines_pam_protocol:
  assumes "run (worker_step env) es mdm_session_worker_init = Some w"
  shows "(pam_phase_of (trace w) = Some (phase_of_state (state w))
      \<or> (state w = MDM_SESSION_WORKER_STATE_NONE \<and> pam_phase_of (trace w) = Some Start_failed))
    \<and> pam_handle w = (state w \<noteq> MDM_SESSION_WORKER_STATE_NONE)"
  using run_inv_init [OF assms] by (auto simp: worker_inv_def phase_fits_def)

theorem worker_refines_pam_protocol_witness:
  "pam_phase_of (trace logged_in) = Some (phase_of_state (state logged_in)) \<and> pam_handle logged_in"
  using worker_refines_pam_protocol [OF login_run] by (simp add: logged_in_fields)

text \<open>
  C2: whenever a session is open or started, the user has been authenticated, authorized (with a
  changed password if the old one had expired) and accredited, and PAM has opened the session, all of
  it since the last \<open>pam_start\<close>.
\<close>

theorem session_only_after_login:
  assumes "run (worker_step env) es mdm_session_worker_init = Some w"
    and "state w \<ge> MDM_SESSION_WORKER_STATE_SESSION_OPENED"
  shows "authenticated_in (this_transaction (trace w)) \<and> authorized_in (this_transaction (trace w)) \<and>
    accredited_in (this_transaction (trace w)) \<and> opened_in (this_transaction (trace w))"
proof -
  from worker_inv_phase [OF run_inv_init [OF assms(1)]] assms(2)
  have "pam_phase_of (trace w) = Some (phase_of_state (state w))" by simp
  from pam_phase_of_evidence [OF this] assms(2) show ?thesis by (simp add: phase_of_state_def)
qed

theorem session_only_after_login_witness:
  "authenticated_in (this_transaction (trace logged_in)) \<and>
   authorized_in (this_transaction (trace logged_in)) \<and>
   accredited_in (this_transaction (trace logged_in)) \<and> opened_in (this_transaction (trace logged_in))"
  by (rule session_only_after_login [OF login_run]) (simp add: logged_in_fields)



text \<open>
  C15: an idle callback takes the login exactly one state further, or leaves no transaction at all: no
  handle, the state \<open>NONE\<close>, and PAM's transaction ended, or never begun when it was the first step whose
  \<open>pam_start\<close> failed. Nothing in between is left, whichever call failed, and no step is queued afterwards.
\<close>

theorem step_advances_or_tears_down:
  assumes "worker_inv w" and "state_change_idle_id w"
    and "state_change_idle env w = Some w'"
  shows "worker_inv w' \<and> \<not> state_change_idle_id w' \<and>
    (state w' = state w + 1 \<or>
     (state w' = MDM_SESSION_WORKER_STATE_NONE \<and> \<not> pam_handle w' \<and>
      (pam_phase_of (trace w') = Some No_transaction \<or>
       (state w = MDM_SESSION_WORKER_STATE_NONE \<and> pam_phase_of (trace w') = Some Start_failed))))"
  using state_change_idle_inv [OF assms] by (auto simp: progressed_def torn_down_def)

theorem step_advances_or_tears_down_witness:
  "worker_inv (after_events 4) \<and> \<not> state_change_idle_id (after_events 4) \<and>
    (state (after_events 4) = state (after_events 3) + 1 \<or>
     (state (after_events 4) = MDM_SESSION_WORKER_STATE_NONE \<and> \<not> pam_handle (after_events 4) \<and>
      pam_phase_of (trace (after_events 4)) = Some No_transaction))"
proof -
  have "state_change_idle_id (after_events 3)"
    and "state_change_idle sample_env (after_events 3) = Some (after_events 4)"
    and s: "state (after_events 3) \<noteq> MDM_SESSION_WORKER_STATE_NONE" by code_simp+
  from step_advances_or_tears_down [OF after_events_inv this(1,2)] s show ?thesis by blast
qed

text \<open>
  C30: when the session's process ends, the worker closes the PAM session, deletes the credentials
  and ends the transaction, in this order, closes the ConsoleKit session, and is back in its
  initial state, ready for the next login.
\<close>

theorem child_end_closes_session:
  assumes "worker_inv w" and "connection w" and "child_watch_armed w"
    and "worker_step env (Child_ended status) w = Some w'"
  shows "state w' = MDM_SESSION_WORKER_STATE_NONE \<and> \<not> pam_handle w' \<and> child_pid w' = -1 \<and>
    \<not> child_watch_armed w' \<and> \<not> ckc w' \<and> pam_phase_of (trace w) = Some Session_open \<and>
    pam_phase_of (trace w') = Some No_transaction"
proof -
  have s: "state w = MDM_SESSION_WORKER_STATE_SESSION_STARTED" using assms(1,3) by (simp add: worker_inv_def)
  have step: "session_worker_child_watch env status (w\<lparr>child_watch_armed := False\<rparr>) = Some w'"
    using assms(2-4) by (simp add: worker_step_def)
  from child_watch_effect [OF assms(1) s step] show ?thesis
    using worker_inv_phase [OF assms(1)] s by (simp add: torn_down_def phase_of_state_def)
qed

theorem child_end_closes_session_witness:
  "\<exists>w'. worker_step sample_env (Child_ended (Status 0)) logged_in = Some w' \<and>
    state w' = MDM_SESSION_WORKER_STATE_NONE \<and> \<not> pam_handle w' \<and> child_pid w' = -1 \<and>
    \<not> child_watch_armed w' \<and> \<not> ckc w' \<and> pam_phase_of (trace logged_in) = Some Session_open \<and>
    pam_phase_of (trace w') = Some No_transaction"
proof -
  have "\<exists>w'. worker_step sample_env (Child_ended (Status 0)) logged_in = Some w'"
    by (rule exI [where x = "the (worker_step sample_env (Child_ended (Status 0)) logged_in)"]) code_simp
  then obtain w' where w': "worker_step sample_env (Child_ended (Status 0)) logged_in = Some w'" by blast
  from child_end_closes_session [OF logged_in_inv logged_in_fields(2,3) w'] w'
  show ?thesis by blast
qed

subsection \<open>Messages\<close>

text \<open>The states in which a message is expected; any state for those that set a value.\<close>

definition expected_in :: "signal \<Rightarrow> nat \<Rightarrow> bool" where
  "expected_in m s =
     (case m of
        Setup _ \<Rightarrow> s = MDM_SESSION_WORKER_STATE_NONE
      | SetupForUser _ \<Rightarrow> s = MDM_SESSION_WORKER_STATE_NONE
      | Authenticate \<Rightarrow> s = MDM_SESSION_WORKER_STATE_SETUP_COMPLETE
      | Authorize \<Rightarrow> s = MDM_SESSION_WORKER_STATE_AUTHENTICATED
      | EstablishCredentials \<Rightarrow> s = MDM_SESSION_WORKER_STATE_AUTHORIZED
      | OpenSession \<Rightarrow> s = MDM_SESSION_WORKER_STATE_ACCREDITED
      | StartProgram _ \<Rightarrow> s = MDM_SESSION_WORKER_STATE_SESSION_OPENED
      | Reauthenticate \<Rightarrow> s = MDM_SESSION_WORKER_STATE_SESSION_STARTED
      | Reauthorize \<Rightarrow> False
      | RefreshCredentials \<Rightarrow> False
      | Unknown_signal \<Rightarrow> False
      | _ \<Rightarrow> True)"

text \<open>
  C33: in every state the worker can reach, a message that does not fit the state changes nothing, so
  the order of the login cannot be changed by the daemon.
\<close>

theorem spurious_message_ignored:
  assumes "worker_inv w" and "\<not> expected_in m (state w)"
  shows "worker_dbus_handle_message env m w = Some w"
proof -
  have "ignore_spurious w = Some w"
    using assms(1) by (simp add: ignore_spurious_ok worker_inv_def)
  then show ?thesis
    using assms
    by (cases m) (auto simp: expected_in_def worker_dbus_handle_message_def on_setup_def on_setup_for_user_def
        on_authenticate_def on_authorize_def on_establish_credentials_def on_open_session_def
        on_start_program_def on_reauthenticate_def on_reauthorize_def on_refresh_credentials_def
        worker_inv_def)
qed

theorem spurious_message_ignored_witness:
  "worker_dbus_handle_message sample_env OpenSession (after_events 4) = Some (after_events 4)"
proof (rule spurious_message_ignored [OF after_events_inv])
  show "\<not> expected_in OpenSession (state (after_events 4))" by code_simp
qed

text \<open>
  \<open>Reauthenticate\<close>, which the worker accepts while the session runs, ends the worker at the next
  idle callback: the step it queues leads to a state whose name is not known, and
  \<open>get_state_name\<close> asserts.
\<close>

theorem reauthenticate_aborts:
  assumes "connection w" and "state w = MDM_SESSION_WORKER_STATE_SESSION_STARTED"
  shows "run (worker_step env) [Message Reauthenticate, Idle] w = None"
  using assms
  by (simp add: worker_step_def worker_dbus_filter_function_def worker_dbus_handle_message_def
      on_reauthenticate_def queue_state_change_def state_change_idle_def get_state_name_def)

theorem reauthenticate_aborts_witness:
  "run (worker_step sample_env) [Message Reauthenticate, Idle] logged_in = None"
  by (rule reauthenticate_aborts) (simp_all add: logged_in_fields)

text \<open>
  a \<open>StartProgram\<close> whose command line cannot be parsed, sent between a good one and the idle
  callback it queued, clears the arguments; starting the session then dereferences NULL.
\<close>

theorem unparsable_program_aborts:
  assumes "connection w" and "state w = MDM_SESSION_WORKER_STATE_SESSION_OPENED"
    and "shell_parse_argv env good \<noteq> None" and "shell_parse_argv env bad = None"
  shows "run (worker_step env)
    [Message (StartProgram (Some good)), Message (StartProgram (Some bad)), Idle] w = None"
proof -
  obtain argv where argv: "shell_parse_argv env good = Some argv" using assms(3) by blast
  define u where "u = w\<lparr>arguments := None, state_change_idle_id := False\<rparr>"
  have "mdm_session_worker_start_user_session env u = None"
  proof (rule ccontr)
    assume "mdm_session_worker_start_user_session env u \<noteq> None"
    then obtain v where v: "register_ck_session env (mdm_session_worker_update_environment_from_pam env u) = Some v"
      and a: "arguments v \<noteq> None"
      by (auto simp: mdm_session_worker_start_user_session_def Let_def bind_eq_Some_conv)
    have "arguments v = arguments u"
      using register_ck_session_arguments [OF v] by (simp add: environment_from_pam_keeps)
    with a show False by (simp add: u_def)
  qed
  moreover have "run (worker_step env)
    [Message (StartProgram (Some good)), Message (StartProgram (Some bad)), Idle] w = do_start_session env u"
    using assms argv
    by (simp add: worker_step_def worker_dbus_filter_function_def worker_dbus_handle_message_def
        on_start_program_def Let_def queue_state_change_def state_change_idle_def get_state_name_def u_def)
  ultimately show ?thesis by (simp add: do_start_session_def)
qed

theorem unparsable_program_aborts_witness:
  "run (worker_step sample_env)
    [Message (StartProgram (Some ''mate-session'')), Message (StartProgram (Some [])), Idle]
    (after_events 10) = None"
proof (rule unparsable_program_aborts)
  show "connection (after_events 10)" and "state (after_events 10) = 5" by code_simp+
qed (simp_all add: sample_env_def)

subsection \<open>The PAM conversation\<close>

lemma pam_messages_loop_length:
  "pam_messages_loop env ms rs w = Some (Some rs', w') \<Longrightarrow> length rs' = length rs + length ms"
  by (induction ms arbitrary: rs w)
     (auto simp: bind_eq_Some_conv split: if_splits)

text \<open>
  C32: the conversation function answers PAM with exactly one reply per message, or with
  \<open>PAM_CONV_ERR\<close> and no replies at all. On messages of the four documented styles it always returns,
  and whatever the daemon answers, it changes neither the state of the login nor makes a PAM
  call of its own.
\<close>

theorem conversation_answers:
  assumes "pam_handle w" and "user_settings w \<noteq> None" and "list_all known_style ms"
  shows "\<exists>rc replies w'. mdm_session_worker_pam_new_messages_handler env ms w = Some ((rc, replies), w') \<and>
    (rc = PAM_SUCCESS \<and> (case replies of None \<Rightarrow> ms = [] | Some rs \<Rightarrow> length rs = length ms) \<or>
     rc = PAM_CONV_ERR \<and> replies = None) \<and>
    state w' = state w \<and> pam_handle w' \<and> pam_phase_of (trace w') = pam_phase_of (trace w)"
proof -
  have "conversing w" using assms(1,2) by (simp add: conversing_def)
  from pam_new_messages_handler_total [OF this assms(3)]
  obtain rc replies w' where r: "mdm_session_worker_pam_new_messages_handler env ms w = Some ((rc, replies), w')"
    by fastforce
  note q = quiet_fields [OF pam_new_messages_handler_quiet [OF r]]
  have "rc = PAM_SUCCESS \<and> (case replies of None \<Rightarrow> ms = [] | Some rs \<Rightarrow> length rs = length ms) \<or>
     rc = PAM_CONV_ERR \<and> replies = None"
    using r pam_messages_loop_length [of env ms "[]" w]
    by (auto simp: mdm_session_worker_pam_new_messages_handler_def bind_eq_Some_conv
        split: if_splits option.splits)
  with r q assms(1) show ?thesis by simp
qed

theorem conversation_answers_witness:
  "\<exists>rc replies w'. mdm_session_worker_pam_new_messages_handler sample_env
      [\<lparr>msg_style = PAM_PROMPT_ECHO_OFF, msg = ''Password:''\<rparr>] logged_in = Some ((rc, replies), w') \<and>
    (rc = PAM_SUCCESS \<and> (case replies of None \<Rightarrow>
         [\<lparr>msg_style = PAM_PROMPT_ECHO_OFF, msg = ''Password:''\<rparr>] = []
       | Some rs \<Rightarrow> length rs = length [\<lparr>msg_style = PAM_PROMPT_ECHO_OFF, msg = ''Password:''\<rparr>]) \<or>
     rc = PAM_CONV_ERR \<and> replies = None) \<and>
    state w' = state logged_in \<and> pam_handle w' \<and>
    pam_phase_of (trace w') = pam_phase_of (trace logged_in)"
proof (rule conversation_answers)
  show "pam_handle logged_in" and "user_settings logged_in \<noteq> None"
    using worker_inv_handle [OF logged_in_inv] logged_in_fields(1) by simp_all
  show "list_all known_style [\<lparr>msg_style = PAM_PROMPT_ECHO_OFF, msg = ''Password:''\<rparr>]"
    by (simp add: known_style_def)
qed

text \<open>What \<open>g_utf8_validate\<close> documents, for the text the worker makes valid: the length of the valid
  prefix is at most the text's, and a \<open>?\<close> behind the valid prefix extends it.\<close>

definition validates :: "(string \<Rightarrow> nat) \<Rightarrow> bool" where
  "validates valid_prefix \<longleftrightarrow> valid_prefix [] = 0 \<and> (\<forall>p. valid_prefix p \<le> length p) \<and>
     (\<forall>p s. valid_prefix (take (valid_prefix p) p @ CHR ''?'' # s) = valid_prefix p + 1 + valid_prefix s)"

text \<open>
  text that cannot be converted from the locale's encoding is made valid UTF-8 in place: the
  result has the same length, is valid to its end, and differs from the text only where a byte was
  replaced by a question mark. The loop over the invalid bytes ends.
\<close>

theorem replace_invalid_repairs:
  assumes "validates valid_prefix"
  shows "length (replace_invalid valid_prefix p) = length p \<and>
    valid_prefix (replace_invalid valid_prefix p) = length p \<and>
    (\<forall>i < length p. replace_invalid valid_prefix p ! i = p ! i \<or>
       replace_invalid valid_prefix p ! i = CHR ''?'')"
proof (induction "length p" arbitrary: p rule: less_induct)
  case less
  let ?q = "valid_prefix p"
  show ?case
  proof (cases "p \<noteq> [] \<and> ?q < length p")
    case False
    then have "?q = length p"
      using assms by (auto simp: validates_def le_less)
    with False show ?thesis by (subst (1 2 3 4) replace_invalid.simps) auto
  next
    case True
    let ?r = "replace_invalid valid_prefix (drop (Suc ?q) p)"
    have r: "replace_invalid valid_prefix p = take ?q p @ CHR ''?'' # ?r"
      using True by (subst replace_invalid.simps) (simp add: Let_def)
    have "length (drop (Suc ?q) p) < length p" using True by simp
    from less.hyps [OF this] have IH: "length ?r = length p - Suc ?q" "valid_prefix ?r = length p - Suc ?q"
      "\<And>i. i < length p - Suc ?q \<Longrightarrow> ?r ! i = p ! (Suc ?q + i) \<or> ?r ! i = CHR ''?''"
      using True by auto
    have "replace_invalid valid_prefix p ! i = p ! i \<or> replace_invalid valid_prefix p ! i = CHR ''?''"
      if "i < length p" for i
    proof -
      consider "i < ?q" | "i = ?q" | j where "i = Suc ?q + j"
        using less_imp_Suc_add [of ?q i] by (cases i ?q rule: linorder_cases) auto
      then show ?thesis
        using IH(3) that True by cases (auto simp: r nth_append)
    qed
    moreover have "valid_prefix (replace_invalid valid_prefix p) = length p"
      using assms IH(2) True unfolding r by (simp add: validates_def)
    ultimately show ?thesis using IH(1) True by (simp add: r)
  qed
qed

text \<open>Plain ASCII is one such validator.\<close>

definition ascii_prefix :: "string \<Rightarrow> nat" where
  "ascii_prefix p = length (takeWhile (\<lambda>c. of_char c < (128 :: nat)) p)"

lemma ascii_validates: "validates ascii_prefix"
proof -
  have take_prefix: "take (length (takeWhile P p)) p = takeWhile P p" for P and p :: string
    by (metis append_eq_conv_conj takeWhile_dropWhile_id)
  have "takeWhile P (takeWhile P p @ xs) = takeWhile P p @ takeWhile P xs" for P and p xs :: string
    by (rule takeWhile_append2) (auto dest: set_takeWhileD)
  then show ?thesis
    by (simp add: validates_def ascii_prefix_def take_prefix length_takeWhile_le)
qed

theorem replace_invalid_repairs_witness:
  "length (replace_invalid ascii_prefix [CHR ''a'', CHR 0xE9, CHR ''b'']) = 3 \<and>
   ascii_prefix (replace_invalid ascii_prefix [CHR ''a'', CHR 0xE9, CHR ''b'']) = 3 \<and>
   replace_invalid ascii_prefix [CHR ''a'', CHR 0xE9, CHR ''b''] ! 0 \<in> {CHR ''a'', CHR ''?''}"
  using replace_invalid_repairs [OF ascii_validates, of "[CHR ''a'', CHR 0xE9, CHR ''b'']"] by auto

text \<open>
  when PAM reports a new name for the user, the worker adopts it, but the auditor is given the
  name the worker had before: the update hands it over before it is changed.
\<close>

theorem auditor_gets_old_name:
  assumes "mdm_session_worker_update_username env w = Some w'" and "auditor w = Some a"
    and "pam_user_item env (trace w) = Some (Some new)" and "username w \<noteq> Some new"
  shows "username w' = Some new \<and> map_option aud_username (auditor w') = Some (username w)"
proof -
  define u where "u = snd (send_dbus_string_method env ''UsernameChanged'' (Some new)
      ((set_auditor_username (username w) w)\<lparr>username := Some new\<rparr>))"
  have u: "username u = Some new" "auditor u = Some (a\<lparr>aud_username := username w\<rparr>)"
    using assms(2) by (simp_all add: u_def username_same auditor_same set_auditor_username_def)
  have n: "username (set_auditor_username x w) = username w" for x
    by (simp add: set_auditor_username_def)
  from assms(1,3,4) have "w' = u \<or> w' = attempt_to_load_user_settings env new u"
    using u(1)
    by (auto simp: mdm_session_worker_update_username_def mdm_session_worker_get_username_def Let_def
        u_def bind_eq_Some_conv username_same n split: option.split_asm if_split_asm)
  then show ?thesis
    using u by (auto simp: username_settings auditor_same)
qed

theorem auditor_gets_old_name_witness:
  "\<exists>w'. mdm_session_worker_update_username sample_env (logged_in\<lparr>username := Some ''bob''\<rparr>) = Some w' \<and>
     username w' = Some ''ann'' \<and> map_option aud_username (auditor w') = Some (Some ''bob'')"
proof -
  let ?w = "logged_in\<lparr>username := Some ''bob''\<rparr>"
  obtain a where a: "auditor ?w = Some a" using logged_in_fields(5) by auto
  have "conversing ?w"
    using worker_inv_handle [OF logged_in_inv] logged_in_fields(1) by (simp add: conversing_def)
  then obtain w' where w': "mdm_session_worker_update_username sample_env ?w = Some w'"
    by (rule update_username_total)
  have "pam_user_item sample_env (trace logged_in) = Some (Some ''ann'')" by code_simp
  then have "pam_user_item sample_env (trace ?w) = Some (Some ''ann'')" by simp
  from auditor_gets_old_name [OF w' a this] w' logged_in_fields(6) show ?thesis by auto
qed

subsection \<open>Starting the session\<close>

text \<open>
  C16: the process of the session does everything that touches the user's files, and runs the
  program, as the user: before each such system call a \<open>setuid\<close> to the user's id has worked. When it
  does not get there, it exits with 1 (no \<open>setuid\<close>), 2 (no \<open>setsid\<close>) or 127 (no program).
\<close>

theorem session_runs_as_user:
  assumes "session_child env w = Some (r, w')" and "only_as_user env (uid w) (trace w)"
  shows "only_as_user env (uid w) (trace w') \<and>
    (r = Runs_program \<longrightarrow> became_user env (uid w) (trace w')) \<and>
    (r = Runs_program \<or> r = Exited 1 \<or> r = Exited 2 \<or> r = Exited 127)"
  using session_child_as_user [OF assms] by auto

theorem session_runs_as_user_witness:
  "\<exists>w'. session_child sample_env logged_in = Some (Runs_program, w') \<and>
     only_as_user sample_env (uid logged_in) (trace w') \<and> became_user sample_env (uid logged_in) (trace w')"
proof -
  have "\<exists>w'. session_child sample_env logged_in = Some (Runs_program, w')"
    by (rule exI [where x = "snd (the (session_child sample_env logged_in))"]) code_simp
  then obtain w' where w': "session_child sample_env logged_in = Some (Runs_program, w')" by blast
  have "only_as_user sample_env (uid logged_in) (trace logged_in)" by code_simp
  from session_runs_as_user [OF w' this] w' show ?thesis by auto
qed

text \<open>
  C38: the search of \<open>PATH\<close> agrees with its specification: the first candidate whose execution does
  not fail with a "look further" error decides, be it that it runs or that it fails; if there is
  none, the error is \<open>EACCES\<close> if any candidate was forbidden, and otherwise the last one's.
\<close>

theorem path_search_meets_spec:
  assumes "execve_answers env f" and "file \<noteq> []" and "CHR ''/'' \<notin> set file"
  shows "error_of (mdm_session_execute env file argv envp True w) =
    search_spec f ENOENT (map (\<lambda>d. path_candidate d file)
      (path_elements (case getenv_path env of Some p \<Rightarrow> p | None \<Rightarrow> default_search_path)))"
  using assms(2,3)
  by (simp add: mdm_session_execute_def error_of_search [OF assms(1)] Let_def)

theorem path_search_meets_spec_witness:
  "error_of (mdm_session_execute sample_env ''mate-session'' [''mate-session''] [] True logged_in) =
    search_spec (\<lambda>p. if p = ''/usr/bin/mate-session'' then None else Some ENOENT) ENOENT
      (map (\<lambda>d. path_candidate d ''mate-session'')
        (path_elements (case getenv_path sample_env of Some p \<Rightarrow> p | None \<Rightarrow> default_search_path)))"
  by (rule path_search_meets_spec) (simp_all add: execve_answers_def sample_env_def)

text \<open>
  a variable that PAM sets reaches the program: every \<open>NAME=value\<close> entry of PAM's environment that
  is not overridden by a later one of the same name is an entry of the array the program is run with.
\<close>

theorem pam_variable_reaches_program:
  assumes "pam_environment env (trace w) = xs @ s # ys" and "CHR ''='' \<in> set s"
    and "\<forall>y \<in> set ys. fst (split_variable y) \<noteq> fst (split_variable s)"
  shows "s \<in> set (mdm_session_worker_get_environment (mdm_session_worker_update_environment_from_pam env w))"
proof -
  obtain v where v: "split_variable s = (takeWhile (\<lambda>c. c \<noteq> CHR ''='') s, Some v)"
    and join: "takeWhile (\<lambda>c. c \<noteq> CHR ''='') s @ ''='' @ v = s"
    using split_variable_join [OF assms(2)] by blast
  have "map_of (environment (mdm_session_worker_update_environment_from_pam env w)) (fst (split_variable s))
      = Some (Some v)"
    unfolding environment_from_pam_map assms(1)
    using fold_update_other [OF assms(3), of "\<lambda>s. snd (split_variable s)"] by (simp add: v)
  then have "(fst (split_variable s), Some v) \<in>
      set (environment (mdm_session_worker_update_environment_from_pam env w))"
    by (rule map_of_SomeD)
  then show ?thesis
    unfolding get_environment_set mem_Collect_eq
    by (intro exI [where x = "fst (split_variable s)"] exI [where x = v]) (simp add: v join [simplified])
qed

theorem pam_variable_reaches_program_witness:
  "''LANG=C'' \<in> set (mdm_session_worker_get_environment
     (mdm_session_worker_update_environment_from_pam sample_env logged_in))"
  by (rule pam_variable_reaches_program [where xs = "[]" and ys = "[]"]) (simp_all add: sample_env_def)

text \<open>
  the process that caches the user's files copies only regular files that belong to the user and
  have at most 65536 bytes, and none of them when it could not become the user.
\<close>

theorem cache_copies_only_user_files:
  assumes "cache_child env w = Some (code, w')" and "copy_allowed env (uid w) (trace w)"
    and "Sys (Copy_file src dst) # t = drop n (trace w')"
  shows "(\<exists>s. stat_of env t src = Some s \<and> st_is_regular s \<and> st_uid s = uid w \<and> st_size s \<le> 65536) \<and>
    (code = 1 \<longrightarrow> trace w' = Sys (Exit 1) # Sys (Setuid (uid w)) # trace w)"
proof -
  define v where "v = snd (syscall env (Setuid (uid w)) w)"
  have v: "uid v = uid w" "copy_allowed env (uid v) (trace v)"
    using assms(2) by (simp_all add: v_def syscall_def Let_def emit_def)
  have all: "copy_allowed env (uid w) (trace w')"
    using assms(1) v cache_userfiles_allowed [of env v]
    by (auto simp: cache_child_def split_beta v_def [symmetric] bind_eq_Some_conv split: if_splits)
  have "copy_allowed env u tr \<Longrightarrow> copy_allowed env u (drop n tr)" for u tr
  proof (induction n arbitrary: tr)
    case 0
    then show ?case by simp
  next
    case (Suc n)
    then show ?case by (cases tr) auto
  qed
  from this [OF all] have "check_user_copy_file (stat_of env t) src (Some dst) (uid w) MAX_FILE_SIZE"
    unfolding assms(3) [symmetric] by simp
  moreover have "code = 1 \<longrightarrow> trace w' = Sys (Exit 1) # Sys (Setuid (uid w)) # trace w"
    using assms(1)
    by (auto simp: cache_child_def syscall_def Let_def bind_eq_Some_conv split: if_splits)
  ultimately show ?thesis
    by (auto elim!: check_user_copy_fileD simp: MAX_FILE_SIZE_def)
qed

definition files_env :: env where
  "files_env = sample_env\<lparr>stat_of := (\<lambda>t f. if f = ''/home/ann/.dmrc''
     then Some \<lparr>st_mtime = 5, st_is_regular = True, st_uid = 1000, st_size = 10\<rparr> else None)\<rparr>"

theorem cache_copies_only_user_files_witness:
  "\<exists>w' t. cache_child files_env logged_in = Some (0, w') \<and>
     Sys (Copy_file ''/home/ann/.dmrc'' ''/var/cache/mdm/ann/dmrc'') # t = drop 1 (trace w') \<and>
     (\<exists>s. stat_of files_env t ''/home/ann/.dmrc'' = Some s \<and> st_is_regular s \<and>
        st_uid s = uid logged_in \<and> st_size s \<le> 65536)"
proof -
  have "cache_child files_env logged_in = Some (0, snd (the (cache_child files_env logged_in)))"
    by code_simp
  then obtain w' where w': "cache_child files_env logged_in = Some (0, w')"
    and w: "w' = snd (the (cache_child files_env logged_in))" by blast
  have "Sys (Copy_file ''/home/ann/.dmrc'' ''/var/cache/mdm/ann/dmrc'') # tl (drop 1 (trace w'))
      = drop 1 (trace w')"
    unfolding w by code_simp
  moreover have "copy_allowed files_env (uid logged_in) (trace logged_in)" by code_simp
  ultimately show ?thesis
    using cache_copies_only_user_files [OF w'] w' by blast
qed

end
