(* ===== verification/Mdm_Address.thy ===== *)
theory Mdm_Address
  imports Mdm_Common
begin

text \<open>
  Socket addresses, \<open>common/mdm-address.c\<close>, as far as they need nothing of the outside world, and the
  packets of XDMCP as the daemon writes them.

  An address is what a \<open>sockaddr_storage\<close> holds that the code reads: the bytes of the host address and
  of the port, in network order, for the two internet families, and the number of any other family.
\<close>

subsection \<open>Addresses\<close>

datatype address = AF_INET (sin_addr: string) (sin_port: string)
  | AF_INET6 (sin6_addr: string) (sin6_port: string) | AF_OTHER nat

definition AF_INET_NUMBER :: nat where
  "AF_INET_NUMBER = 2"

definition AF_INET6_NUMBER :: nat where
  "AF_INET6_NUMBER = 10"

fun mdm_address_get_family_type :: "address \<Rightarrow> nat" where
  "mdm_address_get_family_type (AF_INET _ _) = AF_INET_NUMBER"
| "mdm_address_get_family_type (AF_INET6 _ _) = AF_INET6_NUMBER"
| "mdm_address_get_family_type (AF_OTHER n) = n"

definition v4_v4_equal :: "string \<Rightarrow> string \<Rightarrow> bool" where
  "v4_v4_equal a b \<longleftrightarrow> a = b"

definition v6_v6_equal :: "string \<Rightarrow> string \<Rightarrow> bool" where
  "v6_v6_equal a b \<longleftrightarrow> a = b"

text \<open>Ports do not count, and addresses of other families are equal to nothing.\<close>

fun mdm_address_equal :: "address \<Rightarrow> address \<Rightarrow> bool" where
  "mdm_address_equal (AF_INET a _) (AF_INET b _) = v4_v4_equal a b"
| "mdm_address_equal (AF_INET6 a _) (AF_INET6 b _) = v6_v6_equal a b"
| "mdm_address_equal _ _ = False"

definition INADDR_LOOPBACK :: string where
  "INADDR_LOOPBACK = [CHR 0x7F, CHR 0x00, CHR 0x00, CHR 0x01]"

definition IN6ADDR_LOOPBACK :: string where
  "IN6ADDR_LOOPBACK = replicate 15 (CHR 0x00) @ [CHR 0x01]"

fun mdm_address_is_loopback :: "address \<Rightarrow> bool" where
  "mdm_address_is_loopback (AF_INET6 a _) = (a = IN6ADDR_LOOPBACK)"
| "mdm_address_is_loopback (AF_INET a _) = (a = INADDR_LOOPBACK)"
| "mdm_address_is_loopback (AF_OTHER _) = False"

text \<open>
  The equality is symmetric and transitive, and reflexive on internet addresses only: it is a partial
  equivalence.
\<close>

definition internet_address :: "address \<Rightarrow> bool" where
  "internet_address a \<longleftrightarrow> (case a of AF_OTHER _ \<Rightarrow> False | _ \<Rightarrow> True)"

lemma mdm_address_equal_refl [simp]: "mdm_address_equal a a \<longleftrightarrow> internet_address a"
  by (cases a) (simp_all add: internet_address_def v4_v4_equal_def v6_v6_equal_def)

lemma mdm_address_equal_sym: "mdm_address_equal a b \<longleftrightarrow> mdm_address_equal b a"
  by (cases a; cases b) (auto simp: v4_v4_equal_def v6_v6_equal_def)

lemma mdm_address_equal_trans:
  "mdm_address_equal a b \<Longrightarrow> mdm_address_equal b c \<Longrightarrow> mdm_address_equal a c"
  by (cases a; cases b; cases c) (auto simp: v4_v4_equal_def v6_v6_equal_def)

lemma mdm_address_equal_right:
  "mdm_address_equal a b \<Longrightarrow> mdm_address_equal c a \<longleftrightarrow> mdm_address_equal c b"
  by (meson mdm_address_equal_sym mdm_address_equal_trans)

lemma mdm_address_equal_loopback:
  "mdm_address_equal a b \<Longrightarrow> mdm_address_is_loopback a \<longleftrightarrow> mdm_address_is_loopback b"
  by (cases a; cases b) (auto simp: v4_v4_equal_def v6_v6_equal_def)

subsection \<open>Numeric names\<close>

text \<open>The prefix of an IPv4 address mapped into IPv6 is dropped.\<close>

definition MAPPED_PREFIX :: string where
  "MAPPED_PREFIX = ''::ffff:''"

definition strip_mapped :: "string \<Rightarrow> string" where
  "strip_mapped s = (if take 7 s = MAPPED_PREFIX then drop 7 s else s)"

text \<open>
  \<open>getnameinfo\<close> is the parameter; when it fails both names are empty.
\<close>

definition mdm_address_get_numeric_info ::
  "(address \<Rightarrow> (string \<times> string) option) \<Rightarrow> address \<Rightarrow> bool \<times> string \<times> string" where
  "mdm_address_get_numeric_info getnameinfo a =
     (case getnameinfo a of
        None \<Rightarrow> (False, [], [])
      | Some (host, serv) \<Rightarrow> (True, strip_mapped host, strip_mapped serv))"

definition mdm_address_get_hostname :: "(address \<Rightarrow> string option) \<Rightarrow> address \<Rightarrow> bool \<times> string" where
  "mdm_address_get_hostname getnameinfo a =
     (case getnameinfo a of None \<Rightarrow> (False, []) | Some host \<Rightarrow> (True, host))"

subsection \<open>Packets\<close>

text \<open>
  The fields that are written after a header, and the number of bytes each takes in the packet, as the
  protocol lays them down. The length of an \<open>ARRAY8\<close> is a 16-bit field of the structure and the number of
  arrays of an \<open>ARRAYofARRAY8\<close> an 8-bit one.
\<close>

datatype xdmcp_field = CARD8 "8 word" | CARD16 "16 word" | CARD32 "32 word" | ARRAY8 string
  | ARRAYofARRAY8 "string list"

fun field_size :: "xdmcp_field \<Rightarrow> nat" where
  "field_size (CARD8 _) = 1"
| "field_size (CARD16 _) = 2"
| "field_size (CARD32 _) = 4"
| "field_size (ARRAY8 s) = 2 + length s"
| "field_size (ARRAYofARRAY8 ss) = 1 + sum_list (map (\<lambda>s. 2 + length s) ss)"

record xdmcp_header =
  hdr_version :: "16 word"
  hdr_opcode :: "16 word"
  hdr_length :: "16 word"

record xdmcp_packet =
  pkt_header :: xdmcp_header
  pkt_fields :: "xdmcp_field list"

definition body_size :: "xdmcp_packet \<Rightarrow> nat" where
  "body_size pkt = sum_list (map field_size (pkt_fields pkt))"

text \<open>What the receiver of a packet checks first.\<close>

definition length_announced :: "xdmcp_packet \<Rightarrow> bool" where
  "length_announced pkt \<longleftrightarrow> hdr_length (pkt_header pkt) = of_nat (body_size pkt)"

end
