(* ===== verification/Access_File.thy ===== *)
theory Access_File
  imports Mdm_Address
begin

text \<open>
  The X authority files of the displays, \<open>daemon/mdm-display-access-file.c\<close>, and the daemon's
  outside world.

  As for the session worker, the daemon's outside world is a record of answers, each of which may
  depend on everything the daemon has asked so far: \<open>dtrace\<close> is the list of its calls, newest first, and
  an answer is looked up after the call has been recorded. The file of an open access file and its
  path are set and cleared together in the code; the model has the path only.
\<close>

subsection \<open>The daemon's outside world\<close>

datatype xau_family = FamilyLocal | FamilyWild

record xauth =
  xau_family :: xau_family
  xau_address :: string
  xau_number :: string
  xau_name :: string
  xau_data :: string

datatype dcall = Sys_is_dir string | Sys_remove string | Sys_mkdir string nat | Sys_chmod string nat
  | Sys_chown string nat nat | Sys_rmdir string | Sys_mkdtemp string | Sys_open_excl string
  | Sys_fchown string nat nat | Sys_fdopen string | Sys_unlink string | Sys_random nat
  | Sys_xau_write string xauth | Sys_spawn string "string option" | Sys_kill int | Sys_waitpid int
  | Sys_clock | Sys_script "string list" | Sys_sigaction | CK_sessions nat | CK_activate string
  | Bus_register string | Sys_time | Sys_random_int | Sys_gethostname | Sys_interfaces
  | Sys_getnameinfo address | Sys_getaddrinfo "string option" "string option" nat
  | Sys_hosts_ctl string string | Sys_access string | Sys_popen string | Sys_socket nat
  | Sys_bind address | Sys_join_group "string option" string | Sys_close int

type_synonym dtrace = "dcall list"

text \<open>
  The fields of \<open>daemon_env\<close>: the integer result of the newest call; its string result, \<^term>\<open>None\<close> for
  NULL; the entries of a directory; the password database by attempt; \<open>waitpid\<close> by attempt; the host's
  name; what an uninitialised variable holds; the daemon's configuration; the sessions ConsoleKit
  lists.
\<close>

record daemon_env =
  d_result :: "dtrace \<Rightarrow> int"
  d_string :: "dtrace \<Rightarrow> string option"
  d_dir :: "dtrace \<Rightarrow> string \<Rightarrow> string list option"
  d_getpwnam :: "dtrace \<Rightarrow> string \<Rightarrow> nat \<Rightarrow> passwd option \<times> errno option"
  d_waitpid :: "dtrace \<Rightarrow> nat \<Rightarrow> errno + int"
  d_hostname :: "string option"
  d_uninitialised :: nat
  d_boolean :: "string \<Rightarrow> bool option"
  d_value :: "string \<Rightarrow> string option"
  d_integer :: "string \<Rightarrow> int option"
  d_sessions :: "dtrace \<Rightarrow> string list"

definition dcall :: "daemon_env \<Rightarrow> dcall \<Rightarrow> dtrace \<Rightarrow> int \<times> dtrace" where
  "dcall env c t = (let t = c # t in (d_result env t, t))"

definition dcall_string :: "daemon_env \<Rightarrow> dcall \<Rightarrow> dtrace \<Rightarrow> string option \<times> dtrace" where
  "dcall_string env c t = (let t = c # t in (d_string env t, t))"

lemma snd_dcall [simp]: "snd (dcall env c t) = c # t" "snd (dcall_string env c t) = c # t"
  by (simp_all add: dcall_def dcall_string_def Let_def)

subsection \<open>Access files\<close>

record access_file =
  af_username :: string
  af_path :: "string option"

definition MDM_XAUTH_DIR :: string where
  "MDM_XAUTH_DIR = ''/var/run/mdm''"

definition MDM_USERNAME :: string where
  "MDM_USERNAME = ''mdm''"

definition MDM_DISPLAY_ACCESS_COOKIE_SIZE :: nat where
  "MDM_DISPLAY_ACCESS_COOKIE_SIZE = 16"

text \<open>The mode 0711, which the code writes in octal.\<close>

definition MODE_0711 :: nat where
  "MODE_0711 = 7 * 64 + 1 * 8 + 1"

definition mdm_display_access_file_new :: "string \<Rightarrow> access_file" where
  "mdm_display_access_file_new user = \<lparr>af_username = user, af_path = None\<rparr>"

definition get_uid_and_gid_for_user :: "daemon_env \<Rightarrow> string \<Rightarrow> dtrace \<Rightarrow> (nat \<times> nat) option option" where
  "get_uid_and_gid_for_user env user t =
     do {
       (_, passwd_entry) \<leftarrow> mdm_get_pwent_for_name (d_getpwnam env t user);
       Some (case passwd_entry of None \<Rightarrow> None | Some pw \<Rightarrow> Some (pw_uid pw, pw_gid pw))
     }"

definition clean_up_stale_auth_subdirs :: "daemon_env \<Rightarrow> dtrace \<Rightarrow> dtrace" where
  "clean_up_stale_auth_subdirs env t =
     (case d_dir env t MDM_XAUTH_DIR of
        None \<Rightarrow> t
      | Some names \<Rightarrow>
          fold (\<lambda>filename t. snd (dcall env (Sys_rmdir (g_build_filename [MDM_XAUTH_DIR, filename])) t))
            names t)"

text \<open>The directory for all files: created with mode 0711, or cleaned up; false: it cannot be made.\<close>

definition prepare_xauth_dir :: "daemon_env \<Rightarrow> dtrace \<Rightarrow> (bool \<times> dtrace) option" where
  "prepare_xauth_dir env t =
     (case dcall env (Sys_is_dir MDM_XAUTH_DIR) t of (is_dir, t) \<Rightarrow>
        if is_dir = 0 then
          (case dcall env (Sys_mkdir MDM_XAUTH_DIR MODE_0711) (snd (dcall env (Sys_remove MDM_XAUTH_DIR) t)) of
             (r, t) \<Rightarrow>
               if r \<noteq> 0 then Some (False, t)
               else do {
                 let t = snd (dcall env (Sys_chmod MDM_XAUTH_DIR MODE_0711) t);
                 ids \<leftarrow> get_uid_and_gid_for_user env MDM_USERNAME t;
                 let gid = (case ids of None \<Rightarrow> d_uninitialised env | Some (_, g) \<Rightarrow> g);
                 Some (True, snd (dcall env (Sys_chown MDM_XAUTH_DIR 0 gid) t))
               })
        else Some (True, clean_up_stale_auth_subdirs env (snd (dcall env (Sys_chmod MDM_XAUTH_DIR MODE_0711) t))))"

definition create_xauth_file_for_user ::
  "daemon_env \<Rightarrow> string \<Rightarrow> dtrace \<Rightarrow> (string option \<times> dtrace) option" where
  "create_xauth_file_for_user env user t =
     do {
       (prepared, t) \<leftarrow> prepare_xauth_dir env t;
       if \<not> prepared then Some (None, t)
       else do {
         ids \<leftarrow> get_uid_and_gid_for_user env user t;
         (case ids of
            None \<Rightarrow> Some (None, t)
          | Some (uid, gid) \<Rightarrow>
              (case dcall_string env (Sys_mkdtemp (MDM_XAUTH_DIR @ ''/auth-for-'' @ user @ ''-XXXXXX'')) t of
                 (None, t) \<Rightarrow> Some (None, t)
               | (Some dir_name, t) \<Rightarrow>
                   (case dcall env (Sys_chown dir_name uid gid) t of (r, t) \<Rightarrow>
                      if r < 0 then Some (None, t)
                      else let auth_filename = g_build_filename [dir_name, ''database'']
                      in case dcall env (Sys_open_excl auth_filename) t of (fd, t) \<Rightarrow>
                           if fd < 0 then Some (None, t)
                           else case dcall env (Sys_fchown auth_filename uid gid) t of (r, t) \<Rightarrow>
                             if r < 0 then Some (None, t)
                             else let t = snd (dcall env (Sys_chmod dir_name MODE_0711) t)
                             in case dcall env (Sys_fdopen auth_filename) t of (fp, t) \<Rightarrow>
                                  Some (if fp = 0 then None else Some auth_filename, t))))
       }
     }"

text \<open>The guards of the code: a file that is open is not opened again.\<close>

definition mdm_display_access_file_open ::
  "daemon_env \<Rightarrow> access_file \<Rightarrow> dtrace \<Rightarrow> (bool \<times> access_file \<times> dtrace) option" where
  "mdm_display_access_file_open env af t =
     (if af_path af \<noteq> None then Some (False, af, t)
      else do {
        (path, t) \<leftarrow> create_xauth_file_for_user env (af_username af) t;
        Some (path \<noteq> None, af\<lparr>af_path := path\<rparr>, t)
      })"

definition mdm_display_access_file_close :: "daemon_env \<Rightarrow> access_file \<Rightarrow> dtrace \<Rightarrow> access_file \<times> dtrace" where
  "mdm_display_access_file_close env af t =
     (case af_path af of
        None \<Rightarrow> (af, t)
      | Some path \<Rightarrow>
          let t = snd (dcall env (Sys_unlink path) t);
              t = snd (dcall env (Sys_rmdir (g_path_get_dirname path)) t)
          in (af\<lparr>af_path := None\<rparr>, t))"

subsection \<open>Entries\<close>

text \<open>What an entry says of a display: its number, and where it is; \<^term>\<open>None\<close>: a remote display
  without a host name, whose length is taken of NULL.\<close>

definition get_auth_info_for_display ::
  "daemon_env \<Rightarrow> bool \<Rightarrow> string option \<Rightarrow> int \<Rightarrow> (xau_family \<times> string \<times> string \<times> string) option" where
  "get_auth_info_for_display env is_local remote_hostname display_number =
     do {
       address \<leftarrow> (if is_local then Some (case d_hostname env of Some h \<Rightarrow> h | None \<Rightarrow> ''localhost'')
                  else remote_hostname);
       Some (if is_local then FamilyLocal else FamilyWild, address, string_of_int display_number,
             ''MIT-MAGIC-COOKIE-1'')
     }"

definition mdm_display_access_file_add_display_with_cookie ::
  "daemon_env \<Rightarrow> access_file \<Rightarrow> bool \<Rightarrow> string option \<Rightarrow> int \<Rightarrow> string option \<Rightarrow> dtrace
     \<Rightarrow> (bool \<times> dtrace) option" where
  "mdm_display_access_file_add_display_with_cookie env af is_local host number cookie t =
     (case (af_path af, cookie) of
        (Some path, Some data) \<Rightarrow>
          do {
            (family, address, num, name) \<leftarrow> get_auth_info_for_display env is_local host number;
            let entry = \<lparr>xau_family = family, xau_address = address, xau_number = num,
                         xau_name = name, xau_data = data\<rparr>;
            let (r, t) = dcall env (Sys_xau_write path entry) t;
            Some (r \<noteq> 0, t)
          }
      | _ \<Rightarrow> Some (False, t))"

text \<open>A new cookie, and its entry; the cookie is NULL again when either fails.\<close>

definition mdm_display_access_file_add_display ::
  "daemon_env \<Rightarrow> access_file \<Rightarrow> bool \<Rightarrow> string option \<Rightarrow> int \<Rightarrow> dtrace
     \<Rightarrow> (string option \<times> dtrace) option" where
  "mdm_display_access_file_add_display env af is_local host number t =
     (if af_path af = None then Some (None, t)
      else case dcall_string env (Sys_random MDM_DISPLAY_ACCESS_COOKIE_SIZE) t of
             (None, t) \<Rightarrow> Some (None, t)
           | (Some cookie, t) \<Rightarrow>
               do {
                 (added, t) \<leftarrow> mdm_display_access_file_add_display_with_cookie env af is_local host number
                                (Some cookie) t;
                 Some (if added then Some cookie else None, t)
               })"

end
