(* ===== verification/Slave_Proxy.thy ===== *)
theory Slave_Proxy
  imports Access_File
begin

text \<open>
  The daemon's handle on the slave process of a display, \<open>daemon/mdm-slave-proxy.c\<close>: starting it
  with its log rotated, watching it, and stopping it. A proxy that has no process holds the pid -1,
  one whose process was stopped 0.
\<close>

record slave_proxy =
  command :: string
  log_path :: "string option"
  pid :: int
  slave_watch_id :: bool

definition MAX_LOGS :: nat where
  "MAX_LOGS = 5"

definition mdm_slave_proxy_init :: slave_proxy where
  "mdm_slave_proxy_init = \<lparr>command = [], log_path = None, pid = -1, slave_watch_id = False\<rparr>"

definition mdm_slave_proxy_set_command :: "string \<Rightarrow> slave_proxy \<Rightarrow> slave_proxy" where
  "mdm_slave_proxy_set_command c slave = slave\<lparr>command := c\<rparr>"

definition mdm_slave_proxy_set_log_path :: "string \<Rightarrow> slave_proxy \<Rightarrow> slave_proxy" where
  "mdm_slave_proxy_set_log_path path slave = slave\<lparr>log_path := Some path\<rparr>"

subsection \<open>The log files\<close>

text \<open>A file system as the contents of its files; \<open>rename\<close> replaces the target, and fails without
  effect when the source is missing.\<close>

type_synonym 'c files = "string \<Rightarrow> 'c option"

definition fs_unlink :: "string \<Rightarrow> 'c files \<Rightarrow> 'c files" where
  "fs_unlink name fs = fs(name := None)"

definition fs_rename :: "string \<Rightarrow> string \<Rightarrow> 'c files \<Rightarrow> 'c files" where
  "fs_rename old new fs = (if fs old = None then fs else (fs(new := fs old))(old := None))"

definition log_name :: "string \<Rightarrow> nat \<Rightarrow> string" where
  "log_name path i = (if i = 0 then path else path @ ''.'' @ string_of_nat i)"

text \<open>The loop runs \<open>i\<close> down to 1.\<close>

fun rotate_logs_loop :: "string \<Rightarrow> nat \<Rightarrow> 'c files \<Rightarrow> 'c files" where
  "rotate_logs_loop path 0 fs = fs"
| "rotate_logs_loop path (Suc i) fs =
     (let name_n = path @ ''.'' @ string_of_nat (Suc i);
          name_n1 = (if Suc i > 1 then path @ ''.'' @ string_of_nat i else path);
          fs = fs_unlink name_n fs;
          fs = fs_rename name_n1 name_n fs
      in rotate_logs_loop path i fs)"

definition rotate_logs :: "string \<Rightarrow> nat \<Rightarrow> 'c files \<Rightarrow> 'c files" where
  "rotate_logs path n_copies fs = fs_unlink path (rotate_logs_loop path (n_copies - 1) fs)"

text \<open>What the child does to its log before it runs: it is a new, empty file.\<close>

definition spawn_child_setup :: "'c \<Rightarrow> string option \<Rightarrow> 'c files \<Rightarrow> 'c files" where
  "spawn_child_setup no_contents log_file fs =
     (case log_file of
        None \<Rightarrow> fs
      | Some path \<Rightarrow> (fs_unlink path (rotate_logs path MAX_LOGS fs))(path := Some no_contents))"

subsection \<open>Starting and stopping the slave\<close>

text \<open>The answer of the spawning is the new pid, negative when the command line cannot be parsed or the
  process not be created.\<close>

definition spawn_slave :: "daemon_env \<Rightarrow> slave_proxy \<Rightarrow> dtrace \<Rightarrow> bool \<times> slave_proxy \<times> dtrace" where
  "spawn_slave env slave t =
     (case dcall env (Sys_spawn (command slave) (log_path slave)) t of (child, t) \<Rightarrow>
        if child < 0 then (False, slave, t)
        else (True, slave\<lparr>pid := child, slave_watch_id := True\<rparr>, t))"

definition mdm_slave_proxy_start :: "daemon_env \<Rightarrow> slave_proxy \<Rightarrow> dtrace \<Rightarrow> slave_proxy \<times> dtrace" where
  "mdm_slave_proxy_start env slave t = snd (spawn_slave env slave t)"

definition kill_slave :: "daemon_env \<Rightarrow> slave_proxy \<Rightarrow> dtrace \<Rightarrow> (slave_proxy \<times> dtrace) option" where
  "kill_slave env slave t =
     (if pid slave \<le> 1 then Some (slave, t)
      else case dcall env (Sys_kill (pid slave)) t of (res, t) \<Rightarrow>
        if res < 0 then Some (slave, t)
        else do {
          let t = Sys_waitpid (pid slave) # t;
          _ \<leftarrow> mdm_wait_on_pid (d_waitpid env t) 0;
          Some (slave\<lparr>pid := 0\<rparr>, t)
        })"

definition mdm_slave_proxy_stop :: "daemon_env \<Rightarrow> slave_proxy \<Rightarrow> dtrace \<Rightarrow> (slave_proxy \<times> dtrace) option" where
  "mdm_slave_proxy_stop env slave t = kill_slave env (slave\<lparr>slave_watch_id := False\<rparr>) t"

text \<open>The end of the process as the main loop reports it: the signal to emit, if any.\<close>

datatype slave_end = Slave_exited int | Slave_died int | Slave_unknown

datatype proxy_signal = EXITED int | DIED int

definition child_watch :: "slave_end \<Rightarrow> slave_proxy \<Rightarrow> slave_proxy \<times> proxy_signal option" where
  "child_watch status slave =
     (slave\<lparr>pid := -1, slave_watch_id := False\<rparr>,
      (case status of Slave_exited code \<Rightarrow> Some (EXITED code) | Slave_died num \<Rightarrow> Some (DIED num)
       | Slave_unknown \<Rightarrow> None))"

subsection \<open>The rotation keeps the logs in order\<close>

lemma log_name_inj: "log_name path i = log_name path j \<Longrightarrow> i = j"
  by (auto simp: log_name_def dest: string_of_nat_inj split: if_splits)

lemma log_name_eq [simp]: "log_name path i = log_name path j \<longleftrightarrow> i = j"
  using log_name_inj by blast

lemma rotate_logs_loop_step:
  "rotate_logs_loop path (Suc i) fs =
     rotate_logs_loop path i (fs_rename (log_name path i) (log_name path (Suc i))
       (fs_unlink (log_name path (Suc i)) fs))"
  by (cases i) (simp_all add: log_name_def Let_def)

lemma rotate_logs_loop_shifts:
  "rotate_logs_loop path n fs (log_name path k) =
     (if k = 0 then (if n = 0 then fs path else None)
      else if k \<le> n then fs (log_name path (k - 1))
      else fs (log_name path k))"
proof (induction n arbitrary: fs)
  case 0
  then show ?case by (simp add: log_name_def)
next
  case (Suc n)
  let ?fs = "fs_rename (log_name path n) (log_name path (Suc n)) (fs_unlink (log_name path (Suc n)) fs)"
  have p: "path = log_name path 0" by (simp add: log_name_def)
  have fs: "?fs (log_name path j) =
      (if j = Suc n then fs (log_name path n) else if j = n then None else fs (log_name path j))" for j
    by (auto simp: fs_rename_def fs_unlink_def)
  show ?case
    unfolding rotate_logs_loop_step Suc.IH using fs [of 0] by (auto simp: fs p [symmetric])
qed

lemma rotate_logs_loop_other:
  "\<forall>k. name \<noteq> log_name path k \<Longrightarrow> rotate_logs_loop path n fs name = fs name"
proof (induction n arbitrary: fs)
  case 0
  then show ?case by simp
next
  case (Suc n)
  then show ?case
    unfolding rotate_logs_loop_step by (simp add: fs_rename_def fs_unlink_def)
qed

end
