(* ===== verification/Display_Store.thy ===== *)
theory Display_Store
  imports Mdm_Prelude "HOL-Library.AList"
begin

text \<open>
  The store of displays, \<open>daemon/mdm-display-store.c\<close>: a hash table from the displays' ids to the
  objects. Its contract is a locale, which the factories rely on; the interpretation proves it for
  the table of the code, an association list with distinct keys.
\<close>

subsection \<open>The contract\<close>

locale display_store =
  fixes valid :: "'s \<Rightarrow> bool"
    and lookup :: "'s \<Rightarrow> 'id \<Rightarrow> 'obj option"
    and add :: "'id \<Rightarrow> 'obj \<Rightarrow> 's \<Rightarrow> 's"
    and remove :: "'obj \<Rightarrow> 's \<Rightarrow> 's"
  assumes valid_add: "valid s \<Longrightarrow> valid (add i p s)"
    and valid_remove: "valid s \<Longrightarrow> valid (remove p s)"
    and lookup_add: "valid s \<Longrightarrow> lookup (add i p s) j = (if j = i then Some p else lookup s j)"
    and lookup_remove:
      "valid s \<Longrightarrow> lookup (remove p s) j = (if lookup s j = Some p then None else lookup s j)"
begin

definition stored :: "'s \<Rightarrow> 'obj \<Rightarrow> bool" where
  "stored s p \<longleftrightarrow> (\<exists>i. lookup s i = Some p)"

lemma stored_add: "valid s \<Longrightarrow> lookup s i = None \<Longrightarrow> stored (add i p s) q \<longleftrightarrow> q = p \<or> stored s q"
  by (auto simp: stored_def lookup_add) (metis option.distinct(1))

lemma stored_remove: "valid s \<Longrightarrow> stored (remove p s) q \<longleftrightarrow> q \<noteq> p \<and> stored s q"
  by (auto simp: stored_def lookup_remove split: if_splits) (metis option.inject)

lemma remove_absent: "valid s \<Longrightarrow> \<not> stored s p \<Longrightarrow> lookup (remove p s) = lookup s"
  by (rule ext) (auto simp: stored_def lookup_remove)

text \<open>Adding an object under a new id and removing it again leaves the store as it was.\<close>

lemma remove_add:
  "valid s \<Longrightarrow> lookup s i = None \<Longrightarrow> \<not> stored s p \<Longrightarrow> lookup (remove p (add i p s)) = lookup s"
  by (rule ext) (auto simp: stored_def lookup_remove lookup_add valid_add)

end

subsection \<open>The table\<close>

type_synonym store = "(string \<times> nat) list"

definition store_valid :: "store \<Rightarrow> bool" where
  "store_valid s \<longleftrightarrow> distinct (map fst s)"

definition store_lookup :: "store \<Rightarrow> string \<Rightarrow> nat option" where
  "store_lookup s i = map_of s i"

definition store_insert :: "string \<Rightarrow> nat \<Rightarrow> store \<Rightarrow> store" where
  "store_insert i p s = AList.update i p s"

text \<open>The predicate of \<open>mdm_display_store_remove\<close>, and \<open>g_hash_table_foreach_remove\<close> with a predicate.\<close>

definition remove_display :: "string \<Rightarrow> nat \<Rightarrow> nat \<Rightarrow> bool" where
  "remove_display i display display_to_remove \<longleftrightarrow> display = display_to_remove"

definition mdm_display_store_foreach_remove :: "(string \<Rightarrow> nat \<Rightarrow> bool) \<Rightarrow> store \<Rightarrow> store" where
  "mdm_display_store_foreach_remove func s = filter (\<lambda>(i, p). \<not> func i p) s"

definition store_remove :: "nat \<Rightarrow> store \<Rightarrow> store" where
  "store_remove p s = mdm_display_store_foreach_remove (\<lambda>i q. remove_display i q p) s"

definition mdm_display_store_find :: "(string \<Rightarrow> nat \<Rightarrow> bool) \<Rightarrow> store \<Rightarrow> nat option" where
  "mdm_display_store_find predicate s = map_option snd (List.find (\<lambda>(i, p). predicate i p) s)"

definition mdm_display_store_clear :: "store \<Rightarrow> store" where
  "mdm_display_store_clear s = []"

lemma map_of_filter_value:
  "distinct (map fst s) \<Longrightarrow>
     map_of (filter (\<lambda>(i, q). q \<noteq> p) s) j = (if map_of s j = Some p then None else map_of s j)"
proof (induction s)
  case Nil
  then show ?case by simp
next
  case (Cons e s)
  obtain i q where e: "e = (i, q)" by (cases e)
  with Cons have "map_of s i = None" by (force simp: map_of_eq_None_iff)
  with Cons e show ?case by auto
qed

interpretation mdm_store: display_store store_valid store_lookup store_insert store_remove
proof unfold_locales
  fix s i p
  assume "store_valid s"
  then show "store_valid (store_insert i p s)"
    by (simp add: store_valid_def store_insert_def distinct_update)
next
  fix s p
  assume "store_valid s"
  then show "store_valid (store_remove p s)"
    by (simp add: store_valid_def store_remove_def mdm_display_store_foreach_remove_def
        distinct_map_filter)
next
  fix s i p j
  assume "store_valid s"
  then show "store_lookup (store_insert i p s) j = (if j = i then Some p else store_lookup s j)"
    by (simp add: store_lookup_def store_insert_def update_conv)
next
  fix s p j
  assume "store_valid s"
  then show "store_lookup (store_remove p s) j = (if store_lookup s j = Some p then None else store_lookup s j)"
    using map_of_filter_value [of s p j]
    by (simp add: store_valid_def store_lookup_def store_remove_def
        mdm_display_store_foreach_remove_def remove_display_def)
qed

end
