(* ===== verification/Mdm_Display.thy ===== *)
theory Mdm_Display
  imports Slave_Proxy Display_Store
begin

text \<open>
  The displays of the daemon, \<open>daemon/mdm-display.c\<close>, with the classes the local factory makes:
  static, transient, product and guest displays. An object is an entry of the heap, with its
  reference count; the last \<open>g_object_unref\<close> disposes of it. Access to an object that is not there is
  \<^term>\<open>None\<close>, like a failed assertion.

  A change of a display's status is notified synchronously to the handler its creator connected.
  The operations take that handler as the parameter \<open>notify\<close>; the local factory provides it.
\<close>

subsection \<open>Displays and the daemon's state\<close>

datatype display_status = MDM_DISPLAY_UNMANAGED | MDM_DISPLAY_PREPARED | MDM_DISPLAY_MANAGED
  | MDM_DISPLAY_FINISHED | MDM_DISPLAY_FAILED

text \<open>What a remote display adds, \<open>MdmXdmcpDisplayPrivate\<close>.\<close>

record xdmcp_private =
  remote_address :: address
  session_number :: "32 word"

datatype display_class = Static_display | Transient_display | Product_display string | Guest_display
  | Xdmcp_greeter_display xdmcp_private | Xdmcp_chooser_display xdmcp_private

text \<open>\<open>MDM_IS_XDMCP_DISPLAY\<close>, with the private part.\<close>

fun xdmcp_display :: "display_class \<Rightarrow> xdmcp_private option" where
  "xdmcp_display (Xdmcp_greeter_display x) = Some x"
| "xdmcp_display (Xdmcp_chooser_display x) = Some x"
| "xdmcp_display _ = None"

text \<open>Times are in microseconds. The end of a timer is \<^term>\<open>None\<close> while it runs.\<close>

record timer =
  timer_start :: int
  timer_end :: "int option"

record display =
  disp_class :: display_class
  disp_id :: string
  seat_id :: "string option"
  remote_hostname :: "string option"
  x11_number :: int
  x11_name :: "string option"
  disp_status :: display_status
  slave_timer :: timer
  slave_command :: string
  disp_username :: "string option"
  x11_cookie :: "string option"
  disp_access_file :: "access_file option"
  is_local :: bool
  finish_idle_id :: bool
  disp_proxy :: "slave_proxy option"
  user_access_file :: "access_file option"
  enable_timed_login :: bool
  status_handler :: bool
  creation_time :: int
  refs :: nat

record daemon =
  display_serial :: "32 word"
  next_object :: nat
  heap :: "nat \<Rightarrow> display option"
  display_store :: store
  displays :: "32 word list"
  num_failures :: "32 word"
  dtrace :: dtrace

type_synonym 'a dop = "daemon \<Rightarrow> ('a \<times> daemon) option"
type_synonym notify = "nat \<Rightarrow> daemon \<Rightarrow> daemon option"

definition put :: "nat \<Rightarrow> display \<Rightarrow> daemon \<Rightarrow> daemon" where
  "put p x d = d\<lparr>heap := (heap d)(p \<mapsto> x)\<rparr>"

definition daemon_call :: "daemon_env \<Rightarrow> dcall \<Rightarrow> daemon \<Rightarrow> int \<times> daemon" where
  "daemon_call env c d = (case dcall env c (dtrace d) of (r, t) \<Rightarrow> (r, d\<lparr>dtrace := t\<rparr>))"

lemma put_simps [simp]:
  "heap (put p x d) = (heap d)(p \<mapsto> x)" "displays (put p x d) = displays d"
  "num_failures (put p x d) = num_failures d" "display_store (put p x d) = display_store d"
  "next_object (put p x d) = next_object d" "display_serial (put p x d) = display_serial d"
  "dtrace (put p x d) = dtrace d"
  by (simp_all add: put_def)

subsection \<open>Serial numbers\<close>

definition get_next_display_serial :: "daemon \<Rightarrow> 32 word \<times> daemon" where
  "get_next_display_serial d =
     (let serial = display_serial d;
          next_serial = display_serial d + 1;
          next_serial = (if sint next_serial < 0 then 1 else next_serial)
      in (serial, d\<lparr>display_serial := next_serial\<rparr>))"

subsection \<open>Reference counts\<close>

definition close_access :: "daemon_env \<Rightarrow> access_file option \<Rightarrow> dtrace \<Rightarrow> dtrace" where
  "close_access env af t =
     (case af of None \<Rightarrow> t | Some f \<Rightarrow> snd (mdm_display_access_file_close env f t))"

definition close_access_files :: "daemon_env \<Rightarrow> display \<Rightarrow> dtrace \<Rightarrow> display \<times> dtrace" where
  "close_access_files env x t =
     (let t = close_access env (user_access_file x) t;
          t = close_access env (disp_access_file x) t
      in (x\<lparr>user_access_file := None, disp_access_file := None\<rparr>, t))"

text \<open>Dropping the proxy disposes of it, which stops the slave.\<close>

definition drop_proxy :: "daemon_env \<Rightarrow> slave_proxy option \<Rightarrow> dtrace \<Rightarrow> dtrace option" where
  "drop_proxy env s t = (case s of None \<Rightarrow> Some t | Some s \<Rightarrow> map_option snd (mdm_slave_proxy_stop env s t))"

definition mdm_display_dispose :: "daemon_env \<Rightarrow> nat \<Rightarrow> daemon \<Rightarrow> daemon option" where
  "mdm_display_dispose env p d =
     do {
       x \<leftarrow> heap d p;
       let x = x\<lparr>finish_idle_id := False\<rparr>;
       t \<leftarrow> drop_proxy env (disp_proxy x) (dtrace d);
       let (x, t) = close_access_files env x t;
       Some (d\<lparr>heap := (heap d)(p := None), dtrace := t\<rparr>)
     }"

definition object_ref :: "nat \<Rightarrow> daemon \<Rightarrow> daemon option" where
  "object_ref p d = do { x \<leftarrow> heap d p; Some (put p (x\<lparr>refs := Suc (refs x)\<rparr>) d) }"

definition object_unref :: "daemon_env \<Rightarrow> nat \<Rightarrow> daemon \<Rightarrow> daemon option" where
  "object_unref env p d =
     do {
       x \<leftarrow> heap d p;
       if refs x \<le> 1 then mdm_display_dispose env p d
       else Some (put p (x\<lparr>refs := refs x - 1\<rparr>) d)
     }"

text \<open>The public wrappers hold a reference while the class's method runs.\<close>

definition with_ref :: "daemon_env \<Rightarrow> nat \<Rightarrow> 'a dop \<Rightarrow> 'a dop" where
  "with_ref env p f d =
     do {
       d \<leftarrow> object_ref p d;
       (r, d) \<leftarrow> f d;
       d \<leftarrow> object_unref env p d;
       Some (r, d)
     }"

subsection \<open>The store\<close>

definition mdm_display_store_add :: "daemon_env \<Rightarrow> nat \<Rightarrow> daemon \<Rightarrow> daemon option" where
  "mdm_display_store_add env p d =
     do {
       x \<leftarrow> heap d p;
       let replaced = store_lookup (display_store d) (disp_id x);
       d \<leftarrow> object_ref p d;
       let d = d\<lparr>display_store := store_insert (disp_id x) p (display_store d)\<rparr>;
       (case replaced of None \<Rightarrow> Some d | Some q \<Rightarrow> object_unref env q d)
     }"

fun unref_times :: "daemon_env \<Rightarrow> nat \<Rightarrow> nat \<Rightarrow> daemon \<Rightarrow> daemon option" where
  "unref_times env 0 p d = Some d"
| "unref_times env (Suc n) p d = do { d \<leftarrow> object_unref env p d; unref_times env n p d }"

text \<open>The boolean it returns is always \<open>FALSE\<close> and is dropped.\<close>

definition mdm_display_store_remove :: "daemon_env \<Rightarrow> nat \<Rightarrow> daemon \<Rightarrow> daemon option" where
  "mdm_display_store_remove env p d =
     unref_times env (length (filter (\<lambda>(i, q). remove_display i q p) (display_store d))) p
       (d\<lparr>display_store := store_remove p (display_store d)\<rparr>)"

subsection \<open>Authority\<close>

definition open_access_file_for_user ::
  "daemon_env \<Rightarrow> string \<Rightarrow> dtrace \<Rightarrow> (access_file option \<times> dtrace) option" where
  "open_access_file_for_user env user t =
     do {
       (ok, af, t) \<leftarrow> mdm_display_access_file_open env (mdm_display_access_file_new user) t;
       Some (if ok then Some af else None, t)
     }"

definition mdm_display_real_create_authority :: "daemon_env \<Rightarrow> nat \<Rightarrow> bool dop" where
  "mdm_display_real_create_authority env p d =
     do {
       x \<leftarrow> heap d p;
       if disp_access_file x \<noteq> None then Some (False, d)
       else do {
         (af, t) \<leftarrow> open_access_file_for_user env MDM_USERNAME (dtrace d);
         (case af of
            None \<Rightarrow> Some (False, d\<lparr>dtrace := t\<rparr>)
          | Some f \<Rightarrow>
              do {
                (cookie, t) \<leftarrow> mdm_display_access_file_add_display env f (is_local x)
                                (remote_hostname x) (x11_number x) t;
                (case cookie of
                   None \<Rightarrow>
                     let t = snd (mdm_display_access_file_close env f t)
                     in Some (False, put p (x\<lparr>x11_cookie := None\<rparr>) (d\<lparr>dtrace := t\<rparr>))
                 | Some c \<Rightarrow>
                     Some (True, put p (x\<lparr>x11_cookie := Some c, disp_access_file := Some f\<rparr>)
                                   (d\<lparr>dtrace := t\<rparr>)))
              })
       }
     }"

text \<open>The local classes call the parent's method and answer \<open>TRUE\<close>, whatever it answered; the remote
  ones hand its answer on.\<close>

definition mdm_display_create_authority :: "daemon_env \<Rightarrow> nat \<Rightarrow> bool dop" where
  "mdm_display_create_authority env p =
     with_ref env p (\<lambda>d. do {
       x \<leftarrow> heap d p;
       (ok, d) \<leftarrow> mdm_display_real_create_authority env p d;
       Some (if xdmcp_display (disp_class x) = None then True else ok, d)
     })"

text \<open>The result is the path of the user's authority file, \<^term>\<open>None\<close> on an error.\<close>

definition mdm_display_add_user_authorization :: "daemon_env \<Rightarrow> nat \<Rightarrow> string \<Rightarrow> string option dop" where
  "mdm_display_add_user_authorization env p user =
     with_ref env p (\<lambda>d. do {
       x \<leftarrow> heap d p;
       if disp_access_file x = None then Some (None, d)
       else do {
         (af, t) \<leftarrow> open_access_file_for_user env user (dtrace d);
         (case af of
            None \<Rightarrow> Some (None, d\<lparr>dtrace := t\<rparr>)
          | Some f \<Rightarrow>
              do {
                (ok, t) \<leftarrow> mdm_display_access_file_add_display_with_cookie env f (is_local x)
                            (remote_hostname x) (x11_number x) (x11_cookie x) t;
                if \<not> ok then
                  let t = snd (mdm_display_access_file_close env f t)
                  in Some (None, d\<lparr>dtrace := t\<rparr>)
                else Some (af_path f, put p (x\<lparr>user_access_file := Some f\<rparr>) (d\<lparr>dtrace := t\<rparr>))
              })
       }
     })"

text \<open>The file is closed, but the display keeps the closed object.\<close>

definition mdm_display_remove_user_authorization :: "daemon_env \<Rightarrow> nat \<Rightarrow> string \<Rightarrow> bool dop" where
  "mdm_display_remove_user_authorization env p user =
     with_ref env p (\<lambda>d. do {
       x \<leftarrow> heap d p;
       (case user_access_file x of
          None \<Rightarrow> Some (True, d)
        | Some f \<Rightarrow>
            (case mdm_display_access_file_close env f (dtrace d) of
               (f, t) \<Rightarrow> Some (True, put p (x\<lparr>user_access_file := Some f\<rparr>) (d\<lparr>dtrace := t\<rparr>))))
     })"

subsection \<open>Timed login\<close>

type_synonym timed_login = "bool \<times> string option \<times> int"

definition real_timed_login_details :: "daemon_env \<Rightarrow> timed_login" where
  "real_timed_login_details env =
     (let enabled = (case d_boolean env ''daemon/AutomaticLoginEnable'' of Some b \<Rightarrow> b | None \<Rightarrow> False);
          user = (if enabled then d_value env ''daemon/AutomaticLogin'' else None)
      in if enabled \<and> \<not> null_or_empty user then (enabled, user, 0)
         else
           let enabled = (case d_boolean env ''daemon/TimedLoginEnable'' of Some b \<Rightarrow> b | None \<Rightarrow> False)
           in if \<not> enabled then (enabled, None, 0)
              else
                let user = d_value env ''daemon/TimedLogin''
                in if null_or_empty user then (False, None, 0)
                   else
                     let delay = (case d_integer env ''daemon/TimedLoginDelay'' of Some i \<Rightarrow> i | None \<Rightarrow> 0);
                         delay = (if delay \<le> 0 then 10 else delay)
                     in (enabled, user, delay))"

definition GUEST_USERNAME :: string where
  "GUEST_USERNAME = ''guest''"

definition mdm_display_get_timed_login_details :: "daemon_env \<Rightarrow> display \<Rightarrow> timed_login" where
  "mdm_display_get_timed_login_details env x =
     (case disp_class x of
        Static_display \<Rightarrow>
          if enable_timed_login x then real_timed_login_details env else (False, Some [], 0)
      | Transient_display \<Rightarrow> (False, Some [], 0)
      | Product_display _ \<Rightarrow> real_timed_login_details env
      | Guest_display \<Rightarrow> (True, Some GUEST_USERNAME, 0)
      | Xdmcp_greeter_display _ \<Rightarrow> (False, Some [], 0)
      | Xdmcp_chooser_display _ \<Rightarrow> (False, Some [], 0))"

subsection \<open>The life of a display\<close>

definition set_status :: "notify \<Rightarrow> nat \<Rightarrow> display_status \<Rightarrow> daemon \<Rightarrow> daemon option" where
  "set_status notify p status d =
     do {
       x \<leftarrow> heap d p;
       if status \<noteq> disp_status x then notify p (put p (x\<lparr>disp_status := status\<rparr>) d) else Some d
     }"

definition LOGDIR :: string where
  "LOGDIR = ''/var/log/mdm''"

definition slave_log_path :: "display \<Rightarrow> string" where
  "slave_log_path x =
     g_build_filename [LOGDIR, (case x11_name x of Some n \<Rightarrow> n | None \<Rightarrow> ''(null)'') @ ''-slave.log'']"

definition slave_command_line :: "display \<Rightarrow> string" where
  "slave_command_line x =
     slave_command x @ '' --display-id '' @ disp_id x @
       (case disp_username x of Some user \<Rightarrow> '' --username '' @ user | None \<Rightarrow> [])"

definition mdm_display_real_prepare :: "daemon_env \<Rightarrow> notify \<Rightarrow> nat \<Rightarrow> bool dop" where
  "mdm_display_real_prepare env notify p d =
     do {
       x \<leftarrow> heap d p;
       if disp_proxy x \<noteq> None then None
       else do {
         (ok, d) \<leftarrow> mdm_display_create_authority env p d;
         if \<not> ok then Some (False, d)
         else do {
           d \<leftarrow> set_status notify p MDM_DISPLAY_PREPARED d;
           x \<leftarrow> heap d p;
           let slave = mdm_slave_proxy_set_log_path (slave_log_path x) mdm_slave_proxy_init;
           let slave = mdm_slave_proxy_set_command (slave_command_line x) slave;
           Some (True, put p (x\<lparr>disp_proxy := Some slave\<rparr>) d)
         }
       }
     }"

definition mdm_display_prepare :: "daemon_env \<Rightarrow> notify \<Rightarrow> nat \<Rightarrow> bool dop" where
  "mdm_display_prepare env notify p = with_ref env p (mdm_display_real_prepare env notify p)"

definition mdm_display_real_manage :: "daemon_env \<Rightarrow> notify \<Rightarrow> nat \<Rightarrow> bool dop" where
  "mdm_display_real_manage env notify p d =
     do {
       x \<leftarrow> heap d p;
       (ok, d) \<leftarrow> (if disp_status x = MDM_DISPLAY_UNMANAGED then mdm_display_prepare env notify p d
                  else Some (True, d));
       if \<not> ok then Some (False, d)
       else do {
         x \<leftarrow> heap d p;
         slave \<leftarrow> disp_proxy x;
         let (now, d) = daemon_call env Sys_clock d;
         let (slave, t) = mdm_slave_proxy_start env slave (dtrace d);
         Some (True, put p (x\<lparr>slave_timer := \<lparr>timer_start = now, timer_end = None\<rparr>,
                              disp_proxy := Some slave\<rparr>) (d\<lparr>dtrace := t\<rparr>))
       }
     }"

text \<open>The classes' own methods answer \<open>TRUE\<close>, whatever the parent's answered.\<close>

definition mdm_display_manage :: "daemon_env \<Rightarrow> notify \<Rightarrow> nat \<Rightarrow> bool dop" where
  "mdm_display_manage env notify p =
     with_ref env p (\<lambda>d. do { (_, d) \<leftarrow> mdm_display_real_manage env notify p d; Some (True, d) })"

definition mdm_display_real_finish :: "notify \<Rightarrow> nat \<Rightarrow> bool dop" where
  "mdm_display_real_finish notify p d =
     do { d \<leftarrow> set_status notify p MDM_DISPLAY_FINISHED d; Some (True, d) }"

text \<open>Stopping the proxy, and stopping it again when the last reference to it goes.\<close>

definition stop_and_drop :: "daemon_env \<Rightarrow> slave_proxy option \<Rightarrow> dtrace \<Rightarrow> dtrace option" where
  "stop_and_drop env s t =
     (case s of
        None \<Rightarrow> Some t
      | Some s \<Rightarrow> do { (s, t) \<leftarrow> mdm_slave_proxy_stop env s t; drop_proxy env (Some s) t })"

definition mdm_display_real_unmanage :: "daemon_env \<Rightarrow> notify \<Rightarrow> nat \<Rightarrow> bool dop" where
  "mdm_display_real_unmanage env notify p d =
     do {
       x \<leftarrow> heap d p;
       let (now, d) = daemon_call env Sys_clock d;
       t \<leftarrow> stop_and_drop env (disp_proxy x) (dtrace d);
       let (x, t) = close_access_files env (x\<lparr>disp_proxy := None\<rparr>) t;
       let x = x\<lparr>slave_timer := (slave_timer x)\<lparr>timer_end := Some now\<rparr>\<rparr>;
       let d = put p x (d\<lparr>dtrace := t\<rparr>);
       let elapsed = now - timer_start (slave_timer x);
       d \<leftarrow> set_status notify p
              (if elapsed < 3000000 then MDM_DISPLAY_FAILED else MDM_DISPLAY_UNMANAGED) d;
       Some (True, d)
     }"

definition mdm_static_display_unmanage :: "daemon_env \<Rightarrow> notify \<Rightarrow> nat \<Rightarrow> bool dop" where
  "mdm_static_display_unmanage env notify p d =
     do {
       x \<leftarrow> heap d p;
       mdm_display_real_unmanage env notify p (put p (x\<lparr>enable_timed_login := False\<rparr>) d)
     }"

definition mdm_display_unmanage :: "daemon_env \<Rightarrow> notify \<Rightarrow> nat \<Rightarrow> bool dop" where
  "mdm_display_unmanage env notify p =
     with_ref env p (\<lambda>d. do {
       x \<leftarrow> heap d p;
       (case disp_class x of
          Static_display \<Rightarrow> mdm_static_display_unmanage env notify p d
        | _ \<Rightarrow> mdm_display_real_unmanage env notify p d)
     })"

definition mdm_static_display_finish :: "daemon_env \<Rightarrow> notify \<Rightarrow> nat \<Rightarrow> bool dop" where
  "mdm_static_display_finish env notify p d =
     do {
       (_, d) \<leftarrow> mdm_display_unmanage env notify p d;
       x \<leftarrow> heap d p;
       if disp_status x \<noteq> MDM_DISPLAY_FAILED
       then do { (_, d) \<leftarrow> mdm_display_manage env notify p d; Some (True, d) }
       else Some (True, d)
     }"

definition mdm_transient_display_finish :: "daemon_env \<Rightarrow> notify \<Rightarrow> nat \<Rightarrow> bool dop" where
  "mdm_transient_display_finish env notify p d =
     do {
       (_, d) \<leftarrow> mdm_display_real_finish notify p d;
       (_, d) \<leftarrow> mdm_display_unmanage env notify p d;
       Some (True, d)
     }"

definition mdm_xdmcp_greeter_display_finish :: "daemon_env \<Rightarrow> notify \<Rightarrow> nat \<Rightarrow> bool dop" where
  "mdm_xdmcp_greeter_display_finish env notify p d =
     do {
       (_, d) \<leftarrow> mdm_display_real_finish notify p d;
       (_, d) \<leftarrow> mdm_display_unmanage env notify p d;
       Some (True, d)
     }"

text \<open>The guest's account is removed by a script, between two changes of a signal's action whose
  failure asserts.\<close>

definition mdm_guest_display_finish :: "daemon_env \<Rightarrow> notify \<Rightarrow> nat \<Rightarrow> bool dop" where
  "mdm_guest_display_finish env notify p d =
     do {
       let (r, d) = daemon_call env Sys_sigaction d;
       if r \<noteq> 0 then None
       else do {
         let d = snd (daemon_call env (Sys_script
                   [''/usr/share/mdm/guest-session/guest-session-cleanup.sh'', GUEST_USERNAME]) d);
         let (r, d) = daemon_call env Sys_sigaction d;
         if r \<noteq> 0 then None else mdm_transient_display_finish env notify p d
       }
     }"

definition mdm_display_finish :: "daemon_env \<Rightarrow> notify \<Rightarrow> nat \<Rightarrow> bool dop" where
  "mdm_display_finish env notify p =
     with_ref env p (\<lambda>d. do {
       x \<leftarrow> heap d p;
       (case disp_class x of
          Static_display \<Rightarrow> mdm_static_display_finish env notify p d
        | Transient_display \<Rightarrow> mdm_transient_display_finish env notify p d
        | Product_display _ \<Rightarrow> mdm_transient_display_finish env notify p d
        | Guest_display \<Rightarrow> mdm_guest_display_finish env notify p d
        | Xdmcp_greeter_display _ \<Rightarrow> mdm_xdmcp_greeter_display_finish env notify p d
        | Xdmcp_chooser_display _ \<Rightarrow> mdm_display_real_finish notify p d)
     })"

subsection \<open>The end of the slave\<close>

definition queue_finish :: "display \<Rightarrow> display" where
  "queue_finish x = (if finish_idle_id x then x else x\<lparr>finish_idle_id := True\<rparr>)"

definition finish_idle :: "daemon_env \<Rightarrow> notify \<Rightarrow> nat \<Rightarrow> daemon \<Rightarrow> daemon option" where
  "finish_idle env notify p d =
     do {
       x \<leftarrow> heap d p;
       map_option snd (mdm_display_finish env notify p (put p (x\<lparr>finish_idle_id := False\<rparr>) d))
     }"

text \<open>The main loop reports the end of a slave that is watched; both signals queue the finishing.\<close>

definition slave_done :: "nat \<Rightarrow> slave_end \<Rightarrow> daemon \<Rightarrow> daemon" where
  "slave_done p status d =
     (case heap d p of
        None \<Rightarrow> d
      | Some x \<Rightarrow>
          (case disp_proxy x of
             None \<Rightarrow> d
           | Some slave \<Rightarrow>
               if \<not> slave_watch_id slave then d
               else (case child_watch status slave of
                       (slave, None) \<Rightarrow> put p (x\<lparr>disp_proxy := Some slave\<rparr>) d
                     | (slave, Some _) \<Rightarrow> put p (queue_finish (x\<lparr>disp_proxy := Some slave\<rparr>)) d)))"

end
