(* ===== verification/Local_Factory.thy ===== *)
theory Local_Factory
  imports Mdm_Display
begin

text \<open>
  The factory of the local displays, \<open>daemon/mdm-local-display-factory.c\<close>: it hands out the X display
  numbers, creates the displays, and replaces a static display that failed. With it the daemon's
  displays are a machine over the events of the main loop and the factory's D-Bus methods.
\<close>

subsection \<open>Display numbers\<close>

text \<open>
  \<open>take_next_display_number\<close> sorts the numbers in use and looks for the first hole. The first
  argument of the loop is "there is a previous element".
\<close>

fun find_hole :: "bool \<Rightarrow> 32 word list \<Rightarrow> 32 word \<Rightarrow> 32 word" where
  "find_hole prev [] ret = ret"
| "find_hole prev (num # l) ret =
     (if \<not> prev \<and> num \<noteq> 0 then 0
      else if l = [] \<or> hd l \<noteq> num + 1 then num + 1
      else find_hole True l ret)"

definition next_display_number :: "32 word list \<Rightarrow> 32 word" where
  "next_display_number nums = (if nums = [] then 0 else find_hole False (sort nums) 0)"

definition take_next_display_number :: "daemon \<Rightarrow> 32 word \<times> daemon" where
  "take_next_display_number d =
     (let ret = next_display_number (displays d)
      in (ret, d\<lparr>displays := List.insert ret (displays d)\<rparr>))"

subsection \<open>New displays\<close>

definition DISPLAY_PATH :: string where
  "DISPLAY_PATH = ''/org/mate/DisplayManager/Display''"

definition CK_SEAT1_PATH :: string where
  "CK_SEAT1_PATH = ''/org/freedesktop/ConsoleKit/Seat1''"

definition default_slave_command :: "display_class \<Rightarrow> string" where
  "default_slave_command cls =
     (case cls of Product_display _ \<Rightarrow> ''/usr/libexec/mdm-product-slave''
                | _ \<Rightarrow> ''/usr/libexec/mdm-simple-slave'')"

text \<open>
  The instance with its constructor's properties: \<open>mdm_display_init\<close> and \<open>mdm_display_constructor\<close>. The
  pointer is a fresh one.
\<close>

definition construct_display ::
  "daemon_env \<Rightarrow> display_class \<Rightarrow> string \<Rightarrow> string option \<Rightarrow> int \<Rightarrow> string \<Rightarrow> bool \<Rightarrow> nat dop" where
  "construct_display env cls slave remote_host num name local d =
     (let (created, d) = daemon_call env Sys_time d;
          (now, d) = daemon_call env Sys_clock d;
          (serial, d) = get_next_display_serial d;
          i = DISPLAY_PATH @ string_of_nat (unat serial);
          x = \<lparr>disp_class = cls, disp_id = i, seat_id = None, remote_hostname = remote_host,
               x11_number = num, x11_name = Some name, disp_status = MDM_DISPLAY_UNMANAGED,
               slave_timer = \<lparr>timer_start = now, timer_end = None\<rparr>,
               slave_command = slave, disp_username = None, x11_cookie = None,
               disp_access_file = None, is_local = local, finish_idle_id = False, disp_proxy = None,
               user_access_file = None, enable_timed_login = True, status_handler = False,
               creation_time = created, refs = 1\<rparr>;
          p = next_object d;
          d = put p x (d\<lparr>next_object := Suc p\<rparr>);
          (r, d) = daemon_call env (Bus_register i) d
      in if r < 0 then None else Some (p, d))"

text \<open>The constructors of the local classes.\<close>

definition new_display :: "daemon_env \<Rightarrow> display_class \<Rightarrow> 32 word \<Rightarrow> nat dop" where
  "new_display env cls num =
     construct_display env cls (default_slave_command cls) None (sint num)
       ('':'' @ string_of_int (sint num)) True"

lemmas new_display_unfold = new_display_def construct_display_def

definition set_display :: "nat \<Rightarrow> (display \<Rightarrow> display) \<Rightarrow> daemon \<Rightarrow> daemon option" where
  "set_display p f d = do { x \<leftarrow> heap d p; Some (put p (f x) d) }"

definition mdm_local_store_display :: "daemon_env \<Rightarrow> 32 word \<Rightarrow> nat \<Rightarrow> daemon \<Rightarrow> daemon option" where
  "mdm_local_store_display env num p d =
     do {
       d \<leftarrow> mdm_display_store_add env p d;
       Some (d\<lparr>displays := List.insert num (displays d)\<rparr>)
     }"

subsection \<open>Static displays\<close>

definition MAX_DISPLAY_FAILURES :: "32 word" where
  "MAX_DISPLAY_FAILURES = 5"

text \<open>The handler of a static display's status. \<open>create\<close> is \<open>create_display\<close>, which it may call.\<close>

definition on_static_display_status_changed ::
  "daemon_env \<Rightarrow> (daemon \<Rightarrow> daemon option) \<Rightarrow> nat \<Rightarrow> daemon \<Rightarrow> daemon option" where
  "on_static_display_status_changed env create p d =
     do {
       x \<leftarrow> heap d p;
       if x11_number x = -1 then None
       else (case disp_status x of
               MDM_DISPLAY_FINISHED \<Rightarrow>
                 do {
                   let d = d\<lparr>displays := removeAll (word_of_int (x11_number x)) (displays d)\<rparr>;
                   d \<leftarrow> mdm_display_store_remove env p d;
                   create (d\<lparr>num_failures := 0\<rparr>)
                 }
             | MDM_DISPLAY_FAILED \<Rightarrow>
                 do {
                   d \<leftarrow> mdm_display_store_remove env p d;
                   let d = d\<lparr>num_failures := num_failures d + 1\<rparr>;
                   if num_failures d > MAX_DISPLAY_FAILURES then Some d else create d
                 }
             | _ \<Rightarrow> Some d)
     }"

text \<open>The emission of \<open>notify::status\<close> on a display: the handler, if one is connected. This factory connects
  its own to static displays only.\<close>

definition notify_status :: "daemon_env \<Rightarrow> (daemon \<Rightarrow> daemon option) \<Rightarrow> notify" where
  "notify_status env create p d =
     do {
       x \<leftarrow> heap d p;
       if status_handler x \<and> disp_class x = Static_display
       then on_static_display_status_changed env create p d else Some d
     }"

text \<open>
  \<open>create_display\<close> and the handler call each other: managing the new display changes its status.
  The body takes the recursive call as a parameter; a static display's \<open>manage\<close> always answers
  \<open>TRUE\<close> and only ever notifies \<open>PREPARED\<close>, so that the call is never made (lemma
  \<open>create_display_unfold\<close>) and the knot is closed with a function that aborts.
\<close>

definition create_display_body ::
  "daemon_env \<Rightarrow> (daemon \<Rightarrow> daemon option) \<Rightarrow> daemon \<Rightarrow> daemon option" where
  "create_display_body env create d =
     do {
       let (num, d) = take_next_display_number d;
       (p, d) \<leftarrow> new_display env Static_display num d;
       d \<leftarrow> set_display p (\<lambda>x. x\<lparr>seat_id := Some CK_SEAT1_PATH, status_handler := True\<rparr>) d;
       d \<leftarrow> mdm_local_store_display env num p d;
       d \<leftarrow> object_unref env p d;
       (ok, d) \<leftarrow> mdm_display_manage env (notify_status env create) p d;
       if ok then Some d else map_option snd (mdm_display_unmanage env (notify_status env create) p d)
     }"

definition create_display :: "daemon_env \<Rightarrow> daemon \<Rightarrow> daemon option" where
  "create_display env = create_display_body env (\<lambda>d. None)"

definition status_notify :: "daemon_env \<Rightarrow> notify" where
  "status_notify env = notify_status env (create_display env)"

definition mdm_local_display_factory_start :: "daemon_env \<Rightarrow> daemon \<Rightarrow> daemon option" where
  "mdm_local_display_factory_start env = create_display env"

subsection \<open>Transient, product and guest displays\<close>

text \<open>
  The common part of the methods that create such a display: the result is the new display's id.
  When managing fails, the code drops a NULL pointer instead of its reference.
\<close>

definition create_and_manage ::
  "daemon_env \<Rightarrow> display_class \<Rightarrow> (display \<Rightarrow> display) \<Rightarrow> string option dop" where
  "create_and_manage env cls f d =
     do {
       let (num, d) = take_next_display_number d;
       (p, d) \<leftarrow> new_display env cls num d;
       d \<leftarrow> set_display p (\<lambda>x. f (x\<lparr>seat_id := Some CK_SEAT1_PATH\<rparr>)) d;
       d \<leftarrow> mdm_local_store_display env num p d;
       (ok, d) \<leftarrow> mdm_display_manage env (status_notify env) p d;
       if \<not> ok then Some (None, d)
       else do {
         x \<leftarrow> heap d p;
         d \<leftarrow> object_unref env p d;
         Some (Some (disp_id x), d)
       }
     }"

definition mdm_local_display_factory_create_transient_display :: "daemon_env \<Rightarrow> string option dop" where
  "mdm_local_display_factory_create_transient_display env =
     create_and_manage env Transient_display (\<lambda>x. x)"

definition mdm_local_display_factory_create_product_display ::
  "daemon_env \<Rightarrow> string \<Rightarrow> string \<Rightarrow> string option dop" where
  "mdm_local_display_factory_create_product_display env parent_display_id relay_address =
     create_and_manage env (Product_display relay_address) (\<lambda>x. x)"

text \<open>An existing session of the user is activated instead.\<close>

definition switch_to_user_display :: "daemon_env \<Rightarrow> string \<Rightarrow> daemon \<Rightarrow> bool \<times> daemon" where
  "switch_to_user_display env user d =
     (case fst (d_getpwnam env (dtrace d) user 0) of
        None \<Rightarrow> (False, d)
      | Some password \<Rightarrow>
          (let d = snd (daemon_call env (CK_sessions (pw_uid password)) d)
           in case d_sessions env (dtrace d) of
                [] \<Rightarrow> (False, d)
              | session_id # _ \<Rightarrow>
                  (case daemon_call env (CK_activate session_id) d of (r, d) \<Rightarrow> (r > 0, d))))"

definition mdm_local_display_factory_switch_to_user :: "daemon_env \<Rightarrow> string \<Rightarrow> string option dop" where
  "mdm_local_display_factory_switch_to_user env user d =
     (case switch_to_user_display env user d of
        (True, d) \<Rightarrow> Some (None, d)
      | (False, d) \<Rightarrow> create_and_manage env Transient_display (\<lambda>x. x\<lparr>disp_username := Some user\<rparr>) d)"

text \<open>
  The output of the guest's setup script: a trailing newline is dropped, and what follows the last
  newline that remains has to be the guest's name. The last character of an empty output is read
  in front of the buffer: \<^term>\<open>None\<close>.
\<close>

definition guest_output_ok :: "string \<Rightarrow> bool option" where
  "guest_output_ok sout =
     (if sout = [] then None
      else let sout = (if last sout = CHR 0x0A then butlast sout else sout)
           in Some (CHR 0x0A \<in> set sout \<and>
                rev (takeWhile (\<lambda>c. c \<noteq> CHR 0x0A) (rev sout)) = GUEST_USERNAME))"

definition mdm_local_display_factory_setup_guest_account :: "daemon_env \<Rightarrow> string \<Rightarrow> bool dop" where
  "mdm_local_display_factory_setup_guest_account env current_user_session d =
     do {
       let (r, d) = daemon_call env Sys_sigaction d;
       if r < 0 then Some (False, d)
       else do {
         let (status, d) = daemon_call env (Sys_script
           [''/usr/share/mdm/guest-session/guest-session-setup.sh'', current_user_session]) d;
         let output = d_string env (dtrace d);
         let (r, d) = daemon_call env Sys_sigaction d;
         if r \<noteq> 0 then None
         else (case output of
                 None \<Rightarrow> Some (False, d)
               | Some sout \<Rightarrow>
                   if status \<noteq> 0 then Some (False, d)
                   else do { ok \<leftarrow> guest_output_ok (c_string sout); Some (ok, d) })
       }
     }"

definition mdm_local_display_factory_start_guest_session :: "daemon_env \<Rightarrow> string \<Rightarrow> string option dop" where
  "mdm_local_display_factory_start_guest_session env current_user_session d =
     (case switch_to_user_display env GUEST_USERNAME d of
        (True, d) \<Rightarrow> Some (None, d)
      | (False, d) \<Rightarrow>
          do {
            (ok, d) \<leftarrow> mdm_local_display_factory_setup_guest_account env current_user_session d;
            if \<not> ok then Some (None, d) else create_and_manage env Guest_display (\<lambda>x. x) d
          })"

subsection \<open>The machine\<close>

datatype daemon_event = Factory_start | Create_transient | Create_product string string
  | Switch_to_user string | Start_guest_session string | Slave_done nat slave_end
  | Finish_idle nat | Add_user_authorization nat string | Remove_user_authorization nat string

text \<open>An idle callback runs when it is queued, a method when its object exists.\<close>

definition daemon_step :: "daemon_env \<Rightarrow> daemon_event \<Rightarrow> daemon \<Rightarrow> daemon option" where
  "daemon_step env e d =
     (case e of
        Factory_start \<Rightarrow> mdm_local_display_factory_start env d
      | Create_transient \<Rightarrow> map_option snd (mdm_local_display_factory_create_transient_display env d)
      | Create_product parent address \<Rightarrow>
          map_option snd (mdm_local_display_factory_create_product_display env parent address d)
      | Switch_to_user user \<Rightarrow> map_option snd (mdm_local_display_factory_switch_to_user env user d)
      | Start_guest_session session \<Rightarrow>
          map_option snd (mdm_local_display_factory_start_guest_session env session d)
      | Slave_done p status \<Rightarrow> Some (slave_done p status d)
      | Finish_idle p \<Rightarrow>
          (case heap d p of
             None \<Rightarrow> Some d
           | Some x \<Rightarrow> if finish_idle_id x then finish_idle env (status_notify env) p d else Some d)
      | Add_user_authorization p user \<Rightarrow>
          if heap d p = None then Some d
          else map_option snd (mdm_display_add_user_authorization env p user d)
      | Remove_user_authorization p user \<Rightarrow>
          if heap d p = None then Some d
          else map_option snd (mdm_display_remove_user_authorization env p user d))"

definition daemon_init :: daemon where
  "daemon_init =
     \<lparr>display_serial = 1, next_object = 0, heap = (\<lambda>p. None), display_store = [], displays = [],
      num_failures = 0, dtrace = []\<rparr>"

end
