(* ===== verification/Display_Invariant.thy ===== *)
theory Display_Invariant
  imports Local_Factory
begin

text \<open>
  What the operations on displays keep. The locale \<open>display_invariant\<close> names the few elementary
  changes that all of them are made of; a predicate that is closed under these, and under the
  notification of a status, is kept by every operation. Its interpretation at the end is the
  daemon's invariant: the numbers of the displays are reserved and pairwise different.
\<close>

subsection \<open>Elementary changes\<close>

text \<open>The same object, later: its identity is unchanged, timed login is never enabled again, a static
  display does not become finished, and none becomes managed.\<close>

definition same_display :: "display \<Rightarrow> display \<Rightarrow> bool" where
  "same_display x x' \<longleftrightarrow> disp_class x' = disp_class x \<and> disp_id x' = disp_id x \<and>
     x11_number x' = x11_number x \<and> status_handler x' = status_handler x \<and>
     (enable_timed_login x' \<longrightarrow> enable_timed_login x) \<and>
     (disp_class x = Static_display \<and> disp_status x' = MDM_DISPLAY_FINISHED \<longrightarrow>
        disp_status x = MDM_DISPLAY_FINISHED) \<and>
     (disp_status x' = MDM_DISPLAY_MANAGED \<longrightarrow> disp_status x = MDM_DISPLAY_MANAGED)"

lemma same_display_refl [simp, intro]: "same_display x x"
  by (simp add: same_display_def)

lemma same_display_update [simp, intro]:
  "same_display x (x\<lparr>refs := n\<rparr>)" "same_display x (x\<lparr>finish_idle_id := b\<rparr>)"
  "same_display x (x\<lparr>x11_cookie := c\<rparr>)" "same_display x (x\<lparr>x11_cookie := c, disp_access_file := f\<rparr>)"
  "same_display x (x\<lparr>user_access_file := f\<rparr>)" "same_display x (x\<lparr>disp_proxy := s\<rparr>)"
  "same_display x (x\<lparr>slave_timer := t, disp_proxy := s\<rparr>)"
  "same_display x (x\<lparr>enable_timed_login := False\<rparr>)"
  "same_display x (x\<lparr>disp_proxy := s, finish_idle_id := b\<rparr>)"
  "same_display x (x\<lparr>disp_proxy := s, user_access_file := f, disp_access_file := g, slave_timer := t\<rparr>)"
  by (simp_all add: same_display_def)

locale display_invariant =
  fixes P :: "daemon \<Rightarrow> bool" and env :: daemon_env and notify :: notify
  assumes P_put: "P d \<Longrightarrow> heap d p = Some x \<Longrightarrow> same_display x x' \<Longrightarrow> P (put p x' d)"
    and P_trace: "P d \<Longrightarrow> P (d\<lparr>dtrace := t\<rparr>)"
    and P_free: "P d \<Longrightarrow> P (d\<lparr>heap := (heap d)(p := None), dtrace := t\<rparr>)"
    and P_store: "P d \<Longrightarrow> P (d\<lparr>display_store := s\<rparr>)"
    and P_notify: "P d \<Longrightarrow> notify p d = Some d' \<Longrightarrow> P d'"
begin

lemma P_put_trace: "P d \<Longrightarrow> heap d p = Some x \<Longrightarrow> same_display x x' \<Longrightarrow> P (put p x' (d\<lparr>dtrace := t\<rparr>))"
  by (rule P_put [OF P_trace]) simp_all

lemma P_call: "P d \<Longrightarrow> P (snd (daemon_call env c d))"
  by (simp add: daemon_call_def split_beta P_trace)

lemma P_ref: "P d \<Longrightarrow> object_ref p d = Some d' \<Longrightarrow> P d'"
  by (auto simp: object_ref_def bind_eq_Some_conv intro: P_put)

lemma P_unref: "P d \<Longrightarrow> object_unref env p d = Some d' \<Longrightarrow> P d'"
  by (auto simp: object_unref_def mdm_display_dispose_def bind_eq_Some_conv Let_def split_beta
      split: if_splits intro: P_put P_free)

lemma P_with_ref:
  assumes "P d" and "with_ref env p f d = Some (r, d')"
    and "\<And>r d d'. P d \<Longrightarrow> f d = Some (r, d') \<Longrightarrow> P d'"
  shows "P d'"
proof -
  from assms(2) obtain u v where u: "object_ref p d = Some u" and v: "f u = Some (r, v)"
    and d': "object_unref env p v = Some d'"
    by (auto simp: with_ref_def bind_eq_Some_conv)
  from P_unref [OF assms(3) [OF P_ref [OF assms(1) u] v] d'] show ?thesis .
qed

lemma P_store_add:
  assumes "P d" and "mdm_display_store_add env p d = Some d'"
  shows "P d'"
proof -
  obtain x where x: "heap d p = Some x"
    using assms(2) by (auto simp: mdm_display_store_add_def bind_eq_Some_conv)
  obtain u where u: "object_ref p d = Some u"
    using assms(2) by (auto simp: mdm_display_store_add_def bind_eq_Some_conv x)
  have d': "(case store_lookup (display_store d) (disp_id x) of
        None \<Rightarrow> Some (u\<lparr>display_store := store_insert (disp_id x) p (display_store u)\<rparr>)
      | Some q \<Rightarrow> object_unref env q (u\<lparr>display_store := store_insert (disp_id x) p (display_store u)\<rparr>))
      = Some d'"
    using assms(2) by (simp add: mdm_display_store_add_def x u Let_def)
  have "P (u\<lparr>display_store := store_insert (disp_id x) p (display_store u)\<rparr>)"
    by (rule P_store [OF P_ref [OF assms(1) u]])
  with d' show ?thesis by (auto split: option.split_asm intro: P_unref)
qed

lemma P_unref_times: "P d \<Longrightarrow> unref_times env n p d = Some d' \<Longrightarrow> P d'"
  by (induction n arbitrary: d) (auto simp: bind_eq_Some_conv dest: P_unref)

lemma P_store_remove: "P d \<Longrightarrow> mdm_display_store_remove env p d = Some d' \<Longrightarrow> P d'"
  unfolding mdm_display_store_remove_def by (erule P_unref_times [OF P_store])

subsubsection \<open>Authority\<close>

lemma P_real_create_authority:
  "P d \<Longrightarrow> mdm_display_real_create_authority env p d = Some (r, d') \<Longrightarrow> P d'"
  by (auto simp: mdm_display_real_create_authority_def bind_eq_Some_conv Let_def
      split: if_split_asm option.split_asm intro: P_trace)
    (erule P_put_trace, assumption, simp)+

lemma P_create_authority: "P d \<Longrightarrow> mdm_display_create_authority env p d = Some (r, d') \<Longrightarrow> P d'"
  unfolding mdm_display_create_authority_def
  by (erule P_with_ref, assumption) (auto simp: bind_eq_Some_conv dest: P_real_create_authority)

lemma P_add_user_authorization:
  "P d \<Longrightarrow> mdm_display_add_user_authorization env p user d = Some (r, d') \<Longrightarrow> P d'"
  unfolding mdm_display_add_user_authorization_def
  by (erule P_with_ref, assumption)
     (auto simp: bind_eq_Some_conv Let_def split: if_split_asm option.split_asm
        intro: P_trace P_put_trace)

lemma P_remove_user_authorization:
  "P d \<Longrightarrow> mdm_display_remove_user_authorization env p user d = Some (r, d') \<Longrightarrow> P d'"
  unfolding mdm_display_remove_user_authorization_def
  by (erule P_with_ref, assumption)
     (auto simp: bind_eq_Some_conv split_beta split: option.split_asm intro: P_put_trace)

subsubsection \<open>The life of a display\<close>

lemma P_set_status:
  assumes "P d" and "set_status notify p st d = Some d'" and "st \<noteq> MDM_DISPLAY_FINISHED"
    and "st \<noteq> MDM_DISPLAY_MANAGED"
  shows "P d'"
proof -
  from assms(2) obtain x where x: "heap d p = Some x"
    and d': "(if st \<noteq> disp_status x then notify p (put p (x\<lparr>disp_status := st\<rparr>) d) else Some d) = Some d'"
    by (auto simp: set_status_def bind_eq_Some_conv)
  have "P (put p (x\<lparr>disp_status := st\<rparr>) d)"
    by (rule P_put [OF assms(1) x]) (simp add: same_display_def assms(3,4))
  with d' assms(1) show ?thesis by (auto split: if_splits intro: P_notify)
qed

text \<open>A display that is not static may become finished.\<close>

lemma P_real_finish:
  assumes "P d" and "mdm_display_real_finish notify p d = Some (r, d')"
    and "\<And>x. heap d p = Some x \<Longrightarrow> disp_class x \<noteq> Static_display"
  shows "P d'"
proof -
  from assms(2) obtain x where x: "heap d p = Some x"
    and d': "(if MDM_DISPLAY_FINISHED \<noteq> disp_status x
       then notify p (put p (x\<lparr>disp_status := MDM_DISPLAY_FINISHED\<rparr>) d) else Some d) = Some d'"
    by (auto simp: mdm_display_real_finish_def set_status_def bind_eq_Some_conv)
  have "P (put p (x\<lparr>disp_status := MDM_DISPLAY_FINISHED\<rparr>) d)"
    by (rule P_put [OF assms(1) x]) (simp add: same_display_def assms(3) [OF x])
  with d' assms(1) show ?thesis by (auto split: if_splits intro: P_notify)
qed

lemma P_real_prepare: "P d \<Longrightarrow> mdm_display_real_prepare env notify p d = Some (r, d') \<Longrightarrow> P d'"
proof -
  assume d: "P d" and f: "mdm_display_real_prepare env notify p d = Some (r, d')"
  then obtain x where x: "heap d p = Some x" and n: "disp_proxy x = None"
    by (auto simp: mdm_display_real_prepare_def bind_eq_Some_conv split: if_splits)
  obtain ok u where u: "mdm_display_create_authority env p d = Some (ok, u)"
    using f by (auto simp: mdm_display_real_prepare_def x n bind_eq_Some_conv)
  have pu: "P u" using d u by (rule P_create_authority)
  show "P d'"
  proof (cases ok)
    case False
    with f x n u pu show ?thesis by (simp add: mdm_display_real_prepare_def)
  next
    case True
    obtain v where v: "set_status notify p MDM_DISPLAY_PREPARED u = Some v"
      using f True by (auto simp: mdm_display_real_prepare_def x n u bind_eq_Some_conv)
    obtain y where y: "heap v p = Some y"
      using f True by (auto simp: mdm_display_real_prepare_def x n u v bind_eq_Some_conv)
    have "P v" by (rule P_set_status [OF pu v]) simp_all
    moreover have "\<exists>s. d' = put p (y\<lparr>disp_proxy := s\<rparr>) v"
      using f True by (auto simp: mdm_display_real_prepare_def x n u v y Let_def)
    ultimately show ?thesis using P_put [OF _ y] by auto
  qed
qed

lemma P_prepare: "P d \<Longrightarrow> mdm_display_prepare env notify p d = Some (r, d') \<Longrightarrow> P d'"
  unfolding mdm_display_prepare_def by (erule P_with_ref, assumption) (rule P_real_prepare)

lemma P_real_manage:
  assumes "P d" and "mdm_display_real_manage env notify p d = Some (r, d')"
  shows "P d'"
proof -
  from assms(2) obtain x ok u where x: "heap d p = Some x"
    and u: "(if disp_status x = MDM_DISPLAY_UNMANAGED then mdm_display_prepare env notify p d
             else Some (True, d)) = Some (ok, u)"
    and rest: "(if \<not> ok then Some (False, u)
       else do {
         x \<leftarrow> heap u p;
         slave \<leftarrow> disp_proxy x;
         let (now, d) = daemon_call env Sys_clock u;
         let (slave, t) = mdm_slave_proxy_start env slave (dtrace d);
         Some (True, put p (x\<lparr>slave_timer := \<lparr>timer_start = now, timer_end = None\<rparr>,
                              disp_proxy := Some slave\<rparr>) (d\<lparr>dtrace := t\<rparr>))
       }) = Some (r, d')"
    unfolding mdm_display_real_manage_def bind_eq_Some_conv by (fastforce split: if_splits)
  have "P u" using u assms(1) by (auto split: if_splits dest: P_prepare)
  with rest show ?thesis
    by (auto simp: bind_eq_Some_conv Let_def split_beta daemon_call_def split: if_split_asm)
       (erule P_put_trace, assumption, simp)
qed

lemma P_manage: "P d \<Longrightarrow> mdm_display_manage env notify p d = Some (r, d') \<Longrightarrow> P d'"
  unfolding mdm_display_manage_def
  by (erule P_with_ref, assumption) (auto simp: bind_eq_Some_conv dest: P_real_manage)

lemma P_real_unmanage:
  assumes "P d" and "mdm_display_real_unmanage env notify p d = Some (r, d')"
  shows "P d'"
proof -
  from assms(2) obtain x t u st where x: "heap d p = Some x"
    and u: "u = put p (x\<lparr>disp_proxy := None, user_access_file := None, disp_access_file := None,
        slave_timer := st\<rparr>) (d\<lparr>dtrace := t\<rparr>)"
    and d': "set_status notify p MDM_DISPLAY_FAILED u = Some d' \<or>
      set_status notify p MDM_DISPLAY_UNMANAGED u = Some d'"
    by (auto simp: mdm_display_real_unmanage_def bind_eq_Some_conv Let_def split_beta
        daemon_call_def close_access_files_def split: if_split_asm)
  have "P u" unfolding u by (rule P_put_trace [OF assms(1) x]) simp
  with d' show ?thesis by (auto intro: P_set_status)
qed

lemma P_unmanage: "P d \<Longrightarrow> mdm_display_unmanage env notify p d = Some (r, d') \<Longrightarrow> P d'"
proof (unfold mdm_display_unmanage_def, erule P_with_ref, assumption)
  fix r d d'
  assume d: "P d"
    and f: "Option.bind (heap d p) (\<lambda>x. case disp_class x of
          Static_display \<Rightarrow> mdm_static_display_unmanage env notify p d
        | _ \<Rightarrow> mdm_display_real_unmanage env notify p d) = Some (r, d')"
  then obtain x where x: "heap d p = Some x" by (auto simp: bind_eq_Some_conv)
  have "mdm_display_real_unmanage env notify p d = Some (r, d') \<or>
     mdm_display_real_unmanage env notify p (put p (x\<lparr>enable_timed_login := False\<rparr>) d) = Some (r, d')"
    using f by (cases "disp_class x") (auto simp: x mdm_static_display_unmanage_def)
  moreover have "P (put p (x\<lparr>enable_timed_login := False\<rparr>) d)"
    by (rule P_put [OF d x]) simp
  ultimately show "P d'" using d by (blast intro: P_real_unmanage)
qed

lemma P_static_finish: "P d \<Longrightarrow> mdm_static_display_finish env notify p d = Some (r, d') \<Longrightarrow> P d'"
proof -
  assume d: "P d" and f: "mdm_static_display_finish env notify p d = Some (r, d')"
  then obtain b u where u: "mdm_display_unmanage env notify p d = Some (b, u)"
    by (auto simp: mdm_static_display_finish_def bind_eq_Some_conv)
  have "P u" using d u by (rule P_unmanage)
  moreover have "d' = u \<or> (\<exists>c. mdm_display_manage env notify p u = Some (c, d'))"
    using f by (auto simp: mdm_static_display_finish_def u bind_eq_Some_conv split: if_splits)
  ultimately show "P d'" by (auto intro: P_manage)
qed

lemma P_transient_finish:
  assumes "P d" and "mdm_transient_display_finish env notify p d = Some (r, d')"
    and "\<And>x. heap d p = Some x \<Longrightarrow> disp_class x \<noteq> Static_display"
  shows "P d'"
  using assms(2) P_real_finish [OF assms(1) _ assms(3)]
  by (auto simp: mdm_transient_display_finish_def bind_eq_Some_conv dest: P_unmanage)

lemma P_xdmcp_greeter_finish:
  assumes "P d" and "mdm_xdmcp_greeter_display_finish env notify p d = Some (r, d')"
    and "\<And>x. heap d p = Some x \<Longrightarrow> disp_class x \<noteq> Static_display"
  shows "P d'"
  using assms(2) P_real_finish [OF assms(1) _ assms(3)]
  by (auto simp: mdm_xdmcp_greeter_display_finish_def bind_eq_Some_conv dest: P_unmanage)

lemma P_guest_finish:
  assumes "P d" and "mdm_guest_display_finish env notify p d = Some (r, d')"
    and "\<And>x. heap d p = Some x \<Longrightarrow> disp_class x \<noteq> Static_display"
  shows "P d'"
proof -
  from assms(2) obtain t where d': "mdm_transient_display_finish env notify p (d\<lparr>dtrace := t\<rparr>) = Some (r, d')"
    by (auto simp: mdm_guest_display_finish_def Let_def split_beta daemon_call_def split: if_split_asm)
  show ?thesis by (rule P_transient_finish [OF P_trace [OF assms(1)] d']) (simp add: assms(3))
qed

lemma P_finish: "P d \<Longrightarrow> mdm_display_finish env notify p d = Some (r, d') \<Longrightarrow> P d'"
proof (unfold mdm_display_finish_def, erule P_with_ref, assumption)
  fix r d d'
  assume d: "P d"
    and "Option.bind (heap d p) (\<lambda>x. case disp_class x of
          Static_display \<Rightarrow> mdm_static_display_finish env notify p d
        | Transient_display \<Rightarrow> mdm_transient_display_finish env notify p d
        | Product_display _ \<Rightarrow> mdm_transient_display_finish env notify p d
        | Guest_display \<Rightarrow> mdm_guest_display_finish env notify p d
        | Xdmcp_greeter_display _ \<Rightarrow> mdm_xdmcp_greeter_display_finish env notify p d
        | Xdmcp_chooser_display _ \<Rightarrow> mdm_display_real_finish notify p d) = Some (r, d')"
  then obtain x where x: "heap d p = Some x" and f: "(case disp_class x of
          Static_display \<Rightarrow> mdm_static_display_finish env notify p d
        | Transient_display \<Rightarrow> mdm_transient_display_finish env notify p d
        | Product_display _ \<Rightarrow> mdm_transient_display_finish env notify p d
        | Guest_display \<Rightarrow> mdm_guest_display_finish env notify p d
        | Xdmcp_greeter_display _ \<Rightarrow> mdm_xdmcp_greeter_display_finish env notify p d
        | Xdmcp_chooser_display _ \<Rightarrow> mdm_display_real_finish notify p d) = Some (r, d')"
    by (auto simp: bind_eq_Some_conv)
  show "P d'"
    using f d x
    by (cases "disp_class x") (auto intro: P_static_finish P_transient_finish P_guest_finish
          P_xdmcp_greeter_finish P_real_finish)
qed

lemma P_finish_idle: "P d \<Longrightarrow> finish_idle env notify p d = Some d' \<Longrightarrow> P d'"
proof -
  assume d: "P d" and "finish_idle env notify p d = Some d'"
  then obtain x r where x: "heap d p = Some x"
    and f: "mdm_display_finish env notify p (put p (x\<lparr>finish_idle_id := False\<rparr>) d) = Some (r, d')"
    by (auto simp: finish_idle_def bind_eq_Some_conv)
  show "P d'" by (rule P_finish [OF P_put [OF d x] f]) simp
qed

lemma P_slave_done: "P d \<Longrightarrow> P (slave_done p status d)"
proof (cases "heap d p")
  case (Some x)
  have "P (put p (x\<lparr>disp_proxy := s\<rparr>) d)" "P (put p (queue_finish (x\<lparr>disp_proxy := s\<rparr>)) d)" if "P d" for s
    by (rule P_put [OF that Some]; simp add: queue_finish_def same_display_def)+
  then show "P d \<Longrightarrow> ?thesis"
    using Some by (auto simp: slave_done_def child_watch_def split: option.split slave_end.split)
qed (simp add: slave_done_def)

end

end
