(* ===== verification/Factory_Invariant.thy ===== *)
theory Factory_Invariant
  imports Display_Invariant
begin

text \<open>
  The invariants of the daemon. \<open>create_display\<close> and the status handler call each other; first the proof
  that the call is never made. Then the locale \<open>factory_invariant\<close>: a predicate that is closed under the
  elementary changes of the local factory, and those of its displays, is kept by every event.
\<close>

subsection \<open>The knot\<close>

text \<open>Managing a display only ever notifies \<open>PREPARED\<close>, for which the handler does nothing.\<close>

lemma notify_prepared:
  "set_status (notify_status env c) p MDM_DISPLAY_PREPARED = set_status (notify_status env c') p MDM_DISPLAY_PREPARED"
  by (rule ext) (simp add: set_status_def notify_status_def on_static_display_status_changed_def
      split: Option.bind_split)

lemma manage_independent:
  "mdm_display_manage env (notify_status env c) p = mdm_display_manage env (notify_status env c') p"
  unfolding mdm_display_manage_def mdm_display_real_manage_def mdm_display_prepare_def
    mdm_display_real_prepare_def
  by (subst notify_prepared [of env c p c']) (rule refl)

lemma manage_true: "mdm_display_manage env notify p d = Some (ok, d') \<Longrightarrow> ok"
  by (auto simp: mdm_display_manage_def with_ref_def bind_eq_Some_conv)

lemma create_display_unfold: "create_display_body env create d = create_display env d"
proof -
  have "(do { (ok, d) \<leftarrow> mdm_display_manage env (notify_status env create) p d;
       if ok then Some d else map_option snd (mdm_display_unmanage env (notify_status env create) p d) }) =
    (do { (ok, d) \<leftarrow> mdm_display_manage env (notify_status env (\<lambda>d. None)) p d;
       if ok then Some d
       else map_option snd (mdm_display_unmanage env (notify_status env (\<lambda>d. None)) p d) })" for p d
    unfolding manage_independent [of env create p "\<lambda>d. None"]
    by (cases "mdm_display_manage env (notify_status env (\<lambda>d. None)) p d") (auto dest: manage_true)
  then show ?thesis by (simp only: create_display_def create_display_body_def)
qed

subsection \<open>The events of the daemon\<close>

text \<open>A display as it is changed by its factory right after its creation.\<close>

definition set_up :: "display \<Rightarrow> display \<Rightarrow> bool" where
  "set_up x x' \<longleftrightarrow> disp_class x' = disp_class x \<and> x11_number x' = x11_number x \<and>
     disp_status x' = disp_status x \<and>
     (status_handler x' \<longrightarrow> status_handler x \<or>
        disp_class x = Static_display \<and> disp_status x = MDM_DISPLAY_UNMANAGED)"

locale factory_invariant =
  fixes P :: "daemon \<Rightarrow> bool" and env :: daemon_env
  assumes P_put: "P d \<Longrightarrow> heap d p = Some x \<Longrightarrow> same_display x x' \<Longrightarrow> P (put p x' d)"
    and P_trace: "P d \<Longrightarrow> P (d\<lparr>dtrace := t\<rparr>)"
    and P_free: "P d \<Longrightarrow> P (d\<lparr>heap := (heap d)(p := None), dtrace := t\<rparr>)"
    and P_store: "P d \<Longrightarrow> P (d\<lparr>display_store := s\<rparr>)"
    and P_failures: "P d \<Longrightarrow> P (d\<lparr>num_failures := n\<rparr>)"
    and P_reserve: "P d \<Longrightarrow> P (d\<lparr>displays := List.insert num (displays d)\<rparr>)"
    and P_release: "P d \<Longrightarrow> heap d p = Some x \<Longrightarrow> disp_class x = Static_display \<Longrightarrow>
      disp_status x = MDM_DISPLAY_FINISHED \<Longrightarrow> P (d\<lparr>displays := removeAll num (displays d)\<rparr>)"
    and P_set_up: "P d \<Longrightarrow> heap d p = Some x \<Longrightarrow> set_up x x' \<Longrightarrow> P (put p x' d)"
    and P_new: "P d \<Longrightarrow> take_next_display_number d = (num, u) \<Longrightarrow> new_display env cls num u = Some (p, v) \<Longrightarrow> P v"

sublocale factory_invariant \<subseteq> quiet: display_invariant P env "\<lambda>p d. Some d"
  by unfold_locales ((erule (2) P_put | erule P_trace | erule P_free | erule P_store | simp)+)

lemma new_display_fresh:
  assumes "new_display env cls num d = Some (p, v)"
  obtains x where "heap v p = Some x" and "disp_class x = cls" and "\<not> status_handler x"
    and "disp_status x = MDM_DISPLAY_UNMANAGED"
  using assms
  by (auto simp: new_display_unfold get_next_display_serial_def daemon_call_def dcall_def Let_def
      split: if_splits)

context factory_invariant
begin

lemma P_notify_status:
  assumes "P d" and "notify_status env create p d = Some d'"
    and "\<And>d d'. P d \<Longrightarrow> create d = Some d' \<Longrightarrow> P d'"
  shows "P d'"
proof -
  from assms(2) obtain x where x: "heap d p = Some x"
    by (auto simp: notify_status_def bind_eq_Some_conv)
  show ?thesis
  proof (cases "status_handler x \<and> disp_class x = Static_display \<and> (disp_status x = MDM_DISPLAY_FAILED \<or> disp_status x = MDM_DISPLAY_FINISHED)")
    case False
    then have "d' = d"
      using assms(1,2) x by (auto simp: notify_status_def on_static_display_status_changed_def
          bind_eq_Some_conv split: if_split_asm display_status.split_asm)
    with assms(1) show ?thesis by simp
  next
    case True
    let ?w = "if disp_status x = MDM_DISPLAY_FINISHED
      then d\<lparr>displays := removeAll (word_of_int (x11_number x)) (displays d)\<rparr> else d"
    have "\<exists>u n. mdm_display_store_remove env p ?w = Some u \<and>
        (d' = u\<lparr>num_failures := n\<rparr> \<or> create (u\<lparr>num_failures := n\<rparr>) = Some d')"
      using assms(2) True x by (auto simp: notify_status_def on_static_display_status_changed_def
          bind_eq_Some_conv Let_def split: if_split_asm) blast+
    then obtain u n where u: "mdm_display_store_remove env p ?w = Some u"
      and d': "d' = u\<lparr>num_failures := n\<rparr> \<or> create (u\<lparr>num_failures := n\<rparr>) = Some d'" by blast
    have "P ?w" using assms(1) True x by (auto intro: P_release)
    then have "P (u\<lparr>num_failures := n\<rparr>)" by (rule P_failures [OF quiet.P_store_remove [OF _ u]])
    with d' assms(3) show ?thesis by auto
  qed
qed

lemma display_invariant_notify:
  assumes "\<And>d d'. P d \<Longrightarrow> create d = Some d' \<Longrightarrow> P d'"
  shows "display_invariant P (notify_status env create)"
  by unfold_locales
    ((erule (2) P_put | erule P_trace | erule P_free | erule P_store
      | (erule (1) P_notify_status, erule (1) assms))+)

lemma P_local_store: "P d \<Longrightarrow> mdm_local_store_display env num p d = Some d' \<Longrightarrow> P d'"
  by (auto simp: mdm_local_store_display_def bind_eq_Some_conv intro: P_reserve quiet.P_store_add)

lemma P_create_display_body:
  assumes "P d" and "create_display_body env create d = Some d'"
    and "\<And>d d'. P d \<Longrightarrow> create d = Some d' \<Longrightarrow> P d'"
  shows "P d'"
proof -
  have inv: "display_invariant P (notify_status env create)"
    by (rule display_invariant_notify [OF assms(3)])
  obtain num u where n: "take_next_display_number d = (num, u)" by fastforce
  from assms(2) obtain p v where v: "new_display env Static_display num u = Some (p, v)"
    by (auto simp: create_display_body_def n bind_eq_Some_conv)
  obtain x where x: "heap v p = Some x" "disp_class x = Static_display" "disp_status x = MDM_DISPLAY_UNMANAGED"
    using new_display_fresh [OF v] by metis
  let ?w = "put p (x\<lparr>seat_id := Some CK_SEAT1_PATH, status_handler := True\<rparr>) v"
  have "P ?w" by (rule P_set_up [OF P_new [OF assms(1) n v] x(1)]) (simp add: set_up_def x)
  moreover obtain a where a: "mdm_local_store_display env num p ?w = Some a"
    using assms(2) by (auto simp: create_display_body_def n v set_display_def x bind_eq_Some_conv)
  ultimately have "P a" by (rule P_local_store)
  moreover obtain b where b: "object_unref env p a = Some b"
    using assms(2) by (auto simp: create_display_body_def n v set_display_def x a bind_eq_Some_conv)
  ultimately have pb: "P b" by (rule quiet.P_unref)
  obtain ok c where c: "mdm_display_manage env (notify_status env create) p b = Some (ok, c)"
    using assms(2) by (auto simp: create_display_body_def n v set_display_def x a b bind_eq_Some_conv)
  have pc: "P c" by (rule display_invariant.P_manage [OF inv pb c])
  have "(if ok then Some c else map_option snd (mdm_display_unmanage env (notify_status env create) p c))
      = Some d'"
    using assms(2) by (simp add: create_display_body_def n v set_display_def x a b c)
  with pc display_invariant.P_unmanage [OF inv pc] show ?thesis by (auto split: if_splits)
qed

lemma P_create_display: "P d \<Longrightarrow> create_display env d = Some d' \<Longrightarrow> P d'"
  unfolding create_display_def by (erule (1) P_create_display_body) simp

lemma P_status_notify: "P d \<Longrightarrow> status_notify env p d = Some d' \<Longrightarrow> P d'"
  unfolding status_notify_def by (erule (1) P_notify_status) (rule P_create_display)

end

sublocale factory_invariant \<subseteq> running: display_invariant P env "status_notify env"
  unfolding status_notify_def by (rule display_invariant_notify [OF P_create_display])

context factory_invariant
begin

lemma P_create_and_manage:
  assumes "P d" and "create_and_manage env cls f d = Some (r, d')" and "\<And>x. set_up x (f x)"
  shows "P d'"
proof -
  obtain num u where n: "take_next_display_number d = (num, u)" by fastforce
  from assms(2) obtain p v where v: "new_display env cls num u = Some (p, v)"
    by (auto simp: create_and_manage_def n bind_eq_Some_conv)
  obtain x where x: "heap v p = Some x" using new_display_fresh [OF v] by metis
  let ?w = "put p (f (x\<lparr>seat_id := Some CK_SEAT1_PATH\<rparr>)) v"
  have "P ?w"
    by (rule P_set_up [OF P_new [OF assms(1) n v] x])
       (use assms(3) [of "x\<lparr>seat_id := Some CK_SEAT1_PATH\<rparr>"] in \<open>simp add: set_up_def\<close>)
  moreover obtain a where a: "mdm_local_store_display env num p ?w = Some a"
    using assms(2) by (auto simp: create_and_manage_def n v set_display_def x bind_eq_Some_conv)
  ultimately have pa: "P a" by (rule P_local_store)
  obtain ok c where c: "mdm_display_manage env (status_notify env) p a = Some (ok, c)"
    using assms(2) by (auto simp: create_and_manage_def n v set_display_def x a bind_eq_Some_conv)
  have "P c" by (rule running.P_manage [OF pa c])
  moreover have "object_unref env p c = Some d'"
    using assms(2) manage_true [OF c]
    by (auto simp: create_and_manage_def n v set_display_def x a c bind_eq_Some_conv)
  ultimately show ?thesis by (rule running.P_unref)
qed

lemma P_switch_to_user_display: "P d \<Longrightarrow> P (snd (switch_to_user_display env user d))"
  by (auto simp: switch_to_user_display_def daemon_call_def Let_def split_beta P_trace
      split: option.split list.split)

lemma P_setup_guest_account:
  "P d \<Longrightarrow> mdm_local_display_factory_setup_guest_account env session d = Some (r, d') \<Longrightarrow> P d'"
  by (auto simp: mdm_local_display_factory_setup_guest_account_def daemon_call_def Let_def split_beta
      bind_eq_Some_conv P_trace split: if_split_asm option.split_asm)

lemma P_daemon_step:
  assumes "P d" and "daemon_step env e d = Some d'"
  shows "P d'"
proof (cases e)
  case Factory_start
  with assms show ?thesis
    by (auto simp: daemon_step_def mdm_local_display_factory_start_def intro: P_create_display)
next
  case Create_transient
  with assms show ?thesis
    by (auto simp: daemon_step_def mdm_local_display_factory_create_transient_display_def set_up_def
        intro: P_create_and_manage)
next
  case (Create_product parent address)
  with assms show ?thesis
    by (auto simp: daemon_step_def mdm_local_display_factory_create_product_display_def set_up_def
        intro: P_create_and_manage)
next
  case (Switch_to_user user)
  obtain b u where u: "switch_to_user_display env user d = (b, u)" by fastforce
  then have "P u" using P_switch_to_user_display [OF assms(1), of user] by simp
  with assms(2) Switch_to_user u show ?thesis
    by (cases b) (auto simp: daemon_step_def mdm_local_display_factory_switch_to_user_def set_up_def
        intro: P_create_and_manage)
next
  case (Start_guest_session session)
  obtain b u where u: "switch_to_user_display env GUEST_USERNAME d = (b, u)" by fastforce
  then have "P u" using P_switch_to_user_display [OF assms(1), of GUEST_USERNAME] by simp
  with assms(2) Start_guest_session u show ?thesis
    by (cases b) (auto simp: daemon_step_def mdm_local_display_factory_start_guest_session_def set_up_def
        bind_eq_Some_conv split: if_split_asm
        dest: P_setup_guest_account intro: P_create_and_manage)
next
  case (Slave_done p status)
  with assms show ?thesis by (auto simp: daemon_step_def intro: running.P_slave_done)
next
  case (Finish_idle p)
  with assms show ?thesis
    by (auto simp: daemon_step_def split: option.split_asm if_split_asm intro: running.P_finish_idle)
next
  case (Add_user_authorization p user)
  with assms show ?thesis
    by (auto simp: daemon_step_def split: if_split_asm intro: running.P_add_user_authorization)
next
  case (Remove_user_authorization p user)
  with assms show ?thesis
    by (auto simp: daemon_step_def split: if_split_asm intro: running.P_remove_user_authorization)
qed

end

end
