(* ===== verification/Display_Numbers.thy ===== *)
theory Display_Numbers
  imports Factory_Invariant
begin

text \<open>
  The daemon's invariant: every local display has a reserved number of its own. Remote displays have the
  numbers their hosts chose, and reserve none. First the search for a
  free number, then the interpretation of the locales of \<open>Factory_Invariant\<close> and \<open>Mdm_Prelude\<close> on the
  daemon.
\<close>

subsection \<open>The next free number\<close>

lemma find_hole_spec:
  assumes "sorted_wrt (<) (num # l)" and "unat num + length (num # l) < 2 ^ 32" and "prev \<or> num = 0"
  shows "num < find_hole prev (num # l) ret \<and> find_hole prev (num # l) ret \<notin> set (num # l) \<and>
    (\<forall>m. num \<le> m \<and> m < find_hole prev (num # l) ret \<longrightarrow> m \<in> set (num # l))"
  using assms
proof (induction l arbitrary: num prev)
  case Nil
  have "unat num + 1 < 2 ^ 32" using Nil.prems(2) by simp
  then have "unat (num + 1) = unat num + 1"
    using unat_add_lem [of num 1] by simp
  then have "num < num + 1" and "\<And>m. num \<le> m \<Longrightarrow> m < num + 1 \<Longrightarrow> m = num"
    by (auto simp: word_less_nat_alt word_le_nat_alt) (metis le_antisym less_Suc_eq_le word_unat_eq_iff)
  then show ?case using Nil.prems(3) by auto
next
  case (Cons n l)
  have "unat num + 1 < 2 ^ 32" using Cons.prems(2) by simp
  then have u: "unat (num + 1) = unat num + 1"
    using unat_add_lem [of num 1] by simp
  then have lt: "num < num + 1" and between: "\<And>m. num \<le> m \<Longrightarrow> m < num + 1 \<Longrightarrow> m = num"
    by (auto simp: word_less_nat_alt word_le_nat_alt) (metis le_antisym less_Suc_eq_le word_unat_eq_iff)
  show ?case
  proof (cases "n = num + 1")
    case True
    have "sorted_wrt (<) (n # l)" and "unat n + length (n # l) < 2 ^ 32"
      using Cons.prems(1,2) True u by simp_all
    from Cons.IH [OF this, of True] True
    have IH: "n < find_hole True (n # l) ret" "find_hole True (n # l) ret \<notin> set (n # l)"
      "\<forall>m. n \<le> m \<and> m < find_hole True (n # l) ret \<longrightarrow> m \<in> set (n # l)" by auto
    have e: "find_hole prev (num # n # l) ret = find_hole True (n # l) ret"
      using True Cons.prems(3) by (subst find_hole.simps(2)) (auto simp del: find_hole.simps)
    have "m \<in> set (num # n # l)" if "num \<le> m" "m < find_hole True (n # l) ret" for m
    proof (cases "m < n")
      case True
      with between that(1) \<open>n = num + 1\<close> show ?thesis by auto
    next
      case False
      with IH(3) that(2) show ?thesis by auto
    qed
    moreover have "num < find_hole True (n # l) ret" using lt IH(1) True by (metis less_trans)
    ultimately show ?thesis unfolding e using IH(2) by auto
  next
    case False
    then have "find_hole prev (num # n # l) ret = num + 1" using Cons.prems(3) by auto
    moreover have "num + 1 \<notin> set (num # n # l)"
    proof -
      have "num < n" and l: "\<forall>m \<in> set l. n < m" using Cons.prems(1) by auto
      then have "num + 1 \<le> n" using u by (simp add: word_less_nat_alt word_le_nat_alt)
      with False have "num + 1 < n" by simp
      with l lt show ?thesis by (auto dest: less_trans)
    qed
    ultimately show ?thesis using lt between by auto
  qed
qed

lemma next_display_number_spec:
  assumes "distinct nums" and "length nums < 2 ^ 32"
  shows "next_display_number nums \<notin> set nums \<and> (\<forall>m < next_display_number nums. m \<in> set nums)"
proof (cases "sort nums")
  case Nil
  then have "nums = []" by (metis set_empty set_sort)
  then show ?thesis by (simp add: next_display_number_def)
next
  case (Cons num l)
  then have ne: "nums \<noteq> []" and set_eq: "set (num # l) = set nums"
    by (metis list.distinct(1) sort_key_simps(1)) (metis Cons set_sort)
  have sorted: "sorted_wrt (<) (num # l)"
    using assms(1) by (metis Cons distinct_sort sorted_sort strict_sorted_iff)
  show ?thesis
  proof (cases "num = 0")
    case True
    have u: "unat num + length (num # l) < 2 ^ 32"
      using assms(2) True by (metis Cons add_0 length_sort unat_0)
    have "next_display_number nums = find_hole False (num # l) 0"
      by (simp add: next_display_number_def ne Cons del: find_hole.simps)
    with find_hole_spec [OF sorted u, of False 0] True show ?thesis
      unfolding set_eq by simp
  next
    case False
    have "0 \<notin> set (num # l)"
      using False sorted by (auto simp: word_gt_0 [symmetric] dest: bspec)
    then have "0 \<notin> set nums" unfolding set_eq .
    moreover have "next_display_number nums = 0"
      unfolding next_display_number_def Cons by (subst find_hole.simps(2)) (simp add: ne False)
    ultimately show ?thesis by simp
  qed
qed

subsection \<open>The invariant\<close>

text \<open>The numbers are handed out afresh as long as there are numbers left.\<close>

definition own_numbers :: "daemon \<Rightarrow> bool" where
  "own_numbers d \<longleftrightarrow> distinct (displays d) \<and>
     (\<forall>p x. heap d p = Some x \<longrightarrow> xdmcp_display (disp_class x) = None \<longrightarrow>
        (\<exists>num \<in> set (displays d). x11_number x = sint num)) \<and>
     (\<forall>p q x y. heap d p = Some x \<longrightarrow> heap d q = Some y \<longrightarrow> xdmcp_display (disp_class x) = None \<longrightarrow>
        xdmcp_display (disp_class y) = None \<longrightarrow> p \<noteq> q \<longrightarrow> x11_number x \<noteq> x11_number y)"

definition daemon_inv :: "daemon \<Rightarrow> bool" where
  "daemon_inv d \<longleftrightarrow>
     (\<forall>p x. heap d p = Some x \<longrightarrow> p < next_object d \<and>
        (disp_class x = Static_display \<longrightarrow> disp_status x \<noteq> MDM_DISPLAY_FINISHED)) \<and>
     (length (displays d) < 2 ^ 32 \<longrightarrow> own_numbers d)"

lemma daemon_inv_init: "daemon_inv daemon_init"
  by (simp add: daemon_inv_def own_numbers_def daemon_init_def)

lemma daemon_inv_put:
  assumes "daemon_inv d" and "heap d p = Some x" and "same_display x x'"
  shows "daemon_inv (put p x' d)"
  using assms unfolding daemon_inv_def own_numbers_def same_display_def by (auto simp: Ball_def)

lemma daemon_inv_closed:
  "daemon_inv d \<Longrightarrow> daemon_inv (d\<lparr>dtrace := t\<rparr>)"
  "daemon_inv d \<Longrightarrow> daemon_inv (d\<lparr>heap := (heap d)(p := None), dtrace := t\<rparr>)"
  "daemon_inv d \<Longrightarrow> daemon_inv (d\<lparr>display_store := s\<rparr>)"
  "daemon_inv d \<Longrightarrow> daemon_inv (d\<lparr>num_failures := n\<rparr>)"
  "daemon_inv d \<Longrightarrow> daemon_inv (d\<lparr>display_serial := i\<rparr>)"
  unfolding daemon_inv_def own_numbers_def by auto

lemma daemon_inv_reserve: "daemon_inv d \<Longrightarrow> daemon_inv (d\<lparr>displays := List.insert num (displays d)\<rparr>)"
  unfolding daemon_inv_def own_numbers_def
  by (auto simp: List.insert_def Ball_def split: if_splits)

lemma daemon_inv_set_up:
  "daemon_inv d \<Longrightarrow> heap d p = Some x \<Longrightarrow> set_up x x' \<Longrightarrow> daemon_inv (put p x' d)"
  unfolding daemon_inv_def own_numbers_def set_up_def by (auto simp: Ball_def)

lemma new_display_inv:
  assumes "daemon_inv d" and "take_next_display_number d = (num, u)"
    and "new_display env cls num u = Some (p, v)"
  shows "daemon_inv v"
proof -
  have num: "num = next_display_number (displays d)" and u: "u = d\<lparr>displays := List.insert num (displays d)\<rparr>"
    using assms(2) by (auto simp: take_next_display_number_def Let_def)
  from assms(3) obtain x s t where p: "p = next_object d"
    and v: "v = d\<lparr>displays := List.insert num (displays d), display_serial := s,
        next_object := Suc p, heap := (heap d)(p \<mapsto> x), dtrace := t\<rparr>"
    and x: "x11_number x = sint num" "disp_class x = cls" "disp_status x \<noteq> MDM_DISPLAY_FINISHED"
    by (auto simp: new_display_unfold get_next_display_serial_def daemon_call_def dcall_def Let_def
        put_def u split: if_splits)
  have "own_numbers v" if l: "length (displays v) < 2 ^ 32"
  proof -
    have ld: "length (displays d) < 2 ^ 32" using l by (auto simp: v List.insert_def split: if_splits)
    then have own: "own_numbers d" using assms(1) by (simp add: daemon_inv_def)
    then have fresh: "num \<notin> set (displays d)"
      using next_display_number_spec [OF _ ld] by (simp add: num own_numbers_def)
    have new: "x11_number y \<noteq> sint num" if "heap d q = Some y" "xdmcp_display (disp_class y) = None" for q y
      using own fresh that unfolding own_numbers_def by (metis signed_word_eqI)
    have unused: "heap d p = None"
      using assms(1) p by (cases "heap d p") (auto simp: daemon_inv_def)
    show ?thesis
      using own new x(1) fresh unfolding own_numbers_def v
      by (auto simp: List.insert_def Ball_def dest: new)
  qed
  then show ?thesis
    using assms(1) x unfolding daemon_inv_def v p by (auto simp: less_Suc_eq)
qed

subsection \<open>Every run\<close>

text \<open>A static display is never finished, so that no number is given back.\<close>

interpretation daemon_displays: factory_invariant daemon_inv env for env
proof unfold_locales
  fix d p x num
  assume "daemon_inv d" and "heap d p = Some x" and "disp_class x = Static_display"
    and "disp_status x = MDM_DISPLAY_FINISHED"
  then show "daemon_inv (d\<lparr>displays := removeAll num (displays d)\<rparr>)"
    by (simp add: daemon_inv_def)
qed (erule (2) daemon_inv_put daemon_inv_set_up new_display_inv | erule daemon_inv_closed daemon_inv_reserve)+

interpretation daemon_machine: event_machine "daemon_step env" daemon_inv for env
  by unfold_locales (rule daemon_displays.P_daemon_step)

end
