(* ===== verification/Display_Lifecycle.thy ===== *)
theory Display_Lifecycle
  imports Display_Numbers
begin

text \<open>
  The exact effect of the operations on one display: \<open>changed p x'\<close> says that an operation left
  \<open>x'\<close> at \<open>p\<close> and touched nothing else of the daemon. From these the effects of creating a static
  display and of finishing a display follow, as \<open>mdm-local-display-factory.c\<close> sees them.
\<close>

subsection \<open>Changes of one display\<close>

definition changed :: "nat \<Rightarrow> display \<Rightarrow> daemon \<Rightarrow> daemon \<Rightarrow> bool" where
  "changed p x' d d' \<longleftrightarrow> (\<exists>t. d' = put p x' (d\<lparr>dtrace := t\<rparr>))"

text \<open>What the life of a display does not change.\<close>

definition lasting :: "display \<Rightarrow> display_class \<times> string \<times> int \<times> bool \<times> bool \<times> nat" where
  "lasting x = (disp_class x, disp_id x, x11_number x, status_handler x, enable_timed_login x, refs x)"

lemma changed_fields:
  assumes "changed p x' d d'"
  shows "heap d' = (heap d)(p \<mapsto> x')" "displays d' = displays d" "num_failures d' = num_failures d"
    "display_store d' = display_store d" "next_object d' = next_object d"
    "display_serial d' = display_serial d"
  using assms by (auto simp: changed_def)

lemma changed_put [intro]: "changed p x d (put p x d)" "changed p x d (put p x (d\<lparr>dtrace := t\<rparr>))"
  by (auto simp: changed_def put_def intro: exI [of _ "dtrace d"])

lemma changed_trace: "heap d p = Some x \<Longrightarrow> changed p x d d" "heap d p = Some x \<Longrightarrow> changed p x d (d\<lparr>dtrace := t\<rparr>)"
  by (auto simp: changed_def put_def fun_upd_idem intro: exI [of _ "dtrace d"])

lemma changed_trans: "changed p x d u \<Longrightarrow> changed p y u v \<Longrightarrow> changed p y d v"
  by (auto simp: changed_def put_def)

lemma changed_from_put: "changed p y (put p x d) v \<Longrightarrow> changed p y d v"
  by (auto simp: changed_def put_def)

text \<open>The display keeps what lasts, has the status, and has a slave or none.\<close>

definition became :: "display \<Rightarrow> display_status \<Rightarrow> bool \<Rightarrow> display \<Rightarrow> bool" where
  "became x st slave x' \<longleftrightarrow> lasting x' = lasting x \<and> disp_status x' = st \<and> (disp_proxy x' \<noteq> None) = slave"

lemma became_refs: "became (x\<lparr>refs := n\<rparr>) st s x' \<Longrightarrow> became x st s (x'\<lparr>refs := refs x\<rparr>)"
  by (simp add: became_def lasting_def)

lemma changed_became:
  "became x st s y \<Longrightarrow> \<exists>x'. changed p x' d (put p y d) \<and> became x st s x'"
  "became x st s y \<Longrightarrow> \<exists>x'. changed p x' d (put p y (d\<lparr>dtrace := t\<rparr>)) \<and> became x st s x'"
  by blast+

lemma changed_became_same:
  assumes "heap d p = Some x"
  shows "became x st s x \<Longrightarrow> \<exists>x'. changed p x' d d \<and> became x st s x'"
    and "became x st s x \<Longrightarrow> \<exists>x'. changed p x' d (d\<lparr>dtrace := t\<rparr>) \<and> became x st s x'"
  using changed_trace [OF assms] by blast+

lemma with_ref_changed_status:
  assumes "with_ref env p f d = Some (r, d')" and "heap d p = Some x" and "0 < refs x"
    and "\<And>v. f (put p (x\<lparr>refs := Suc (refs x)\<rparr>) d) = Some (r, v) \<Longrightarrow>
      \<exists>st x'. changed p x' (put p (x\<lparr>refs := Suc (refs x)\<rparr>) d) v \<and>
        became (y\<lparr>refs := Suc (refs x)\<rparr>) st s x' \<and> R st" and "refs y = refs x"
  shows "\<exists>st x'. changed p x' d d' \<and> became y st s x' \<and> R st"
proof -
  let ?u = "put p (x\<lparr>refs := Suc (refs x)\<rparr>) d"
  from assms(1,2) obtain v where v: "f ?u = Some (r, v)" and d': "object_unref env p v = Some d'"
    by (auto simp: with_ref_def object_ref_def bind_eq_Some_conv)
  from assms(4) [OF v] obtain st x' where x': "changed p x' ?u v"
    "became (y\<lparr>refs := Suc (refs x)\<rparr>) st s x'" "R st" by blast
  then have "refs x' = Suc (refs x)" by (simp add: became_def lasting_def)
  then have "d' = put p (x'\<lparr>refs := refs x\<rparr>) v"
    using d' assms(3) by (simp add: object_unref_def changed_fields(1) [OF x'(1)])
  then have "changed p (x'\<lparr>refs := refs x\<rparr>) d d'"
    by (auto intro: changed_trans [OF changed_from_put [OF x'(1)]])
  with became_refs [OF x'(2)] assms(5) x'(3) show ?thesis by auto
qed

lemma with_ref_changed:
  assumes "with_ref env p f d = Some (r, d')" and "heap d p = Some x" and "0 < refs x"
    and "\<And>v. f (put p (x\<lparr>refs := Suc (refs x)\<rparr>) d) = Some (r, v) \<Longrightarrow>
      \<exists>x'. changed p x' (put p (x\<lparr>refs := Suc (refs x)\<rparr>) d) v \<and>
        became (y\<lparr>refs := Suc (refs x)\<rparr>) st s x'" and "refs y = refs x"
  shows "\<exists>x'. changed p x' d d' \<and> became y st s x'"
  using with_ref_changed_status [OF assms(1-3), of y s "\<lambda>st'. st' = st"] assms(4,5) by auto

subsection \<open>Managing a display\<close>

lemma real_create_authority_changed:
  assumes "mdm_display_real_create_authority env p d = Some (r, d')" and "heap d p = Some x"
  shows "\<exists>x'. changed p x' d d' \<and> became x (disp_status x) (disp_proxy x \<noteq> None) x'"
  using assms
  by (auto simp: mdm_display_real_create_authority_def bind_eq_Some_conv Let_def
      split: if_split_asm option.split_asm
      intro!: changed_became changed_became_same; simp add: became_def lasting_def)

lemma create_authority_changed:
  assumes "mdm_display_create_authority env p d = Some (r, d')" and "heap d p = Some x" and "0 < refs x"
  shows "xdmcp_display (disp_class x) = None \<Longrightarrow> r" and "\<exists>x'. changed p x' d d' \<and> became x (disp_status x) (disp_proxy x \<noteq> None) x'"
proof -
  show r if "xdmcp_display (disp_class x) = None" using assms(1,2) that
    by (auto simp: mdm_display_create_authority_def with_ref_def object_ref_def bind_eq_Some_conv)
  show "\<exists>x'. changed p x' d d' \<and> became x (disp_status x) (disp_proxy x \<noteq> None) x'"
    by (rule with_ref_changed [OF assms(1) [unfolded mdm_display_create_authority_def] assms(2,3) _ refl])
       (auto simp: bind_eq_Some_conv
          dest!: real_create_authority_changed [where x = "x\<lparr>refs := Suc (refs x)\<rparr>"])
qed

text \<open>A status other than finished and failed interests no handler.\<close>

lemma set_status_changed:
  assumes "set_status (notify_status env c) p st d = Some d'" and "heap d p = Some x"
    and "st \<noteq> MDM_DISPLAY_FINISHED" and "st \<noteq> MDM_DISPLAY_FAILED \<or> \<not> status_handler x"
  shows "changed p (x\<lparr>disp_status := st\<rparr>) d d'"
  using assms changed_trace(1) [of d p x]
  by (auto simp: set_status_def notify_status_def on_static_display_status_changed_def
      bind_eq_Some_conv split: if_split_asm display_status.split_asm)

lemma real_prepare_changed:
  assumes "mdm_display_real_prepare env (notify_status env c) p d = Some (r, d')"
    and "heap d p = Some x" and "0 < refs x" and "xdmcp_display (disp_class x) = None"
  shows "r" and "\<exists>x'. changed p x' d d' \<and> became x MDM_DISPLAY_PREPARED True x'"
proof -
  have n: "disp_proxy x = None" using assms(1,2) by (auto simp: mdm_display_real_prepare_def split: if_splits)
  obtain ok u where u: "mdm_display_create_authority env p d = Some (ok, u)"
    using assms(1,2) n by (auto simp: mdm_display_real_prepare_def bind_eq_Some_conv)
  from create_authority_changed [OF u assms(2,3)] obtain y where ok: ok and y: "changed p y d u"
    "became x (disp_status x) False y" using n assms(4) by auto
  obtain v where v: "set_status (notify_status env c) p MDM_DISPLAY_PREPARED u = Some v"
    using assms(1,2) n ok by (auto simp: mdm_display_real_prepare_def u bind_eq_Some_conv)
  have hu: "heap u p = Some y" using changed_fields(1) [OF y(1)] by simp
  have cv: "changed p (y\<lparr>disp_status := MDM_DISPLAY_PREPARED\<rparr>) d v"
    by (rule changed_trans [OF y(1) set_status_changed [OF v hu]]) simp_all
  then have "heap v p = Some (y\<lparr>disp_status := MDM_DISPLAY_PREPARED\<rparr>)"
    using changed_fields(1) by simp
  then obtain s where r: r and d': "d' = put p (y\<lparr>disp_status := MDM_DISPLAY_PREPARED, disp_proxy := Some s\<rparr>) v"
    using assms(1,2) n ok by (auto simp: mdm_display_real_prepare_def u v Let_def)
  show r by (rule r)
  have "became x MDM_DISPLAY_PREPARED True
      (y\<lparr>disp_status := MDM_DISPLAY_PREPARED, disp_proxy := Some s\<rparr>)"
    using y(2) by (simp add: became_def lasting_def)
  with changed_trans [OF cv changed_put(1)] show "\<exists>x'. changed p x' d d' \<and> became x MDM_DISPLAY_PREPARED True x'" unfolding d' by blast
qed

lemma prepare_changed:
  assumes "mdm_display_prepare env (notify_status env c) p d = Some (r, d')"
    and "heap d p = Some x" and "0 < refs x" and "xdmcp_display (disp_class x) = None"
  shows "r" and "\<exists>x'. changed p x' d d' \<and> became x MDM_DISPLAY_PREPARED True x'"
proof -
  show "\<exists>x'. changed p x' d d' \<and> became x MDM_DISPLAY_PREPARED True x'"
    by (rule with_ref_changed [OF assms(1) [unfolded mdm_display_prepare_def] assms(2,3) _ refl])
       (rule real_prepare_changed(2); simp add: assms(4))
  obtain v where "mdm_display_real_prepare env (notify_status env c) p (put p (x\<lparr>refs := Suc (refs x)\<rparr>) d)
      = Some (r, v)"
    using assms(1,2) by (auto simp: mdm_display_prepare_def with_ref_def object_ref_def bind_eq_Some_conv)
  then show r
    by (rule real_prepare_changed(1) [where x = "x\<lparr>refs := Suc (refs x)\<rparr>"]) (simp_all add: assms(4))
qed

lemma manage_changed:
  assumes "mdm_display_manage env (notify_status env c) p d = Some (r, d')"
    and "heap d p = Some x" and "0 < refs x" and "disp_status x = MDM_DISPLAY_UNMANAGED"
    and "xdmcp_display (disp_class x) = None"
  shows "\<exists>x'. changed p x' d d' \<and> became x MDM_DISPLAY_PREPARED True x'"
proof (rule with_ref_changed [OF assms(1) [unfolded mdm_display_manage_def] assms(2,3) _ refl])
  fix v
  let ?x = "x\<lparr>refs := Suc (refs x)\<rparr>" and ?d = "put p (x\<lparr>refs := Suc (refs x)\<rparr>) d"
  assume "do { (_, d) \<leftarrow> mdm_display_real_manage env (notify_status env c) p ?d; Some (True, d) } = Some (r, v)"
  then obtain b where m: "mdm_display_real_manage env (notify_status env c) p ?d = Some (b, v)"
    by (auto simp: bind_eq_Some_conv)
  then obtain ok u where u: "mdm_display_prepare env (notify_status env c) p ?d = Some (ok, u)"
    using assms(4) by (auto simp: mdm_display_real_manage_def bind_eq_Some_conv)
  from prepare_changed [OF u, of ?x] assms(5) obtain y where ok: ok and y: "changed p y ?d u"
    "became ?x MDM_DISPLAY_PREPARED True y" by auto
  have hu: "heap u p = Some y" using changed_fields(1) [OF y(1)] by simp
  from y(2) obtain s where s: "disp_proxy y = Some s" by (auto simp: became_def)
  obtain tm s' t where v: "v = put p (y\<lparr>slave_timer := tm, disp_proxy := Some s'\<rparr>) (u\<lparr>dtrace := t\<rparr>)"
    using m assms(4) ok
    by (auto simp: mdm_display_real_manage_def u hu s daemon_call_def split_beta Let_def)
  have "became ?x MDM_DISPLAY_PREPARED True (y\<lparr>slave_timer := tm, disp_proxy := Some s'\<rparr>)"
    using y(2) by (simp add: became_def lasting_def)
  with changed_trans [OF y(1) changed_put(2)]
  show "\<exists>x'. changed p x' ?d v \<and> became ?x MDM_DISPLAY_PREPARED True x'" unfolding v by blast
qed

subsection \<open>The slave of a managed display\<close>

text \<open>
  The slave that managing a display starts, with the trace at that moment: the clock has been read for the
  timer, and the display's command has been spawned with its log. The process is watched; when it could not be
  spawned there is none.
\<close>

definition has_new_slave :: "daemon_env \<Rightarrow> display \<Rightarrow> dtrace \<Rightarrow> bool" where
  "has_new_slave env x t \<longleftrightarrow> (\<exists>s before. disp_proxy x = Some s \<and>
     command s = slave_command_line x \<and> log_path s = Some (slave_log_path x) \<and>
     t = Sys_spawn (command s) (log_path s) # Sys_clock # before \<and>
     slave_timer x = \<lparr>timer_start = d_result env (Sys_clock # before), timer_end = None\<rparr> \<and>
     (if d_result env t < 0 then pid s = -1 \<and> \<not> slave_watch_id s
      else pid s = d_result env t \<and> slave_watch_id s))"

lemma has_new_slave_refs [simp]: "has_new_slave env (x\<lparr>refs := n\<rparr>) t = has_new_slave env x t"
  by (simp add: has_new_slave_def slave_command_line_def slave_log_path_def)

lemma with_ref_leaves:
  assumes "with_ref env p f d = Some (r, d')" and "heap d p = Some x" and "0 < refs x"
    and "\<And>v. f (put p (x\<lparr>refs := Suc (refs x)\<rparr>) d) = Some (r, v) \<Longrightarrow>
      \<exists>y. heap v p = Some y \<and> refs y = Suc (refs x) \<and> Q y (dtrace v)"
    and "\<And>y t n. Q (y\<lparr>refs := n\<rparr>) t = Q y t"
  shows "\<exists>y. heap d' p = Some y \<and> Q y (dtrace d')"
proof -
  let ?u = "put p (x\<lparr>refs := Suc (refs x)\<rparr>) d"
  from assms(1,2) obtain v where v: "f ?u = Some (r, v)" and d': "object_unref env p v = Some d'"
    by (auto simp: with_ref_def object_ref_def bind_eq_Some_conv)
  from assms(4) [OF v] obtain y where y: "heap v p = Some y" "refs y = Suc (refs x)" "Q y (dtrace v)" by blast
  then have "d' = put p (y\<lparr>refs := refs x\<rparr>) v"
    using d' assms(3) by (simp add: object_unref_def)
  with y(3) show ?thesis by (simp add: assms(5))
qed

text \<open>What preparing a display leaves in the proxy.\<close>

definition has_idle_slave :: "display \<Rightarrow> bool" where
  "has_idle_slave x \<longleftrightarrow> disp_proxy x = Some \<lparr>command = slave_command_line x, log_path = Some (slave_log_path x),
     pid = -1, slave_watch_id = False\<rparr>"

lemma has_idle_slave_refs [simp]: "has_idle_slave (x\<lparr>refs := n\<rparr>) = has_idle_slave x"
  by (simp add: has_idle_slave_def slave_command_line_def slave_log_path_def)

lemma real_prepare_slave:
  assumes "mdm_display_real_prepare env notify p d = Some (True, d')"
  shows "\<exists>y. heap d' p = Some y \<and> has_idle_slave y"
  using assms
  by (auto simp: mdm_display_real_prepare_def bind_eq_Some_conv Let_def has_idle_slave_def slave_command_line_def
      slave_log_path_def mdm_slave_proxy_set_command_def mdm_slave_proxy_set_log_path_def mdm_slave_proxy_init_def
      split: if_split_asm)

lemma prepare_slave:
  assumes "mdm_display_prepare env (notify_status env c) p d = Some (True, d')"
    and "heap d p = Some x" and "0 < refs x" and "xdmcp_display (disp_class x) = None"
  shows "\<exists>y. heap d' p = Some y \<and> has_idle_slave y"
proof (rule with_ref_leaves [OF assms(1) [unfolded mdm_display_prepare_def] assms(2,3)])
  let ?x = "x\<lparr>refs := Suc (refs x)\<rparr>"
  fix v
  assume v: "mdm_display_real_prepare env (notify_status env c) p (put p ?x d) = Some (True, v)"
  from real_prepare_changed(2) [OF this, of ?x] assms(4) obtain x'
    where "changed p x' (put p ?x d) v" "became ?x MDM_DISPLAY_PREPARED True x'" by auto
  with real_prepare_slave [OF v]
  show "\<exists>y. heap v p = Some y \<and> refs y = Suc (refs x) \<and> has_idle_slave y"
    using changed_fields(1) by (fastforce simp: became_def lasting_def)
qed simp

lemma manage_slave:
  assumes "mdm_display_manage env (notify_status env c) p d = Some (r, d')"
    and "heap d p = Some x" and "0 < refs x" and "disp_status x = MDM_DISPLAY_UNMANAGED"
    and "xdmcp_display (disp_class x) = None"
  shows "\<exists>y. heap d' p = Some y \<and> has_new_slave env y (dtrace d')"
proof (rule with_ref_leaves [OF assms(1) [unfolded mdm_display_manage_def] assms(2,3)])
  let ?x = "x\<lparr>refs := Suc (refs x)\<rparr>" and ?d = "put p (x\<lparr>refs := Suc (refs x)\<rparr>) d"
  fix v
  assume "do { (_, d) \<leftarrow> mdm_display_real_manage env (notify_status env c) p ?d; Some (True, d) } = Some (r, v)"
  then obtain b where m: "mdm_display_real_manage env (notify_status env c) p ?d = Some (b, v)"
    by (auto simp: bind_eq_Some_conv)
  then obtain ok u where u: "mdm_display_prepare env (notify_status env c) p ?d = Some (ok, u)"
    using assms(4) by (auto simp: mdm_display_real_manage_def bind_eq_Some_conv)
  from prepare_changed [OF u, of ?x] assms(5) obtain y where ok: ok and y: "changed p y ?d u"
    "became ?x MDM_DISPLAY_PREPARED True y" by auto
  from prepare_slave [OF _ _ _, of env c p ?d u ?x] u ok assms(5) changed_fields(1) [OF y(1)]
  have hu: "heap u p = Some y" and s: "has_idle_slave y" by auto
  have "refs y = Suc (refs x)" using y(2) by (simp add: became_def lasting_def)
  with m assms(4) ok hu s show "\<exists>y. heap v p = Some y \<and> refs y = Suc (refs x) \<and> has_new_slave env y (dtrace v)"
    by (auto simp: mdm_display_real_manage_def u has_idle_slave_def daemon_call_def dcall_def Let_def split_beta
        mdm_slave_proxy_start_def spawn_slave_def has_new_slave_def slave_command_line_def slave_log_path_def
        split: if_split_asm)
qed simp

subsection \<open>Unmanaging and finishing a display\<close>

text \<open>The status after unmanaging: a display whose slave ran for less than three seconds has failed.\<close>

definition unmanaged_status :: "daemon_env \<Rightarrow> daemon \<Rightarrow> display \<Rightarrow> display_status" where
  "unmanaged_status env d x =
     (if d_result env (Sys_clock # dtrace d) - timer_start (slave_timer x) < 3000000
      then MDM_DISPLAY_FAILED else MDM_DISPLAY_UNMANAGED)"

definition unmanaged :: "display \<Rightarrow> display" where
  "unmanaged x = (if disp_class x = Static_display then x\<lparr>enable_timed_login := False\<rparr> else x)"

lemma unmanaged_simps [simp]:
  "refs (unmanaged x) = refs x" "status_handler (unmanaged x) = status_handler x"
  "slave_timer (unmanaged x) = slave_timer x" "disp_status (unmanaged x) = disp_status x"
  "unmanaged (x\<lparr>refs := n\<rparr>) = (unmanaged x)\<lparr>refs := n\<rparr>"
  by (simp_all add: unmanaged_def)

lemma real_unmanage_changed:
  assumes "mdm_display_real_unmanage env notify p d = Some (r, d')" and "heap d p = Some x"
  shows "\<exists>u y. changed p y d u \<and> became x (disp_status x) False y \<and>
    set_status notify p (unmanaged_status env d x) u = Some d'"
proof -
  obtain t af uf tm where "set_status notify p (unmanaged_status env d x)
      (put p (x\<lparr>disp_proxy := None, user_access_file := uf, disp_access_file := af, slave_timer := tm\<rparr>)
        (d\<lparr>dtrace := t\<rparr>)) = Some d'"
    using assms by (auto simp: mdm_display_real_unmanage_def bind_eq_Some_conv Let_def split_beta
        daemon_call_def dcall_def close_access_files_def unmanaged_status_def)
  moreover have "became x (disp_status x) False
      (x\<lparr>disp_proxy := None, user_access_file := uf, disp_access_file := af, slave_timer := tm\<rparr>)"
    by (simp add: became_def lasting_def)
  ultimately show ?thesis by blast
qed

lemma class_unmanage_changed:
  assumes "(case disp_class x of Static_display \<Rightarrow> mdm_static_display_unmanage env notify p d
      | _ \<Rightarrow> mdm_display_real_unmanage env notify p d) = Some (r, d')" and "heap d p = Some x"
  shows "\<exists>u y. changed p y d u \<and> became (unmanaged x) (disp_status x) False y \<and>
    set_status notify p (unmanaged_status env d x) u = Some d'"
proof (cases "disp_class x")
  case Static_display
  then have "mdm_display_real_unmanage env notify p (put p (unmanaged x) d) = Some (r, d')"
    using assms by (simp add: mdm_static_display_unmanage_def unmanaged_def)
  from real_unmanage_changed [OF this, of "unmanaged x"] obtain u y
    where "changed p y (put p (unmanaged x) d) u" and "became (unmanaged x) (disp_status x) False y"
      and "set_status notify p (unmanaged_status env d x) u = Some d'"
    by (auto simp: unmanaged_status_def)
  then show ?thesis by (blast intro: changed_from_put)
qed (use assms real_unmanage_changed [of env notify p d r d' x] in \<open>simp_all add: unmanaged_def\<close>)

lemma unmanage_changed:
  assumes "mdm_display_unmanage env (notify_status env c) p d = Some (r, d')"
    and "heap d p = Some x" and "0 < refs x"
    and "unmanaged_status env d x \<noteq> MDM_DISPLAY_FAILED \<or> \<not> status_handler x"
  shows "\<exists>x'. changed p x' d d' \<and> became (unmanaged x) (unmanaged_status env d x) False x'"
proof (rule with_ref_changed [OF assms(1) [unfolded mdm_display_unmanage_def] assms(2,3)])
  fix v
  let ?x = "x\<lparr>refs := Suc (refs x)\<rparr>" and ?d = "put p (x\<lparr>refs := Suc (refs x)\<rparr>) d"
  assume "Option.bind (heap ?d p) (\<lambda>x. case disp_class x of
        Static_display \<Rightarrow> mdm_static_display_unmanage env (notify_status env c) p ?d
      | _ \<Rightarrow> mdm_display_real_unmanage env (notify_status env c) p ?d) = Some (r, v)"
  then have "(case disp_class ?x of
        Static_display \<Rightarrow> mdm_static_display_unmanage env (notify_status env c) p ?d
      | _ \<Rightarrow> mdm_display_real_unmanage env (notify_status env c) p ?d) = Some (r, v)"
    by simp
  from class_unmanage_changed [OF this] obtain u y where y: "changed p y ?d u"
    "became (unmanaged ?x) (disp_status x) False y"
    "set_status (notify_status env c) p (unmanaged_status env d x) u = Some v"
    by (auto simp: unmanaged_status_def)
  have hu: "heap u p = Some y" using changed_fields(1) [OF y(1)] by simp
  have "status_handler y = status_handler x" using y(2) by (simp add: became_def lasting_def)
  with set_status_changed [OF y(3) hu] assms(4)
  have "changed p (y\<lparr>disp_status := unmanaged_status env d x\<rparr>) u v"
    by (auto simp: unmanaged_status_def)
  moreover have "became (unmanaged ?x) (unmanaged_status env d x) False
      (y\<lparr>disp_status := unmanaged_status env d x\<rparr>)"
    using y(2) by (simp add: became_def lasting_def)
  ultimately show "\<exists>x'. changed p x' ?d v \<and> became ((unmanaged x)\<lparr>refs := Suc (refs x)\<rparr>)
      (unmanaged_status env d x) False x'"
    using changed_trans [OF y(1)] by auto
qed simp

text \<open>A display that is not static is left as it is, without its slave: nothing else of the daemon's
  state is touched.\<close>

lemma transient_finish_changed:
  assumes "mdm_transient_display_finish env (notify_status env c) p d = Some (r, d')"
    and "heap d p = Some x" and "0 < refs x" and "\<not> status_handler x"
  shows "\<exists>x'. changed p x' d d' \<and> became (unmanaged x) (unmanaged_status env d x) False x'"
proof -
  obtain b u where u: "set_status (notify_status env c) p MDM_DISPLAY_FINISHED d = Some u"
    and v: "mdm_display_unmanage env (notify_status env c) p u = Some (b, d')"
    using assms(1)
    by (auto simp: mdm_transient_display_finish_def mdm_display_real_finish_def bind_eq_Some_conv)
  let ?y = "x\<lparr>disp_status := MDM_DISPLAY_FINISHED\<rparr>"
  have u': "u = (if disp_status x = MDM_DISPLAY_FINISHED then d else put p ?y d)"
    using u assms(2,4) by (auto simp: set_status_def notify_status_def split: if_split_asm)
  then have y: "changed p ?y d u"
    using changed_trace(1) [of d p ?y] assms(2) by (cases x) auto
  have "\<exists>x'. changed p x' u d' \<and> became (unmanaged ?y) (unmanaged_status env u ?y) False x'"
    by (rule unmanage_changed [OF v]) (use assms(3,4) changed_fields(1) [OF y] in simp_all)
  then obtain x' where x': "changed p x' u d'" "became (unmanaged ?y) (unmanaged_status env u ?y) False x'"
    by blast
  have "unmanaged_status env u ?y = unmanaged_status env d x"
    unfolding u' by (simp add: unmanaged_status_def)
  with x'(2) have "became (unmanaged x) (unmanaged_status env d x) False x'"
    by (simp add: became_def lasting_def unmanaged_def)
  with changed_trans [OF y x'(1)] show ?thesis by blast
qed

lemma unmanaged_not_finished [simp]: "unmanaged_status env d x \<noteq> MDM_DISPLAY_FINISHED"
  by (simp add: unmanaged_status_def)

lemma transient_finish_status:
  assumes "mdm_transient_display_finish env (notify_status env c) p d = Some (r, d')"
    and "heap d p = Some x" and "0 < refs x" and "\<not> status_handler x"
  shows "\<exists>st x'. changed p x' d d' \<and> became (unmanaged x) st False x' \<and> st \<noteq> MDM_DISPLAY_FINISHED"
  using transient_finish_changed [OF assms] unmanaged_not_finished by blast

lemma guest_finish_changed:
  assumes "mdm_guest_display_finish env (notify_status env c) p d = Some (r, d')"
    and "heap d p = Some x" and "0 < refs x" and "\<not> status_handler x"
  shows "\<exists>st x'. changed p x' d d' \<and> became (unmanaged x) st False x' \<and> st \<noteq> MDM_DISPLAY_FINISHED"
proof -
  obtain t where t: "mdm_transient_display_finish env (notify_status env c) p (d\<lparr>dtrace := t\<rparr>) = Some (r, d')"
    using assms(1) by (auto simp: mdm_guest_display_finish_def Let_def split_beta daemon_call_def
        split: if_split_asm)
  from transient_finish_status [OF t, of x] assms(2-4) show ?thesis
    by (auto simp: changed_def)
qed

lemma finish_idle_other:
  assumes "finish_idle env (notify_status env c) p d = Some d'"
    and "heap d p = Some x" and "0 < refs x" and "\<not> status_handler x"
    and "disp_class x \<noteq> Static_display" and "xdmcp_display (disp_class x) = None"
  shows "\<exists>st x'. changed p x' d d' \<and> became x st False x' \<and> st \<noteq> MDM_DISPLAY_FINISHED"
proof -
  let ?x = "x\<lparr>finish_idle_id := False\<rparr>"
  let ?y = "?x\<lparr>refs := Suc (refs ?x)\<rparr>"
  obtain r where f: "mdm_display_finish env (notify_status env c) p (put p ?x d) = Some (r, d')"
    using assms(1,2) by (auto simp: finish_idle_def)
  have un: "unmanaged ?y = ?y" using assms(5) by (simp add: unmanaged_def)
  have "\<exists>st x'. changed p x' (put p ?x d) d' \<and> became ?x st False x' \<and> st \<noteq> MDM_DISPLAY_FINISHED"
  proof (rule with_ref_changed_status [OF f [unfolded mdm_display_finish_def], of ?x])
    fix v
    let ?d = "put p ?y (put p ?x d)"
    assume "Option.bind (heap ?d p) (\<lambda>x. case disp_class x of
        Static_display \<Rightarrow> mdm_static_display_finish env (notify_status env c) p ?d
      | Transient_display \<Rightarrow> mdm_transient_display_finish env (notify_status env c) p ?d
      | Product_display _ \<Rightarrow> mdm_transient_display_finish env (notify_status env c) p ?d
      | Guest_display \<Rightarrow> mdm_guest_display_finish env (notify_status env c) p ?d
      | Xdmcp_greeter_display _ \<Rightarrow> mdm_xdmcp_greeter_display_finish env (notify_status env c) p ?d
      | Xdmcp_chooser_display _ \<Rightarrow> mdm_display_real_finish (notify_status env c) p ?d) = Some (r, v)"
    then have "mdm_transient_display_finish env (notify_status env c) p ?d = Some (r, v) \<or>
        mdm_guest_display_finish env (notify_status env c) p ?d = Some (r, v)"
      using assms(5,6) by (cases "disp_class x") simp_all
    then show "\<exists>st x'. changed p x' ?d v \<and> became (?x\<lparr>refs := Suc (refs ?x)\<rparr>) st False x' \<and>
        st \<noteq> MDM_DISPLAY_FINISHED"
      using transient_finish_status [of env c p ?d r v ?y] guest_finish_changed [of env c p ?d r v ?y]
        assms(4) unfolding un by auto
  qed (use assms(3) in simp_all)
  then show ?thesis by (auto simp: became_def lasting_def dest: changed_from_put)
qed

text \<open>A static display whose slave ran for three seconds is managed again.\<close>

lemma static_finish_slow:
  assumes "mdm_static_display_finish env (notify_status env c) p d = Some (r, d')"
    and "heap d p = Some x" and "0 < refs x" and "unmanaged_status env d x \<noteq> MDM_DISPLAY_FAILED"
    and "disp_class x = Static_display"
  shows "\<exists>x'. changed p x' d d' \<and> became (unmanaged x) MDM_DISPLAY_PREPARED True x' \<and> has_new_slave env x' (dtrace d')"
proof -
  obtain b u where u: "mdm_display_unmanage env (notify_status env c) p d = Some (b, u)"
    using assms(1) by (auto simp: mdm_static_display_finish_def bind_eq_Some_conv)
  from unmanage_changed [OF u assms(2,3)] assms(4) obtain y where y: "changed p y d u"
    "became (unmanaged x) (unmanaged_status env d x) False y" by auto
  have hu: "heap u p = Some y" using changed_fields(1) [OF y(1)] by simp
  have un: "unmanaged_status env d x = MDM_DISPLAY_UNMANAGED"
    using assms(4) by (simp add: unmanaged_status_def split: if_splits)
  then have st: "disp_status y = MDM_DISPLAY_UNMANAGED" and "0 < refs y"
    and "xdmcp_display (disp_class y) = None"
    using y(2) assms(3,5) by (simp_all add: became_def lasting_def unmanaged_def)
  moreover obtain b' where "mdm_display_manage env (notify_status env c) p u = Some (b', d')"
    using assms(1) by (auto simp: mdm_static_display_finish_def u hu st bind_eq_Some_conv)
  ultimately obtain x' z where x': "changed p x' u d'" "became y MDM_DISPLAY_PREPARED True x'"
    and z: "heap d' p = Some z" "has_new_slave env z (dtrace d')"
    using manage_changed [of env c p u b' d' y] manage_slave [of env c p u b' d' y] hu by blast
  have "z = x'" using z(1) changed_fields(1) [OF x'(1)] by simp
  have "became (unmanaged x) MDM_DISPLAY_PREPARED True x'"
    using y(2) x'(2) by (simp add: became_def)
  with changed_trans [OF y(1) x'(1)] z(2) \<open>z = x'\<close> show ?thesis by blast
qed

lemma finish_idle_static_slow:
  assumes "finish_idle env (notify_status env c) p d = Some d'"
    and "heap d p = Some x" and "0 < refs x" and "disp_class x = Static_display"
    and "unmanaged_status env d x \<noteq> MDM_DISPLAY_FAILED"
  shows "\<exists>x'. changed p x' d d' \<and> became (unmanaged x) MDM_DISPLAY_PREPARED True x' \<and> has_new_slave env x' (dtrace d')"
proof -
  let ?x = "x\<lparr>finish_idle_id := False\<rparr>"
  let ?y = "?x\<lparr>refs := Suc (refs ?x)\<rparr>"
  let ?d = "put p ?y (put p ?x d)"
  let ?f = "\<lambda>d. Option.bind (heap d p) (\<lambda>x. case disp_class x of
        Static_display \<Rightarrow> mdm_static_display_finish env (notify_status env c) p d
      | Transient_display \<Rightarrow> mdm_transient_display_finish env (notify_status env c) p d
      | Product_display _ \<Rightarrow> mdm_transient_display_finish env (notify_status env c) p d
      | Guest_display \<Rightarrow> mdm_guest_display_finish env (notify_status env c) p d
      | Xdmcp_greeter_display _ \<Rightarrow> mdm_xdmcp_greeter_display_finish env (notify_status env c) p d
      | Xdmcp_chooser_display _ \<Rightarrow> mdm_display_real_finish (notify_status env c) p d)"
  obtain r where f: "with_ref env p ?f (put p ?x d) = Some (r, d')"
    using assms(1,2) by (auto simp: finish_idle_def mdm_display_finish_def)
  have un: "unmanaged ?y = (unmanaged ?x)\<lparr>refs := Suc (refs ?x)\<rparr>" by (simp add: unmanaged_def)
  have slow: "\<exists>x'. changed p x' ?d v \<and> became ((unmanaged ?x)\<lparr>refs := Suc (refs ?x)\<rparr>) MDM_DISPLAY_PREPARED True x'
      \<and> has_new_slave env x' (dtrace v)" if "?f ?d = Some (r, v)" for v
  proof -
    from that have "mdm_static_display_finish env (notify_status env c) p ?d = Some (r, v)"
      using assms(4) by simp
    from static_finish_slow [OF this, of ?y] assms(4,5) show ?thesis
      unfolding un by (simp add: unmanaged_status_def)
  qed
  have "\<exists>x'. changed p x' (put p ?x d) d' \<and> became (unmanaged ?x) MDM_DISPLAY_PREPARED True x'"
  proof (rule with_ref_changed [OF f, of ?x])
    fix v
    assume "?f ?d = Some (r, v)"
    from slow [OF this] show "\<exists>x'. changed p x' ?d v \<and>
        became ((unmanaged ?x)\<lparr>refs := Suc (refs ?x)\<rparr>) MDM_DISPLAY_PREPARED True x'" by blast
  qed (use assms(3) in simp_all)
  then obtain x' where x': "changed p x' (put p ?x d) d'" "became (unmanaged ?x) MDM_DISPLAY_PREPARED True x'"
    by blast
  have "\<exists>y. heap d' p = Some y \<and> has_new_slave env y (dtrace d')"
  proof (rule with_ref_leaves [OF f, of ?x])
    fix v
    assume "?f ?d = Some (r, v)"
    then obtain z where z: "changed p z ?d v"
      "became ((unmanaged ?x)\<lparr>refs := Suc (refs ?x)\<rparr>) MDM_DISPLAY_PREPARED True z" "has_new_slave env z (dtrace v)"
      using slow by blast
    then show "\<exists>y. heap v p = Some y \<and> refs y = Suc (refs ?x) \<and> has_new_slave env y (dtrace v)"
      using changed_fields(1) [OF z(1)] by (simp add: became_def lasting_def)
  qed (use assms(3) in simp_all)
  then have "has_new_slave env x' (dtrace d')"
    using changed_fields(1) [OF x'(1)] by simp
  moreover have "lasting (unmanaged ?x) = lasting (unmanaged x)"
    by (simp add: unmanaged_def lasting_def)
  ultimately show ?thesis using x' by (auto simp: became_def dest: changed_from_put)
qed

subsection \<open>Creating a static display\<close>

definition next_display_id :: "daemon \<Rightarrow> string" where
  "next_display_id d = DISPLAY_PATH @ string_of_nat (unat (display_serial d))"

text \<open>A new local display with the next free number; the rest of the daemon is as before.\<close>

definition created :: "display_class \<Rightarrow> daemon \<Rightarrow> daemon \<Rightarrow> bool" where
  "created cls d d' \<longleftrightarrow> xdmcp_display cls = None \<and> (\<exists>y. heap d' = (heap d)(next_object d \<mapsto> y) \<and>
     disp_class y = cls \<and> disp_status y = MDM_DISPLAY_PREPARED \<and>
     status_handler y = (cls = Static_display) \<and> enable_timed_login y \<and> refs y = 1 \<and>
     disp_proxy y \<noteq> None \<and> disp_id y = next_display_id d \<and>
     x11_number y = sint (next_display_number (displays d))) \<and>
     next_object d' = Suc (next_object d) \<and> num_failures d' = num_failures d \<and>
     display_serial d' = display_serial (snd (get_next_display_serial d)) \<and>
     displays d' = List.insert (next_display_number (displays d)) (displays d) \<and>
     display_store d' = store_insert (next_display_id d) (next_object d) (display_store d)"

lemma new_display_effect:
  assumes "new_display env cls num d = Some (p, v)"
  shows "\<exists>x. heap v = (heap d)(p \<mapsto> x) \<and> p = next_object d \<and> next_object v = Suc p \<and>
    num_failures v = num_failures d \<and> displays v = displays d \<and> display_store v = display_store d \<and>
    display_serial v = display_serial (snd (get_next_display_serial d)) \<and>
    lasting x = (cls, next_display_id d, sint num, False, True, 1) \<and>
    disp_status x = MDM_DISPLAY_UNMANAGED \<and> disp_proxy x = None"
  using assms
  by (auto simp: new_display_unfold get_next_display_serial_def daemon_call_def dcall_def Let_def
      put_def next_display_id_def lasting_def split: if_splits)

lemma create_display_effect:
  assumes "create_display env d = Some d'" and "store_lookup (display_store d) (next_display_id d) = None"
  shows "created Static_display d d'"
proof -
  let ?num = "next_display_number (displays d)"
  let ?u = "d\<lparr>displays := List.insert ?num (displays d)\<rparr>" and ?c = "\<lambda>d. None :: daemon option"
  have n: "take_next_display_number d = (?num, ?u)"
    by (simp add: take_next_display_number_def Let_def)
  note def = create_display_def create_display_body_def
  from assms(1) obtain p v where v: "new_display env Static_display ?num ?u = Some (p, v)"
    by (auto simp: def n bind_eq_Some_conv)
  from new_display_effect [OF v] obtain x where x: "heap v = (heap d)(p \<mapsto> x)" "p = next_object d"
    "next_object v = Suc p" "num_failures v = num_failures d" "displays v = List.insert ?num (displays d)"
    "display_store v = display_store d"
    "lasting x = (Static_display, next_display_id d, sint ?num, False, True, 1)"
    "disp_status x = MDM_DISPLAY_UNMANAGED" "disp_proxy x = None"
    "display_serial v = display_serial (snd (get_next_display_serial d))"
    by (auto simp: next_display_id_def get_next_display_serial_def Let_def)
  let ?x = "x\<lparr>seat_id := Some CK_SEAT1_PATH, status_handler := True\<rparr>"
  have id: "disp_id x = next_display_id d" and refs: "refs x = 1" using x(7) by (simp_all add: lasting_def)
  let ?a = "(put p (?x\<lparr>refs := 2\<rparr>) (put p ?x v))\<lparr>display_store :=
      store_insert (next_display_id d) p (display_store v), displays := displays v\<rparr>"
  have a: "mdm_local_store_display env ?num p (put p ?x v) = Some ?a"
    using assms(2)
    by (simp add: mdm_local_store_display_def mdm_display_store_add_def object_ref_def id refs x(5,6)
        in_set_insert numeral_2_eq_2)
  let ?b = "put p (?x\<lparr>refs := Suc 0\<rparr>) ?a"
  have b: "object_unref env p ?a = Some ?b"
    by (simp add: object_unref_def)
  obtain ok w where w: "mdm_display_manage env (notify_status env ?c) p ?b = Some (ok, w)"
    using assms(1) by (auto simp: def n v set_display_def x(1) a b bind_eq_Some_conv)
  have ok: ok using w by (rule manage_true)
  then have d': "d' = w"
    using assms(1) w by (simp add: def n v set_display_def x(1) a b)
  have "xdmcp_display (disp_class x) = None" using x(7) by (simp add: lasting_def)
  with manage_changed [OF w, of "?x\<lparr>refs := Suc 0\<rparr>"] x(8) obtain y where y: "changed p y ?b d'"
    "became (?x\<lparr>refs := Suc 0\<rparr>) MDM_DISPLAY_PREPARED True y" by (auto simp: d')
  from y(2) x(7) have "disp_class y = Static_display" "disp_status y = MDM_DISPLAY_PREPARED"
    "status_handler y" "enable_timed_login y" "refs y = 1" "disp_proxy y \<noteq> None"
    "disp_id y = next_display_id d" "x11_number y = sint ?num"
    by (simp_all add: became_def lasting_def)
  moreover have "heap d' = (heap d)(next_object d \<mapsto> y)"
    using changed_fields(1) [OF y(1)] x(1,2) by simp
  ultimately show ?thesis
    unfolding created_def using changed_fields(2-6) [OF y(1)] x(2-6,10) by auto
qed

subsection \<open>A static display that fails\<close>

text \<open>The daemon without the display, and with one more failure.\<close>

definition failed_without :: "nat \<Rightarrow> daemon \<Rightarrow> daemon" where
  "failed_without p d = d\<lparr>heap := (heap d)(p := None), display_store := store_remove p (display_store d),
     num_failures := num_failures d + 1\<rparr>"

text \<open>A failed display leaves the daemon, and is replaced unless there were too many failures.\<close>

definition replaced :: "nat \<Rightarrow> daemon \<Rightarrow> daemon \<Rightarrow> bool" where
  "replaced p d d' \<longleftrightarrow>
     (if num_failures d + 1 > MAX_DISPLAY_FAILURES then \<exists>t. d' = (failed_without p d)\<lparr>dtrace := t\<rparr>
      else created Static_display (failed_without p d) d')"

lemma replaced_trace: "replaced p d (e\<lparr>dtrace := t\<rparr>) = replaced p d e"
proof -
  have "(\<exists>s. e\<lparr>dtrace := t\<rparr> = u\<lparr>dtrace := s\<rparr>) = (\<exists>s. e = u\<lparr>dtrace := s\<rparr>)" for u :: daemon
    by (cases e; cases u) auto
  then show ?thesis by (simp add: replaced_def created_def)
qed

lemma replaced_changed: "changed p y d u \<Longrightarrow> replaced p u e = replaced p d e"
  by (auto simp: replaced_def created_def changed_def put_def failed_without_def next_display_id_def
      get_next_display_serial_def Let_def)

lemma handler_failed:
  assumes "notify_status env (create_display env) p d = Some d'" and "heap d p = Some y"
    and "status_handler y \<and> disp_class y = Static_display" and "disp_status y = MDM_DISPLAY_FAILED" and "1 < refs y"
    and "length (filter (\<lambda>(i, q). q = p) (display_store d)) = 1"
    and "store_lookup (store_remove p (display_store d)) (next_display_id d) = None"
    and "p \<noteq> next_object d"
  shows "heap d' p = Some (y\<lparr>refs := refs y - 1\<rparr>)" and "replaced p d (d'\<lparr>heap := (heap d')(p := None)\<rparr>)"
proof -
  let ?a = "put p (y\<lparr>refs := refs y - 1\<rparr>) (d\<lparr>display_store := store_remove p (display_store d)\<rparr>)"
  let ?b = "?a\<lparr>num_failures := num_failures d + 1\<rparr>"
  have "mdm_display_store_remove env p d = Some ?a"
    using assms(2,5,6) by (simp add: mdm_display_store_remove_def remove_display_def object_unref_def)
  then have d': "(if num_failures d + 1 > MAX_DISPLAY_FAILURES then Some ?b else create_display env ?b) = Some d'"
    using assms(1-4)
    by (simp add: notify_status_def on_static_display_status_changed_def Let_def split: if_split_asm)
  have "heap d' p = Some (y\<lparr>refs := refs y - 1\<rparr>) \<and> replaced p d (d'\<lparr>heap := (heap d')(p := None)\<rparr>)"
  proof (cases "num_failures d + 1 > MAX_DISPLAY_FAILURES")
    case True
    then have "d' = ?b" using d' by simp
    then show ?thesis
      using True by (auto simp: replaced_def failed_without_def put_def intro: exI [of _ "dtrace d"])
  next
    case False
    then have "created Static_display ?b d'"
      using d' assms(7) by (intro create_display_effect) (simp_all add: next_display_id_def)
    then show ?thesis
      using False assms(8) by (auto simp: replaced_def created_def failed_without_def put_def
          next_display_id_def get_next_display_serial_def Let_def fun_upd_twist)
  qed
  then show "heap d' p = Some (y\<lparr>refs := refs y - 1\<rparr>)"
    and "replaced p d (d'\<lparr>heap := (heap d')(p := None)\<rparr>)" by simp_all
qed

lemma finish_idle_static_fast:
  assumes "finish_idle env (status_notify env) p d = Some d'"
    and "heap d p = Some x" and "refs x = 1" and "disp_class x = Static_display" and "status_handler x"
    and "unmanaged_status env d x = MDM_DISPLAY_FAILED" and "disp_status x \<noteq> MDM_DISPLAY_FAILED"
    and "length (filter (\<lambda>(i, q). q = p) (display_store d)) = 1"
    and "store_lookup (store_remove p (display_store d)) (next_display_id d) = None"
    and "p \<noteq> next_object d"
  shows "heap d' p = None \<and> replaced p d d'"
proof -
  let ?n = "status_notify env"
  let ?x = "x\<lparr>finish_idle_id := False, refs := 3\<rparr>"
  let ?e = "put p (x\<lparr>finish_idle_id := False, refs := 2\<rparr>) (put p (x\<lparr>finish_idle_id := False\<rparr>) d)"
  let ?d = "put p ?x ?e"
  obtain r where f: "mdm_display_finish env ?n p (put p (x\<lparr>finish_idle_id := False\<rparr>) d) = Some (r, d')"
    using assms(1,2) by (auto simp: finish_idle_def)
  then obtain w where w: "mdm_static_display_finish env ?n p ?e = Some (r, w)"
    and d': "object_unref env p w = Some d'"
    using assms(3,4)
    by (auto simp: mdm_display_finish_def with_ref_def object_ref_def bind_eq_Some_conv numeral_2_eq_2)
  from w obtain b v where un: "mdm_display_unmanage env ?n p ?e = Some (b, v)"
    by (auto simp: mdm_static_display_finish_def bind_eq_Some_conv)
  then obtain u where "mdm_static_display_unmanage env ?n p ?d = Some (b, u)"
    and v: "object_unref env p u = Some v"
    using assms(4) by (auto simp: mdm_display_unmanage_def with_ref_def object_ref_def
        bind_eq_Some_conv numeral_3_eq_3 numeral_2_eq_2)
  with class_unmanage_changed [where x = ?x and env = env and notify = ?n and p = p and d = ?d and r = b and d' = u] obtain a y
    where y: "changed p y ?d a" "became (unmanaged ?x) (disp_status x) False y"
      "set_status ?n p MDM_DISPLAY_FAILED a = Some u"
    using assms(4,6) by (auto simp: unmanaged_status_def)
  let ?y = "y\<lparr>disp_status := MDM_DISPLAY_FAILED\<rparr>"
  have y': "refs y = 3" "status_handler y \<and> disp_class y = Static_display" "disp_status y = disp_status x" "disp_proxy y = None"
    using y(2) assms(4,5) by (auto simp: became_def lasting_def unmanaged_def)
  have u: "notify_status env (create_display env) p (put p ?y a) = Some u"
    using y(3) y' assms(7) changed_fields(1) [OF y(1)] by (simp add: set_status_def status_notify_def)
  have cd: "changed p ?y d (put p ?y a)"
    using changed_trans [OF changed_from_put [OF changed_from_put [OF changed_from_put [OF y(1)]]]] by blast
  from handler_failed [OF u, of ?y] y' assms(8-10) changed_fields(2-6) [OF cd]
  have hu: "heap u p = Some (?y\<lparr>refs := 2\<rparr>)"
    and rep: "replaced p (put p ?y a) (u\<lparr>heap := (heap u)(p := None)\<rparr>)"
    by (simp_all add: next_display_id_def)
  have v': "v = put p (?y\<lparr>refs := 1\<rparr>) u"
    using v by (simp add: object_unref_def hu)
  have w': "w = v" using w by (auto simp: mdm_static_display_finish_def un v')
  obtain t where "d' = v\<lparr>heap := (heap v)(p := None), dtrace := t\<rparr>"
    using d' by (auto simp: w' v' object_unref_def mdm_display_dispose_def drop_proxy_def y'
        close_access_files_def Let_def)
  then have "d' = (u\<lparr>heap := (heap u)(p := None)\<rparr>)\<lparr>dtrace := t\<rparr>" by (simp add: v' put_def)
  with rep show ?thesis by (simp add: replaced_trace replaced_changed [OF cd])
qed

end
