(* ===== verification/Display_Settled.thy ===== *)
theory Display_Settled
  imports Display_Lifecycle
begin

text \<open>
  The daemon between two events. As long as the serial numbers have not been used up, the store and
  the heap agree: every display that exists is stored once, under the id made of its serial number,
  the store holds the only reference, and a static display has its slave prepared.
\<close>

subsection \<open>The effect of the factory's methods\<close>

lemma create_and_manage_effect:
  assumes "create_and_manage env cls f d = Some (r, d')" and "cls \<noteq> Static_display"
    and "store_lookup (display_store d) (next_display_id d) = None"
    and cls: "xdmcp_display cls = None"
    and f: "\<And>x. lasting (f x) = lasting x \<and> disp_status (f x) = disp_status x \<and> disp_proxy (f x) = disp_proxy x \<and>
      (\<forall>n. f (x\<lparr>refs := n\<rparr>) = (f x)\<lparr>refs := n\<rparr>)"
  shows "created cls d d' \<and> r = Some (next_display_id d)"
proof -
  let ?num = "next_display_number (displays d)"
  let ?u = "d\<lparr>displays := List.insert ?num (displays d)\<rparr>"
  have n: "take_next_display_number d = (?num, ?u)"
    by (simp add: take_next_display_number_def Let_def)
  note def = create_and_manage_def
  from assms(1) obtain p v where v: "new_display env cls ?num ?u = Some (p, v)"
    by (auto simp: def n bind_eq_Some_conv)
  from new_display_effect [OF v] obtain x where x: "heap v = (heap d)(p \<mapsto> x)" "p = next_object d"
    "next_object v = Suc p" "num_failures v = num_failures d" "displays v = List.insert ?num (displays d)"
    "display_store v = display_store d" "lasting x = (cls, next_display_id d, sint ?num, False, True, 1)"
    "disp_status x = MDM_DISPLAY_UNMANAGED" "disp_proxy x = None"
    "display_serial v = display_serial (snd (get_next_display_serial d))"
    by (auto simp: next_display_id_def get_next_display_serial_def Let_def)
  let ?x = "f (x\<lparr>seat_id := Some CK_SEAT1_PATH\<rparr>)"
  have fx: "lasting ?x = lasting x" "disp_status ?x = MDM_DISPLAY_UNMANAGED"
    using f [of "x\<lparr>seat_id := Some CK_SEAT1_PATH\<rparr>"] x(8) by (simp_all add: lasting_def)
  then have id: "disp_id ?x = next_display_id d" and refs: "refs ?x = 1"
    using x(7) by (simp_all add: lasting_def)
  let ?a = "(put p (?x\<lparr>refs := 2\<rparr>) (put p ?x v))\<lparr>display_store :=
      store_insert (next_display_id d) p (display_store v), displays := displays v\<rparr>"
  have a: "mdm_local_store_display env ?num p (put p ?x v) = Some ?a"
    using assms(3)
    by (simp add: mdm_local_store_display_def mdm_display_store_add_def object_ref_def id refs x(5,6)
        in_set_insert numeral_2_eq_2)
  obtain ok w where w: "mdm_display_manage env (status_notify env) p ?a = Some (ok, w)"
    using assms(1) by (auto simp: def n v set_display_def x(1) a bind_eq_Some_conv)
  have "xdmcp_display (disp_class ?x) = None" using fx(1) x(7) cls by (simp add: lasting_def)
  with manage_changed [OF w [unfolded status_notify_def], of "?x\<lparr>refs := 2\<rparr>"] fx(2) obtain y
    where y: "changed p y ?a w" "became (?x\<lparr>refs := 2\<rparr>) MDM_DISPLAY_PREPARED True y" by auto
  have hw: "heap w p = Some y" using changed_fields(1) [OF y(1)] by simp
  have ly: "refs y = 2" "disp_class y = cls" "disp_status y = MDM_DISPLAY_PREPARED" "\<not> status_handler y"
    "enable_timed_login y" "disp_proxy y \<noteq> None" "disp_id y = next_display_id d" "x11_number y = sint ?num"
    using y(2) fx(1) x(7) by (simp_all add: became_def lasting_def)
  have "d' = put p (y\<lparr>refs := 1\<rparr>) w" and r: "r = Some (next_display_id d)"
    using assms(1) w manage_true [OF w] ly(1,7)
    by (auto simp: def n v set_display_def x(1) a hw object_unref_def)
  then have "heap d' = (heap d)(next_object d \<mapsto> y\<lparr>refs := 1\<rparr>)" and "next_object d' = next_object w"
    "num_failures d' = num_failures w" "display_serial d' = display_serial w" "displays d' = displays w"
    "display_store d' = display_store w"
    using changed_fields(1) [OF y(1)] x(1,2) by simp_all
  then have "created cls d d'"
    unfolding created_def using changed_fields(2-6) [OF y(1)] x(2-6,10) ly assms(2) cls
    by (auto intro!: exI [of _ "y\<lparr>refs := 1\<rparr>"])
  with r show ?thesis by simp
qed

definition touched :: "nat \<Rightarrow> daemon \<Rightarrow> daemon \<Rightarrow> bool" where
  "touched p d d' \<longleftrightarrow> (\<exists>x x'. heap d p = Some x \<and> changed p x' d d' \<and> lasting x' = lasting x \<and>
     disp_status x' = disp_status x)"

text \<open>Authorizing a user and its end change the display's files only.\<close>

lemma with_ref_touched:
  assumes "with_ref env p f d = Some (r, d')" and "heap d p = Some x" and "0 < refs x"
    and "\<And>d v x. heap d p = Some x \<Longrightarrow> f d = Some (r, v) \<Longrightarrow>
      \<exists>x'. changed p x' d v \<and> became x (disp_status x) (disp_proxy x \<noteq> None) x'"
  shows "touched p d d'"
proof -
  have "\<exists>x'. changed p x' d d' \<and> became x (disp_status x) (disp_proxy x \<noteq> None) x'"
  proof (rule with_ref_changed [OF assms(1-3) _ refl])
    fix v
    assume "f (put p (x\<lparr>refs := Suc (refs x)\<rparr>) d) = Some (r, v)"
    from assms(4) [OF _ this, of "x\<lparr>refs := Suc (refs x)\<rparr>"]
    show "\<exists>x'. changed p x' (put p (x\<lparr>refs := Suc (refs x)\<rparr>) d) v \<and>
        became (x\<lparr>refs := Suc (refs x)\<rparr>) (disp_status x) (disp_proxy x \<noteq> None) x'" by simp
  qed
  with assms(2) show ?thesis by (auto simp: touched_def became_def)
qed

lemma add_user_authorization_touched:
  assumes "mdm_display_add_user_authorization env p user d = Some (r, d')"
    and "heap d p = Some x" and "0 < refs x"
  shows "touched p d d'"
  by (rule with_ref_touched [OF assms(1) [unfolded mdm_display_add_user_authorization_def] assms(2,3)])
     (auto simp: bind_eq_Some_conv Let_def split: if_split_asm option.split_asm
        intro!: changed_became changed_became_same; simp add: became_def lasting_def)

lemma remove_user_authorization_touched:
  assumes "mdm_display_remove_user_authorization env p user d = Some (r, d')"
    and "heap d p = Some x" and "0 < refs x"
  shows "touched p d d'"
  by (rule with_ref_touched [OF assms(1) [unfolded mdm_display_remove_user_authorization_def] assms(2,3)])
     (auto simp: bind_eq_Some_conv split_beta split: option.split_asm
        intro!: changed_became changed_became_same; simp add: became_def lasting_def)

lemma slave_done_touched:
  assumes "heap d p = Some x"
  shows "touched p d (slave_done p status d)"
proof -
  have "touched p d d" using assms changed_trace(1) by (auto simp: touched_def)
  moreover have "touched p d (put p x' d)" if "lasting x' = lasting x" "disp_status x' = disp_status x" for x'
    using that assms by (auto simp: touched_def)
  ultimately show ?thesis using assms
    by (auto simp: slave_done_def child_watch_def queue_finish_def lasting_def
        split: option.split slave_end.split)
qed

subsection \<open>The invariant between events\<close>

definition display_id :: "nat \<Rightarrow> string" where
  "display_id p = DISPLAY_PATH @ string_of_nat (Suc p)"

definition settled :: "daemon \<Rightarrow> bool" where
  "settled d \<longleftrightarrow>
     (\<forall>p x. heap d p = Some x \<longrightarrow> p < next_object d \<and> refs x = 1 \<and> disp_id x = display_id p \<and>
        status_handler x = (disp_class x = Static_display) \<and> xdmcp_display (disp_class x) = None \<and>
        (status_handler x \<longrightarrow> disp_status x = MDM_DISPLAY_PREPARED)) \<and>
     (\<forall>i p. (i, p) \<in> set (display_store d) \<longleftrightarrow> heap d p \<noteq> None \<and> i = display_id p) \<and>
     store_valid (display_store d) \<and> display_serial d = of_nat (Suc (next_object d))"

lemma display_id_inj [simp]: "display_id p = display_id q \<longleftrightarrow> p = q"
  by (auto simp: display_id_def dest: string_of_nat_inj)

lemma negative_serial: "unat w \<le> 2 ^ 31 \<Longrightarrow> sint w < 0 \<longleftrightarrow> unat w = 2 ^ 31" for w :: "32 word"
proof -
  obtain n where n: "unat w = n" by simp
  assume "unat w \<le> 2 ^ 31"
  then have le: "n \<le> 2 ^ 31" by (simp add: n)
  have "sint w = signed_take_bit 31 (int n)"
    using signed_of_nat [of n, where 'a = int and 'b = 32] by (simp flip: n)
  moreover have "signed_take_bit 31 (int n) = int n" if "n \<noteq> 2 ^ 31"
    using that le by (intro signed_take_bit_int_eq_self) auto
  moreover have "signed_take_bit 31 (2 ^ 31 :: int) = - (2 ^ 31)"
    by (simp add: signed_take_bit_eq_if_negative)
  ultimately show "sint w < 0 \<longleftrightarrow> unat w = 2 ^ 31" unfolding n by (cases "n = 2 ^ 31") auto
qed

text \<open>The serial numbers count from 1 to the largest positive number, and start again.\<close>

lemma next_serial:
  assumes "0 < unat (display_serial d)" and "unat (display_serial d) < 2 ^ 31"
  shows "unat (display_serial (snd (get_next_display_serial d))) =
    (if unat (display_serial d) = 2 ^ 31 - 1 then 1 else Suc (unat (display_serial d)))"
proof -
  have "unat (display_serial d + 1) = Suc (unat (display_serial d))"
    using assms(2) unat_add_lem [of "display_serial d" 1] by simp
  then show ?thesis
    using assms negative_serial [of "display_serial d + 1"]
    by (auto simp: get_next_display_serial_def Let_def)
qed

lemma settled_id:
  assumes "settled d" and "next_object d < 2 ^ 31 - 1"
  shows "next_display_id d = display_id (next_object d)" 
    and "store_lookup (display_store d) (next_display_id d) = None"
    and "Suc (next_object d) < 2 ^ 31 - 1 \<Longrightarrow>
      display_serial (snd (get_next_display_serial d)) = of_nat (Suc (Suc (next_object d)))"
proof -
  have s: "display_serial d = of_nat (Suc (next_object d))" using assms(1) by (simp add: settled_def)
  have u: "unat (display_serial d) = Suc (next_object d)"
    unfolding s unat_of_nat using assms(2) by simp
  show id: "next_display_id d = display_id (next_object d)"
    using u by (simp add: next_display_id_def display_id_def)
  have "display_id (next_object d) \<notin> fst ` set (display_store d)"
    using assms(1) by (fastforce simp: settled_def)
  then show "store_lookup (display_store d) (next_display_id d) = None"
    by (simp add: id store_lookup_def map_of_eq_None_iff)
  assume "Suc (next_object d) < 2 ^ 31 - 1"
  then have "unat (display_serial (snd (get_next_display_serial d))) = Suc (Suc (next_object d))"
    using next_serial [of d] u by simp
  then show "display_serial (snd (get_next_display_serial d)) = of_nat (Suc (Suc (next_object d)))"
    by (metis of_nat_unat ucast_id)
qed

lemma settled_store:
  assumes "settled d" and "heap d p = Some x"
  shows "length (filter (\<lambda>(i, q). q = p) (display_store d)) = 1"
proof -
  have "distinct (filter (\<lambda>(i, q). q = p) (display_store d))"
    using assms(1) by (simp add: settled_def store_valid_def distinct_map)
  moreover have "set (filter (\<lambda>(i, q). q = p) (display_store d)) = {(display_id p, p)}"
    using assms by (auto simp: settled_def)
  ultimately show ?thesis by (metis distinct_card is_singletonI is_singleton_altdef)
qed

text \<open>The changes of which an event consists.\<close>

lemma settled_changed:
  assumes "settled d" and "heap d p = Some x" and "changed p x' d d'" and "became y st b x'"
    and "y = x \<or> y = unmanaged x" and "status_handler x \<longrightarrow> st = MDM_DISPLAY_PREPARED"
  shows "settled d'"
proof -
  have "lasting x' = lasting y" and st: "disp_status x' = st" using assms(4) by (simp_all add: became_def)
  then have x': "disp_class x' = disp_class x" "disp_id x' = disp_id x" "refs x' = refs x"
    "status_handler x' = status_handler x"
    using assms(5) by (auto simp: lasting_def unmanaged_def split: if_splits)
  have "heap d' q \<noteq> None \<longleftrightarrow> heap d q \<noteq> None" for q
    using assms(2) changed_fields(1) [OF assms(3)] by simp
  then show ?thesis
    using assms(1,2,6) x' st changed_fields [OF assms(3)] unfolding settled_def by auto
qed

lemma settled_touched:
  assumes "settled d" and "touched p d d'"
  shows "settled d'"
proof -
  obtain x x' where x: "heap d p = Some x" and x': "changed p x' d d'" "lasting x' = lasting x"
    "disp_status x' = disp_status x" using assms(2) by (auto simp: touched_def)
  then have "became x (disp_status x) (disp_proxy x' \<noteq> None) x'" by (simp add: became_def)
  then show ?thesis
    by (rule settled_changed [OF assms(1) x x'(1)]) (use assms(1) x in \<open>simp_all add: settled_def\<close>)
qed

lemma settled_trace [simp]: "settled (d\<lparr>dtrace := t\<rparr>) = settled d"
  by (simp add: settled_def)

lemma update_new: "k \<notin> fst ` set s \<Longrightarrow> AList.update k v s = s @ [(k, v)]"
  by (induction s) auto

lemma settled_created:
  assumes "settled d" and "created cls d d'" and "next_object d' < 2 ^ 31 - 1"
  shows "settled d'"
proof -
  let ?p = "next_object d"
  have n: "next_object d' = Suc ?p" and cls: "xdmcp_display cls = None"
    using assms(2) by (simp_all add: created_def)
  then have lt: "Suc ?p < 2 ^ 31 - 1" using assms(3) by simp
  note id = settled_id [OF assms(1)]
  from assms(2) obtain y where y: "heap d' = (heap d)(?p \<mapsto> y)" "disp_class y = cls"
    "disp_status y = MDM_DISPLAY_PREPARED" "status_handler y = (cls = Static_display)" "refs y = 1"
    "disp_id y = display_id ?p" using id(1) lt by (auto simp: created_def)
  have st: "display_store d' = store_insert (display_id ?p) ?p (display_store d)"
    and ser: "display_serial d' = of_nat (Suc (next_object d'))"
    using assms(2) id(1,3) lt n by (simp_all add: created_def)
  have unused: "heap d ?p = None"
    using assms(1) by (cases "heap d ?p") (auto simp: settled_def)
  have "map_of (display_store d) (display_id ?p) = None"
    using id(1,2) lt by (simp add: store_lookup_def)
  then have new: "set (display_store d') = insert (display_id ?p, ?p) (set (display_store d))"
    unfolding st store_insert_def
    by (simp add: map_of_eq_None_iff update_new)
  have "store_valid (display_store d')"
    using assms(1) unfolding st by (simp add: settled_def mdm_store.valid_add)
  moreover have "(i, q) \<in> set (display_store d') \<longleftrightarrow> heap d' q \<noteq> None \<and> i = display_id q" for i q
    using assms(1) unused unfolding new y(1) by (auto simp: settled_def)
  moreover have "q < next_object d' \<and> refs x = 1 \<and> disp_id x = display_id q \<and>
      status_handler x = (disp_class x = Static_display) \<and> xdmcp_display (disp_class x) = None \<and>
      (status_handler x \<longrightarrow> disp_status x = MDM_DISPLAY_PREPARED)" if "heap d' q = Some x" for q x
    using that assms(1) y cls unfolding settled_def n by (auto split: if_split_asm simp: less_Suc_eq)
  ultimately show ?thesis using ser unfolding settled_def by blast
qed

lemma settled_failed_without:
  assumes "settled d"
  shows "settled (failed_without p d)"
  using assms
  by (auto simp: settled_def failed_without_def store_remove_def mdm_display_store_foreach_remove_def
      remove_display_def store_valid_def distinct_map_filter)

lemma settled_replaced:
  assumes "settled d" and "replaced p d d'" and "next_object d' < 2 ^ 31 - 1"
  shows "settled d'"
  using assms(2,3) settled_failed_without [OF assms(1), of p]
  by (auto simp: replaced_def split: if_split_asm intro: settled_created)

subsection \<open>Every event\<close>

text \<open>The four ways an event changes a settled daemon: only calls to the outside, a display that stays,
  a new display, and a failed display that leaves and may be replaced.\<close>

inductive one_event :: "daemon \<Rightarrow> daemon \<Rightarrow> bool" where
  call: "one_event d (d\<lparr>dtrace := t\<rparr>)"
| change: "heap d p = Some x \<Longrightarrow> changed p x' d d' \<Longrightarrow> became y st b x' \<Longrightarrow> y = x \<or> y = unmanaged x \<Longrightarrow>
    status_handler x \<longrightarrow> st = MDM_DISPLAY_PREPARED \<Longrightarrow> one_event d d'"
| create: "created cls (d\<lparr>dtrace := t\<rparr>) d' \<Longrightarrow> one_event d d'"
| replace: "replaced p d d' \<Longrightarrow> one_event d d'"

lemma one_event_same: "one_event d d"
  using one_event.call [of d "dtrace d"] by simp

lemma one_event_touched:
  assumes "settled d" and "touched p d d'"
  shows "one_event d d'"
proof -
  obtain x x' where x: "heap d p = Some x" "changed p x' d d'" "lasting x' = lasting x"
    "disp_status x' = disp_status x" using assms(2) by (auto simp: touched_def)
  then have "became x (disp_status x) (disp_proxy x' \<noteq> None) x'" by (simp add: became_def)
  then show ?thesis
    by (rule one_event.change [OF x(1,2)]) (use assms(1) x(1) in \<open>simp_all add: settled_def\<close>)
qed

lemma one_event_grows: "one_event d d' \<Longrightarrow> next_object d' \<le> next_object d + 1"
  by (induction rule: one_event.induct)
     (auto simp: created_def replaced_def failed_without_def changed_fields split: if_split_asm)

lemma one_event_settled:
  assumes "settled d" and "one_event d d'" and "next_object d + 1 < 2 ^ 31 - 1"
  shows "settled d'"
proof -
  have lt: "next_object d' < 2 ^ 31 - 1" using one_event_grows [OF assms(2)] assms(3) by simp
  from assms(2) show ?thesis
  proof cases
    case (call t)
    then show ?thesis using assms(1) by simp
  next
    case (change p x x' y st b)
    then show ?thesis using settled_changed [OF assms(1)] by blast
  next
    case (create cls t)
    show ?thesis by (rule settled_created [OF _ create lt]) (simp add: assms(1))
  next
    case (replace p)
    then show ?thesis by (rule settled_replaced [OF assms(1) _ lt])
  qed
qed

text \<open>
  What each event does, as a specification: the methods of the factory create a display of their class with
  the next free number, or nothing when another session was activated or the guest's account could not be
  set up; the end of a watched slave queues the finishing; and finishing restarts, replaces or
  keeps the display.
\<close>

definition only_calls :: "daemon \<Rightarrow> daemon \<Rightarrow> bool" where
  "only_calls d d' \<longleftrightarrow> (\<exists>t. d' = d\<lparr>dtrace := t\<rparr>)"

definition slave_ended :: "nat \<Rightarrow> slave_end \<Rightarrow> daemon \<Rightarrow> daemon \<Rightarrow> bool" where
  "slave_ended p status d d' \<longleftrightarrow>
     (case heap d p of
        None \<Rightarrow> d' = d
      | Some x \<Rightarrow>
          (case disp_proxy x of
             None \<Rightarrow> d' = d
           | Some s \<Rightarrow>
               if \<not> slave_watch_id s then d' = d
               else d' = put p (x\<lparr>disp_proxy := Some (s\<lparr>pid := -1, slave_watch_id := False\<rparr>),
                                  finish_idle_id := finish_idle_id x \<or> status \<noteq> Slave_unknown\<rparr>) d))"

definition finished :: "daemon_env \<Rightarrow> nat \<Rightarrow> daemon \<Rightarrow> daemon \<Rightarrow> bool" where
  "finished env p d d' \<longleftrightarrow>
     (case heap d p of
        None \<Rightarrow> d' = d
      | Some x \<Rightarrow>
          if \<not> finish_idle_id x then d' = d
          else if disp_class x \<noteq> Static_display
          then \<exists>st x'. changed p x' d d' \<and> became x st False x' \<and> st \<noteq> MDM_DISPLAY_FINISHED
          else if unmanaged_status env d x = MDM_DISPLAY_FAILED then heap d' p = None \<and> replaced p d d'
          else \<exists>x'. changed p x' d d' \<and> became (unmanaged x) MDM_DISPLAY_PREPARED True x' \<and>
                    has_new_slave env x' (dtrace d'))"

fun event_effect :: "daemon_env \<Rightarrow> daemon_event \<Rightarrow> daemon \<Rightarrow> daemon \<Rightarrow> bool" where
  "event_effect env Factory_start d d' = created Static_display d d'"
| "event_effect env Create_transient d d' = created Transient_display d d'"
| "event_effect env (Create_product parent address) d d' = created (Product_display address) d d'"
| "event_effect env (Switch_to_user user) d d' =
     (if fst (switch_to_user_display env user d) then only_calls d d' else created Transient_display d d')"
| "event_effect env (Start_guest_session session) d d' =
     (case switch_to_user_display env GUEST_USERNAME d of (active, u) \<Rightarrow>
        if active \<or> (\<exists>v. mdm_local_display_factory_setup_guest_account env session u = Some (False, v))
        then only_calls d d' else created Guest_display d d')"
| "event_effect env (Slave_done p status) d d' = slave_ended p status d d'"
| "event_effect env (Finish_idle p) d d' = finished env p d d'"
| "event_effect env (Add_user_authorization p user) d d' = (if heap d p = None then d' = d else touched p d d')"
| "event_effect env (Remove_user_authorization p user) d d' = (if heap d p = None then d' = d else touched p d d')"

lemma created_trace [simp]: "created cls (d\<lparr>dtrace := t\<rparr>) d' = created cls d d'"
  by (simp add: created_def next_display_id_def get_next_display_serial_def Let_def)

lemma finish_idle_finished:
  assumes "settled d" and "next_object d < 2 ^ 31 - 1" and "heap d p = Some x" and "finish_idle_id x"
    and "finish_idle env (status_notify env) p d = Some d'"
  shows "finished env p d d'"
proof -
  have x: "refs x = 1" "status_handler x = (disp_class x = Static_display)" "p < next_object d"
    "status_handler x \<longrightarrow> disp_status x = MDM_DISPLAY_PREPARED" "xdmcp_display (disp_class x) = None"
    using assms(1,3) by (simp_all add: settled_def)
  note f = assms(5) [unfolded status_notify_def]
  consider "disp_class x \<noteq> Static_display"
    | "disp_class x = Static_display" "unmanaged_status env d x \<noteq> MDM_DISPLAY_FAILED"
    | "disp_class x = Static_display" "unmanaged_status env d x = MDM_DISPLAY_FAILED" by blast
  then show ?thesis
  proof cases
    case 1
    with finish_idle_other [OF f assms(3)] x assms(3,4) show ?thesis by (simp add: finished_def)
  next
    case 2
    with finish_idle_static_slow [OF f assms(3)] x assms(3,4) show ?thesis by (simp add: finished_def)
  next
    case 3
    have "store_lookup (store_remove p (display_store d)) (next_display_id d) = None"
      using settled_id(2) [OF assms(1,2)] assms(1) by (simp add: settled_def mdm_store.lookup_remove)
    with finish_idle_static_fast [OF assms(5,3) x(1) 3(1) _ 3(2)] x 3 settled_store [OF assms(1,3)] assms(3,4)
    show ?thesis by (simp add: finished_def)
  qed
qed

lemma create_and_manage_created:
  assumes "settled d" and "next_object d < 2 ^ 31 - 1" and "create_and_manage env cls f (d\<lparr>dtrace := t\<rparr>) = Some (r, d')"
    and "cls \<noteq> Static_display" and "xdmcp_display cls = None"
    and "f = (\<lambda>x. x) \<or> f = (\<lambda>x. x\<lparr>disp_username := Some user\<rparr>)"
  shows "created cls d d'"
proof -
  have "created cls (d\<lparr>dtrace := t\<rparr>) d' \<and> r = Some (next_display_id (d\<lparr>dtrace := t\<rparr>))"
    by (rule create_and_manage_effect [OF assms(3,4) _ assms(5)])
       (use assms(6) settled_id(2) [OF assms(1,2)] in \<open>auto simp: lasting_def next_display_id_def\<close>)
  then show ?thesis by simp
qed

lemma switch_to_user_display_trace:
  "\<exists>t. snd (switch_to_user_display env user d) = d\<lparr>dtrace := t\<rparr>"
proof -
  have "\<exists>t. d = d\<lparr>dtrace := t\<rparr>" by (rule exI [of _ "dtrace d"]) simp
  then show ?thesis
    by (auto simp: switch_to_user_display_def daemon_call_def Let_def split_beta split: option.split list.split)
qed

lemma setup_guest_account_trace:
  "mdm_local_display_factory_setup_guest_account env session d = Some (r, d') \<Longrightarrow> \<exists>t. d' = d\<lparr>dtrace := t\<rparr>"
  by (auto simp: mdm_local_display_factory_setup_guest_account_def daemon_call_def Let_def split_beta
      bind_eq_Some_conv split: if_split_asm option.split_asm)

lemma guest_session_effect:
  assumes "settled d" and "next_object d < 2 ^ 31 - 1"
    and "mdm_local_display_factory_start_guest_session env session d = Some (r, d')"
  shows "event_effect env (Start_guest_session session) d d'"
proof -
  obtain b t where u: "switch_to_user_display env GUEST_USERNAME d = (b, d\<lparr>dtrace := t\<rparr>)"
    using switch_to_user_display_trace [of env GUEST_USERNAME d]
    by (cases "switch_to_user_display env GUEST_USERNAME d") auto
  show ?thesis
  proof (cases b)
    case True
    with assms(3) u show ?thesis
      by (auto simp: mdm_local_display_factory_start_guest_session_def only_calls_def)
  next
    case False
    with assms(3) u obtain ok v where v:
      "mdm_local_display_factory_setup_guest_account env session (d\<lparr>dtrace := t\<rparr>) = Some (ok, v)"
      by (auto simp: mdm_local_display_factory_start_guest_session_def bind_eq_Some_conv)
    then obtain t' where t': "v = d\<lparr>dtrace := t'\<rparr>" by (auto dest!: setup_guest_account_trace)
    show ?thesis
    proof (cases ok)
      case True
      with assms(3) u v t' False have "create_and_manage env Guest_display (\<lambda>x. x) (d\<lparr>dtrace := t'\<rparr>) = Some (r, d')"
        by (simp add: mdm_local_display_factory_start_guest_session_def)
      from create_and_manage_created [OF assms(1,2) this] True u v False show ?thesis by auto
    next
      case False
      with assms(3) u v t' \<open>\<not> b\<close> show ?thesis
        by (auto simp: mdm_local_display_factory_start_guest_session_def only_calls_def)
    qed
  qed
qed

lemma finish_idle_set: "finish_idle_id x \<Longrightarrow> x\<lparr>finish_idle_id := True\<rparr> = x"
  by (cases x) simp

lemma slave_done_ended: "slave_ended p status d (slave_done p status d)"
  by (auto simp: slave_ended_def slave_done_def child_watch_def queue_finish_def
      split: option.split slave_end.split) (rule arg_cong [where f = "\<lambda>x. put p x d"], rule display.equality; simp)+

lemma daemon_step_effect:
  assumes "settled d" and "next_object d < 2 ^ 31 - 1" and "daemon_step env e d = Some d'"
  shows "event_effect env e d d'"
proof (cases e)
  case Factory_start
  then have "create_display env d = Some d'"
    using assms(3) by (simp add: daemon_step_def mdm_local_display_factory_start_def)
  with Factory_start show ?thesis
    using create_display_effect settled_id(2) [OF assms(1,2)] by simp
next
  case Create_transient
  then obtain r where "create_and_manage env Transient_display (\<lambda>x. x) (d\<lparr>dtrace := dtrace d\<rparr>) = Some (r, d')"
    using assms(3) by (auto simp: daemon_step_def mdm_local_display_factory_create_transient_display_def)
  with Create_transient create_and_manage_created [OF assms(1,2) this] show ?thesis by simp
next
  case (Create_product parent address)
  then obtain r where "create_and_manage env (Product_display address) (\<lambda>x. x) (d\<lparr>dtrace := dtrace d\<rparr>) = Some (r, d')"
    using assms(3) by (auto simp: daemon_step_def mdm_local_display_factory_create_product_display_def)
  with Create_product create_and_manage_created [OF assms(1,2) this] show ?thesis by simp
next
  case (Switch_to_user user)
  obtain b t where u: "switch_to_user_display env user d = (b, d\<lparr>dtrace := t\<rparr>)"
    using switch_to_user_display_trace [of env user d] by (cases "switch_to_user_display env user d") auto
  show ?thesis
  proof (cases b)
    case True
    then show ?thesis
      using assms(3) Switch_to_user u
      by (auto simp: daemon_step_def mdm_local_display_factory_switch_to_user_def only_calls_def)
  next
    case False
    then obtain r where "create_and_manage env Transient_display (\<lambda>x. x\<lparr>disp_username := Some user\<rparr>)
        (d\<lparr>dtrace := t\<rparr>) = Some (r, d')"
      using assms(3) Switch_to_user u
      by (auto simp: daemon_step_def mdm_local_display_factory_switch_to_user_def)
    from create_and_manage_created [OF assms(1,2) this, of user] Switch_to_user u False show ?thesis by simp
  qed
next
  case (Start_guest_session session)
  then obtain r where "mdm_local_display_factory_start_guest_session env session d = Some (r, d')"
    using assms(3) by (auto simp: daemon_step_def)
  from guest_session_effect [OF assms(1,2) this] show ?thesis unfolding Start_guest_session .
next
  case (Slave_done p status)
  with assms(3) slave_done_ended show ?thesis by (auto simp: daemon_step_def)
next
  case (Finish_idle p)
  then show ?thesis
    using assms(3) finish_idle_finished [OF assms(1,2)]
    by (auto simp: daemon_step_def finished_def split: option.split_asm if_split_asm)
next
  case (Add_user_authorization p user)
  have "0 < refs x" if "heap d p = Some x" for x using that assms(1) by (simp add: settled_def)
  with Add_user_authorization assms(3) add_user_authorization_touched show ?thesis
    by (fastforce simp: daemon_step_def split: if_split_asm)
next
  case (Remove_user_authorization p user)
  have "0 < refs x" if "heap d p = Some x" for x using that assms(1) by (simp add: settled_def)
  with Remove_user_authorization assms(3) remove_user_authorization_touched show ?thesis
    by (fastforce simp: daemon_step_def split: if_split_asm)
qed

text \<open>Each of the effects is one of the four changes.\<close>

lemma one_event_created: "created cls d d' \<Longrightarrow> one_event d d'"
  using one_event.create [where t = "dtrace d"] by simp

lemma one_event_only_calls: "only_calls d d' \<Longrightarrow> one_event d d'"
  by (auto simp: only_calls_def intro: one_event.call)

lemma finished_one_event:
  assumes "settled d" and "finished env p d d'"
  shows "one_event d d'"
proof (cases "heap d p")
  case None
  with assms(2) show ?thesis by (simp add: finished_def one_event_same)
next
  case (Some x)
  have "status_handler x = (disp_class x = Static_display)" using assms(1) Some by (simp add: settled_def)
  with assms(2) Some show ?thesis
    by (auto simp: finished_def split: if_split_asm intro: one_event_same one_event.replace one_event.change [OF Some])
qed

lemma slave_ended_one_event:
  assumes "settled d" and "slave_ended p status d d'"
  shows "one_event d d'"
proof -
  have "d' = d \<or> touched p d d'"
    using assms(2) by (auto simp: slave_ended_def touched_def lasting_def split: option.split_asm if_split_asm)
  then show ?thesis using one_event_same one_event_touched [OF assms(1)] by blast
qed

lemma daemon_step_one_event:
  assumes "settled d" and "next_object d < 2 ^ 31 - 1" and "daemon_step env e d = Some d'"
  shows "one_event d d'"
  using daemon_step_effect [OF assms] one_event_same
  by (cases e) (auto split: if_split_asm prod.split_asm
      intro: one_event_created one_event_only_calls finished_one_event [OF assms(1)]
        slave_ended_one_event [OF assms(1)] one_event_touched [OF assms(1)])

lemma settled_init: "settled daemon_init"
  by (simp add: settled_def daemon_init_def store_valid_def)

text \<open>Every event creates one display at most, so that the serial numbers last.\<close>

lemma run_settled:
  "run (daemon_step env) es daemon_init = Some d \<Longrightarrow> length es < 2 ^ 31 - 1 \<Longrightarrow>
     settled d \<and> next_object d \<le> length es"
proof (induction es arbitrary: d rule: rev_induct)
  case Nil
  then have "d = daemon_init" by simp
  then show ?case using settled_init by (simp add: daemon_init_def)
next
  case (snoc e es)
  obtain u where u: "run (daemon_step env) es daemon_init = Some u" and d: "daemon_step env e u = Some d"
    using snoc.prems(1) by (auto simp: run_snoc bind_eq_Some_conv)
  have su: "settled u" and nu: "next_object u \<le> length es" using snoc.IH [OF u] snoc.prems(2) by simp_all
  have one: "one_event u d"
    by (rule daemon_step_one_event [OF su _ d]) (use nu snoc.prems(2) in simp)
  have "settled d"
    by (rule one_event_settled [OF su one]) (use nu snoc.prems(2) in simp)
  then show ?case using one_event_grows [OF one] nu by simp
qed

end
