(* ===== verification/Display_Properties.thy ===== *)
theory Display_Properties
  imports Display_Settled
begin

text \<open>
  What the daemon's display management guarantees: the properties of the local display factory, of
  the displays and of their helpers, each over the runs of the daemon or over one operation.
\<close>

subsection \<open>A sample system\<close>

text \<open>
  If \<open>slow\<close>, every call succeeds, and the clock is at five seconds once a slave has been started, so that
  the slave ran for long enough. Otherwise the clock stands still and no directory can be made for
  an authority file, which the local displays do without.
\<close>

fun is_spawn :: "dcall \<Rightarrow> bool" where
  "is_spawn (Sys_spawn c l) = True"
| "is_spawn _ = False"

fun demo_result :: "bool \<Rightarrow> dtrace \<Rightarrow> int" where
  "demo_result slow (Sys_clock # t) = (if slow \<and> list_ex is_spawn t then 5000000 else 0)"
| "demo_result slow (Sys_sigaction # t) = 0"
| "demo_result slow (Sys_script c # t) = 0"
| "demo_result slow (Sys_kill p # t) = 0"
| "demo_result slow t = 100"

definition demo_env :: "bool \<Rightarrow> daemon_env" where
  "demo_env slow =
     \<lparr>d_result = demo_result slow, d_string = (\<lambda>t. if slow then Some ''/var/run/mdm/auth-for-mdm-abc'' else None),
      d_dir = (\<lambda>t n. Some []),
      d_getpwnam = (\<lambda>t n i. (Some \<lparr>pw_name = n, pw_uid = 42, pw_gid = 42, pw_dir = ''/'', pw_shell = ''/bin/sh''\<rparr>, None)),
      d_waitpid = (\<lambda>t i. Inr 100), d_hostname = Some ''host'', d_uninitialised = 0,
      d_boolean = (\<lambda>k. None), d_value = (\<lambda>k. None), d_integer = (\<lambda>k. None), d_sessions = (\<lambda>t. [])\<rparr>"

text \<open>Creating a display on this system, by unfolding: the definitions a single step is made of.\<close>

lemmas creation_defs = new_display_unfold daemon_call_def dcall_def Let_def get_next_display_serial_def
  set_display_def mdm_local_store_display_def mdm_display_store_add_def object_ref_def object_unref_def
  take_next_display_number_def next_display_id_def with_ref_def set_status_def

lemmas managing_defs = mdm_display_manage_def mdm_display_real_manage_def mdm_display_prepare_def
  mdm_display_real_prepare_def mdm_display_create_authority_def mdm_display_real_create_authority_def
  open_access_file_for_user_def mdm_slave_proxy_start_def spawn_slave_def mdm_slave_proxy_set_log_path_def
  mdm_slave_proxy_set_command_def mdm_slave_proxy_init_def status_notify_def notify_status_def
  on_static_display_status_changed_def

lemma demo_results:
  "d_result (demo_env False) (Bus_register i # t) = 100"
  "d_result (demo_env False) (Sys_spawn c l # t) = 100"
  "d_result (demo_env False) (Sys_is_dir n # t) = 100"
  "d_string (demo_env False) t = None" "d_dir (demo_env False) t n = Some []"
  by (simp_all add: demo_env_def)

lemma demo_no_authority:
  "mdm_display_access_file_open (demo_env False) (mdm_display_access_file_new u) t =
     Some (False, mdm_display_access_file_new u,
       Sys_mkdtemp (MDM_XAUTH_DIR @ ''/auth-for-'' @ u @ ''-XXXXXX'') # Sys_chmod MDM_XAUTH_DIR MODE_0711 #
       Sys_is_dir MDM_XAUTH_DIR # t)"
proof -
  have "get_uid_and_gid_for_user (demo_env False) u t = Some (Some (42, 42))" for u t
    by (simp add: get_uid_and_gid_for_user_def demo_env_def mdm_get_pwent_for_name_def pwent_loop.simps)
  then show ?thesis
    by (simp add: mdm_display_access_file_open_def mdm_display_access_file_new_def
        create_xauth_file_for_user_def prepare_xauth_dir_def dcall_def dcall_string_def
        clean_up_stale_auth_subdirs_def demo_results Let_def)
qed

lemma demo_create_display:
  assumes "next_display_number (displays d) = 0"
    and "store_lookup (display_store d) (next_display_id d) = None"
  shows "\<exists>d'. create_display (demo_env False) d = Some d'"
  using assms
  by (simp add: create_display_def create_display_body_def creation_defs managing_defs demo_results
      demo_no_authority)

lemma demo_create_transient:
  assumes "store_lookup (display_store d) (next_display_id d) = None"
  shows "\<exists>r d'. create_and_manage (demo_env False) Transient_display (\<lambda>x. x) d = Some (r, d')"
  using assms
  by (simp add: create_and_manage_def creation_defs managing_defs demo_results demo_no_authority)

definition demo :: daemon where
  "demo = the (create_display (demo_env False) daemon_init)"

lemma demo_one: "run (daemon_step (demo_env False)) [Factory_start] daemon_init = Some demo"
  using demo_create_display [of daemon_init]
  by (auto simp: demo_def daemon_step_def mdm_local_display_factory_start_def daemon_init_def
      next_display_number_def store_lookup_def)

lemma demo_one_created: "created Static_display daemon_init demo"
proof (rule create_display_effect)
  show "create_display (demo_env False) daemon_init = Some demo"
    using demo_one by (simp add: daemon_step_def mdm_local_display_factory_start_def)
qed (simp add: daemon_init_def store_lookup_def)

definition two_displays :: daemon where
  "two_displays = snd (the (create_and_manage (demo_env False) Transient_display (\<lambda>x. x) demo))"

lemma demo_settled: "settled demo" "next_object demo \<le> 1"
  using run_settled [OF demo_one] by simp_all

lemma demo_two_step: "\<exists>r. create_and_manage (demo_env False) Transient_display (\<lambda>x. x) demo = Some (r, two_displays)"
  using demo_create_transient [OF settled_id(2) [OF demo_settled(1)]] demo_settled(2)
  by (auto simp: two_displays_def)

lemma demo_two: "run (daemon_step (demo_env False)) [Factory_start, Create_transient] daemon_init = Some two_displays"
  using demo_one demo_two_step
  by (auto simp: daemon_step_def mdm_local_display_factory_create_transient_display_def bind_eq_Some_conv)

lemma demo_two_created: "created Transient_display demo two_displays"
proof -
  obtain r where "create_and_manage (demo_env False) Transient_display (\<lambda>x. x) demo = Some (r, two_displays)"
    using demo_two_step by blast
  from create_and_manage_effect [OF this] settled_id(2) [OF demo_settled(1)] demo_settled(2)
  show ?thesis by (simp add: lasting_def)
qed

lemma two_displays_heap: "\<exists>x y. heap two_displays 0 = Some x \<and> heap two_displays 1 = Some y \<and>
    displays two_displays = [1, 0]"
  using demo_one_created demo_two_created
  by (auto simp: created_def daemon_init_def next_display_number_def)

subsection \<open>Numbers\<close>

text \<open>
  the number taken for a new display is the smallest one that is not in use, and it is in use
  afterwards.
\<close>

theorem next_number_is_smallest_free:
  assumes "distinct (displays d)" and "length (displays d) < 2 ^ 32"
    and "take_next_display_number d = (num, d')"
  shows "num \<notin> set (displays d) \<and> (\<forall>m < num. m \<in> set (displays d)) \<and>
    displays d' = num # displays d"
  using assms next_display_number_spec [OF assms(1,2)]
  by (auto simp: take_next_display_number_def Let_def List.insert_def)

theorem next_number_is_smallest_free_witness:
  "2 \<notin> set [3, 0, 1 :: 32 word] \<and>
   displays (snd (take_next_display_number (daemon_init\<lparr>displays := [3, 0, 1]\<rparr>))) = 2 # [3, 0, 1]"
proof -
  have "take_next_display_number (daemon_init\<lparr>displays := [3, 0, 1]\<rparr>) =
      (2, snd (take_next_display_number (daemon_init\<lparr>displays := [3, 0, 1]\<rparr>)))"
    by (simp add: take_next_display_number_def next_display_number_def Let_def word_le_nat_alt)
  from next_number_is_smallest_free [OF _ _ this] show ?thesis by simp
qed

subsection \<open>The end of a slave\<close>

text \<open>A daemon with one static display, as starting the factory leaves it.\<close>

definition sample_display :: display where
  "sample_display =
     \<lparr>disp_class = Static_display, disp_id = ''/org/mate/DisplayManager/Display1'',
      seat_id = Some CK_SEAT1_PATH, remote_hostname = None, x11_number = 0, x11_name = Some '':0'',
      disp_status = MDM_DISPLAY_PREPARED, slave_timer = \<lparr>timer_start = 0, timer_end = None\<rparr>,
      slave_command = default_slave_command Static_display, disp_username = None, x11_cookie = None,
      disp_access_file = None, is_local = True, finish_idle_id = True,
      disp_proxy = Some mdm_slave_proxy_init,
      user_access_file = None, enable_timed_login = True, status_handler = True, creation_time = 0, refs = 1\<rparr>"

definition sample_static :: daemon where
  "sample_static = \<lparr>display_serial = 2, next_object = 1, heap = (\<lambda>p. if p = 0 then Some sample_display else None),
     display_store = [(''/org/mate/DisplayManager/Display1'', 0)], displays = [0], num_failures = 0,
     dtrace = [Sys_spawn [] None]\<rparr>"

lemma display_id_0: "display_id 0 = ''/org/mate/DisplayManager/Display1''"
  by (simp add: display_id_def DISPLAY_PATH_def string_of_nat_cases digit_char_def)

lemma sample_static_settled: "settled sample_static" and sample_static_heap: "heap sample_static 0 = Some sample_display"
  by (auto simp: settled_def sample_static_def sample_display_def display_id_0 store_valid_def)

text \<open>
  C8: when the slave of a static display ends after at least three seconds, the display is managed
  again under the same number and id, and without the timed login. A new slave is spawned: the last call
  the daemon makes is for the command of this display with its log, the display's proxy has the command,
  the process it was answered and the watch for its end, and the timer of the display starts again.
  The daemon has no display more or less, and no failure is counted.
\<close>

theorem static_display_restarted:
  assumes "settled d" and "heap d p = Some x" and "disp_class x = Static_display"
    and "3000000 \<le> d_result env (Sys_clock # dtrace d) - timer_start (slave_timer x)"
    and "finish_idle env (status_notify env) p d = Some d'"
  shows "\<exists>x'. heap d' = (heap d)(p \<mapsto> x') \<and> disp_status x' = MDM_DISPLAY_PREPARED \<and>
    x11_number x' = x11_number x \<and> disp_id x' = disp_id x \<and> refs x' = 1 \<and>
    (\<exists>s before. disp_proxy x' = Some s \<and> command s = slave_command_line x' \<and> log_path s = Some (slave_log_path x') \<and>
       dtrace d' = Sys_spawn (command s) (log_path s) # Sys_clock # before \<and>
       slave_timer x' = \<lparr>timer_start = d_result env (Sys_clock # before), timer_end = None\<rparr> \<and>
       (if d_result env (dtrace d') < 0 then pid s = -1 \<and> \<not> slave_watch_id s
        else pid s = d_result env (dtrace d') \<and> slave_watch_id s)) \<and>
    mdm_display_get_timed_login_details env x' = (False, Some [], 0) \<and>
    displays d' = displays d \<and> display_store d' = display_store d \<and> num_failures d' = num_failures d \<and>
    next_object d' = next_object d"
proof -
  have r: "refs x = 1" using assms(1,2) by (simp add: settled_def)
  from finish_idle_static_slow [OF assms(5) [unfolded status_notify_def] assms(2) _ assms(3)] assms(4) r
  obtain x' where x': "changed p x' d d'" "became (unmanaged x) MDM_DISPLAY_PREPARED True x'"
    and slave: "has_new_slave env x' (dtrace d')"
    by (auto simp: unmanaged_status_def)
  from x'(2) have "disp_status x' = MDM_DISPLAY_PREPARED"
    "x11_number x' = x11_number x" "disp_id x' = disp_id x" "refs x' = 1"
    "mdm_display_get_timed_login_details env x' = (False, Some [], 0)"
    using r assms(3)
    by (auto simp: became_def lasting_def unmanaged_def mdm_display_get_timed_login_details_def)
  with changed_fields(1-5) [OF x'(1)] slave [unfolded has_new_slave_def] show ?thesis
    by (intro exI [of _ x'] conjI) simp_all
qed

theorem static_display_restarted_witness:
  "\<exists>d' x'. finish_idle (demo_env True) (status_notify (demo_env True)) 0 sample_static = Some d' \<and>
    heap d' 0 = Some x' \<and> disp_status x' = MDM_DISPLAY_PREPARED \<and> x11_number x' = 0 \<and> displays d' = [0] \<and>
    (\<exists>s. disp_proxy x' = Some s \<and> pid s = 100 \<and> slave_watch_id s)"
proof -
  have "\<not> Option.is_none (finish_idle (demo_env True) (status_notify (demo_env True)) 0 sample_static)"
    by code_simp
  then obtain d' where d': "finish_idle (demo_env True) (status_notify (demo_env True)) 0 sample_static = Some d'"
    by (auto simp: Option.is_none_def)
  from static_display_restarted [OF sample_static_settled sample_static_heap _ _ d'] d' show ?thesis
    by (fastforce simp: sample_static_def sample_display_def demo_env_def)
qed

text \<open>
  C7: when the slave of a static display ends in less than three seconds, the display is gone, from the
  heap and from the store, and the failure is counted. Up to five failures, a new static
  display with the next free number takes its place: not the number of the old one, which stays
  reserved. After the sixth there is no replacement.
\<close>

theorem static_display_failed:
  assumes "settled d" and "next_object d < 2 ^ 31 - 1" and "heap d p = Some x"
    and "disp_class x = Static_display"
    and "d_result env (Sys_clock # dtrace d) - timer_start (slave_timer x) < 3000000"
    and "finish_idle env (status_notify env) p d = Some d'"
  shows "heap d' p = None \<and> store_lookup (display_store d') (disp_id x) = None \<and>
    num_failures d' = num_failures d + 1 \<and>
    (if num_failures d + 1 > 5
     then heap d' = (heap d)(p := None) \<and> displays d' = displays d \<and> next_object d' = next_object d
     else \<exists>y. heap d' = (heap d)(p := None, next_object d \<mapsto> y) \<and> disp_class y = Static_display \<and>
       disp_status y = MDM_DISPLAY_PREPARED \<and> x11_number y = sint (next_display_number (displays d)) \<and>
       displays d' = List.insert (next_display_number (displays d)) (displays d))"
proof -
  have x: "refs x = 1" "status_handler x" "disp_status x = MDM_DISPLAY_PREPARED" "p < next_object d"
    "disp_id x = display_id p" using assms(1,3,4) by (simp_all add: settled_def)
  have un: "unmanaged_status env d x = MDM_DISPLAY_FAILED" using assms(5) by (simp add: unmanaged_status_def)
  have valid: "store_valid (display_store d)" using assms(1) by (simp add: settled_def)
  have "store_lookup (store_remove p (display_store d)) (next_display_id d) = None"
    using settled_id(2) [OF assms(1,2)] valid by (simp add: mdm_store.lookup_remove)
  with finish_idle_static_fast [OF assms(6,3) x(1) assms(4) x(2) un] x settled_store [OF assms(1,3)]
  have gone: "heap d' p = None" and rep: "replaced p d d'" by auto
  have id: "store_lookup (display_store d) (display_id p) = Some p"
    using assms(1,3) by (auto simp: settled_def store_lookup_def store_valid_def)
  have ne: "display_id p \<noteq> next_display_id d" using settled_id(1) [OF assms(1,2)] x(4) by simp
  have valid': "store_valid (store_remove p (display_store d))" using valid by (rule mdm_store.valid_remove)
  have "store_lookup (display_store d') (display_id p) = None \<and> num_failures d' = num_failures d + 1"
    using rep valid valid' id ne
    by (auto simp: replaced_def created_def failed_without_def mdm_store.lookup_remove mdm_store.lookup_add
        next_display_id_def split: if_split_asm)
  with gone rep x(5) show ?thesis
    by (auto simp: replaced_def created_def failed_without_def MAX_DISPLAY_FAILURES_def next_display_id_def
        split: if_split_asm)
qed

theorem static_display_failed_witness:
  "\<exists>d' y. finish_idle (demo_env False) (status_notify (demo_env False)) 0 sample_static = Some d' \<and>
    heap d' = [1 \<mapsto> y] \<and> x11_number y = 1 \<and> num_failures d' = 1 \<and> displays d' = [1, 0]"
proof -
  have "\<not> Option.is_none (finish_idle (demo_env False) (status_notify (demo_env False)) 0 sample_static)"
    by code_simp
  then obtain d' where d': "finish_idle (demo_env False) (status_notify (demo_env False)) 0 sample_static = Some d'"
    by (auto simp: Option.is_none_def)
  have h: "(heap sample_static)(0 := None) = Map.empty" by (auto simp: sample_static_def)
  have n: "next_object sample_static = 1" "displays sample_static = [0]" "num_failures sample_static = 0"
    "next_display_number [0] = 1" by (simp_all add: sample_static_def next_display_number_def)
  from static_display_failed [OF sample_static_settled _ sample_static_heap _ _ d'] d' show ?thesis
    unfolding h n by (auto simp: sample_static_def sample_display_def demo_env_def)
qed

text \<open>
  C35: when the slave of a transient, product or guest display ends, the display loses its slave and
  is never the \<open>FINISHED\<close> one its factory could wait for; but it stays in the heap and in the
  store, and its number stays reserved: the factory never releases such a display.
\<close>

theorem other_displays_never_released:
  assumes "settled d" and "heap d p = Some x" and "disp_class x \<noteq> Static_display"
    and "finish_idle env (status_notify env) p d = Some d'"
  shows "\<exists>x'. heap d' = (heap d)(p \<mapsto> x') \<and> disp_proxy x' = None \<and> refs x' = 1 \<and>
    disp_status x' \<noteq> MDM_DISPLAY_FINISHED \<and> x11_number x' = x11_number x \<and>
    displays d' = displays d \<and> display_store d' = display_store d \<and> next_object d' = next_object d"
proof -
  have r: "refs x = 1" "\<not> status_handler x" "xdmcp_display (disp_class x) = None"
    using assms(1-3) by (simp_all add: settled_def)
  from finish_idle_other [OF assms(4) [unfolded status_notify_def] assms(2) _ r(2) assms(3) r(3)] r(1)
  obtain st x' where x': "changed p x' d d'" "became x st False x'" "st \<noteq> MDM_DISPLAY_FINISHED" by auto
  from x'(2,3) have "disp_proxy x' = None" "refs x' = 1" "disp_status x' \<noteq> MDM_DISPLAY_FINISHED"
    "x11_number x' = x11_number x" using r by (simp_all add: became_def lasting_def)
  with changed_fields [OF x'(1)] show ?thesis by auto
qed

definition sample_transient :: daemon where
  "sample_transient = sample_static\<lparr>heap := (\<lambda>p. if p = 0 then
     Some (sample_display\<lparr>disp_class := Transient_display, status_handler := False\<rparr>) else None)\<rparr>"

theorem other_displays_never_released_witness:
  "\<exists>d' x'. finish_idle (demo_env True) (status_notify (demo_env True)) 0 sample_transient = Some d' \<and>
    heap d' 0 = Some x' \<and> disp_proxy x' = None \<and> displays d' = [0]"
proof -
  have "\<not> Option.is_none (finish_idle (demo_env True) (status_notify (demo_env True)) 0 sample_transient)"
    by code_simp
  then obtain d' where d': "finish_idle (demo_env True) (status_notify (demo_env True)) 0 sample_transient = Some d'"
    by (auto simp: Option.is_none_def)
  have "settled sample_transient"
    by (auto simp: settled_def sample_transient_def sample_static_def sample_display_def display_id_0
        store_valid_def)
  from other_displays_never_released [OF this _ _ d'] d' show ?thesis
    by (auto simp: sample_transient_def sample_static_def)
qed

subsection \<open>Timed login\<close>

definition no_timed_login :: "nat \<Rightarrow> daemon \<Rightarrow> bool" where
  "no_timed_login p d \<longleftrightarrow> p < next_object d \<and>
     (\<forall>x. heap d p = Some x \<longrightarrow> disp_class x = Static_display \<and> \<not> enable_timed_login x)"

lemma one_event_no_timed_login:
  "one_event d d' \<Longrightarrow> no_timed_login p d \<Longrightarrow> no_timed_login p d'"
proof (induction rule: one_event.induct)
  case (change d q x x' d' y st b)
  have "lasting x' = lasting y" using change.hyps(3) by (simp add: became_def)
  then show ?case
    using change.hyps(1,4) change.prems changed_fields(1,5) [OF change.hyps(2)]
    by (auto simp: no_timed_login_def lasting_def unmanaged_def split: if_splits)
next
  case (replace q d d')
  then show ?case
    by (auto simp: no_timed_login_def replaced_def created_def failed_without_def split: if_split_asm)
qed (auto simp: no_timed_login_def created_def)

lemma run_no_timed_login:
  "settled u \<Longrightarrow> next_object u + length es < 2 ^ 31 - 1 \<Longrightarrow> no_timed_login p u \<Longrightarrow>
     run (daemon_step env) es u = Some d \<Longrightarrow> no_timed_login p d"
proof (induction es arbitrary: u)
  case Nil
  then show ?case by simp
next
  case (Cons e es)
  obtain v where v: "daemon_step env e u = Some v" and d: "run (daemon_step env) es v = Some d"
    using Cons.prems(4) by (auto simp: bind_eq_Some_conv)
  have one: "one_event u v" by (rule daemon_step_one_event [OF Cons.prems(1) _ v]) (use Cons.prems(2) in simp)
  show ?case
  proof (rule Cons.IH [OF _ _ one_event_no_timed_login [OF one Cons.prems(3)] d])
    show "settled v" by (rule one_event_settled [OF Cons.prems(1) one]) (use Cons.prems(2) in simp)
    show "next_object v + length es < 2 ^ 31 - 1" using one_event_grows [OF one] Cons.prems(2) by simp
  qed
qed

text \<open>
  once a static display has given up the timed login, it never gets it back: whatever events
  follow, as long as the display exists, its slave is told that there is no timed login. A user who
  logged out is not logged in again.
\<close>

theorem timed_login_only_once:
  assumes "settled u" and "next_object u + length es < 2 ^ 31 - 1"
    and "heap u p = Some x" and "disp_class x = Static_display" and "\<not> enable_timed_login x"
    and "run (daemon_step env) es u = Some d" and "heap d p = Some y"
  shows "mdm_display_get_timed_login_details env' y = (False, Some [], 0)"
proof -
  have "no_timed_login p u" using assms(1,3-5) by (simp add: no_timed_login_def settled_def)
  from run_no_timed_login [OF assms(1,2) this assms(6)] assms(7)
  show ?thesis by (simp add: no_timed_login_def mdm_display_get_timed_login_details_def)
qed

definition sample_later :: daemon where
  "sample_later = sample_static\<lparr>heap := (\<lambda>p. if p = 0 then
     Some (sample_display\<lparr>enable_timed_login := False\<rparr>) else None)\<rparr>"

theorem timed_login_only_once_witness:
  "\<exists>d y. run (daemon_step (demo_env True)) [Slave_done 0 (Slave_exited 0), Finish_idle 0] sample_later = Some d \<and>
     heap d 0 = Some y \<and> mdm_display_get_timed_login_details (demo_env True) y = (False, Some [], 0)"
proof -
  let ?es = "[Slave_done 0 (Slave_exited 0), Finish_idle 0]"
  have "case run (daemon_step (demo_env True)) ?es sample_later of None \<Rightarrow> False
      | Some d \<Rightarrow> \<not> Option.is_none (heap d 0)"
    by code_simp
  then obtain d y where d: "run (daemon_step (demo_env True)) ?es sample_later = Some d" "heap d 0 = Some y"
    by (auto simp: Option.is_none_def split: option.splits)
  have "settled sample_later"
    by (auto simp: settled_def sample_later_def sample_static_def sample_display_def display_id_0
        store_valid_def)
  from timed_login_only_once [OF this _ _ _ _ d, where env' = "demo_env True"] d show ?thesis
    by (auto simp: sample_later_def sample_static_def sample_display_def)
qed

text \<open>
  what a display tells its slave about automatic login is consistent: when it is enabled there is a
  user's name, the automatic login comes without delay, and the timed login with a positive one,
  which is ten seconds unless the configuration has a positive number.
\<close>

theorem timed_login_details_consistent:
  assumes "real_timed_login_details env = (True, user, delay)"
  shows "\<exists>name. user = Some name \<and> name \<noteq> [] \<and>
    (if d_boolean env ''daemon/AutomaticLoginEnable'' = Some True \<and> \<not> null_or_empty (d_value env ''daemon/AutomaticLogin'')
     then delay = 0 \<and> user = d_value env ''daemon/AutomaticLogin''
     else d_boolean env ''daemon/TimedLoginEnable'' = Some True \<and> user = d_value env ''daemon/TimedLogin'' \<and>
       delay = (case d_integer env ''daemon/TimedLoginDelay'' of
                  Some i \<Rightarrow> if 0 < i then i else 10 | None \<Rightarrow> 10))"
proof -
  have ne: "null_or_empty s \<longleftrightarrow> s = None \<or> s = Some []" for s by (cases s rule: null_or_empty.cases) auto
  show ?thesis
    using assms by (auto simp: real_timed_login_details_def Let_def ne split: if_split_asm option.splits bool.splits)
      metis+
qed

theorem timed_login_details_consistent_witness:
  "real_timed_login_details ((demo_env True)\<lparr>d_boolean := (\<lambda>k. Some (k = ''daemon/TimedLoginEnable'')),
     d_value := (\<lambda>k. Some ''ann'')\<rparr>) = (True, Some ''ann'', 10) \<and>
   (\<exists>name. Some ''ann'' = Some name \<and> name \<noteq> [])"
proof -
  let ?env = "(demo_env True)\<lparr>d_boolean := (\<lambda>k. Some (k = ''daemon/TimedLoginEnable'')),
     d_value := (\<lambda>k. Some ''ann'')\<rparr>"
  have "real_timed_login_details ?env = (True, Some ''ann'', 10)"
    by (simp add: real_timed_login_details_def demo_env_def)
  with timed_login_details_consistent [OF this] show ?thesis by simp
qed

subsection \<open>Serial numbers\<close>

text \<open>
  the serial numbers of the displays, which make their ids, count from 1 up to the largest positive
  32-bit integer and then from 1 again: a serial number is never zero nor negative.
\<close>

theorem serial_numbers_cycle:
  "unat (display_serial (((\<lambda>d. snd (get_next_display_serial d)) ^^ n) daemon_init)) = n mod (2 ^ 31 - 1) + 1"
proof (induction n)
  case 0
  then show ?case by (simp add: daemon_init_def)
next
  case (Suc n)
  let ?d = "((\<lambda>d. snd (get_next_display_serial d)) ^^ n) daemon_init"
  have u: "unat (display_serial ?d) = n mod (2 ^ 31 - 1) + 1" by (rule Suc.IH)
  then have "unat (display_serial (snd (get_next_display_serial ?d))) =
      (if n mod (2 ^ 31 - 1) + 1 = 2 ^ 31 - 1 then 1 else Suc (n mod (2 ^ 31 - 1) + 1))"
    using next_serial [of ?d] mod_less_divisor [of "2 ^ 31 - 1" n] by simp
  then show ?case using mod_Suc [of n "2 ^ 31 - 1"] by auto
qed

subsection \<open>Helpers\<close>

text \<open>
  when a slave is started, its logs move up: each of the first three old logs gets the next
  number, the fifth is dropped, the current one becomes number 1, the new one is empty, and no other
  file is touched.
\<close>

theorem slave_logs_rotate:
  fixes fs :: "'c files"
  assumes "fs' = spawn_child_setup no_contents (Some path) fs"
  shows "fs' path = Some no_contents \<and>
    (\<forall>k. 0 < k \<longrightarrow> k < 5 \<longrightarrow> fs' (log_name path k) = fs (log_name path (k - 1))) \<and>
    (\<forall>k. 5 \<le> k \<longrightarrow> fs' (log_name path k) = fs (log_name path k)) \<and>
    (\<forall>name. (\<forall>k. name \<noteq> log_name path k) \<longrightarrow> fs' name = fs name)"
proof -
  have p: "path = log_name path 0" by (simp add: log_name_def)
  have fs': "fs' name = (if name = path then Some no_contents else rotate_logs_loop path 4 fs name)" for name
    by (simp add: assms spawn_child_setup_def rotate_logs_def MAX_LOGS_def fs_unlink_def)
  have k: "fs' (log_name path k) = (if k = 0 then Some no_contents
      else if k \<le> 4 then fs (log_name path (k - 1)) else fs (log_name path k))" for k
    unfolding fs' rotate_logs_loop_shifts by (subst p) simp
  have other: "fs' name = fs name" if "\<forall>k. name \<noteq> log_name path k" for name
    using that rotate_logs_loop_other [OF that] p by (metis fs')
  show ?thesis using k [of 0] k other p by auto
qed

theorem slave_logs_rotate_witness:
  "spawn_child_setup '''' (Some ''a'') [''a'' \<mapsto> ''new'', ''a.1'' \<mapsto> ''old''] ''a'' = Some '''' \<and>
   spawn_child_setup '''' (Some ''a'') [''a'' \<mapsto> ''new'', ''a.1'' \<mapsto> ''old''] ''a.1'' = Some ''new'' \<and>
   spawn_child_setup '''' (Some ''a'') [''a'' \<mapsto> ''new'', ''a.1'' \<mapsto> ''old''] ''a.2'' = Some ''old''"
proof -
  have n: "log_name ''a'' 0 = ''a''" "log_name ''a'' 1 = ''a.1''" "log_name ''a'' 2 = ''a.2''"
    by (simp_all add: log_name_def string_of_nat_cases digit_char_def)
  have k: "fs' = spawn_child_setup [] (Some ''a'') [''a'' \<mapsto> ''new'', ''a.1'' \<mapsto> ''old''] \<Longrightarrow>
      fs' ''a'' = Some [] \<and> fs' (log_name ''a'' 1) = [''a'' \<mapsto> ''new'', ''a.1'' \<mapsto> ''old''] (log_name ''a'' 0) \<and>
      fs' (log_name ''a'' 2) = [''a'' \<mapsto> ''new'', ''a.1'' \<mapsto> ''old''] (log_name ''a'' 1)" for fs'
    by (drule slave_logs_rotate) auto
  from k [OF refl] show ?thesis unfolding n by simp
qed

text \<open>
  the guest session's setup is accepted exactly when the script printed at least two lines, the last
  of which is the guest's name, with or without a newline at the end. A script that prints just
  the name is rejected, and one that prints nothing makes the daemon read in front of the output.
\<close>

theorem guest_output_accepted_iff:
  "guest_output_ok s = Some True \<longleftrightarrow>
     (\<exists>before. s = before @ CHR 0x0A # GUEST_USERNAME \<or> s = before @ CHR 0x0A # GUEST_USERNAME @ [CHR 0x0A])"
proof -
  have no_lf: "CHR 0x0A \<notin> set GUEST_USERNAME" and ne: "GUEST_USERNAME \<noteq> []" "last GUEST_USERNAME \<noteq> CHR 0x0A"
    by (simp_all add: GUEST_USERNAME_def)
  have tw: "takeWhile (\<lambda>c. c \<noteq> CHR 0x0A) (rev g @ CHR 0x0A # xs) = rev g"
    if "CHR 0x0A \<notin> set g" for g xs :: string
    using that by (subst takeWhile_append2) auto
  have last_line: "CHR 0x0A \<in> set t \<and> rev (takeWhile (\<lambda>c. c \<noteq> CHR 0x0A) (rev t)) = g \<longleftrightarrow>
      (\<exists>before. t = before @ CHR 0x0A # g)" if g: "CHR 0x0A \<notin> set g" for t g :: string
  proof
    assume t: "CHR 0x0A \<in> set t \<and> rev (takeWhile (\<lambda>c. c \<noteq> CHR 0x0A) (rev t)) = g"
    then obtain before after where "t = before @ CHR 0x0A # after" "CHR 0x0A \<notin> set after"
      by (metis split_list_last)
    with t tw [of after "rev before"] show "\<exists>before. t = before @ CHR 0x0A # g" by auto
  next
    assume "\<exists>before. t = before @ CHR 0x0A # g"
    then obtain before where t: "t = before @ CHR 0x0A # g" by blast
    with tw [OF g, of "rev before"] show "CHR 0x0A \<in> set t \<and> rev (takeWhile (\<lambda>c. c \<noteq> CHR 0x0A) (rev t)) = g" by simp
  qed
  show ?thesis
  proof (cases "s \<noteq> [] \<and> last s = CHR 0x0A")
    case False
    then have "s \<noteq> before @ CHR 0x0A # GUEST_USERNAME @ [CHR 0x0A]" for before by auto
    then show ?thesis
      using False last_line [OF no_lf, of s] by (auto simp: guest_output_ok_def Let_def)
  next
    case True
    then obtain t where s: "s = t @ [CHR 0x0A]" by (metis append_butlast_last_id)
    have "s \<noteq> before @ CHR 0x0A # GUEST_USERNAME" for before
      using True ne by (metis last_ConsR last_appendR list.distinct(1))
    moreover have "s = before @ CHR 0x0A # GUEST_USERNAME @ [CHR 0x0A] \<longleftrightarrow> t = before @ CHR 0x0A # GUEST_USERNAME"
      for before unfolding s by (metis append.assoc append_Cons append_same_eq)
    ultimately show ?thesis
      using last_line [OF no_lf, of t] by (auto simp: guest_output_ok_def Let_def s)
  qed
qed

text \<open>
  C37: the authority file of a user is created exclusively, inside a fresh directory that was given to the
  user first; only after the file belongs to the user does the directory become searchable for others.
\<close>

theorem authority_file_is_private_until_owned:
  assumes "create_xauth_file_for_user env user t = Some (Some path, t')"
  shows "\<exists>dir_name uid gid t''. path = g_build_filename [dir_name, ''database''] \<and>
    t' = [Sys_fdopen path, Sys_chmod dir_name MODE_0711, Sys_fchown path uid gid, Sys_open_excl path,
          Sys_chown dir_name uid gid, Sys_mkdtemp (MDM_XAUTH_DIR @ ''/auth-for-'' @ user @ ''-XXXXXX'')] @ t'' \<and>
    (\<exists>u. get_uid_and_gid_for_user env user u = Some (Some (uid, gid)))"
proof -
  let ?M = "Sys_mkdtemp (MDM_XAUTH_DIR @ ''/auth-for-'' @ user @ ''-XXXXXX'')"
  from assms obtain prepared u where u: "prepare_xauth_dir env t = Some (prepared, u)"
    by (auto simp: create_xauth_file_for_user_def bind_eq_Some_conv)
  with assms have prepared by (auto simp: create_xauth_file_for_user_def split: if_split_asm)
  with assms u obtain ids where ids: "get_uid_and_gid_for_user env user u = Some ids"
    by (auto simp: create_xauth_file_for_user_def bind_eq_Some_conv)
  with assms u \<open>prepared\<close> obtain uid gid where own: "ids = Some (uid, gid)"
    by (auto simp: create_xauth_file_for_user_def split: option.split_asm)
  obtain dir_name where dir: "d_string env (?M # u) = Some dir_name"
    using assms u \<open>prepared\<close> ids own
    by (auto simp: create_xauth_file_for_user_def dcall_string_def Let_def split: option.split_asm)
  have "path = g_build_filename [dir_name, ''database'']" and "t' = [Sys_fdopen path, Sys_chmod dir_name MODE_0711,
      Sys_fchown path uid gid, Sys_open_excl path, Sys_chown dir_name uid gid, ?M] @ u"
    using assms u \<open>prepared\<close> ids own dir
    by (auto simp: create_xauth_file_for_user_def dcall_string_def dcall_def Let_def split: if_split_asm)
  with ids own show ?thesis by blast
qed

theorem authority_file_is_private_until_owned_witness:
  "\<exists>t. create_xauth_file_for_user (demo_env True) ''ann'' [] =
     Some (Some ''/var/run/mdm/auth-for-mdm-abc/database'', t) \<and>
   (\<exists>dir_name. ''/var/run/mdm/auth-for-mdm-abc/database'' = g_build_filename [dir_name, ''database''])"
proof -
  have "map_option fst (create_xauth_file_for_user (demo_env True) ''ann'' []) =
      Some (Some ''/var/run/mdm/auth-for-mdm-abc/database'')"
    by code_simp
  then obtain t where t: "create_xauth_file_for_user (demo_env True) ''ann'' [] =
      Some (Some ''/var/run/mdm/auth-for-mdm-abc/database'', t)" by auto
  from authority_file_is_private_until_owned [OF t] t show ?thesis by blast
qed

end
