(* ===== verification/Xdmcp_World.thy ===== *)
theory Xdmcp_World
  imports Local_Factory
begin

text \<open>
  The state of the XDMCP factory, \<open>daemon/mdm-xdmcp-display-factory.c\<close>, its outside world, and the local
  addresses of \<open>common/mdm-address.c\<close>.

  The world extends the daemon's: it has the same trace of calls, and the answers that are not a
  number or a string are fields of \<open>xdmcp_env\<close>. The readers of libXdmcp are parameters: a reader takes the
  bytes that are left in the buffer and gives the value and what is left behind it.
\<close>

subsection \<open>The outside world\<close>

record xdmcp_lib =
  XdmcpReadHeader :: "string \<Rightarrow> (xdmcp_header \<times> string) option"
  XdmcpReadCARD16 :: "string \<Rightarrow> (16 word \<times> string) option"
  XdmcpReadCARD32 :: "string \<Rightarrow> (32 word \<times> string) option"
  XdmcpReadARRAY8 :: "string \<Rightarrow> (string \<times> string) option"
  XdmcpReadARRAY16 :: "string \<Rightarrow> (16 word list \<times> string) option"
  XdmcpReadARRAYofARRAY8 :: "string \<Rightarrow> (string list \<times> string) option"

text \<open>A network interface as the system calls describe it; the flags and the address are \<^term>\<open>None\<close> when the
  call that asks for them fails.\<close>

record network_interface =
  ifr_name :: string
  ifr_is_inet :: bool
  ifr_up :: "bool option"
  ifr_loopback :: bool
  ifr_addr :: "address option"
  ifr_missing :: bool

text \<open>
  The fields of \<open>xdmcp_env\<close>: the daemon's world and the library; the numeric host and port of an
  address; the interfaces and the results of \<open>getaddrinfo\<close>, \<^term>\<open>None\<close> when the call fails; the text of
  the bytes of an address; the words of a command line; the order in which a hash table is
  traversed; whether the pointer in an uninitialised structure is NULL.
\<close>

record xdmcp_env =
  x_daemon :: daemon_env
  x_lib :: xdmcp_lib
  x_numeric :: "address \<Rightarrow> (string \<times> string) option"
  x_interfaces :: "dtrace \<Rightarrow> network_interface list option"
  x_addrinfo :: "dtrace \<Rightarrow> address list option"
  x_inet_ntop :: "string \<Rightarrow> string option"
  x_shell_parse :: "string \<Rightarrow> string list option"
  x_hash_order :: "store \<Rightarrow> store"
  x_stack_null :: bool

definition numeric_host :: "xdmcp_env \<Rightarrow> address \<Rightarrow> string" where
  "numeric_host env a = fst (snd (mdm_address_get_numeric_info (x_numeric env) a))"

subsection \<open>The local addresses\<close>

record address_cache =
  cached_list :: "address list"
  cached_time :: int

definition address_cache_init :: address_cache where
  "address_cache_init = \<lparr>cached_list = [], cached_time = 0\<rparr>"

definition add_local_siocgifconf :: "xdmcp_env \<Rightarrow> address list \<Rightarrow> dtrace \<Rightarrow> address list \<times> dtrace" where
  "add_local_siocgifconf env l t =
     (let t = Sys_interfaces # t
      in (case x_interfaces env t of
            None \<Rightarrow> (l, t)
          | Some ifrs \<Rightarrow>
              (l @ List.map_filter (\<lambda>i. if ifr_is_inet i \<and> ifr_up i = Some True then ifr_addr i else None) ifrs,
               t)))"

definition add_local_addrinfo :: "xdmcp_env \<Rightarrow> address list \<Rightarrow> dtrace \<Rightarrow> address list \<times> dtrace" where
  "add_local_addrinfo env l t =
     (case dcall_string (x_daemon env) Sys_gethostname t of (name, t) \<Rightarrow>
        let hostbuf = (case name of None \<Rightarrow> ''localhost'' | Some n \<Rightarrow> n);
            t = Sys_getaddrinfo (Some hostbuf) None 0 # t
        in (case x_addrinfo env t of None \<Rightarrow> (l, t) | Some ai \<Rightarrow> (l @ ai, t)))"

definition mdm_address_peek_local_list ::
  "xdmcp_env \<Rightarrow> address_cache \<Rightarrow> dtrace \<Rightarrow> address list \<times> address_cache \<times> dtrace" where
  "mdm_address_peek_local_list env c t =
     (case dcall (x_daemon env) Sys_time t of (now, t) \<Rightarrow>
        if cached_time c + 5 > now then (cached_list c, c, t)
        else case dcall (x_daemon env) Sys_time t of (now, t) \<Rightarrow>
          case add_local_siocgifconf env [] t of (l, t) \<Rightarrow>
          case add_local_addrinfo env l t of (l, t) \<Rightarrow>
            (l, \<lparr>cached_list = l, cached_time = now\<rparr>, t))"

definition mdm_address_is_local ::
  "xdmcp_env \<Rightarrow> address \<Rightarrow> address_cache \<Rightarrow> dtrace \<Rightarrow> bool \<times> address_cache \<times> dtrace" where
  "mdm_address_is_local env a c t =
     (if mdm_address_is_loopback a then (True, c, t)
      else case mdm_address_peek_local_list env c t of (l, c, t) \<Rightarrow>
        (list_ex (mdm_address_equal a) l, c, t))"

subsection \<open>The state of the factory\<close>

text \<open>
  The elements of the three lists are structures of their own that the code identifies by their
  pointers: the first field. \<open>next_node\<close> is a fresh pointer. The numeric id of an indirect client is
  never set.
\<close>

record forward_query =
  fq_node :: nat
  fq_acctime :: int
  fq_dsp_address :: address
  fq_from_address :: address

record indirect_client =
  ic_node :: nat
  ic_dsp_address :: address
  ic_chosen_address :: "address option"
  ic_acctime :: int

record managed_forward =
  mf_node :: nat
  mf_times :: int
  mf_manager :: address
  mf_origin :: address

record xdmcp_config =
  xdmcp_port :: "32 word"
  use_multicast :: bool
  multicast_address :: "string option"
  honor_indirect :: bool
  willing_script :: "string option"
  max_displays_per_host :: "32 word"
  max_displays :: "32 word"
  max_pending_displays :: "32 word"
  max_wait :: "32 word"
  max_wait_indirect :: "32 word"

text \<open>
  The private structure, the static variables of \<open>mdm_xdmcp_send_willing\<close> and \<open>mdm_xdmcp_send_unwilling\<close>,
  the cache of local addresses, the packets that went out, newest first, and the daemon with the
  displays and their store.
\<close>

record xdmcp_factory =
  forward_queries :: "forward_query list"
  managed_forwards :: "managed_forward list"
  indirect_clients :: "indirect_client list"
  socket_fd :: int
  session_serial :: "32 word"
  socket_watch_id :: bool
  num_sessions :: "32 word"
  num_pending_sessions :: "32 word"
  sysid :: string
  servhost :: string
  config :: xdmcp_config
  last_status :: "string option"
  last_willing :: int
  last_unwilling :: int
  local_addresses :: address_cache
  next_node :: nat
  sent :: "(xdmcp_packet \<times> address) list"
  base :: daemon

type_synonym 'a xop = "xdmcp_factory \<Rightarrow> ('a \<times> xdmcp_factory) option"

text \<open>A call to the outside, the time, and the test for a local address, in this state.\<close>

definition fcall :: "xdmcp_env \<Rightarrow> dcall \<Rightarrow> xdmcp_factory \<Rightarrow> int \<times> xdmcp_factory" where
  "fcall env c f = (case daemon_call (x_daemon env) c (base f) of (r, d) \<Rightarrow> (r, f\<lparr>base := d\<rparr>))"

definition ftrace :: "xdmcp_factory \<Rightarrow> dtrace" where
  "ftrace f = dtrace (base f)"

definition is_local_address :: "xdmcp_env \<Rightarrow> address \<Rightarrow> xdmcp_factory \<Rightarrow> bool \<times> xdmcp_factory" where
  "is_local_address env a f =
     (case mdm_address_is_local env a (local_addresses f) (ftrace f) of (b, c, t) \<Rightarrow>
        (b, f\<lparr>local_addresses := c, base := (base f)\<lparr>dtrace := t\<rparr>\<rparr>))"

definition peek_local_list :: "xdmcp_env \<Rightarrow> xdmcp_factory \<Rightarrow> address list \<times> xdmcp_factory" where
  "peek_local_list env f =
     (case mdm_address_peek_local_list env (local_addresses f) (ftrace f) of (l, c, t) \<Rightarrow>
        (l, f\<lparr>local_addresses := c, base := (base f)\<lparr>dtrace := t\<rparr>\<rparr>))"

text \<open>Without TCP wrappers every host is allowed; the configuration in the tree has them.\<close>

definition mdm_xdmcp_host_allow :: "xdmcp_env \<Rightarrow> address \<Rightarrow> xdmcp_factory \<Rightarrow> bool \<times> xdmcp_factory" where
  "mdm_xdmcp_host_allow env a f =
     (let f = snd (fcall env (Sys_getnameinfo a) f);
          client = snd (mdm_address_get_hostname (\<lambda>_. d_string (x_daemon env) (ftrace f)) a);
          (ret, f) = fcall env (Sys_hosts_ctl client (numeric_host env a)) f
      in (ret \<noteq> 0, f))"

text \<open>Writing a packet into the buffer and flushing it. Nothing depends on its success.\<close>

definition XDM_PROTOCOL_VERSION :: "16 word" where
  "XDM_PROTOCOL_VERSION = 1"

definition MDM_XDMCP_PROTOCOL_VERSION :: "16 word" where
  "MDM_XDMCP_PROTOCOL_VERSION = 1001"

definition send_packet ::
  "16 word \<Rightarrow> 16 word \<Rightarrow> 16 word \<Rightarrow> xdmcp_field list \<Rightarrow> address \<Rightarrow> xdmcp_factory \<Rightarrow> xdmcp_factory" where
  "send_packet version opcode len body a f =
     f\<lparr>sent := (\<lparr>pkt_header = \<lparr>hdr_version = version, hdr_opcode = opcode, hdr_length = len\<rparr>,
                 pkt_fields = body\<rparr>, a) # sent f\<rparr>"

definition length16 :: "string \<Rightarrow> 16 word" where
  "length16 s = of_nat (length s)"

end
