(* ===== verification/Xdmcp_Queries.thy ===== *)
theory Xdmcp_Queries
  imports Xdmcp_World
begin

text \<open>
  The first half of \<open>daemon/mdm-xdmcp-display-factory.c\<close>: sessions' serial numbers, the displays of a host,
  the answers to queries, and the tables of indirect clients, forwarded queries and managed forwards.
\<close>

subsection \<open>Session numbers\<close>

definition G_MAXINT32 :: "32 word" where
  "G_MAXINT32 = 0x7FFFFFFF"

text \<open>It starts over for as long as the number is 0.\<close>

partial_function (option) get_next_session_serial ::
  "xdmcp_env \<Rightarrow> xdmcp_factory \<Rightarrow> (32 word \<times> xdmcp_factory) option" where
  "get_next_session_serial env f =
     (let (serial, f) =
            (if session_serial f \<noteq> G_MAXINT32 then (session_serial f, f\<lparr>session_serial := session_serial f + 1\<rparr>)
             else case fcall env Sys_random_int f of (r, f) \<Rightarrow> (word_of_int r, f))
      in if serial = 0 then get_next_session_serial env f else Some (serial, f))"

declare get_next_session_serial.simps [code]

subsection \<open>The displays of a host\<close>

text \<open>
  \<open>mdm_display_store_foreach\<close> is \<open>g_hash_table_find\<close>: the traversal stops at the first call that
  answers \<open>TRUE\<close>. The state \<open>a\<close> is what the callback's user data points to.
\<close>

fun foreach_until :: "(string \<Rightarrow> nat \<Rightarrow> 'a \<Rightarrow> (bool \<times> 'a) option) \<Rightarrow> store \<Rightarrow> 'a \<Rightarrow> 'a option" where
  "foreach_until func [] a = Some a"
| "foreach_until func ((i, p) # s) a =
     do { (stop, a) \<leftarrow> func i p a; if stop then Some a else foreach_until func s a }"

definition mdm_display_store_foreach ::
  "xdmcp_env \<Rightarrow> (string \<Rightarrow> nat \<Rightarrow> 'a \<Rightarrow> (bool \<times> 'a) option) \<Rightarrow> daemon \<Rightarrow> 'a \<Rightarrow> 'a option" where
  "mdm_display_store_foreach env func d a = foreach_until func (x_hash_order env (display_store d)) a"

definition count_displays_from_host ::
  "daemon \<Rightarrow> address \<Rightarrow> string \<Rightarrow> nat \<Rightarrow> int \<Rightarrow> (bool \<times> int) option" where
  "count_displays_from_host d address i p count =
     do {
       x \<leftarrow> heap d p;
       Some (True, case xdmcp_display (disp_class x) of
                     None \<Rightarrow> count
                   | Some priv \<Rightarrow> if mdm_address_equal (remote_address priv) address then count + 1 else count)
     }"

definition mdm_xdmcp_num_displays_from_host :: "xdmcp_env \<Rightarrow> xdmcp_factory \<Rightarrow> address \<Rightarrow> int option" where
  "mdm_xdmcp_num_displays_from_host env f address =
     mdm_display_store_foreach env (count_displays_from_host (base f) address) (base f) 0"

text \<open>The search in the store, in the order of the hash table.\<close>

fun find_display :: "(nat \<Rightarrow> bool option) \<Rightarrow> store \<Rightarrow> nat option option" where
  "find_display predicate [] = Some None"
| "find_display predicate ((i, p) # s) =
     do { found \<leftarrow> predicate p; if found then Some (Some p) else find_display predicate s }"

definition store_find :: "xdmcp_env \<Rightarrow> (display \<Rightarrow> bool) \<Rightarrow> daemon \<Rightarrow> nat option option" where
  "store_find env predicate d =
     find_display (\<lambda>p. map_option predicate (heap d p)) (x_hash_order env (display_store d))"

definition lookup_by_host :: "address \<Rightarrow> int \<Rightarrow> display \<Rightarrow> bool" where
  "lookup_by_host address display_num x \<longleftrightarrow>
     (case xdmcp_display (disp_class x) of
        None \<Rightarrow> False
      | Some priv \<Rightarrow> mdm_address_equal (remote_address priv) address \<and> x11_number x = display_num)"

definition mdm_xdmcp_display_lookup_by_host ::
  "xdmcp_env \<Rightarrow> xdmcp_factory \<Rightarrow> address \<Rightarrow> int \<Rightarrow> nat option option" where
  "mdm_xdmcp_display_lookup_by_host env f address display_num =
     store_find env (lookup_by_host address display_num) (base f)"

subsection \<open>Willing and unwilling\<close>

text \<open>\<open>fgets\<close> into a buffer of \<open>n\<close> bytes from a stream that begins with \<open>s\<close>.\<close>

definition fgets :: "nat \<Rightarrow> string \<Rightarrow> string option" where
  "fgets n s =
     (if s = [] then None
      else let l = takeWhile (\<lambda>c. c \<noteq> CHR 0x0A) s;
               l = (if length l < length s then l @ [CHR 0x0A] else l)
           in Some (take (n - 1) l))"

definition get_willing_output :: "xdmcp_env \<Rightarrow> xdmcp_factory \<Rightarrow> string option \<times> xdmcp_factory" where
  "get_willing_output env f =
     (case willing_script (config f) of
        None \<Rightarrow> (None, f)
      | Some script \<Rightarrow>
          (case x_shell_parse env script of
             None \<Rightarrow> (None, f)
           | Some [] \<Rightarrow> (None, f)
           | Some (program # _) \<Rightarrow>
               (case fcall env (Sys_access program) f of (r, f) \<Rightarrow>
                  if r \<noteq> 0 then (None, f)
                  else
                    let f = snd (fcall env (Sys_popen script) f)
                    in (case d_string (x_daemon env) (ftrace f) of
                          None \<Rightarrow> (None, f)
                        | Some s \<Rightarrow> (map_option c_string (fgets 256 s), f)))))"

text \<open>The authentication names the manager offers: none.\<close>

definition serv_authlist :: string where
  "serv_authlist = []"

definition WILLING :: "16 word" where "WILLING = 5"
definition UNWILLING :: "16 word" where "UNWILLING = 6"

text \<open>The time the script was last run, \<open>last_willing\<close>, is read only.\<close>

definition refresh_status :: "xdmcp_env \<Rightarrow> xdmcp_factory \<Rightarrow> xdmcp_factory" where
  "refresh_status env f =
     (let (now, f) = (if last_willing f = 0 then (0, f) else fcall env Sys_time f)
      in if last_willing f = 0 \<or> now - 3 > last_willing f then
           (case get_willing_output env f of (s, f) \<Rightarrow>
              f\<lparr>last_status := Some (case s of Some s \<Rightarrow> s | None \<Rightarrow> sysid f)\<rparr>)
         else f)"

text \<open>The test whether the host has as many displays as it may have.\<close>

definition host_is_full :: "xdmcp_env \<Rightarrow> (32 word \<Rightarrow> 32 word \<Rightarrow> bool) \<Rightarrow> address \<Rightarrow> bool xop" where
  "host_is_full env reached a f =
     (case is_local_address env a f of (local, f) \<Rightarrow>
        if local then Some (False, f)
        else do {
          n \<leftarrow> mdm_xdmcp_num_displays_from_host env f a;
          Some (reached (word_of_int n) (max_displays_per_host (config f)), f)
        })"

definition mdm_xdmcp_send_willing :: "xdmcp_env \<Rightarrow> address \<Rightarrow> xdmcp_factory \<Rightarrow> xdmcp_factory option" where
  "mdm_xdmcp_send_willing env a f =
     do {
       let f = refresh_status env f;
       (busy, f) \<leftarrow> host_is_full env (\<ge>) a f;
       last \<leftarrow> last_status f;
       let status = (if busy then last @ '' (Server is busy)'' else last);
       let len = 6 + length16 serv_authlist;
       let len = len + (length16 (servhost f) + length16 status);
       Some (send_packet XDM_PROTOCOL_VERSION WILLING len
               [ARRAY8 serv_authlist, ARRAY8 (servhost f), ARRAY8 status] a f)
     }"

text \<open>At most one such packet is sent in a second.\<close>

definition mdm_xdmcp_send_unwilling :: "xdmcp_env \<Rightarrow> address \<Rightarrow> xdmcp_factory \<Rightarrow> xdmcp_factory" where
  "mdm_xdmcp_send_unwilling env a f =
     (case fcall env Sys_time f of (now, f) \<Rightarrow>
        if last_unwilling f + 1 \<ge> now then f
        else
          let status = ''Display not authorized to connect'';
              len = 4 + length16 (servhost f) + length16 status;
              f = send_packet XDM_PROTOCOL_VERSION UNWILLING len [ARRAY8 (servhost f), ARRAY8 status] a f;
              (now, f) = fcall env Sys_time f
          in f\<lparr>last_unwilling := now\<rparr>)"

subsection \<open>Forwarding a query\<close>

text \<open>The bytes of the port; \<^term>\<open>None\<close> is a NULL pointer with length 2.\<close>

fun set_port_for_request :: "address \<Rightarrow> string option" where
  "set_port_for_request (AF_INET _ p) = Some p"
| "set_port_for_request (AF_INET6 _ p) = Some p"
| "set_port_for_request (AF_OTHER _) = None"

fun set_address_for_request :: "address \<Rightarrow> string" where
  "set_address_for_request (AF_INET a _) = a"
| "set_address_for_request (AF_INET6 a _) = a"
| "set_address_for_request (AF_OTHER _) = []"

definition FORWARD_QUERY :: "16 word" where "FORWARD_QUERY = 4"

text \<open>Writing two bytes from a NULL pointer aborts.\<close>

definition mdm_xdmcp_send_forward_query ::
  "xdmcp_env \<Rightarrow> indirect_client \<Rightarrow> address \<Rightarrow> address \<Rightarrow> string list \<Rightarrow> xdmcp_factory \<Rightarrow> xdmcp_factory option" where
  "mdm_xdmcp_send_forward_query env ic address display_address authlist f =
     do {
       chosen \<leftarrow> ic_chosen_address ic;
       port \<leftarrow> set_port_for_request address;
       let addr = set_address_for_request display_address;
       let len = 2 + length16 addr;
       let len = len + (2 + length16 port);
       let len = len + 1;
       let len = fold (\<lambda>s len. len + (2 + length16 s)) authlist len;
       Some (send_packet XDM_PROTOCOL_VERSION FORWARD_QUERY len
               [ARRAY8 addr, ARRAY8 port, ARRAYofARRAY8 authlist] chosen f)
     }"

text \<open>The length the packet has to announce for the list of authentication names.\<close>

definition authlist_length :: "string list \<Rightarrow> int" where
  "authlist_length l = 1 + (\<Sum>s\<leftarrow>l. 2 + int (length s))"

definition handle_any_query :: "xdmcp_env \<Rightarrow> address \<Rightarrow> xdmcp_factory \<Rightarrow> xdmcp_factory option" where
  "handle_any_query env a f = mdm_xdmcp_send_willing env a f"

definition handle_direct_query ::
  "xdmcp_env \<Rightarrow> address \<Rightarrow> int \<Rightarrow> string \<Rightarrow> xdmcp_factory \<Rightarrow> xdmcp_factory option" where
  "handle_direct_query env a len buf f =
     (case XdmcpReadARRAYofARRAY8 (x_lib env) buf of
        None \<Rightarrow> Some f
      | Some (authlist, _) \<Rightarrow>
          if len = authlist_length authlist then handle_any_query env a f else Some f)"

definition mdm_xdmcp_handle_broadcast_query ::
  "xdmcp_env \<Rightarrow> address \<Rightarrow> int \<Rightarrow> string \<Rightarrow> xdmcp_factory \<Rightarrow> xdmcp_factory option" where
  "mdm_xdmcp_handle_broadcast_query env a len buf f =
     (case mdm_xdmcp_host_allow env a f of (allowed, f) \<Rightarrow>
        if allowed then handle_direct_query env a len buf f else Some f)"

definition mdm_xdmcp_handle_query ::
  "xdmcp_env \<Rightarrow> address \<Rightarrow> int \<Rightarrow> string \<Rightarrow> xdmcp_factory \<Rightarrow> xdmcp_factory option" where
  "mdm_xdmcp_handle_query env a len buf f =
     (case mdm_xdmcp_host_allow env a f of (allowed, f) \<Rightarrow>
        if allowed then handle_direct_query env a len buf f
        else Some (mdm_xdmcp_send_unwilling env a f))"

subsection \<open>Indirect clients\<close>

definition indirect_client_create :: "address \<Rightarrow> xdmcp_factory \<Rightarrow> indirect_client \<times> xdmcp_factory" where
  "indirect_client_create dsp_address f =
     (let ic = \<lparr>ic_node = next_node f, ic_dsp_address = dsp_address, ic_chosen_address = None, ic_acctime = 0\<rparr>
      in (ic, f\<lparr>indirect_clients := ic # indirect_clients f, next_node := Suc (next_node f)\<rparr>))"

definition indirect_client_destroy :: "indirect_client \<Rightarrow> xdmcp_factory \<Rightarrow> xdmcp_factory" where
  "indirect_client_destroy ic f =
     f\<lparr>indirect_clients := filter (\<lambda>c. ic_node c \<noteq> ic_node ic) (indirect_clients f)\<rparr>"

fun lookup_by_chosen_loop ::
  "xdmcp_env \<Rightarrow> address \<Rightarrow> address \<Rightarrow> indirect_client list \<Rightarrow> xdmcp_factory
     \<Rightarrow> indirect_client option \<times> xdmcp_factory" where
  "lookup_by_chosen_loop env chosen_address origin_address [] f = (None, f)"
| "lookup_by_chosen_loop env chosen_address origin_address (ic # li) f =
     (case ic_chosen_address ic of
        None \<Rightarrow> lookup_by_chosen_loop env chosen_address origin_address li f
      | Some c \<Rightarrow>
          if \<not> mdm_address_equal c chosen_address
          then lookup_by_chosen_loop env chosen_address origin_address li f
          else if mdm_address_equal (ic_dsp_address ic) origin_address then (Some ic, f)
          else if \<not> mdm_address_is_loopback (ic_dsp_address ic)
          then lookup_by_chosen_loop env chosen_address origin_address li f
          else (case is_local_address env origin_address f of (local, f) \<Rightarrow>
                  if local then (Some ic, f)
                  else lookup_by_chosen_loop env chosen_address origin_address li f))"

definition indirect_client_lookup_by_chosen ::
  "xdmcp_env \<Rightarrow> address \<Rightarrow> address \<Rightarrow> xdmcp_factory \<Rightarrow> indirect_client option \<times> xdmcp_factory" where
  "indirect_client_lookup_by_chosen env chosen_address origin_address f =
     lookup_by_chosen_loop env chosen_address origin_address (indirect_clients f) f"

text \<open>The loop over the copy of the list; an entry whose time is set and too old is disposed of on the way.\<close>

fun indirect_client_lookup_loop ::
  "int \<Rightarrow> address \<Rightarrow> indirect_client list \<Rightarrow> xdmcp_factory \<Rightarrow> indirect_client option \<times> xdmcp_factory" where
  "indirect_client_lookup_loop curtime address [] f = (None, f)"
| "indirect_client_lookup_loop curtime address (ic # li) f =
     (if mdm_address_equal (ic_dsp_address ic) address then (Some ic, f)
      else if ic_acctime ic > 0 \<and> curtime > ic_acctime ic + int (unat (max_wait_indirect (config f)))
      then indirect_client_lookup_loop curtime address li (indirect_client_destroy ic f)
      else indirect_client_lookup_loop curtime address li f)"

definition indirect_client_lookup ::
  "xdmcp_env \<Rightarrow> address \<Rightarrow> xdmcp_factory \<Rightarrow> indirect_client option \<times> xdmcp_factory" where
  "indirect_client_lookup env address f =
     (case fcall env Sys_time f of (curtime, f) \<Rightarrow>
        indirect_client_lookup_loop curtime address (indirect_clients f) f)"


text \<open>A forwarded query for every local address that is not the loopback.\<close>

fun forward_from_all ::
  "xdmcp_env \<Rightarrow> indirect_client \<Rightarrow> address \<Rightarrow> string list \<Rightarrow> address list \<Rightarrow> xdmcp_factory \<Rightarrow> xdmcp_factory option" where
  "forward_from_all env ic address authlist [] f = Some f"
| "forward_from_all env ic address authlist (saddr # l) f =
     (if mdm_address_is_loopback saddr then forward_from_all env ic address authlist l f
      else do {
        f \<leftarrow> mdm_xdmcp_send_forward_query env ic address saddr authlist f;
        forward_from_all env ic address authlist l f
      })"

text \<open>What follows a correct packet.\<close>

definition answer_indirect_query ::
  "xdmcp_env \<Rightarrow> address \<Rightarrow> string list \<Rightarrow> xdmcp_factory \<Rightarrow> xdmcp_factory option" where
  "answer_indirect_query env address authlist f =
     (case indirect_client_lookup env address f of
        (None, f) \<Rightarrow> mdm_xdmcp_send_willing env address (snd (indirect_client_create address f))
      | (Some ic, f) \<Rightarrow>
          (case ic_chosen_address ic of
             None \<Rightarrow> mdm_xdmcp_send_willing env address f
           | Some chosen \<Rightarrow>
               (case is_local_address env chosen f of (local, f) \<Rightarrow>
                  if local then mdm_xdmcp_send_willing env address (indirect_client_destroy ic f)
                  else if mdm_address_is_loopback address then
                    (case peek_local_list env f of (l, f) \<Rightarrow> forward_from_all env ic address authlist l f)
                  else mdm_xdmcp_send_forward_query env ic address address authlist f)))"

definition mdm_xdmcp_handle_indirect_query ::
  "xdmcp_env \<Rightarrow> address \<Rightarrow> int \<Rightarrow> string \<Rightarrow> xdmcp_factory \<Rightarrow> xdmcp_factory option" where
  "mdm_xdmcp_handle_indirect_query env address len buf f =
     (case mdm_xdmcp_host_allow env address f of (allowed, f) \<Rightarrow>
        if \<not> allowed then Some f
        else if \<not> honor_indirect (config f) then Some f
        else do {
          (full, f) \<leftarrow> (if num_sessions f > max_displays (config f) then Some (True, f)
                       else host_is_full env (>) address f);
          if full then Some f
          else (case XdmcpReadARRAYofARRAY8 (x_lib env) buf of
                  None \<Rightarrow> Some f
                | Some (authlist, _) \<Rightarrow>
                    if len \<noteq> authlist_length authlist then Some f
                    else answer_indirect_query env address authlist f)
        })"

subsection \<open>Forwarded queries\<close>

definition MDM_MAX_FORWARD_QUERIES :: nat where
  "MDM_MAX_FORWARD_QUERIES = 10"

definition MDM_FORWARD_QUERY_TIMEOUT :: int where
  "MDM_FORWARD_QUERY_TIMEOUT = 30"

definition forward_query_destroy :: "forward_query \<Rightarrow> xdmcp_factory \<Rightarrow> xdmcp_factory" where
  "forward_query_destroy q f =
     f\<lparr>forward_queries := filter (\<lambda>r. fq_node r \<noteq> fq_node q) (forward_queries f)\<rparr>"

fun oldest_forward :: "forward_query option \<Rightarrow> forward_query list \<Rightarrow> forward_query option" where
  "oldest_forward oldest [] = oldest"
| "oldest_forward oldest (query # li) =
     oldest_forward (case oldest of
                       None \<Rightarrow> Some query
                     | Some old \<Rightarrow> if fq_acctime query < fq_acctime old then Some query else Some old) li"

definition remove_oldest_forward :: "xdmcp_factory \<Rightarrow> bool \<times> xdmcp_factory" where
  "remove_oldest_forward f =
     (case oldest_forward None (forward_queries f) of
        None \<Rightarrow> (False, f)
      | Some oldest \<Rightarrow> (True, forward_query_destroy oldest f))"

fun make_room :: "nat \<Rightarrow> xdmcp_factory \<Rightarrow> xdmcp_factory" where
  "make_room count f =
     (if count > MDM_MAX_FORWARD_QUERIES then
        (case remove_oldest_forward f of
           (True, f) \<Rightarrow> make_room (count - 1) f
         | (False, f) \<Rightarrow> f)
      else f)"

declare make_room.simps [simp del]

definition forward_query_create :: "address \<Rightarrow> address \<Rightarrow> xdmcp_factory \<Rightarrow> forward_query \<times> xdmcp_factory" where
  "forward_query_create mgr_address dsp_address f =
     (let f = make_room (length (forward_queries f)) f;
          q = \<lparr>fq_node = next_node f, fq_acctime = 0, fq_dsp_address = dsp_address, fq_from_address = mgr_address\<rparr>
      in (q, f\<lparr>forward_queries := q # forward_queries f, next_node := Suc (next_node f)\<rparr>))"

fun forward_query_lookup_loop ::
  "int \<Rightarrow> address \<Rightarrow> forward_query list \<Rightarrow> xdmcp_factory \<Rightarrow> forward_query option \<times> xdmcp_factory" where
  "forward_query_lookup_loop curtime address [] f = (None, f)"
| "forward_query_lookup_loop curtime address (q # li) f =
     (if mdm_address_equal (fq_dsp_address q) address then (Some q, f)
      else if fq_acctime q > 0 \<and> curtime > fq_acctime q + MDM_FORWARD_QUERY_TIMEOUT
      then forward_query_lookup_loop curtime address li (forward_query_destroy q f)
      else forward_query_lookup_loop curtime address li f)"

definition forward_query_lookup ::
  "xdmcp_env \<Rightarrow> address \<Rightarrow> xdmcp_factory \<Rightarrow> forward_query option \<times> xdmcp_factory" where
  "forward_query_lookup env address f =
     (case fcall env Sys_time f of (curtime, f) \<Rightarrow>
        forward_query_lookup_loop curtime address (forward_queries f) f)"

definition XDM_UDP_PORT :: nat where
  "XDM_UDP_PORT = 177"

definition ntohs :: "string \<Rightarrow> nat" where
  "ntohs p = of_char (p ! 0) * 256 + of_char (p ! 1)"

text \<open>The address of a display as a packet names it; \<^term>\<open>None\<close> when it is refused.\<close>

definition create_address_from_request ::
  "xdmcp_env \<Rightarrow> string \<Rightarrow> string option \<Rightarrow> nat \<Rightarrow> xdmcp_factory \<Rightarrow> address option \<times> xdmcp_factory" where
  "create_address_from_request env req_addr req_port family f =
     (if (case req_port of Some p \<Rightarrow> length p \<noteq> 2 | None \<Rightarrow> False) then (None, f)
      else
        let serv = string_of_nat (case req_port of Some p \<Rightarrow> ntohs p | None \<Rightarrow> XDM_UDP_PORT);
            host = (if length req_addr = 4 \<or> length req_addr = 16 then x_inet_ntop env req_addr else None)
        in (case host of
              None \<Rightarrow> (None, f)
            | Some host \<Rightarrow>
                let f = snd (fcall env (Sys_getaddrinfo (Some host) (Some serv) family) f)
                in (case x_addrinfo env (ftrace f) of
                      None \<Rightarrow> (None, f)
                    | Some [] \<Rightarrow> (None, f)
                    | Some (ai # _) \<Rightarrow> (Some ai, f))))"

subsection \<open>Managed forwards\<close>

definition same_forward :: "address \<Rightarrow> address \<Rightarrow> managed_forward \<Rightarrow> bool" where
  "same_forward address origin mf \<longleftrightarrow>
     mdm_address_equal (mf_manager mf) address \<and> mdm_address_equal (mf_origin mf) origin"

text \<open>Only the first one that matches is removed, with its timer.\<close>

fun remove_first_forward :: "address \<Rightarrow> address \<Rightarrow> managed_forward list \<Rightarrow> managed_forward list" where
  "remove_first_forward address origin [] = []"
| "remove_first_forward address origin (mf # li) =
     (if same_forward address origin mf then li else mf # remove_first_forward address origin li)"

definition mdm_xdmcp_whack_queued_managed_forwards ::
  "address \<Rightarrow> address \<Rightarrow> xdmcp_factory \<Rightarrow> xdmcp_factory" where
  "mdm_xdmcp_whack_queued_managed_forwards address origin f =
     f\<lparr>managed_forwards := remove_first_forward address origin (managed_forwards f)\<rparr>"

definition MDM_XDMCP_MANAGED_FORWARD :: "16 word" where "MDM_XDMCP_MANAGED_FORWARD = 1000"
definition MDM_XDMCP_GOT_MANAGED_FORWARD :: "16 word" where "MDM_XDMCP_GOT_MANAGED_FORWARD = 1001"

definition mdm_xdmcp_really_send_managed_forward ::
  "xdmcp_env \<Rightarrow> address \<Rightarrow> address \<Rightarrow> xdmcp_factory \<Rightarrow> xdmcp_factory" where
  "mdm_xdmcp_really_send_managed_forward env address origin f =
     (let addr = set_address_for_request origin
      in send_packet MDM_XDMCP_PROTOCOL_VERSION MDM_XDMCP_MANAGED_FORWARD (4 + length16 addr)
           [ARRAY8 addr] address f)"

text \<open>The timer of a managed forward; it exists for as long as the forward is in the list.\<close>

definition managed_forward_handler :: "xdmcp_env \<Rightarrow> nat \<Rightarrow> xdmcp_factory \<Rightarrow> xdmcp_factory" where
  "managed_forward_handler env node f =
     (case List.find (\<lambda>mf. mf_node mf = node) (managed_forwards f) of
        None \<Rightarrow> f
      | Some mf \<Rightarrow>
          let f = (if socket_fd f > 0
                   then mdm_xdmcp_really_send_managed_forward env (mf_manager mf) (mf_origin mf) f else f);
              times = mf_times mf + 1
          in if socket_fd f \<le> 0 \<or> times \<ge> 2
             then f\<lparr>managed_forwards := filter (\<lambda>m. mf_node m \<noteq> node) (managed_forwards f)\<rparr>
             else f\<lparr>managed_forwards :=
                      map (\<lambda>m. if mf_node m = node then m\<lparr>mf_times := times\<rparr> else m) (managed_forwards f)\<rparr>)"

definition mdm_xdmcp_send_managed_forward ::
  "xdmcp_env \<Rightarrow> address \<Rightarrow> address \<Rightarrow> xdmcp_factory \<Rightarrow> xdmcp_factory" where
  "mdm_xdmcp_send_managed_forward env address origin f =
     (let f = mdm_xdmcp_really_send_managed_forward env address origin f;
          mf = \<lparr>mf_node = next_node f, mf_times = 0, mf_manager = address, mf_origin = origin\<rparr>
      in f\<lparr>managed_forwards := mf # managed_forwards f, next_node := Suc (next_node f)\<rparr>)"

definition mdm_xdmcp_send_got_managed_forward ::
  "xdmcp_env \<Rightarrow> address \<Rightarrow> address \<Rightarrow> xdmcp_factory \<Rightarrow> xdmcp_factory" where
  "mdm_xdmcp_send_got_managed_forward env address origin f =
     (let addr = set_address_for_request origin
      in send_packet MDM_XDMCP_PROTOCOL_VERSION MDM_XDMCP_GOT_MANAGED_FORWARD (4 + length16 addr)
           [ARRAY8 addr] address f)"

text \<open>The client of a forwarded query has been served in some way: its manager is told, the query is forgotten.\<close>

definition resolve_forward_query :: "xdmcp_env \<Rightarrow> address \<Rightarrow> xdmcp_factory \<Rightarrow> xdmcp_factory" where
  "resolve_forward_query env address f =
     (case forward_query_lookup env address f of
        (None, f) \<Rightarrow> f
      | (Some fq, f) \<Rightarrow>
          forward_query_destroy fq (mdm_xdmcp_send_managed_forward env (fq_from_address fq) address f))"

text \<open>The three readers in a row; the last component is what is left of the buffer.\<close>

definition read_forward_query ::
  "xdmcp_env \<Rightarrow> string \<Rightarrow> (string \<times> string \<times> string list) option" where
  "read_forward_query env buf =
     do {
       (clnt_addr, buf) \<leftarrow> XdmcpReadARRAY8 (x_lib env) buf;
       (clnt_port, buf) \<leftarrow> XdmcpReadARRAY8 (x_lib env) buf;
       (clnt_authlist, buf) \<leftarrow> XdmcpReadARRAYofARRAY8 (x_lib env) buf;
       Some (clnt_addr, clnt_port, clnt_authlist)
     }"

definition record_forward_query ::
  "xdmcp_env \<Rightarrow> address \<Rightarrow> address \<Rightarrow> xdmcp_factory \<Rightarrow> xdmcp_factory option" where
  "record_forward_query env address disp_address f =
     (case forward_query_lookup env disp_address f of (q, f) \<Rightarrow>
        let f = (case q of None \<Rightarrow> f | Some q \<Rightarrow> forward_query_destroy q f);
            f = snd (forward_query_create address disp_address f)
        in mdm_xdmcp_send_willing env disp_address f)"

definition mdm_xdmcp_handle_forward_query ::
  "xdmcp_env \<Rightarrow> address \<Rightarrow> int \<Rightarrow> string \<Rightarrow> xdmcp_factory \<Rightarrow> xdmcp_factory option" where
  "mdm_xdmcp_handle_forward_query env address len buf f =
     (case mdm_xdmcp_host_allow env address f of (allowed, f) \<Rightarrow>
        if \<not> allowed then Some f
        else (case read_forward_query env buf of
                None \<Rightarrow> Some f
              | Some (clnt_addr, clnt_port, authlist) \<Rightarrow>
                  let explen = authlist_length authlist + (2 + int (length clnt_addr)) + (2 + int (length clnt_port))
                  in if len \<noteq> explen then Some f
                     else (case create_address_from_request env clnt_addr (Some clnt_port)
                                  (mdm_address_get_family_type address) f of
                             (None, f) \<Rightarrow> Some f
                           | (Some disp_address, f) \<Rightarrow>
                               let f = mdm_xdmcp_whack_queued_managed_forwards address disp_address f
                               in (case mdm_xdmcp_host_allow env disp_address f of (allowed, f) \<Rightarrow>
                                     if \<not> allowed then Some f
                                     else record_forward_query env address disp_address f))))"

end
