(* ===== verification/Xdmcp_Factory.thy ===== *)
theory Xdmcp_Factory
  imports Xdmcp_Queries
begin

text \<open>
  The second half of \<open>daemon/mdm-xdmcp-display-factory.c\<close>: the count of the sessions, the creation of
  remote displays, and the requests of a display from REQUEST to KEEPALIVE; with the remote displays
  of \<open>daemon/mdm-xdmcp-greeter-display.c\<close> and \<open>daemon/mdm-xdmcp-chooser-display.c\<close>. \<open>xdmcp_step\<close> delivers
  packets, timers and the chooser's signal, together with the events of the local displays.
\<close>

subsection \<open>Counting and purging\<close>

text \<open>The callback's user data is the factory; the displays do not change on the way.\<close>

definition count_sessions :: "string \<Rightarrow> nat \<Rightarrow> xdmcp_factory \<Rightarrow> (bool \<times> xdmcp_factory) option" where
  "count_sessions i p f =
     do {
       x \<leftarrow> heap (base f) p;
       Some (True,
         if xdmcp_display (disp_class x) = None then f
         else if disp_status x = MDM_DISPLAY_MANAGED then f\<lparr>num_sessions := num_sessions f + 1\<rparr>
         else if disp_status x = MDM_DISPLAY_UNMANAGED
         then f\<lparr>num_pending_sessions := num_pending_sessions f + 1\<rparr>
         else f)
     }"

definition mdm_xdmcp_recount_sessions :: "xdmcp_env \<Rightarrow> xdmcp_factory \<Rightarrow> xdmcp_factory option" where
  "mdm_xdmcp_recount_sessions env f =
     mdm_display_store_foreach env count_sessions (base f)
       (f\<lparr>num_sessions := 0, num_pending_sessions := 0\<rparr>)"

text \<open>
  \<open>mdm_display_store_foreach_remove\<close>: every entry is shown to the callback, and one it answers \<open>TRUE\<close> for
  is removed with its reference.
\<close>

fun foreach_remove ::
  "xdmcp_env \<Rightarrow> (nat \<Rightarrow> bool xop) \<Rightarrow> store \<Rightarrow> xdmcp_factory \<Rightarrow> xdmcp_factory option" where
  "foreach_remove env func [] f = Some f"
| "foreach_remove env func ((i, p) # s) f =
     do {
       (remove, f) \<leftarrow> func p f;
       if \<not> remove then foreach_remove env func s f
       else do {
         d \<leftarrow> object_unref (x_daemon env) p
               ((base f)\<lparr>display_store := filter (\<lambda>e. e \<noteq> (i, p)) (display_store (base f))\<rparr>);
         foreach_remove env func s (f\<lparr>base := d\<rparr>)
       }
     }"

definition store_foreach_remove :: "xdmcp_env \<Rightarrow> (nat \<Rightarrow> bool xop) \<Rightarrow> xdmcp_factory \<Rightarrow> xdmcp_factory option" where
  "store_foreach_remove env func f =
     foreach_remove env func (x_hash_order env (display_store (base f))) f"

definition purge_displays :: "xdmcp_env \<Rightarrow> nat \<Rightarrow> bool xop" where
  "purge_displays env p f =
     do {
       x \<leftarrow> heap (base f) p;
       if xdmcp_display (disp_class x) = None then Some (False, f)
       else (case fcall env Sys_time f of (currtime, f) \<Rightarrow>
               Some (disp_status x = MDM_DISPLAY_UNMANAGED \<and>
                     currtime > creation_time x + int (unat (max_wait (config f))), f))
     }"

definition mdm_xdmcp_displays_purge :: "xdmcp_env \<Rightarrow> xdmcp_factory \<Rightarrow> xdmcp_factory option" where
  "mdm_xdmcp_displays_purge env f =
     do { f \<leftarrow> store_foreach_remove env (purge_displays env) f; mdm_xdmcp_recount_sessions env f }"

definition remove_host :: "string \<Rightarrow> int \<Rightarrow> nat \<Rightarrow> bool xop" where
  "remove_host hostname display_num p f =
     do {
       x \<leftarrow> heap (base f) p;
       Some (xdmcp_display (disp_class x) \<noteq> None \<and> x11_number x = display_num \<and>
             map_option c_string (remote_hostname x) = Some (c_string hostname), f)
     }"

definition display_dispose_check :: "xdmcp_env \<Rightarrow> string \<Rightarrow> int \<Rightarrow> xdmcp_factory \<Rightarrow> xdmcp_factory option" where
  "display_dispose_check env hostname display_num f =
     do {
       f \<leftarrow> store_foreach_remove env (remove_host hostname display_num) f;
       mdm_xdmcp_recount_sessions env f
     }"

subsection \<open>Declining\<close>

definition DECLINE :: "16 word" where "DECLINE = 9"

definition mdm_xdmcp_send_decline :: "xdmcp_env \<Rightarrow> address \<Rightarrow> string \<Rightarrow> xdmcp_factory \<Rightarrow> xdmcp_factory" where
  "mdm_xdmcp_send_decline env address reason f =
     (let len = 2 + length16 reason;
          len = len + (2 + length16 []);
          len = len + (2 + length16 [])
      in resolve_forward_query env address
           (send_packet XDM_PROTOCOL_VERSION DECLINE len [ARRAY8 reason, ARRAY8 [], ARRAY8 []] address f))"

subsection \<open>Remote displays\<close>

definition CHOOSER_SLAVE_COMMAND :: string where
  "CHOOSER_SLAVE_COMMAND = ''/usr/libexec/mdm-xdmcp-chooser-slave''"

definition remote_display_name :: "string \<Rightarrow> int \<Rightarrow> string" where
  "remote_display_name hostname number = hostname @ '':'' @ string_of_int number"

definition mdm_xdmcp_chooser_display_new ::
  "daemon_env \<Rightarrow> string \<Rightarrow> int \<Rightarrow> address \<Rightarrow> 32 word \<Rightarrow> nat dop" where
  "mdm_xdmcp_chooser_display_new env hostname number address serial =
     construct_display env (Xdmcp_chooser_display \<lparr>remote_address = address, session_number = serial\<rparr>)
       CHOOSER_SLAVE_COMMAND (Some hostname) number (remote_display_name hostname number) False"

definition mdm_xdmcp_greeter_display_new ::
  "daemon_env \<Rightarrow> string \<Rightarrow> int \<Rightarrow> address \<Rightarrow> 32 word \<Rightarrow> nat dop" where
  "mdm_xdmcp_greeter_display_new env hostname number address serial =
     (let cls = Xdmcp_greeter_display \<lparr>remote_address = address, session_number = serial\<rparr>
      in construct_display env cls (default_slave_command cls) (Some hostname) number
           (remote_display_name hostname number) False)"

definition on_display_status_changed :: "daemon_env \<Rightarrow> nat \<Rightarrow> daemon \<Rightarrow> daemon option" where
  "on_display_status_changed env p d =
     do {
       x \<leftarrow> heap d p;
       (case disp_status x of
          MDM_DISPLAY_FINISHED \<Rightarrow> mdm_display_store_remove env p d
        | MDM_DISPLAY_FAILED \<Rightarrow> mdm_display_store_remove env p d
        | _ \<Rightarrow> Some d)
     }"

text \<open>\<open>notify::status\<close> of any display: the handler that its factory has connected.\<close>

definition display_notify :: "daemon_env \<Rightarrow> notify" where
  "display_notify env p d =
     do {
       x \<leftarrow> heap d p;
       if xdmcp_display (disp_class x) = None then status_notify env p d
       else if status_handler x then on_display_status_changed env p d
       else Some d
     }"

definition base_op :: "(daemon \<Rightarrow> ('a \<times> daemon) option) \<Rightarrow> 'a xop" where
  "base_op g f = map_option (\<lambda>(r, d). (r, f\<lparr>base := d\<rparr>)) (g (base f))"

definition wants_chooser :: "xdmcp_env \<Rightarrow> address \<Rightarrow> xdmcp_factory \<Rightarrow> bool \<times> xdmcp_factory" where
  "wants_chooser env address f =
     (if honor_indirect (config f) then
        (case indirect_client_lookup env address f of (ic, f) \<Rightarrow>
           (case ic of None \<Rightarrow> False | Some ic \<Rightarrow> ic_chosen_address ic = None, f))
      else (False, f))"

text \<open>The reference of its creator is kept.\<close>

definition mdm_xdmcp_display_create :: "xdmcp_env \<Rightarrow> string \<Rightarrow> address \<Rightarrow> int \<Rightarrow> nat option xop" where
  "mdm_xdmcp_display_create env hostname address displaynum f =
     do {
       let (use_chooser, f) = wants_chooser env address f;
       (serial, f) \<leftarrow> get_next_session_serial env f;
       (p, f) \<leftarrow> base_op ((if use_chooser then mdm_xdmcp_chooser_display_new else mdm_xdmcp_greeter_display_new)
                   (x_daemon env) hostname displaynum address serial) f;
       (ok, f) \<leftarrow> base_op (mdm_display_prepare (x_daemon env) (display_notify (x_daemon env)) p) f;
       if \<not> ok then do {
         (_, f) \<leftarrow> base_op (mdm_display_unmanage (x_daemon env) (display_notify (x_daemon env)) p) f;
         d \<leftarrow> object_unref (x_daemon env) p (base f);
         Some (None, f\<lparr>base := d\<rparr>)
       }
       else do {
         d \<leftarrow> set_display p (\<lambda>x. x\<lparr>status_handler := True\<rparr>) (base f);
         d \<leftarrow> mdm_display_store_add (x_daemon env) p d;
         Some (Some p, f\<lparr>base := d, num_pending_sessions := num_pending_sessions f + 1\<rparr>)
       }
     }"

subsection \<open>REQUEST\<close>

definition ACCEPT :: "16 word" where "ACCEPT = 8"

definition mdm_xdmcp_send_accept ::
  "xdmcp_env \<Rightarrow> address \<Rightarrow> 32 word \<Rightarrow> string \<Rightarrow> string \<Rightarrow> string \<Rightarrow> string \<Rightarrow> xdmcp_factory \<Rightarrow> xdmcp_factory" where
  "mdm_xdmcp_send_accept env address session_id auth_name auth_data authorization_name authorization_data f =
     (let len = 4;
          len = len + (2 + length16 auth_name);
          len = len + (2 + length16 auth_data);
          len = len + (2 + length16 authorization_name);
          len = len + (2 + length16 authorization_data)
      in send_packet XDM_PROTOCOL_VERSION ACCEPT len
           [CARD32 session_id, ARRAY8 auth_name, ARRAY8 auth_data, ARRAY8 authorization_name,
            ARRAY8 authorization_data] address f)"

record request =
  req_dspnum :: "16 word"
  req_conntyp :: "16 word list"
  req_addr :: "string list"
  req_authname :: string
  req_authdata :: string
  req_authorization_names :: "string list"
  req_manufacturer :: string

definition read_request :: "xdmcp_env \<Rightarrow> string \<Rightarrow> request option" where
  "read_request env buf =
     do {
       (dspnum, buf) \<leftarrow> XdmcpReadCARD16 (x_lib env) buf;
       (conntyp, buf) \<leftarrow> XdmcpReadARRAY16 (x_lib env) buf;
       (addr, buf) \<leftarrow> XdmcpReadARRAYofARRAY8 (x_lib env) buf;
       (authname, buf) \<leftarrow> XdmcpReadARRAY8 (x_lib env) buf;
       (authdata, buf) \<leftarrow> XdmcpReadARRAY8 (x_lib env) buf;
       (names, buf) \<leftarrow> XdmcpReadARRAYofARRAY8 (x_lib env) buf;
       (manufacturer, buf) \<leftarrow> XdmcpReadARRAY8 (x_lib env) buf;
       Some \<lparr>req_dspnum = dspnum, req_conntyp = conntyp, req_addr = addr, req_authname = authname,
             req_authdata = authdata, req_authorization_names = names, req_manufacturer = manufacturer\<rparr>
     }"

definition MIT_MAGIC_COOKIE :: string where
  "MIT_MAGIC_COOKIE = ''MIT-MAGIC-COOKIE-1''"

text \<open>\<open>strncmp\<close> over 18 bytes of an array of 18 bytes.\<close>

definition supports_cookies :: "request \<Rightarrow> bool" where
  "supports_cookies r \<longleftrightarrow>
     list_ex (\<lambda>s. length s = 18 \<and> s = MIT_MAGIC_COOKIE) (req_authorization_names r)"

definition request_length :: "request \<Rightarrow> int" where
  "request_length r =
     2 + (1 + 2 * int (length (req_conntyp r))) + authlist_length (req_addr r)
       + (2 + int (length (req_authname r))) + (2 + int (length (req_authdata r)))
       + authlist_length (req_authorization_names r) + (2 + int (length (req_manufacturer r)))"

text \<open>The display is accepted unless it cannot be created, or too many are pending.\<close>

definition enter_display :: "xdmcp_env \<Rightarrow> address \<Rightarrow> string \<Rightarrow> int \<Rightarrow> xdmcp_factory \<Rightarrow> xdmcp_factory option" where
  "enter_display env address hostname dspnum f =
     do {
       f \<leftarrow> display_dispose_check env hostname dspnum f;
       if num_pending_sessions f \<ge> max_pending_displays (config f)
       then Some (mdm_xdmcp_send_decline env address ''Maximum pending servers'' f)
       else do {
         (p, f) \<leftarrow> mdm_xdmcp_display_create env hostname address dspnum f;
         (case p of
            None \<Rightarrow> Some f
          | Some p \<Rightarrow>
              do {
                x \<leftarrow> heap (base f) p;
                cookie \<leftarrow> x11_cookie x;
                priv \<leftarrow> xdmcp_display (disp_class x);
                Some (mdm_xdmcp_send_accept env address (session_number priv) [] [] MIT_MAGIC_COOKIE cookie f)
              })
       }
     }"

definition answer_request ::
  "xdmcp_env \<Rightarrow> address \<Rightarrow> string \<Rightarrow> request \<Rightarrow> xdmcp_factory \<Rightarrow> xdmcp_factory option" where
  "answer_request env address hostname r f =
     (if \<not> supports_cookies r
      then Some (mdm_xdmcp_send_decline env address ''Only MIT-MAGIC-COOKIE-1 supported'' f)
      else if num_sessions f \<ge> max_displays (config f)
      then Some (mdm_xdmcp_send_decline env address ''Maximum number of open sessions reached'' f)
      else do {
        (full, f) \<leftarrow> host_is_full env (\<ge>) address f;
        if full
        then Some (mdm_xdmcp_send_decline env address ''Maximum number of open sessions from your host reached'' f)
        else enter_display env address hostname (uint (req_dspnum r)) f
      })"

definition mdm_xdmcp_handle_request ::
  "xdmcp_env \<Rightarrow> address \<Rightarrow> int \<Rightarrow> string \<Rightarrow> xdmcp_factory \<Rightarrow> xdmcp_factory option" where
  "mdm_xdmcp_handle_request env address len buf f =
     (case mdm_xdmcp_host_allow env address f of (allowed, f) \<Rightarrow>
        if \<not> allowed then Some f
        else do {
          f \<leftarrow> mdm_xdmcp_displays_purge env f;
          (case read_request env buf of
             None \<Rightarrow> Some f
           | Some r \<Rightarrow>
               if request_length r \<noteq> len then Some f
               else answer_request env address (numeric_host env address) r f)
        })"

subsection \<open>MANAGE\<close>

definition lookup_by_session_id :: "32 word \<Rightarrow> display \<Rightarrow> bool" where
  "lookup_by_session_id sessid x \<longleftrightarrow>
     (case xdmcp_display (disp_class x) of None \<Rightarrow> False | Some priv \<Rightarrow> session_number priv = sessid)"

definition mdm_xdmcp_display_lookup :: "xdmcp_env \<Rightarrow> 32 word \<Rightarrow> xdmcp_factory \<Rightarrow> nat option option" where
  "mdm_xdmcp_display_lookup env sessid f =
     (if sessid = 0 then Some None else store_find env (lookup_by_session_id sessid) (base f))"

definition FAILED :: "16 word" where "FAILED = 12"
definition REFUSE :: "16 word" where "REFUSE = 11"
definition ALIVE :: "16 word" where "ALIVE = 14"

definition mdm_xdmcp_send_failed :: "xdmcp_env \<Rightarrow> address \<Rightarrow> 32 word \<Rightarrow> xdmcp_factory \<Rightarrow> xdmcp_factory" where
  "mdm_xdmcp_send_failed env address sessid f =
     (let status = ''Failed to start session''
      in send_packet XDM_PROTOCOL_VERSION FAILED (6 + length16 status) [CARD32 sessid, ARRAY8 status] address f)"

definition mdm_xdmcp_send_refuse :: "xdmcp_env \<Rightarrow> address \<Rightarrow> 32 word \<Rightarrow> xdmcp_factory \<Rightarrow> xdmcp_factory" where
  "mdm_xdmcp_send_refuse env address sessid f =
     resolve_forward_query env address
       (send_packet XDM_PROTOCOL_VERSION REFUSE 4 [CARD32 sessid] address f)"

text \<open>An indirect client that has chosen its host is forgotten.\<close>

definition forget_indirect_client :: "xdmcp_env \<Rightarrow> address \<Rightarrow> xdmcp_factory \<Rightarrow> xdmcp_factory" where
  "forget_indirect_client env address f =
     (if honor_indirect (config f) then
        (case indirect_client_lookup env address f of
           (None, f) \<Rightarrow> f
         | (Some ic, f) \<Rightarrow> if ic_chosen_address ic = None then f else indirect_client_destroy ic f)
      else f)"

definition start_session :: "xdmcp_env \<Rightarrow> address \<Rightarrow> 32 word \<Rightarrow> nat \<Rightarrow> xdmcp_factory \<Rightarrow> xdmcp_factory option" where
  "start_session env address sessid p f =
     do {
       let f = resolve_forward_query env address (forget_indirect_client env address f);
       let f = f\<lparr>num_sessions := num_sessions f + 1, num_pending_sessions := num_pending_sessions f - 1\<rparr>;
       (ok, f) \<leftarrow> base_op (mdm_display_manage (x_daemon env) (display_notify (x_daemon env)) p) f;
       Some (if ok then f else mdm_xdmcp_send_failed env address sessid f)
     }"

definition answer_manage :: "xdmcp_env \<Rightarrow> address \<Rightarrow> 32 word \<Rightarrow> xdmcp_factory \<Rightarrow> xdmcp_factory option" where
  "answer_manage env address sessid f =
     do {
       display \<leftarrow> mdm_xdmcp_display_lookup env sessid f;
       (case display of
          None \<Rightarrow> Some (mdm_xdmcp_send_refuse env address sessid f)
        | Some p \<Rightarrow>
            do {
              x \<leftarrow> heap (base f) p;
              if disp_status x = MDM_DISPLAY_PREPARED then start_session env address sessid p f
              else if disp_status x = MDM_DISPLAY_MANAGED then Some f
              else Some (mdm_xdmcp_send_refuse env address sessid f)
            })
     }"

text \<open>
  A packet that is too short goes to the end, where the class's array is disposed of: if the reader
  did not get to it, it is uninitialised, and freeing it aborts unless it happens to be NULL.
\<close>

definition mdm_xdmcp_handle_manage ::
  "xdmcp_env \<Rightarrow> address \<Rightarrow> int \<Rightarrow> string \<Rightarrow> xdmcp_factory \<Rightarrow> xdmcp_factory option" where
  "mdm_xdmcp_handle_manage env address len buf f =
     (case mdm_xdmcp_host_allow env address f of (allowed, f) \<Rightarrow>
        if \<not> allowed then Some f
        else
          let out = (if x_stack_null env then Some f else None)
          in (case XdmcpReadCARD32 (x_lib env) buf of
                None \<Rightarrow> out
              | Some (clnt_sessid, buf) \<Rightarrow>
                  (case XdmcpReadCARD16 (x_lib env) buf of
                     None \<Rightarrow> out
                   | Some (clnt_dspnum, buf) \<Rightarrow>
                       (case XdmcpReadARRAY8 (x_lib env) buf of
                          None \<Rightarrow> Some f
                        | Some (clnt_dspclass, buf) \<Rightarrow> answer_manage env address clnt_sessid f))))"

subsection \<open>Managed forwards\<close>

definition mdm_xdmcp_handle_managed_forward ::
  "xdmcp_env \<Rightarrow> address \<Rightarrow> int \<Rightarrow> string \<Rightarrow> xdmcp_factory \<Rightarrow> xdmcp_factory" where
  "mdm_xdmcp_handle_managed_forward env address len buf f =
     (case mdm_xdmcp_host_allow env address f of (allowed, f) \<Rightarrow>
        if \<not> allowed then f
        else (case XdmcpReadARRAY8 (x_lib env) buf of
                None \<Rightarrow> f
              | Some (clnt_address, _) \<Rightarrow>
                  (case create_address_from_request env clnt_address None
                          (mdm_address_get_family_type address) f of
                     (None, f) \<Rightarrow> f
                   | (Some disp_address, f) \<Rightarrow>
                       (case indirect_client_lookup_by_chosen env address disp_address f of (ic, f) \<Rightarrow>
                          let f = (case ic of None \<Rightarrow> f | Some ic \<Rightarrow> indirect_client_destroy ic f)
                          in mdm_xdmcp_send_got_managed_forward env address disp_address f))))"

definition mdm_xdmcp_handle_got_managed_forward ::
  "xdmcp_env \<Rightarrow> address \<Rightarrow> int \<Rightarrow> string \<Rightarrow> xdmcp_factory \<Rightarrow> xdmcp_factory" where
  "mdm_xdmcp_handle_got_managed_forward env address len buf f =
     (case mdm_xdmcp_host_allow env address f of (allowed, f) \<Rightarrow>
        if \<not> allowed then f
        else (case XdmcpReadARRAY8 (x_lib env) buf of
                None \<Rightarrow> f
              | Some (clnt_address, _) \<Rightarrow>
                  (case create_address_from_request env clnt_address None
                          (mdm_address_get_family_type address) f of
                     (None, f) \<Rightarrow> f
                   | (Some disp_address, f) \<Rightarrow>
                       mdm_xdmcp_whack_queued_managed_forwards address disp_address f)))"

subsection \<open>KEEPALIVE\<close>

definition mdm_xdmcp_send_alive ::
  "xdmcp_env \<Rightarrow> address \<Rightarrow> 16 word \<Rightarrow> 32 word \<Rightarrow> xdmcp_factory \<Rightarrow> xdmcp_factory option" where
  "mdm_xdmcp_send_alive env address dspnum sessid f =
     do {
       display \<leftarrow> mdm_xdmcp_display_lookup env sessid f;
       display \<leftarrow> (case display of
                     Some p \<Rightarrow> Some (Some p)
                   | None \<Rightarrow> mdm_xdmcp_display_lookup_by_host env f address (uint dspnum));
       (send_running, send_sessid) \<leftarrow>
         (case display of
            None \<Rightarrow> Some (0, 0)
          | Some p \<Rightarrow>
              do {
                x \<leftarrow> heap (base f) p;
                priv \<leftarrow> xdmcp_display (disp_class x);
                Some (if disp_status x = MDM_DISPLAY_MANAGED then 1 else 0, session_number priv)
              });
       Some (send_packet XDM_PROTOCOL_VERSION ALIVE 5 [CARD8 send_running, CARD32 send_sessid] address f)
     }"

definition mdm_xdmcp_handle_keepalive ::
  "xdmcp_env \<Rightarrow> address \<Rightarrow> int \<Rightarrow> string \<Rightarrow> xdmcp_factory \<Rightarrow> xdmcp_factory option" where
  "mdm_xdmcp_handle_keepalive env address len buf f =
     (case mdm_xdmcp_host_allow env address f of (allowed, f) \<Rightarrow>
        if \<not> allowed then Some f
        else (case XdmcpReadCARD16 (x_lib env) buf of
                None \<Rightarrow> Some f
              | Some (clnt_dspnum, buf) \<Rightarrow>
                  (case XdmcpReadCARD32 (x_lib env) buf of
                     None \<Rightarrow> Some f
                   | Some (clnt_sessid, buf) \<Rightarrow> mdm_xdmcp_send_alive env address clnt_dspnum clnt_sessid f)))"

end
