(* ===== verification/Xdmcp_Machine.thy ===== *)
theory Xdmcp_Machine
  imports Xdmcp_Factory
begin

text \<open>
  The rest of \<open>daemon/mdm-xdmcp-display-factory.c\<close>: the choice of a host, the dispatch of packets, the
  socket, the configuration, and the machine of the daemon with both factories.
\<close>

subsection \<open>The chosen host\<close>

definition set_chosen_address :: "indirect_client \<Rightarrow> address option \<Rightarrow> xdmcp_factory \<Rightarrow> xdmcp_factory" where
  "set_chosen_address ic a f = f\<lparr>indirect_clients :=
     map (\<lambda>c. if ic_node c = ic_node ic then c\<lparr>ic_chosen_address := a\<rparr> else c) (indirect_clients f)\<rparr>"

text \<open>
  The slave of a chooser display reports the host the user chose. The client that is looked up is not
  checked for NULL.
\<close>

definition on_hostname_selected :: "xdmcp_env \<Rightarrow> nat \<Rightarrow> string \<Rightarrow> xdmcp_factory \<Rightarrow> xdmcp_factory option" where
  "on_hostname_selected env p hostname f =
     do {
       x \<leftarrow> heap (base f) p;
       priv \<leftarrow> xdmcp_display (disp_class x);
       let (ic, f) = indirect_client_lookup env (remote_address priv) f;
       ic \<leftarrow> ic;
       let f = set_chosen_address ic None f;
       let f = snd (fcall env (Sys_getaddrinfo (Some hostname) None
                 (mdm_address_get_family_type (remote_address priv))) f);
       Some (case x_addrinfo env (ftrace f) of
               None \<Rightarrow> f
             | Some [] \<Rightarrow> f
             | Some (ai # _) \<Rightarrow> set_chosen_address ic (Some ai) f)
     }"

subsection \<open>Packets\<close>

definition BROADCAST_QUERY :: "16 word" where "BROADCAST_QUERY = 1"
definition QUERY :: "16 word" where "QUERY = 2"
definition INDIRECT_QUERY :: "16 word" where "INDIRECT_QUERY = 3"
definition REQUEST :: "16 word" where "REQUEST = 7"
definition MANAGE :: "16 word" where "MANAGE = 10"
definition KEEPALIVE :: "16 word" where "KEEPALIVE = 13"

text \<open>The name of an opcode; \<^term>\<open>None\<close> is NULL.\<close>

definition opcode_string :: "16 word \<Rightarrow> string option" where
  "opcode_string opcode =
     (let opcode_names = [None, Some ''BROADCAST_QUERY'', Some ''QUERY'', Some ''INDIRECT_QUERY'',
            Some ''FORWARD_QUERY'', Some ''WILLING'', Some ''UNWILLING'', Some ''REQUEST'', Some ''ACCEPT'',
            Some ''DECLINE'', Some ''MANAGE'', Some ''REFUSE'', Some ''FAILED'', Some ''KEEPALIVE'',
            Some ''ALIVE''];
          mdm_opcode_names = [Some ''MANAGED_FORWARD'', Some ''GOT_MANAGED_FORWARD'']
      in if unat opcode < length opcode_names then opcode_names ! unat opcode
         else if opcode \<ge> 1000 \<and> opcode < 1002 then mdm_opcode_names ! (unat opcode - 1000)
         else Some ''UNKNOWN'')"

definition dispatch_packet ::
  "xdmcp_env \<Rightarrow> address \<Rightarrow> xdmcp_header \<Rightarrow> string \<Rightarrow> xdmcp_factory \<Rightarrow> xdmcp_factory option" where
  "dispatch_packet env address header buf f =
     (let opcode = hdr_opcode header; len = uint (hdr_length header)
      in if opcode = BROADCAST_QUERY then mdm_xdmcp_handle_broadcast_query env address len buf f
         else if opcode = QUERY then mdm_xdmcp_handle_query env address len buf f
         else if opcode = INDIRECT_QUERY then mdm_xdmcp_handle_indirect_query env address len buf f
         else if opcode = FORWARD_QUERY then mdm_xdmcp_handle_forward_query env address len buf f
         else if opcode = REQUEST then mdm_xdmcp_handle_request env address len buf f
         else if opcode = MANAGE then mdm_xdmcp_handle_manage env address len buf f
         else if opcode = KEEPALIVE then mdm_xdmcp_handle_keepalive env address len buf f
         else if opcode = MDM_XDMCP_MANAGED_FORWARD
         then Some (mdm_xdmcp_handle_managed_forward env address len buf f)
         else if opcode = MDM_XDMCP_GOT_MANAGED_FORWARD
         then Some (mdm_xdmcp_handle_got_managed_forward env address len buf f)
         else Some f)"

text \<open>
  A datagram is the bytes and the sender's address; \<^term>\<open>None\<close> is a failing \<open>XdmcpFill\<close>. The address is
  \<^term>\<open>None\<close> when it is too short or too long for one.
\<close>

definition decode_packet ::
  "xdmcp_env \<Rightarrow> bool \<Rightarrow> (string \<times> address option) option \<Rightarrow> xdmcp_factory \<Rightarrow> xdmcp_factory option" where
  "decode_packet env readable datagram f =
     (if \<not> readable then Some f
      else (case datagram of
              None \<Rightarrow> Some f
            | Some (buf, sender) \<Rightarrow>
                (case XdmcpReadHeader (x_lib env) buf of
                   None \<Rightarrow> Some f
                 | Some (header, buf) \<Rightarrow>
                     if hdr_version header \<noteq> XDM_PROTOCOL_VERSION \<and>
                        hdr_version header \<noteq> MDM_XDMCP_PROTOCOL_VERSION
                     then Some f
                     else (case sender of
                             None \<Rightarrow> Some f
                           | Some address \<Rightarrow>
                               let f = snd (fcall env (Sys_getnameinfo address) f)
                               in dispatch_packet env address header buf f))))"

subsection \<open>The socket\<close>

definition create_socket :: "xdmcp_env \<Rightarrow> address \<Rightarrow> xdmcp_factory \<Rightarrow> int \<times> xdmcp_factory" where
  "create_socket env ai f =
     (case fcall env (Sys_socket (mdm_address_get_family_type ai)) f of (sock, f) \<Rightarrow>
        if sock < 0 then (sock, f)
        else case fcall env (Sys_bind ai) f of (r, f) \<Rightarrow>
          if r < 0 then (-1, snd (fcall env (Sys_close sock) f)) else (sock, f))"

fun bind_first :: "xdmcp_env \<Rightarrow> address list \<Rightarrow> int \<Rightarrow> xdmcp_factory \<Rightarrow> int \<times> xdmcp_factory" where
  "bind_first env [] sock f = (sock, f)"
| "bind_first env (ai # ai_list) sock f =
     (if \<not> internet_address ai then bind_first env ai_list sock f
      else if sock < 0 then (case create_socket env ai f of (sock, f) \<Rightarrow> bind_first env ai_list sock f)
      else bind_first env ai_list sock f)"

text \<open>\<open>g_error\<close> aborts when the addresses cannot be found out.\<close>

definition do_bind :: "xdmcp_env \<Rightarrow> 32 word \<Rightarrow> nat \<Rightarrow> int xop" where
  "do_bind env port family f =
     (let f = snd (fcall env (Sys_getaddrinfo None (Some (string_of_nat (unat port))) family) f)
      in map_option (\<lambda>ai_list. bind_first env ai_list (-1) f) (x_addrinfo env (ftrace f)))"

text \<open>Joining the group on every interface that is up and not a loopback.\<close>

definition setup_multicast :: "xdmcp_env \<Rightarrow> xdmcp_factory \<Rightarrow> xdmcp_factory" where
  "setup_multicast env f =
     (let f = snd (fcall env Sys_interfaces f)
      in (case x_interfaces env (ftrace f) of
            None \<Rightarrow> f
          | Some ifrs \<Rightarrow>
              fold (\<lambda>i f. if ifr_up i \<noteq> Some True \<or> ifr_loopback i \<or> ifr_missing i then f
                          else snd (fcall env (Sys_join_group (multicast_address (config f)) (ifr_name i)) f))
                ifrs f))"

definition open_port :: "xdmcp_env \<Rightarrow> bool xop" where
  "open_port env f =
     do {
       (sock, f) \<leftarrow> do_bind env (xdmcp_port (config f)) AF_INET6_NUMBER f;
       (sock, f) \<leftarrow> (if sock < 0 then do_bind env (xdmcp_port (config f)) AF_INET_NUMBER f else Some (sock, f));
       let f = f\<lparr>socket_fd := sock\<rparr>;
       if sock < 0 then Some (False, f)
       else Some (True, if use_multicast (config f) then setup_multicast env f else f)
     }"

subsection \<open>Configuration\<close>

text \<open>
  \<open>mdm_settings_direct_get_uint\<close> looks at an integer that was not set when the value cannot be
  parsed; a negative one leaves the variable alone.
\<close>

definition mdm_settings_direct_get_uint :: "daemon_env \<Rightarrow> string \<Rightarrow> 32 word \<Rightarrow> 32 word" where
  "mdm_settings_direct_get_uint env key old =
     (let intvalue = (case d_integer env key of Some i \<Rightarrow> word_of_int i | None \<Rightarrow> of_nat (d_uninitialised env))
      in if sint intvalue \<ge> 0 then intvalue else old)"

definition settings_boolean :: "daemon_env \<Rightarrow> string \<Rightarrow> bool \<Rightarrow> bool" where
  "settings_boolean env key old = (case d_boolean env key of Some b \<Rightarrow> b | None \<Rightarrow> old)"

definition read_configuration :: "daemon_env \<Rightarrow> xdmcp_config \<Rightarrow> xdmcp_config" where
  "read_configuration env c =
     \<lparr>xdmcp_port = mdm_settings_direct_get_uint env ''xdmcp/Port'' (xdmcp_port c),
      use_multicast = settings_boolean env ''chooser/Multicast'' (use_multicast c),
      multicast_address = d_value env ''chooser/MulticastAddr'',
      honor_indirect = settings_boolean env ''xdmcp/HonorIndirect'' (honor_indirect c),
      willing_script = d_value env ''xdmcp/Willing'',
      max_displays_per_host = mdm_settings_direct_get_uint env ''xdmcp/DisplaysPerHost'' (max_displays_per_host c),
      max_displays = mdm_settings_direct_get_uint env ''xdmcp/MaxSessions'' (max_displays c),
      max_pending_displays = mdm_settings_direct_get_uint env ''xdmcp/MaxPending'' (max_pending_displays c),
      max_wait = mdm_settings_direct_get_uint env ''xdmcp/MaxWait'' (max_wait c),
      max_wait_indirect = mdm_settings_direct_get_uint env ''xdmcp/MaxWaitIndirect'' (max_wait_indirect c)\<rparr>"

definition default_config :: xdmcp_config where
  "default_config =
     \<lparr>xdmcp_port = 177, use_multicast = False, multicast_address = Some ''ff02::1'', honor_indirect = True,
      willing_script = Some ''/etc/mdm/Xwilling'', max_displays_per_host = 1, max_displays = 16,
      max_pending_displays = 4, max_wait = 30, max_wait_indirect = 30\<rparr>"

definition mdm_xdmcp_display_factory_start :: "xdmcp_env \<Rightarrow> bool xop" where
  "mdm_xdmcp_display_factory_start env f =
     (if socket_fd f \<noteq> -1 then Some (False, f)
      else do {
        (ret, f) \<leftarrow> open_port env (f\<lparr>config := read_configuration (x_daemon env) (config f)\<rparr>);
        Some (if ret then (True, f\<lparr>socket_watch_id := True\<rparr>) else (False, f))
      })"

definition mdm_xdmcp_display_factory_stop :: "xdmcp_env \<Rightarrow> xdmcp_factory \<Rightarrow> bool \<times> xdmcp_factory" where
  "mdm_xdmcp_display_factory_stop env f =
     (if socket_fd f = -1 then (False, f)
      else
        let f = f\<lparr>socket_watch_id := False\<rparr>
        in if socket_fd f > 0 then (True, (snd (fcall env (Sys_close (socket_fd f)) f))\<lparr>socket_fd := -1\<rparr>)
           else (True, f))"

text \<open>The properties of the object and their setters.\<close>

datatype xdmcp_property = PROP_PORT "32 word" | PROP_USE_MULTICAST bool | PROP_MULTICAST_ADDRESS "string option"
  | PROP_HONOR_INDIRECT bool | PROP_MAX_DISPLAYS_PER_HOST "32 word" | PROP_MAX_DISPLAYS "32 word"
  | PROP_MAX_PENDING_DISPLAYS "32 word" | PROP_MAX_WAIT "32 word" | PROP_MAX_WAIT_INDIRECT "32 word"
  | PROP_WILLING_SCRIPT "string option"

fun mdm_xdmcp_display_factory_set_property :: "xdmcp_property \<Rightarrow> xdmcp_config \<Rightarrow> xdmcp_config" where
  "mdm_xdmcp_display_factory_set_property (PROP_PORT v) c = c\<lparr>xdmcp_port := v\<rparr>"
| "mdm_xdmcp_display_factory_set_property (PROP_USE_MULTICAST v) c = c\<lparr>use_multicast := v\<rparr>"
| "mdm_xdmcp_display_factory_set_property (PROP_MULTICAST_ADDRESS v) c = c\<lparr>multicast_address := v\<rparr>"
| "mdm_xdmcp_display_factory_set_property (PROP_HONOR_INDIRECT v) c = c\<lparr>honor_indirect := v\<rparr>"
| "mdm_xdmcp_display_factory_set_property (PROP_MAX_DISPLAYS_PER_HOST v) c = c\<lparr>max_displays_per_host := v\<rparr>"
| "mdm_xdmcp_display_factory_set_property (PROP_MAX_DISPLAYS v) c = c\<lparr>max_displays := v\<rparr>"
| "mdm_xdmcp_display_factory_set_property (PROP_MAX_PENDING_DISPLAYS v) c = c\<lparr>max_pending_displays := v\<rparr>"
| "mdm_xdmcp_display_factory_set_property (PROP_MAX_WAIT v) c = c\<lparr>max_wait := v\<rparr>"
| "mdm_xdmcp_display_factory_set_property (PROP_MAX_WAIT_INDIRECT v) c = c\<lparr>max_wait_indirect := v\<rparr>"
| "mdm_xdmcp_display_factory_set_property (PROP_WILLING_SCRIPT v) c = c\<lparr>willing_script := v\<rparr>"

text \<open>A new factory beside the daemon's local displays; its first session number is random.\<close>

definition mdm_xdmcp_display_factory_init :: "string \<Rightarrow> string \<Rightarrow> 32 word \<Rightarrow> daemon \<Rightarrow> xdmcp_factory" where
  "mdm_xdmcp_display_factory_init system host serial d =
     \<lparr>forward_queries = [], managed_forwards = [], indirect_clients = [], socket_fd = -1,
      session_serial = serial, socket_watch_id = False, num_sessions = 0, num_pending_sessions = 0,
      sysid = system, servhost = host, config = default_config, last_status = None, last_willing = 0,
      last_unwilling = 0, local_addresses = address_cache_init, next_node = 0, sent = [], base = d\<rparr>"

subsection \<open>The machine\<close>

datatype xdmcp_event = Xdmcp_start | Xdmcp_stop | Packet bool "(string \<times> address option) option"
  | Managed_forward_timeout nat | Hostname_selected nat string | Base_event daemon_event

text \<open>The handler of a display's status is the one of the factory the display belongs to.\<close>

definition display_handler :: "daemon_env \<Rightarrow> display \<Rightarrow> notify" where
  "display_handler env x =
     (if xdmcp_display (disp_class x) = None then status_notify env else display_notify env)"

text \<open>
  Packets are delivered while the socket is watched, and the chooser's signal while its display
  exists. The local displays' events are the daemon's.
\<close>

definition xdmcp_step :: "xdmcp_env \<Rightarrow> xdmcp_event \<Rightarrow> xdmcp_factory \<Rightarrow> xdmcp_factory option" where
  "xdmcp_step env e f =
     (case e of
        Xdmcp_start \<Rightarrow> map_option snd (mdm_xdmcp_display_factory_start env f)
      | Xdmcp_stop \<Rightarrow> Some (snd (mdm_xdmcp_display_factory_stop env f))
      | Packet readable datagram \<Rightarrow>
          if socket_watch_id f then decode_packet env readable datagram f else Some f
      | Managed_forward_timeout node \<Rightarrow> Some (managed_forward_handler env node f)
      | Hostname_selected p hostname \<Rightarrow>
          (case heap (base f) p of
             None \<Rightarrow> Some f
           | Some x \<Rightarrow>
               (case disp_class x of
                  Xdmcp_chooser_display _ \<Rightarrow> on_hostname_selected env p hostname f
                | _ \<Rightarrow> Some f))
      | Base_event (Finish_idle p) \<Rightarrow>
          (case heap (base f) p of
             None \<Rightarrow> Some f
           | Some x \<Rightarrow>
               if finish_idle_id x
               then map_option (\<lambda>d. f\<lparr>base := d\<rparr>)
                      (finish_idle (x_daemon env) (display_handler (x_daemon env) x) p (base f))
               else Some f)
      | Base_event e \<Rightarrow> map_option (\<lambda>d. f\<lparr>base := d\<rparr>) (daemon_step (x_daemon env) e (base f)))"

end
