(* ===== verification/Xdmcp_Invariant.thy ===== *)
theory Xdmcp_Invariant
  imports Xdmcp_Machine Display_Numbers
begin

text \<open>
  The invariant of the XDMCP machine: no display ever has the status \<open>MANAGED\<close>, the two tables of
  clients are bounded and hold no stale entry, and every packet that was sent announces its length.
  Each operation keeps it; the interpretation of \<open>event_machine\<close> at the end carries it over runs.
\<close>

subsection \<open>Displays are never managed\<close>

definition never_managed :: "daemon \<Rightarrow> bool" where
  "never_managed d \<longleftrightarrow> (\<forall>p x. heap d p = Some x \<longrightarrow> disp_status x \<noteq> MDM_DISPLAY_MANAGED)"

lemma never_managed_simps [simp]:
  "never_managed (d\<lparr>dtrace := t\<rparr>) = never_managed d"
  "never_managed (d\<lparr>display_store := s\<rparr>) = never_managed d"
  "never_managed (d\<lparr>displays := l\<rparr>) = never_managed d"
  "never_managed (d\<lparr>num_failures := n\<rparr>) = never_managed d"
  by (simp_all add: never_managed_def)

lemma never_managed_put:
  "never_managed d \<Longrightarrow> disp_status x \<noteq> MDM_DISPLAY_MANAGED \<Longrightarrow> never_managed (put p x d)"
  by (simp add: never_managed_def)

lemma never_managed_lookup: "never_managed d \<Longrightarrow> heap d p = Some x \<Longrightarrow> disp_status x \<noteq> MDM_DISPLAY_MANAGED"
  by (simp add: never_managed_def)

lemma never_managed_construct:
  "never_managed d \<Longrightarrow> construct_display env cls slave host num name local d = Some (p, v) \<Longrightarrow> never_managed v"
  by (auto simp: never_managed_def construct_display_def daemon_call_def dcall_def Let_def
      get_next_display_serial_def split: if_splits)

interpretation managed: factory_invariant never_managed env for env
proof unfold_locales
  fix d p x x'
  assume "never_managed d" and "heap d p = Some x" and "same_display x x'"
  then show "never_managed (put p x' d)"
    by (auto simp: same_display_def intro: never_managed_put dest: never_managed_lookup)
next
  fix d p x x'
  assume "never_managed d" and "heap d p = Some x" and "set_up x x'"
  then show "never_managed (put p x' d)"
    by (intro never_managed_put) (simp_all add: set_up_def never_managed_lookup)
next
  fix d num u cls p v
  assume "never_managed d" and n: "take_next_display_number d = (num, u)"
    and v: "new_display env cls num u = Some (p, v)"
  then have "never_managed u" by (auto simp: take_next_display_number_def Let_def)
  then show "never_managed v"
    using v unfolding new_display_def by (rule never_managed_construct)
qed (auto simp: never_managed_def)

text \<open>The daemon's own invariant, about the numbers of the local displays, is kept beside it: remote
  displays have no part in it.\<close>

definition base_inv :: "daemon \<Rightarrow> bool" where
  "base_inv d \<longleftrightarrow> never_managed d \<and> daemon_inv d"

lemma never_managed_free: "never_managed d \<Longrightarrow> never_managed (d\<lparr>heap := (heap d)(p := None)\<rparr>)"
  by (simp add: never_managed_def)

interpretation base_displays: factory_invariant base_inv env for env
  by unfold_locales (auto simp: base_inv_def intro: never_managed_free managed.P_put managed.P_trace managed.P_free managed.P_store
      managed.P_failures managed.P_reserve managed.P_release managed.P_set_up managed.P_new
      daemon_displays.P_put daemon_displays.P_trace daemon_displays.P_free daemon_displays.P_store
      daemon_displays.P_failures daemon_displays.P_reserve daemon_displays.P_release
      daemon_displays.P_set_up daemon_displays.P_new)

lemma base_inv_construct:
  assumes "base_inv d" and "construct_display env cls slave host num name local d = Some (p, v)"
    and "xdmcp_display cls \<noteq> None"
  shows "base_inv v"
proof -
  have "never_managed v" using assms(1,2) never_managed_construct by (auto simp: base_inv_def)
  moreover have "daemon_inv v"
    using assms unfolding base_inv_def daemon_inv_def own_numbers_def
    by (auto simp: construct_display_def daemon_call_def dcall_def Let_def get_next_display_serial_def
        less_Suc_eq split: if_splits)
  ultimately show ?thesis by (simp add: base_inv_def)
qed

lemma base_inv_simps [simp]:
  "base_inv (d\<lparr>dtrace := t\<rparr>) = base_inv d"
  "base_inv (d\<lparr>display_store := s\<rparr>) = base_inv d"
  by (simp_all add: base_inv_def daemon_inv_def own_numbers_def)

text \<open>The handlers of both factories keep it, so that all operations on displays do.\<close>

lemma display_notify_managed:
  "base_inv d \<Longrightarrow> display_notify env p d = Some d' \<Longrightarrow> base_inv d'"
  by (cases "heap d p"; cases "disp_status (the (heap d p))")
     (auto simp: display_notify_def on_display_status_changed_def split: if_split_asm
      intro: base_displays.P_status_notify base_displays.quiet.P_store_remove)

interpretation all_displays: display_invariant base_inv env "display_notify env" for env
  by unfold_locales
    (erule (2) base_displays.P_put | erule base_displays.P_trace base_displays.P_free base_displays.P_store
      | erule (1) display_notify_managed)+

subsection \<open>Packets\<close>

text \<open>
  Every packet announces the length of its fields, except the two of the protocol's extension, which
  announce two bytes more; and no \<open>ALIVE\<close> reports a running session.
\<close>

definition packet_ok :: "xdmcp_packet \<Rightarrow> bool" where
  "packet_ok pkt \<longleftrightarrow>
     (let h = pkt_header pkt
      in hdr_length h = of_nat (body_size pkt) +
           (if hdr_opcode h = MDM_XDMCP_MANAGED_FORWARD \<or> hdr_opcode h = MDM_XDMCP_GOT_MANAGED_FORWARD
            then 2 else 0) \<and>
         (hdr_opcode h = ALIVE \<longrightarrow> (\<exists>sessid. pkt_fields pkt = [CARD8 0, CARD32 sessid])))"

lemmas opcodes = WILLING_def UNWILLING_def FORWARD_QUERY_def ACCEPT_def DECLINE_def REFUSE_def FAILED_def
  ALIVE_def MDM_XDMCP_MANAGED_FORWARD_def MDM_XDMCP_GOT_MANAGED_FORWARD_def

subsection \<open>Tables\<close>

definition forwards_ok :: "xdmcp_factory \<Rightarrow> bool" where
  "forwards_ok f \<longleftrightarrow> length (forward_queries f) \<le> MDM_MAX_FORWARD_QUERIES + 1 \<and>
     distinct (map fq_node (forward_queries f)) \<and>
     (\<forall>q \<in> set (forward_queries f). fq_node q < next_node f \<and> fq_acctime q = 0)"

definition clients_ok :: "xdmcp_factory \<Rightarrow> bool" where
  "clients_ok f \<longleftrightarrow> distinct (map ic_node (indirect_clients f)) \<and>
     (\<forall>ic \<in> set (indirect_clients f). ic_node ic < next_node f \<and> ic_acctime ic = 0)"

definition managed_ok :: "xdmcp_factory \<Rightarrow> bool" where
  "managed_ok f \<longleftrightarrow> distinct (map mf_node (managed_forwards f)) \<and>
     (\<forall>mf \<in> set (managed_forwards f). mf_node mf < next_node f \<and> 0 \<le> mf_times mf \<and> mf_times mf \<le> 1)"

definition xdmcp_inv :: "xdmcp_factory \<Rightarrow> bool" where
  "xdmcp_inv f \<longleftrightarrow> forwards_ok f \<and> clients_ok f \<and> managed_ok f \<and>
     (\<forall>e \<in> set (sent f). packet_ok (fst e)) \<and> base_inv (base f) \<and> last_willing f = 0"

lemmas inv_defs = xdmcp_inv_def forwards_ok_def clients_ok_def managed_ok_def

lemma inv_simps [simp]:
  "xdmcp_inv (f\<lparr>socket_fd := a1\<rparr>) = xdmcp_inv f"
  "xdmcp_inv (f\<lparr>session_serial := a2\<rparr>) = xdmcp_inv f"
  "xdmcp_inv (f\<lparr>socket_watch_id := a3\<rparr>) = xdmcp_inv f"
  "xdmcp_inv (f\<lparr>num_sessions := a4\<rparr>) = xdmcp_inv f"
  "xdmcp_inv (f\<lparr>num_pending_sessions := a5\<rparr>) = xdmcp_inv f"
  "xdmcp_inv (f\<lparr>config := a6\<rparr>) = xdmcp_inv f"
  "xdmcp_inv (f\<lparr>last_status := a7\<rparr>) = xdmcp_inv f"
  "xdmcp_inv (f\<lparr>last_unwilling := a8\<rparr>) = xdmcp_inv f"
  "xdmcp_inv (f\<lparr>local_addresses := a9\<rparr>) = xdmcp_inv f"
  by (simp_all add: inv_defs)

lemma inv_base: "xdmcp_inv f \<Longrightarrow> base_inv d \<Longrightarrow> xdmcp_inv (f\<lparr>base := d\<rparr>)"
  by (simp add: inv_defs)

lemma inv_base_inv: "xdmcp_inv f \<Longrightarrow> base_inv (base f)"
  by (simp add: inv_defs)

lemma inv_never_managed: "xdmcp_inv f \<Longrightarrow> never_managed (base f)"
  using inv_base_inv by (simp add: base_inv_def)

lemma inv_trace [simp]: "xdmcp_inv (f\<lparr>base := (base f)\<lparr>dtrace := t\<rparr>\<rparr>) = xdmcp_inv f"
  by (simp add: inv_defs)

lemma inv_packet:
  "xdmcp_inv f \<Longrightarrow>
   packet_ok \<lparr>pkt_header = \<lparr>hdr_version = v, hdr_opcode = c, hdr_length = len\<rparr>, pkt_fields = body\<rparr> \<Longrightarrow>
   xdmcp_inv (send_packet v c len body a f)"
  by (simp add: inv_defs send_packet_def)

lemma fcall_snd: "snd (fcall env c f) = f\<lparr>base := (base f)\<lparr>dtrace := c # dtrace (base f)\<rparr>\<rparr>"
  by (simp add: fcall_def daemon_call_def dcall_def Let_def split_beta)

lemma inv_fcall [simp]: "xdmcp_inv (snd (fcall env c f)) = xdmcp_inv f"
  by (simp add: fcall_snd)

lemma inv_is_local [simp]: "xdmcp_inv (snd (is_local_address env a f)) = xdmcp_inv f"
proof -
  obtain b c t where "mdm_address_is_local env a (local_addresses f) (ftrace f) = (b, c, t)"
    by (cases "mdm_address_is_local env a (local_addresses f) (ftrace f)") auto
  moreover have "xdmcp_inv (f\<lparr>local_addresses := c, base := (base f)\<lparr>dtrace := t\<rparr>\<rparr>) = xdmcp_inv f"
    by (simp add: inv_defs)
  ultimately show ?thesis by (simp add: is_local_address_def)
qed

lemma inv_peek_local [simp]: "xdmcp_inv (snd (peek_local_list env f)) = xdmcp_inv f"
proof -
  obtain l c t where "mdm_address_peek_local_list env (local_addresses f) (ftrace f) = (l, c, t)"
    by (cases "mdm_address_peek_local_list env (local_addresses f) (ftrace f)") auto
  moreover have "xdmcp_inv (f\<lparr>local_addresses := c, base := (base f)\<lparr>dtrace := t\<rparr>\<rparr>) = xdmcp_inv f"
    by (simp add: inv_defs)
  ultimately show ?thesis by (simp add: peek_local_list_def)
qed

lemma inv_host_allow [simp]: "xdmcp_inv (snd (mdm_xdmcp_host_allow env a f)) = xdmcp_inv f"
  by (simp add: mdm_xdmcp_host_allow_def Let_def split_beta)

subsection \<open>Queries\<close>

lemma inv_refresh_status [simp]: "xdmcp_inv f \<Longrightarrow> xdmcp_inv (refresh_status env f)"
  by (simp add: refresh_status_def get_willing_output_def Let_def split_beta split: option.split list.split)

lemma inv_host_is_full: "xdmcp_inv f \<Longrightarrow> host_is_full env r a f = Some (b, f') \<Longrightarrow> xdmcp_inv f'"
  by (auto simp: host_is_full_def split_beta bind_eq_Some_conv split: if_split_asm)

lemma inv_send_willing:
  assumes "xdmcp_inv f" and "mdm_xdmcp_send_willing env a f = Some f'"
  shows "xdmcp_inv f'"
proof -
  obtain b u where u: "host_is_full env (\<ge>) a (refresh_status env f) = Some (b, u)"
    using assms(2) by (auto simp: mdm_xdmcp_send_willing_def bind_eq_Some_conv)
  have "xdmcp_inv u" using inv_host_is_full [OF inv_refresh_status [OF assms(1)] u] .
  then show ?thesis
    using assms(2)
    by (auto simp: mdm_xdmcp_send_willing_def u bind_eq_Some_conv Let_def packet_ok_def opcodes
        body_size_def length16_def serv_authlist_def intro!: inv_packet)
qed

lemma inv_send_unwilling [simp]: "xdmcp_inv f \<Longrightarrow> xdmcp_inv (mdm_xdmcp_send_unwilling env a f)"
  by (auto simp: mdm_xdmcp_send_unwilling_def Let_def split_beta packet_ok_def opcodes
      body_size_def length16_def intro!: inv_packet)

lemma authlist_fold:
  "fold (\<lambda>s len. len + (2 + length16 s)) l n = n + of_nat (sum_list (map (\<lambda>s. 2 + length s) l))"
  by (induction l arbitrary: n) (simp_all add: length16_def)

lemma inv_send_forward_query:
  "xdmcp_inv f \<Longrightarrow> mdm_xdmcp_send_forward_query env ic a b l f = Some f' \<Longrightarrow> xdmcp_inv f'"
  by (auto simp: mdm_xdmcp_send_forward_query_def bind_eq_Some_conv Let_def packet_ok_def opcodes
      body_size_def length16_def authlist_fold [unfolded length16_def] intro!: inv_packet)

lemma inv_direct_query: "xdmcp_inv f \<Longrightarrow> handle_direct_query env a len buf f = Some f' \<Longrightarrow> xdmcp_inv f'"
  by (auto simp: handle_direct_query_def handle_any_query_def split: option.split_asm if_split_asm
      dest: inv_send_willing)

lemma inv_broadcast_query:
  "xdmcp_inv f \<Longrightarrow> mdm_xdmcp_handle_broadcast_query env a len buf f = Some f' \<Longrightarrow> xdmcp_inv f'"
  by (auto simp: mdm_xdmcp_handle_broadcast_query_def split_beta split: if_split_asm
      dest!: inv_direct_query [rotated])

lemma inv_query: "xdmcp_inv f \<Longrightarrow> mdm_xdmcp_handle_query env a len buf f = Some f' \<Longrightarrow> xdmcp_inv f'"
  by (auto simp: mdm_xdmcp_handle_query_def split_beta split: if_split_asm
      dest!: inv_direct_query [rotated])

subsection \<open>Indirect clients\<close>

lemma inv_client_create [simp]: "xdmcp_inv f \<Longrightarrow> xdmcp_inv (snd (indirect_client_create a f))"
  by (auto simp: inv_defs indirect_client_create_def Let_def)

lemma inv_client_destroy [simp]: "xdmcp_inv f \<Longrightarrow> xdmcp_inv (indirect_client_destroy ic f)"
  by (auto simp: inv_defs indirect_client_destroy_def distinct_map_filter)

lemma inv_lookup_by_chosen_loop [simp]:
  "xdmcp_inv (snd (lookup_by_chosen_loop env c origin l f)) = xdmcp_inv f"
  by (induction l arbitrary: f) (simp_all add: split_beta split: option.split)

lemma inv_lookup_by_chosen [simp]:
  "xdmcp_inv (snd (indirect_client_lookup_by_chosen env c origin f)) = xdmcp_inv f"
  by (simp add: indirect_client_lookup_by_chosen_def)

lemma inv_client_lookup_loop: "xdmcp_inv f \<Longrightarrow> xdmcp_inv (snd (indirect_client_lookup_loop now a l f))"
  by (induction l arbitrary: f) simp_all

lemma inv_client_lookup [simp]: "xdmcp_inv f \<Longrightarrow> xdmcp_inv (snd (indirect_client_lookup env a f))"
  by (simp add: indirect_client_lookup_def split_beta inv_client_lookup_loop)

lemma inv_forward_from_all:
  "xdmcp_inv f \<Longrightarrow> forward_from_all env ic a authlist l f = Some f' \<Longrightarrow> xdmcp_inv f'"
  by (induction l arbitrary: f) (auto simp: bind_eq_Some_conv split: if_split_asm dest: inv_send_forward_query)

lemma inv_answer_indirect_query:
  assumes "xdmcp_inv f" and "answer_indirect_query env a authlist f = Some f'"
  shows "xdmcp_inv f'"
proof -
  obtain ic u where u: "indirect_client_lookup env a f = (ic, u)" by fastforce
  have "xdmcp_inv u" using inv_client_lookup [OF assms(1), of env a] u by simp
  with assms(2) show ?thesis
    by (auto simp: answer_indirect_query_def u split_beta split: option.split_asm if_split_asm
        dest!: inv_send_willing [rotated] inv_send_forward_query [rotated] inv_forward_from_all [rotated])
qed

lemma inv_indirect_query:
  assumes "xdmcp_inv f" and "mdm_xdmcp_handle_indirect_query env a len buf f = Some f'"
  shows "xdmcp_inv f'"
proof -
  obtain allowed u where u: "mdm_xdmcp_host_allow env a f = (allowed, u)" by fastforce
  have pu: "xdmcp_inv u" using inv_host_allow [of env a f] assms(1) u by simp
  show ?thesis
  proof (cases "allowed \<and> honor_indirect (config u)")
    case False
    with assms(2) u pu show ?thesis
      by (auto simp: mdm_xdmcp_handle_indirect_query_def split: if_split_asm)
  next
    case True
    then obtain full v where v: "(if num_sessions u > max_displays (config u) then Some (True, u)
        else host_is_full env (>) a u) = Some (full, v)"
      using assms(2) u by (auto simp: mdm_xdmcp_handle_indirect_query_def bind_eq_Some_conv)
    then have "xdmcp_inv v" using pu by (auto split: if_splits dest: inv_host_is_full)
    with assms(2) True show ?thesis
      by (auto simp: mdm_xdmcp_handle_indirect_query_def u v split: option.split_asm if_split_asm
          dest!: inv_answer_indirect_query [rotated])
  qed
qed

subsection \<open>Forwarded queries\<close>

lemma inv_query_destroy [simp]: "xdmcp_inv f \<Longrightarrow> xdmcp_inv (forward_query_destroy q f)"
  by (auto simp: inv_defs forward_query_destroy_def distinct_map_filter
      intro: order_trans [OF length_filter_le])

lemma oldest_forward_mem: "oldest_forward old l = Some q \<Longrightarrow> q \<in> set l \<or> old = Some q"
  by (induction l arbitrary: old) (fastforce split: option.split_asm if_split_asm)+

lemma oldest_forward_Some: "\<exists>q. oldest_forward (Some old) l = Some q"
  by (induction l arbitrary: old) simp_all

lemma oldest_forward_None: "oldest_forward None l = None \<Longrightarrow> l = []"
  by (cases l) (simp_all, metis oldest_forward_Some option.distinct(1))

lemma destroy_shorter:
  "q \<in> set (forward_queries f) \<Longrightarrow>
   length (forward_queries (forward_query_destroy q f)) < length (forward_queries f)"
  by (auto simp: forward_query_destroy_def intro: length_filter_less)

text \<open>One entry goes at a time, so that the loop leaves the permitted number.\<close>

lemma make_room_length:
  "length (forward_queries f) \<le> n \<Longrightarrow> length (forward_queries (make_room n f)) \<le> MDM_MAX_FORWARD_QUERIES"
proof (induction n f rule: make_room.induct)
  case (1 n f)
  show ?case
  proof (cases "n > MDM_MAX_FORWARD_QUERIES")
    case False
    with "1.prems" show ?thesis by (subst make_room.simps) simp
  next
    case True
    show ?thesis
    proof (cases "oldest_forward None (forward_queries f)")
      case None
      then have "forward_queries f = []" by (auto dest: oldest_forward_None)
      with True None show ?thesis by (subst make_room.simps) (simp add: remove_oldest_forward_def)
    next
      case (Some q)
      then have "length (forward_queries (forward_query_destroy q f)) < length (forward_queries f)"
        by (intro destroy_shorter) (auto dest: oldest_forward_mem)
      with "1.prems" True have "length (forward_queries (forward_query_destroy q f)) \<le> n - 1" by simp
      with "1.IH" True Some show ?thesis
        by (subst make_room.simps) (simp add: remove_oldest_forward_def)
    qed
  qed
qed

lemma inv_make_room: "xdmcp_inv f \<Longrightarrow> xdmcp_inv (make_room n f)"
proof (induction n f rule: make_room.induct)
  case (1 n f)
  then show ?case
    by (subst make_room.simps) (auto simp: remove_oldest_forward_def split: option.split)
qed

lemma inv_query_create: "xdmcp_inv f \<Longrightarrow> xdmcp_inv (snd (forward_query_create m a f))"
  using inv_make_room [of f "length (forward_queries f)"] make_room_length [of f "length (forward_queries f)"]
  by (auto simp: inv_defs forward_query_create_def Let_def)

lemma inv_query_lookup_loop: "xdmcp_inv f \<Longrightarrow> xdmcp_inv (snd (forward_query_lookup_loop now a l f))"
  by (induction l arbitrary: f) simp_all

lemma inv_query_lookup [simp]: "xdmcp_inv f \<Longrightarrow> xdmcp_inv (snd (forward_query_lookup env a f))"
  by (simp add: forward_query_lookup_def split_beta inv_query_lookup_loop)

lemma inv_create_address [simp]:
  "xdmcp_inv (snd (create_address_from_request env addr port fam f)) = xdmcp_inv f"
  by (simp add: create_address_from_request_def Let_def split: option.split list.split)

lemma whack_mem: "mf \<in> set (remove_first_forward a b l) \<Longrightarrow> mf \<in> set l"
  by (induction l) (auto split: if_split_asm)

lemma whack_distinct: "distinct (map mf_node l) \<Longrightarrow> distinct (map mf_node (remove_first_forward a b l))"
  by (induction l) (auto dest: whack_mem)

lemma inv_whack [simp]: "xdmcp_inv f \<Longrightarrow> xdmcp_inv (mdm_xdmcp_whack_queued_managed_forwards a b f)"
  by (auto simp: inv_defs mdm_xdmcp_whack_queued_managed_forwards_def whack_distinct dest: whack_mem)

lemma inv_record_forward_query:
  assumes "xdmcp_inv f" and "record_forward_query env a b f = Some f'"
  shows "xdmcp_inv f'"
proof -
  obtain q u where u: "forward_query_lookup env b f = (q, u)" by fastforce
  have "xdmcp_inv u" using inv_query_lookup [OF assms(1), of env b] u by simp
  with assms(2) show ?thesis
    by (auto simp: record_forward_query_def u Let_def inv_query_create split: option.split_asm
        dest!: inv_send_willing [rotated])
qed

lemma inv_forward_query:
  "xdmcp_inv f \<Longrightarrow> mdm_xdmcp_handle_forward_query env a len buf f = Some f' \<Longrightarrow> xdmcp_inv f'"
  by (auto simp: mdm_xdmcp_handle_forward_query_def split_beta Let_def
      split: option.split_asm if_split_asm dest!: inv_record_forward_query [rotated])

subsection \<open>Managed forwards\<close>

lemma inv_really_send [simp]: "xdmcp_inv f \<Longrightarrow> xdmcp_inv (mdm_xdmcp_really_send_managed_forward env a b f)"
  by (auto simp: mdm_xdmcp_really_send_managed_forward_def Let_def packet_ok_def opcodes body_size_def
      length16_def intro!: inv_packet)

lemma inv_send_got [simp]: "xdmcp_inv f \<Longrightarrow> xdmcp_inv (mdm_xdmcp_send_got_managed_forward env a b f)"
  by (auto simp: mdm_xdmcp_send_got_managed_forward_def Let_def packet_ok_def opcodes body_size_def
      length16_def intro!: inv_packet)

lemma inv_send_managed_forward [simp]: "xdmcp_inv f \<Longrightarrow> xdmcp_inv (mdm_xdmcp_send_managed_forward env a b f)"
proof -
  assume "xdmcp_inv f"
  then have "xdmcp_inv (mdm_xdmcp_really_send_managed_forward env a b f)" by simp
  then show ?thesis by (auto simp: mdm_xdmcp_send_managed_forward_def Let_def inv_defs)
qed

lemma inv_remove_forward: "xdmcp_inv f \<Longrightarrow> xdmcp_inv (f\<lparr>managed_forwards := filter P (managed_forwards f)\<rparr>)"
  by (auto simp: inv_defs distinct_map_filter)

lemma inv_count_forward:
  "xdmcp_inv f \<Longrightarrow> 0 \<le> n \<Longrightarrow> n \<le> 1 \<Longrightarrow>
   xdmcp_inv (f\<lparr>managed_forwards :=
     map (\<lambda>m. if mf_node m = node then m\<lparr>mf_times := n\<rparr> else m) (managed_forwards f)\<rparr>)"
proof -
  have "mf_node \<circ> (\<lambda>m :: managed_forward. if mf_node m = node then m\<lparr>mf_times := n\<rparr> else m) = mf_node"
    by (rule ext) simp
  then show "xdmcp_inv f \<Longrightarrow> 0 \<le> n \<Longrightarrow> n \<le> 1 \<Longrightarrow> ?thesis" by (auto simp: inv_defs)
qed

lemma inv_forward_timeout [simp]:
  assumes "xdmcp_inv f"
  shows "xdmcp_inv (managed_forward_handler env node f)"
proof (cases "List.find (\<lambda>mf. mf_node mf = node) (managed_forwards f)")
  case None
  with assms show ?thesis by (simp add: managed_forward_handler_def)
next
  case (Some mf)
  then have "mf \<in> set (managed_forwards f)" by (auto simp: find_Some_iff)
  then have "0 \<le> mf_times mf" using assms by (auto simp: inv_defs)
  then show ?thesis
    using assms Some by (auto simp: managed_forward_handler_def Let_def inv_remove_forward
        intro!: inv_count_forward)
qed

lemma inv_resolve [simp]: "xdmcp_inv f \<Longrightarrow> xdmcp_inv (resolve_forward_query env a f)"
  using inv_query_lookup [of f env a]
  by (cases "forward_query_lookup env a f") (auto simp: resolve_forward_query_def split: option.split)

subsection \<open>Sessions\<close>

lemma foreach_until_inv:
  assumes "\<And>i p a b c. Q a \<Longrightarrow> func i p a = Some (b, c) \<Longrightarrow> Q c"
  shows "Q a \<Longrightarrow> foreach_until func s a = Some c \<Longrightarrow> Q c"
proof (induction s arbitrary: a)
  case (Cons e s)
  obtain i p where e: "e = (i, p)" by fastforce
  from Cons.prems(2) obtain b u where u: "func i p a = Some (b, u)" by (auto simp: e bind_eq_Some_conv)
  have "Q u" using Cons.prems(1) u by (rule assms)
  with Cons show ?case by (auto simp: e u split: if_split_asm)
qed simp

lemma inv_recount: "xdmcp_inv f \<Longrightarrow> mdm_xdmcp_recount_sessions env f = Some f' \<Longrightarrow> xdmcp_inv f'"
  unfolding mdm_xdmcp_recount_sessions_def mdm_display_store_foreach_def
  by (rule foreach_until_inv [of xdmcp_inv]) (auto simp: count_sessions_def bind_eq_Some_conv)

lemma foreach_remove_inv:
  assumes "\<And>p f b f'. xdmcp_inv f \<Longrightarrow> func p f = Some (b, f') \<Longrightarrow> xdmcp_inv f'"
  shows "xdmcp_inv f \<Longrightarrow> foreach_remove env func s f = Some f' \<Longrightarrow> xdmcp_inv f'"
proof (induction s arbitrary: f)
  case (Cons e s)
  obtain i p where e: "e = (i, p)" by fastforce
  from Cons.prems(2) obtain b u where u: "func p f = Some (b, u)" by (auto simp: e bind_eq_Some_conv)
  have pu: "xdmcp_inv u" using Cons.prems(1) u by (rule assms)
  show ?case
  proof (cases b)
    case False
    with Cons.IH [OF pu] Cons.prems(2) show ?thesis by (simp add: e u)
  next
    case True
    with Cons.prems(2) obtain d where d: "object_unref (x_daemon env) p
        ((base u)\<lparr>display_store := filter (\<lambda>e. e \<noteq> (i, p)) (display_store (base u))\<rparr>) = Some d"
      by (auto simp: e u bind_eq_Some_conv)
    have "base_inv d"
      by (rule base_displays.quiet.P_unref [OF _ d]) (simp add: inv_base_inv pu)
    then have "xdmcp_inv (u\<lparr>base := d\<rparr>)" by (rule inv_base [OF pu])
    with Cons.IH Cons.prems(2) True d show ?thesis by (simp add: e u)
  qed
qed simp

lemma inv_displays_purge: "xdmcp_inv f \<Longrightarrow> mdm_xdmcp_displays_purge env f = Some f' \<Longrightarrow> xdmcp_inv f'"
proof -
  assume f: "xdmcp_inv f" and "mdm_xdmcp_displays_purge env f = Some f'"
  then obtain u where u: "store_foreach_remove env (purge_displays env) f = Some u"
    and f': "mdm_xdmcp_recount_sessions env u = Some f'"
    by (auto simp: mdm_xdmcp_displays_purge_def bind_eq_Some_conv)
  have "xdmcp_inv u"
    by (rule foreach_remove_inv [OF _ f u [unfolded store_foreach_remove_def]])
       (auto simp: purge_displays_def bind_eq_Some_conv split_beta split: if_split_asm)
  then show ?thesis using f' by (rule inv_recount)
qed

lemma inv_dispose_check: "xdmcp_inv f \<Longrightarrow> display_dispose_check env h n f = Some f' \<Longrightarrow> xdmcp_inv f'"
proof -
  assume f: "xdmcp_inv f" and "display_dispose_check env h n f = Some f'"
  then obtain u where u: "store_foreach_remove env (remove_host h n) f = Some u"
    and f': "mdm_xdmcp_recount_sessions env u = Some f'"
    by (auto simp: display_dispose_check_def bind_eq_Some_conv)
  have "xdmcp_inv u"
    by (rule foreach_remove_inv [OF _ f u [unfolded store_foreach_remove_def]])
       (auto simp: remove_host_def bind_eq_Some_conv)
  then show ?thesis using f' by (rule inv_recount)
qed

lemma inv_send_decline [simp]: "xdmcp_inv f \<Longrightarrow> xdmcp_inv (mdm_xdmcp_send_decline env a reason f)"
  by (auto simp: mdm_xdmcp_send_decline_def Let_def packet_ok_def opcodes body_size_def length16_def
      intro!: inv_resolve inv_packet)

lemma inv_send_refuse [simp]: "xdmcp_inv f \<Longrightarrow> xdmcp_inv (mdm_xdmcp_send_refuse env a sessid f)"
  by (auto simp: mdm_xdmcp_send_refuse_def packet_ok_def opcodes body_size_def intro!: inv_resolve inv_packet)

lemma inv_send_failed [simp]: "xdmcp_inv f \<Longrightarrow> xdmcp_inv (mdm_xdmcp_send_failed env a sessid f)"
  by (auto simp: mdm_xdmcp_send_failed_def Let_def packet_ok_def opcodes body_size_def length16_def
      intro!: inv_packet)

lemma inv_send_accept [simp]: "xdmcp_inv f \<Longrightarrow> xdmcp_inv (mdm_xdmcp_send_accept env a s n m o' p f)"
  by (auto simp: mdm_xdmcp_send_accept_def Let_def packet_ok_def opcodes body_size_def length16_def
      intro!: inv_packet)

lemma inv_base_op:
  assumes "xdmcp_inv f" and "base_op g f = Some (r, f')"
    and "\<And>d. base_inv (base f) \<Longrightarrow> g (base f) = Some (r, d) \<Longrightarrow> base_inv d"
  shows "xdmcp_inv f'"
  using assms(2) inv_base_inv [OF assms(1)] by (auto simp: base_op_def intro: inv_base assms(1,3))

text \<open>A session number is never 0; drawing one changes the serial number and the trace only.\<close>

lemma next_session_serial:
  assumes "get_next_session_serial env f = Some r"
  shows "fst r \<noteq> 0 \<and> (\<exists>s t. snd r = f\<lparr>session_serial := s, base := (base f)\<lparr>dtrace := t\<rparr>\<rparr>)"
proof (rule get_next_session_serial.raw_induct [OF _ assms])
  fix g env f r
  assume IH: "\<And>env f r. g env f = Some r \<Longrightarrow>
      fst r \<noteq> 0 \<and> (\<exists>s t. snd r = f\<lparr>session_serial := s, base := (base f)\<lparr>dtrace := t\<rparr>\<rparr>)"
    and body: "(let (serial, f) =
            (if session_serial f \<noteq> G_MAXINT32 then (session_serial f, f\<lparr>session_serial := session_serial f + 1\<rparr>)
             else case fcall env Sys_random_int f of (r, f) \<Rightarrow> (word_of_int r, f))
      in if serial = 0 then g env f else Some (serial, f)) = Some r"
  let ?u = "if session_serial f \<noteq> G_MAXINT32 then f\<lparr>session_serial := session_serial f + 1\<rparr>
    else snd (fcall env Sys_random_int f)"
  have "(fst r \<noteq> 0 \<and> snd r = ?u) \<or> g env ?u = Some r"
    using body by (auto simp: split_beta Let_def split: if_split_asm)
  moreover have "\<exists>s t. ?u = f\<lparr>session_serial := s, base := (base f)\<lparr>dtrace := t\<rparr>\<rparr>"
    by (cases f, cases "base f") (auto simp: fcall_snd)
  ultimately show "fst r \<noteq> 0 \<and> (\<exists>s t. snd r = f\<lparr>session_serial := s, base := (base f)\<lparr>dtrace := t\<rparr>\<rparr>)"
    using IH by fastforce
qed

lemma inv_next_session_serial:
  "xdmcp_inv f \<Longrightarrow> get_next_session_serial env f = Some (serial, f') \<Longrightarrow> xdmcp_inv f'"
  by (auto dest!: next_session_serial simp: inv_defs)

lemma inv_wants_chooser [simp]: "xdmcp_inv f \<Longrightarrow> xdmcp_inv (snd (wants_chooser env a f))"
  using inv_client_lookup [of f env a]
  by (auto simp: wants_chooser_def split_beta)

lemma inv_new_remote_display:
  assumes "xdmcp_inv f"
    and "base_op ((if c then mdm_xdmcp_chooser_display_new else mdm_xdmcp_greeter_display_new)
           (x_daemon env) h n a serial) f = Some (p, f')"
  shows "xdmcp_inv f'"
  using assms(1) assms(2)
  by (rule inv_base_op)
     (auto simp: mdm_xdmcp_chooser_display_new_def mdm_xdmcp_greeter_display_new_def Let_def
       split: if_split_asm intro: base_inv_construct)

lemma inv_prepare:
  "xdmcp_inv f \<Longrightarrow> base_op (mdm_display_prepare (x_daemon env) (display_notify (x_daemon env)) p) f = Some (ok, f')
     \<Longrightarrow> xdmcp_inv f'"
  by (erule inv_base_op, assumption) (rule all_displays.P_prepare)

lemma inv_unmanage:
  "xdmcp_inv f \<Longrightarrow> base_op (mdm_display_unmanage (x_daemon env) (display_notify (x_daemon env)) p) f = Some (ok, f')
     \<Longrightarrow> xdmcp_inv f'"
  by (erule inv_base_op, assumption) (rule all_displays.P_unmanage)

lemma inv_manage:
  "xdmcp_inv f \<Longrightarrow> base_op (mdm_display_manage (x_daemon env) (display_notify (x_daemon env)) p) f = Some (ok, f')
     \<Longrightarrow> xdmcp_inv f'"
  by (erule inv_base_op, assumption) (rule all_displays.P_manage)

lemma base_inv_connect:
  "base_inv d \<Longrightarrow> set_display p (\<lambda>x. x\<lparr>status_handler := True\<rparr>) d = Some d' \<Longrightarrow> base_inv d'"
  unfolding base_inv_def never_managed_def daemon_inv_def own_numbers_def
  by (auto simp: set_display_def bind_eq_Some_conv split: if_split_asm)

text \<open>The creation of a display, step by step.\<close>

lemma display_create_cases:
  assumes "mdm_xdmcp_display_create env h a n f = Some (r, f')"
  obtains (failed) c u serial v p w x b y d where
      "wants_chooser env a f = (c, u)" "get_next_session_serial env u = Some (serial, v)"
      "base_op ((if c then mdm_xdmcp_chooser_display_new else mdm_xdmcp_greeter_display_new)
         (x_daemon env) h n a serial) v = Some (p, w)"
      "base_op (mdm_display_prepare (x_daemon env) (display_notify (x_daemon env)) p) w = Some (False, x)"
      "base_op (mdm_display_unmanage (x_daemon env) (display_notify (x_daemon env)) p) x = Some (b, y)"
      "object_unref (x_daemon env) p (base y) = Some d" "r = None" "f' = y\<lparr>base := d\<rparr>"
  | (created) c u serial v p w x d e where
      "wants_chooser env a f = (c, u)" "get_next_session_serial env u = Some (serial, v)"
      "base_op ((if c then mdm_xdmcp_chooser_display_new else mdm_xdmcp_greeter_display_new)
         (x_daemon env) h n a serial) v = Some (p, w)"
      "base_op (mdm_display_prepare (x_daemon env) (display_notify (x_daemon env)) p) w = Some (True, x)"
      "set_display p (\<lambda>x. x\<lparr>status_handler := True\<rparr>) (base x) = Some d"
      "mdm_display_store_add (x_daemon env) p d = Some e" "r = Some p"
      "f' = x\<lparr>base := e, num_pending_sessions := num_pending_sessions x + 1\<rparr>"
proof -
  obtain c u where u: "wants_chooser env a f = (c, u)" by fastforce
  with assms obtain serial v where v: "get_next_session_serial env u = Some (serial, v)"
    by (auto simp: mdm_xdmcp_display_create_def bind_eq_Some_conv)
  with assms u obtain p w where w: "base_op ((if c then mdm_xdmcp_chooser_display_new else mdm_xdmcp_greeter_display_new)
         (x_daemon env) h n a serial) v = Some (p, w)"
    by (auto simp: mdm_xdmcp_display_create_def bind_eq_Some_conv simp del: if_split)
  with assms u v obtain ok x where x:
    "base_op (mdm_display_prepare (x_daemon env) (display_notify (x_daemon env)) p) w = Some (ok, x)"
    by (auto simp: mdm_xdmcp_display_create_def bind_eq_Some_conv)
  show thesis
  proof (cases ok)
    case True
    with assms u v w x created [OF u v w] show thesis
      by (auto simp: mdm_xdmcp_display_create_def bind_eq_Some_conv)
  next
    case False
    with assms u v w x failed [OF u v w] show thesis
      by (auto simp: mdm_xdmcp_display_create_def bind_eq_Some_conv)
  qed
qed

lemma inv_display_create:
  assumes "xdmcp_inv f" and "mdm_xdmcp_display_create env h a n f = Some (r, f')"
  shows "xdmcp_inv f'"
  using assms(2)
proof (cases rule: display_create_cases)
  case (failed c u serial v p w x b y d)
  have "xdmcp_inv u" using inv_wants_chooser [OF assms(1), of env a] failed(1) by simp
  then have "xdmcp_inv v" using failed(2) by (rule inv_next_session_serial)
  then have "xdmcp_inv w" using failed(3) by (rule inv_new_remote_display)
  then have "xdmcp_inv x" using failed(4) by (rule inv_prepare)
  then have "xdmcp_inv y" using failed(5) by (rule inv_unmanage)
  then show ?thesis
    unfolding failed(8) using failed(6) by (blast intro: inv_base base_displays.quiet.P_unref inv_base_inv)
next
  case (created c u serial v p w x d e)
  have "xdmcp_inv u" using inv_wants_chooser [OF assms(1), of env a] created(1) by simp
  then have "xdmcp_inv v" using created(2) by (rule inv_next_session_serial)
  then have "xdmcp_inv w" using created(3) by (rule inv_new_remote_display)
  then have px: "xdmcp_inv x" using created(4) by (rule inv_prepare)
  have "base_inv d" using inv_base_inv [OF px] created(5) by (rule base_inv_connect)
  then have "base_inv e" using created(6) by (rule base_displays.quiet.P_store_add)
  then show ?thesis unfolding created(8) by (simp add: inv_base px)
qed

lemma inv_enter_display:
  assumes "xdmcp_inv f" and "enter_display env a h n f = Some f'"
  shows "xdmcp_inv f'"
proof -
  obtain u where u: "display_dispose_check env h n f = Some u"
    using assms(2) by (auto simp: enter_display_def bind_eq_Some_conv)
  have pu: "xdmcp_inv u" using assms(1) u by (rule inv_dispose_check)
  show ?thesis
  proof (cases "num_pending_sessions u \<ge> max_pending_displays (config u)")
    case True
    with assms(2) u pu show ?thesis by (auto simp: enter_display_def)
  next
    case False
    with assms(2) u obtain r v where v: "mdm_xdmcp_display_create env h a n u = Some (r, v)"
      by (auto simp: enter_display_def bind_eq_Some_conv)
    have "xdmcp_inv v" using pu v by (rule inv_display_create)
    with assms(2) u v False show ?thesis
      by (auto simp: enter_display_def bind_eq_Some_conv split: option.split_asm)
  qed
qed

lemma inv_answer_request:
  assumes "xdmcp_inv f" and "answer_request env a h r f = Some f'"
  shows "xdmcp_inv f'"
proof (cases "\<not> supports_cookies r \<or> num_sessions f \<ge> max_displays (config f)")
  case True
  with assms show ?thesis by (auto simp: answer_request_def split: if_split_asm)
next
  case False
  with assms(2) obtain full u where u: "host_is_full env (\<ge>) a f = Some (full, u)"
    by (auto simp: answer_request_def bind_eq_Some_conv)
  have "xdmcp_inv u" using assms(1) u by (rule inv_host_is_full)
  with assms(2) False u show ?thesis
    by (auto simp: answer_request_def split: if_split_asm intro: inv_enter_display)
qed

lemma inv_handle_request:
  assumes "xdmcp_inv f" and "mdm_xdmcp_handle_request env a len buf f = Some f'"
  shows "xdmcp_inv f'"
proof -
  obtain allowed u where u: "mdm_xdmcp_host_allow env a f = (allowed, u)" by fastforce
  have pu: "xdmcp_inv u" using inv_host_allow [of env a f] assms(1) u by simp
  show ?thesis
  proof (cases allowed)
    case False
    with assms(2) u pu show ?thesis by (simp add: mdm_xdmcp_handle_request_def)
  next
    case True
    with assms(2) u obtain v where v: "mdm_xdmcp_displays_purge env u = Some v"
      by (auto simp: mdm_xdmcp_handle_request_def bind_eq_Some_conv)
    have "xdmcp_inv v" using pu v by (rule inv_displays_purge)
    with assms(2) True u v show ?thesis
      by (auto simp: mdm_xdmcp_handle_request_def split: option.split_asm if_split_asm
          dest: inv_answer_request)
  qed
qed

lemma inv_forget [simp]: "xdmcp_inv f \<Longrightarrow> xdmcp_inv (forget_indirect_client env a f)"
  using inv_client_lookup [of f env a]
  by (cases "indirect_client_lookup env a f") (auto simp: forget_indirect_client_def split: option.split)

lemma inv_start_session: "xdmcp_inv f \<Longrightarrow> start_session env a sessid p f = Some f' \<Longrightarrow> xdmcp_inv f'"
  by (auto simp: start_session_def bind_eq_Some_conv Let_def dest!: inv_manage [rotated])

lemma inv_answer_manage: "xdmcp_inv f \<Longrightarrow> answer_manage env a sessid f = Some f' \<Longrightarrow> xdmcp_inv f'"
  by (auto simp: answer_manage_def bind_eq_Some_conv split: option.split_asm if_split_asm
      dest: inv_start_session)

lemma inv_handle_manage: "xdmcp_inv f \<Longrightarrow> mdm_xdmcp_handle_manage env a len buf f = Some f' \<Longrightarrow> xdmcp_inv f'"
  by (auto simp: mdm_xdmcp_handle_manage_def Let_def split_beta split: option.split_asm if_split_asm
      dest!: inv_answer_manage [rotated])

lemma inv_managed_forward [simp]: "xdmcp_inv f \<Longrightarrow> xdmcp_inv (mdm_xdmcp_handle_managed_forward env a len buf f)"
  by (auto simp: mdm_xdmcp_handle_managed_forward_def split_beta Let_def split: option.split)

lemma inv_got_managed_forward [simp]:
  "xdmcp_inv f \<Longrightarrow> xdmcp_inv (mdm_xdmcp_handle_got_managed_forward env a len buf f)"
  by (auto simp: mdm_xdmcp_handle_got_managed_forward_def split_beta split: option.split)

lemma inv_send_alive: "xdmcp_inv f \<Longrightarrow> mdm_xdmcp_send_alive env a n sessid f = Some f' \<Longrightarrow> xdmcp_inv f'"
proof -
  assume f: "xdmcp_inv f" and "mdm_xdmcp_send_alive env a n sessid f = Some f'"
  then obtain number where f': "f' = send_packet XDM_PROTOCOL_VERSION ALIVE 5 [CARD8 0, CARD32 number] a f"
    by (auto simp: mdm_xdmcp_send_alive_def bind_eq_Some_conv split: option.split_asm if_split_asm
        dest: never_managed_lookup [OF inv_never_managed [OF f]])
  show ?thesis unfolding f'
    by (auto simp: packet_ok_def opcodes body_size_def f intro!: inv_packet)
qed

lemma inv_handle_keepalive:
  "xdmcp_inv f \<Longrightarrow> mdm_xdmcp_handle_keepalive env a len buf f = Some f' \<Longrightarrow> xdmcp_inv f'"
  by (auto simp: mdm_xdmcp_handle_keepalive_def split_beta split: option.split_asm if_split_asm
      dest!: inv_send_alive [rotated])

subsection \<open>The machine\<close>

lemma inv_set_chosen [simp]: "xdmcp_inv f \<Longrightarrow> xdmcp_inv (set_chosen_address ic c f)"
proof -
  have "ic_node \<circ> (\<lambda>m :: indirect_client. if ic_node m = ic_node ic then m\<lparr>ic_chosen_address := c\<rparr> else m) = ic_node"
    by (rule ext) simp
  then show "xdmcp_inv f \<Longrightarrow> ?thesis" by (auto simp: inv_defs set_chosen_address_def)
qed

lemma inv_hostname_selected: "xdmcp_inv f \<Longrightarrow> on_hostname_selected env p h f = Some f' \<Longrightarrow> xdmcp_inv f'"
  by (auto simp: on_hostname_selected_def bind_eq_Some_conv Let_def split_beta split: option.split list.split)

lemma inv_dispatch: "xdmcp_inv f \<Longrightarrow> dispatch_packet env a h buf f = Some f' \<Longrightarrow> xdmcp_inv f'"
  by (auto simp: dispatch_packet_def Let_def split: if_split_asm
      dest: inv_broadcast_query inv_query inv_indirect_query inv_forward_query inv_handle_request
        inv_handle_manage inv_handle_keepalive)

lemma inv_decode: "xdmcp_inv f \<Longrightarrow> decode_packet env r datagram f = Some f' \<Longrightarrow> xdmcp_inv f'"
  by (auto simp: decode_packet_def Let_def split: if_split_asm option.split_asm
      dest!: inv_dispatch [rotated])

lemma inv_create_socket [simp]: "xdmcp_inv (snd (create_socket env ai f)) = xdmcp_inv f"
  by (simp add: create_socket_def split_beta)

lemma inv_bind_first [simp]: "xdmcp_inv (snd (bind_first env l sock f)) = xdmcp_inv f"
  by (induction l arbitrary: sock f) (simp_all add: split_beta)

lemma inv_do_bind: "xdmcp_inv f \<Longrightarrow> do_bind env port fam f = Some (sock, f') \<Longrightarrow> xdmcp_inv f'"
  by (auto simp: do_bind_def Let_def) (metis inv_bind_first inv_fcall snd_conv)

lemma inv_join_groups:
  "xdmcp_inv (fold (\<lambda>i f. if ifr_up i \<noteq> Some True \<or> ifr_loopback i \<or> ifr_missing i then f
     else snd (fcall env (Sys_join_group (multicast_address (config f)) (ifr_name i)) f)) l f) = xdmcp_inv f"
  by (induction l arbitrary: f) simp_all

lemma inv_setup_multicast [simp]: "xdmcp_inv (setup_multicast env f) = xdmcp_inv f"
  by (simp add: setup_multicast_def Let_def inv_join_groups [simplified] split: option.split)

lemma inv_open_port:
  assumes "xdmcp_inv f" and "open_port env f = Some (r, f')"
  shows "xdmcp_inv f'"
proof -
  obtain s u where u: "do_bind env (xdmcp_port (config f)) AF_INET6_NUMBER f = Some (s, u)"
    using assms(2) by (auto simp: open_port_def bind_eq_Some_conv)
  obtain s' v where v: "(if s < 0 then do_bind env (xdmcp_port (config u)) AF_INET_NUMBER u
      else Some (s, u)) = Some (s', v)"
    using assms(2) by (auto simp: open_port_def u bind_eq_Some_conv simp del: if_split)
  have "xdmcp_inv u" using assms(1) u by (rule inv_do_bind)
  then have "xdmcp_inv v" using v by (auto split: if_splits intro: inv_do_bind)
  with assms(2) show ?thesis by (auto simp: open_port_def u v Let_def split: if_split_asm)
qed

lemma inv_start: "xdmcp_inv f \<Longrightarrow> mdm_xdmcp_display_factory_start env f = Some (r, f') \<Longrightarrow> xdmcp_inv f'"
  by (auto simp: mdm_xdmcp_display_factory_start_def bind_eq_Some_conv split: if_split_asm
      dest!: inv_open_port [rotated])

lemma inv_stop [simp]: "xdmcp_inv f \<Longrightarrow> xdmcp_inv (snd (mdm_xdmcp_display_factory_stop env f))"
  by (simp add: mdm_xdmcp_display_factory_stop_def Let_def)

lemma xdmcp_step_inv:
  assumes "xdmcp_inv f" and "xdmcp_step env e f = Some f'"
  shows "xdmcp_inv f'"
proof (cases e)
  case (Base_event b)
  have d: "base_inv (base f)" using assms(1) by (rule inv_base_inv)
  have "\<exists>d. f' = f\<lparr>base := d\<rparr> \<and> base_inv d" if "\<nexists>p. b = Finish_idle p"
    using assms(2) Base_event that base_displays.P_daemon_step [OF d]
    by (cases b) (auto simp: xdmcp_step_def)
  moreover have "f' = f \<or> (\<exists>d. f' = f\<lparr>base := d\<rparr> \<and> base_inv d)" if "b = Finish_idle p" for p
    using assms(2) Base_event that all_displays.P_finish_idle [OF d] base_displays.running.P_finish_idle [OF d]
    by (auto simp: xdmcp_step_def display_handler_def split: option.split_asm if_split_asm)
  ultimately show ?thesis using assms(1) by (metis inv_base)
qed (use assms in \<open>auto simp: xdmcp_step_def split: if_split_asm option.split_asm display_class.split_asm
       intro: inv_start inv_decode inv_hostname_selected\<close>)

interpretation xdmcp_machine: event_machine "xdmcp_step env" xdmcp_inv for env
  by unfold_locales (rule xdmcp_step_inv)

end
