(* ===== verification/Xdmcp_Sessions.thy ===== *)
theory Xdmcp_Sessions
  imports Xdmcp_Invariant
begin

text \<open>
  What the operations on a remote display do: its creation, its preparation with the cookie, its place in
  the store, and the start of its slave; and what the handlers leave alone.
\<close>

subsection \<open>A new remote display\<close>

lemma construct_display_spec:
  assumes "construct_display env cls slave host num name local d = Some (p, v)"
  obtains x where "p = next_object d" and "heap v = (heap d)(p \<mapsto> x)" and "display_store v = display_store d"
    and "disp_class x = cls" and "x11_number x = num" and "remote_hostname x = host" and "is_local x = local"
    and "disp_status x = MDM_DISPLAY_UNMANAGED" and "disp_proxy x = None" and "\<not> status_handler x"
    and "refs x = 1" and "disp_access_file x = None"
  using assms
  by (auto simp: construct_display_def get_next_display_serial_def daemon_call_def dcall_def Let_def
      split: if_split_asm)

text \<open>The handler has nothing to do when a remote display becomes prepared.\<close>

lemma notify_remote_prepared:
  "heap d p = Some x \<Longrightarrow> xdmcp_display (disp_class x) = Some priv \<Longrightarrow> disp_status x = MDM_DISPLAY_PREPARED \<Longrightarrow>
   display_notify env p d = Some d"
  by (simp add: display_notify_def on_display_status_changed_def)

text \<open>A display that has been prepared successfully has its cookie in an open authority file.\<close>

definition prepared_from :: "display \<Rightarrow> display \<Rightarrow> bool" where
  "prepared_from x y \<longleftrightarrow> disp_class y = disp_class x \<and> x11_number y = x11_number x \<and> disp_id y = disp_id x \<and>
     remote_hostname y = remote_hostname x \<and> disp_status y = MDM_DISPLAY_PREPARED \<and> disp_proxy y \<noteq> None \<and>
     x11_cookie y \<noteq> None \<and> disp_access_file y \<noteq> None \<and> refs y = refs x \<and> status_handler y = status_handler x"

lemma remote_authority:
  assumes "heap d p = Some x" and "xdmcp_display (disp_class x) = Some priv"
    and "mdm_display_create_authority env p d = Some (True, d')" and "0 < refs x"
  obtains c f t where "d' = put p (x\<lparr>x11_cookie := Some c, disp_access_file := Some f\<rparr>) (d\<lparr>dtrace := t\<rparr>)"
proof -
  let ?y = "x\<lparr>refs := Suc (refs x)\<rparr>"
  obtain u where u: "mdm_display_real_create_authority env p (put p ?y d) = Some (True, u)"
    and d': "object_unref env p u = Some d'"
    using assms by (auto simp: mdm_display_create_authority_def with_ref_def object_ref_def bind_eq_Some_conv)
  then obtain c f t where "u = put p (?y\<lparr>x11_cookie := Some c, disp_access_file := Some f\<rparr>) ((put p ?y d)\<lparr>dtrace := t\<rparr>)"
    by (auto simp: mdm_display_real_create_authority_def bind_eq_Some_conv Let_def
        split: if_split_asm option.split_asm)
  with d' have "d' = put p (x\<lparr>x11_cookie := Some c, disp_access_file := Some f\<rparr>) (d\<lparr>dtrace := t\<rparr>)"
    using assms(4) by (auto simp: object_unref_def put_def split: if_split_asm)
  then show thesis by (rule that)
qed

lemma remote_prepare:
  assumes "heap d p = Some x" and "xdmcp_display (disp_class x) = Some priv"
    and "mdm_display_prepare env (display_notify env) p d = Some (True, d')" and "0 < refs x"
    and "disp_status x = MDM_DISPLAY_UNMANAGED"
  obtains y t where "d' = put p y (d\<lparr>dtrace := t\<rparr>)" and "prepared_from x y"
proof -
  let ?x = "x\<lparr>refs := Suc (refs x)\<rparr>"
  obtain u where u: "mdm_display_real_prepare env (display_notify env) p (put p ?x d) = Some (True, u)"
    and d': "object_unref env p u = Some d'"
    using assms by (auto simp: mdm_display_prepare_def with_ref_def object_ref_def bind_eq_Some_conv)
  from u assms(1) obtain a where a: "mdm_display_create_authority env p (put p ?x d) = Some (True, a)"
    by (auto simp: mdm_display_real_prepare_def bind_eq_Some_conv split: if_split_asm)
  obtain c f t where a': "a = put p (?x\<lparr>x11_cookie := Some c, disp_access_file := Some f\<rparr>) ((put p ?x d)\<lparr>dtrace := t\<rparr>)"
    by (rule remote_authority [of "put p ?x d" p ?x priv, OF _ _ a]) (simp_all add: assms)
  let ?y = "?x\<lparr>x11_cookie := Some c, disp_access_file := Some f, disp_status := MDM_DISPLAY_PREPARED\<rparr>"
  have "set_status (display_notify env) p MDM_DISPLAY_PREPARED a = Some (put p ?y (d\<lparr>dtrace := t\<rparr>))"
    using assms(2,5) by (auto simp: a' set_status_def put_def notify_remote_prepared)
  then obtain s where "u = put p (?y\<lparr>disp_proxy := Some s\<rparr>) (d\<lparr>dtrace := t\<rparr>)"
    using u a assms(1) by (auto simp: mdm_display_real_prepare_def put_def Let_def split: if_split_asm)
  with d' assms(4) have "d' = put p (?y\<lparr>disp_proxy := Some s, refs := refs x\<rparr>) (d\<lparr>dtrace := t\<rparr>)"
    by (auto simp: object_unref_def put_def split: if_split_asm)
  then show thesis by (rule that) (simp add: prepared_from_def)
qed

text \<open>What a display that was created for a host is.\<close>

definition remote_session :: "xdmcp_factory \<Rightarrow> nat \<Rightarrow> address \<Rightarrow> string \<Rightarrow> int \<Rightarrow> 32 word \<Rightarrow> string \<Rightarrow> bool" where
  "remote_session f p a h n sessid cookie \<longleftrightarrow>
     (\<exists>x. heap (base f) p = Some x \<and>
          xdmcp_display (disp_class x) = Some \<lparr>remote_address = a, session_number = sessid\<rparr> \<and>
          remote_hostname x = Some h \<and> x11_number x = n \<and> disp_status x = MDM_DISPLAY_PREPARED \<and>
          x11_cookie x = Some cookie \<and> disp_access_file x \<noteq> None \<and> disp_proxy x \<noteq> None \<and> status_handler x \<and>
          store_lookup (display_store (base f)) (disp_id x) = Some p)"

lemma remote_session_base: "base g = base f \<Longrightarrow> remote_session g = remote_session f"
  by (intro ext) (simp add: remote_session_def)

lemma store_lookup_insert [simp]: "store_lookup (store_insert i p s) i = Some p"
  by (simp add: store_lookup_def store_insert_def update_conv')

lemma unref_other:
  "object_unref env q d = Some e \<Longrightarrow> display_store e = display_store d \<and> (q \<noteq> p \<longrightarrow> heap e p = heap d p)"
  by (auto simp: object_unref_def mdm_display_dispose_def bind_eq_Some_conv Let_def split_beta
      split: if_split_asm)

lemma store_add_remote:
  assumes "mdm_display_store_add env p d = Some e" and "heap d p = Some x" and "refs x = 1"
  shows "\<exists>k. heap e p = Some (x\<lparr>refs := k\<rparr>) \<and> store_lookup (display_store e) (disp_id x) = Some p"
proof -
  let ?x = "x\<lparr>refs := 2\<rparr>"
  let ?d = "(put p ?x d)\<lparr>display_store := store_insert (disp_id x) p (display_store d)\<rparr>"
  have "e = ?d \<or> (\<exists>q. object_unref env q ?d = Some e)"
    using assms by (auto simp: mdm_display_store_add_def object_ref_def Let_def numeral_2_eq_2
        split: option.split_asm)
  then show ?thesis
  proof
    assume "e = ?d"
    then show ?thesis by auto
  next
    assume "\<exists>q. object_unref env q ?d = Some e"
    then obtain q where q: "object_unref env q ?d = Some e" ..
    show ?thesis
    proof (cases "q = p")
      case True
      with q show ?thesis by (auto simp: object_unref_def)
    next
      case False
      with unref_other [OF q, of p] show ?thesis by auto
    qed
  qed
qed

lemma display_create_session:
  assumes "mdm_xdmcp_display_create env h a n f = Some (Some p, f')"
  obtains sessid cookie where "sessid \<noteq> 0" and "remote_session f' p a h n sessid cookie"
  using assms
proof (cases rule: display_create_cases)
  case (created c u serial v q w x d e)
  then have [simp]: "q = p" by simp
  have serial: "serial \<noteq> 0" using next_session_serial [OF created(2)] by simp
  let ?priv = "\<lparr>remote_address = a, session_number = serial\<rparr>"
  obtain y where y: "heap (base w) p = Some y" "xdmcp_display (disp_class y) = Some ?priv"
    "x11_number y = n" "remote_hostname y = Some h" "refs y = 1"
    "disp_status y = MDM_DISPLAY_UNMANAGED"
    using created(3)
    by (cases c) (auto simp: base_op_def mdm_xdmcp_chooser_display_new_def
        mdm_xdmcp_greeter_display_new_def Let_def elim!: construct_display_spec)
  obtain z t where z: "base x = put p z ((base w)\<lparr>dtrace := t\<rparr>)" "prepared_from y z"
    using created(4) y
    by (auto simp: base_op_def elim!: remote_prepare)
  then obtain cookie where cookie: "x11_cookie z = Some cookie" by (auto simp: prepared_from_def)
  let ?z = "z\<lparr>status_handler := True\<rparr>"
  have d: "d = put p ?z ((base w)\<lparr>dtrace := t\<rparr>)"
    using created(5) z(1) by (auto simp: set_display_def put_def)
  from store_add_remote [OF created(6), of ?z] y(5) z(2)
  have "\<exists>k. heap e p = Some (?z\<lparr>refs := k\<rparr>) \<and> store_lookup (display_store e) (disp_id z) = Some p"
    by (simp add: d prepared_from_def)
  with z(2) y cookie created(7,8) have "remote_session f' p a h n serial cookie"
    by (auto simp: remote_session_def prepared_from_def)
  with serial show thesis by (rule that)
qed simp

subsection \<open>What the handlers leave alone\<close>

text \<open>The fields that the tables' operations never touch.\<close>

definition same_sessions :: "xdmcp_factory \<Rightarrow> xdmcp_factory \<Rightarrow> bool" where
  "same_sessions f g \<longleftrightarrow> config g = config f \<and> num_sessions g = num_sessions f \<and>
     num_pending_sessions g = num_pending_sessions f \<and> (base g)\<lparr>dtrace := []\<rparr> = (base f)\<lparr>dtrace := []\<rparr>"

lemma same_sessions_base: "same_sessions f g \<Longrightarrow> base g = (base f)\<lparr>dtrace := dtrace (base g)\<rparr>"
  by (cases "base f"; cases "base g") (auto simp: same_sessions_def)

lemma same_sessions_refl [simp]: "same_sessions f f"
  by (simp add: same_sessions_def)

lemma same_sessions_trans: "same_sessions f g \<Longrightarrow> same_sessions g h \<Longrightarrow> same_sessions f h"
  by (simp add: same_sessions_def)

lemma same_sessions_updates [simp]:
  "same_sessions f (g\<lparr>forward_queries := a1\<rparr>) = same_sessions f g"
  "same_sessions f (g\<lparr>managed_forwards := a2\<rparr>) = same_sessions f g"
  "same_sessions f (g\<lparr>indirect_clients := a3\<rparr>) = same_sessions f g"
  "same_sessions f (g\<lparr>next_node := a4\<rparr>) = same_sessions f g"
  "same_sessions f (g\<lparr>sent := a5\<rparr>) = same_sessions f g"
  "same_sessions f (g\<lparr>base := (base g)\<lparr>dtrace := t\<rparr>\<rparr>) = same_sessions f g"
  by (simp_all add: same_sessions_def)

lemma same_send [simp]: "same_sessions f (send_packet v c len body a g) = same_sessions f g"
  by (simp add: send_packet_def)

lemma client_lookup_loop_same:
  "same_sessions f (snd (indirect_client_lookup_loop now a l g)) = same_sessions f g \<and>
   dtrace (base (snd (indirect_client_lookup_loop now a l g))) = dtrace (base g) \<and>
   sent (snd (indirect_client_lookup_loop now a l g)) = sent g"
  by (induction l arbitrary: g) (simp_all add: indirect_client_destroy_def)

lemma query_lookup_loop_same:
  "same_sessions f (snd (forward_query_lookup_loop now a l g)) = same_sessions f g \<and>
   dtrace (base (snd (forward_query_lookup_loop now a l g))) = dtrace (base g) \<and>
   sent (snd (forward_query_lookup_loop now a l g)) = sent g"
  by (induction l arbitrary: g) (simp_all add: forward_query_destroy_def)

lemma client_lookup_same [simp]:
  "same_sessions f (snd (indirect_client_lookup env a g)) = same_sessions f g"
  "dtrace (base (snd (indirect_client_lookup env a g))) = Sys_time # dtrace (base g)"
  "sent (snd (indirect_client_lookup env a g)) = sent g"
  by (simp_all add: indirect_client_lookup_def split_beta client_lookup_loop_same fcall_snd)

lemma query_lookup_same [simp]:
  "same_sessions f (snd (forward_query_lookup env a g)) = same_sessions f g"
  "dtrace (base (snd (forward_query_lookup env a g))) = Sys_time # dtrace (base g)"
  "sent (snd (forward_query_lookup env a g)) = sent g"
  by (simp_all add: forward_query_lookup_def split_beta query_lookup_loop_same fcall_snd)

lemma forget_same:
  "same_sessions f (forget_indirect_client env a g) = same_sessions f g \<and>
   dtrace (base (forget_indirect_client env a g)) =
     (if honor_indirect (config g) then [Sys_time] else []) @ dtrace (base g)"
  using client_lookup_same [where env = env and a = a and g = g]
  by (cases "indirect_client_lookup env a g")
     (auto simp: forget_indirect_client_def indirect_client_destroy_def split: option.split)

lemma resolve_same:
  "same_sessions f (resolve_forward_query env a g) = same_sessions f g \<and>
   dtrace (base (resolve_forward_query env a g)) = Sys_time # dtrace (base g)"
  using query_lookup_same [where env = env and a = a and g = g]
  by (cases "forward_query_lookup env a g")
     (auto simp: resolve_forward_query_def forward_query_destroy_def mdm_xdmcp_send_managed_forward_def
       mdm_xdmcp_really_send_managed_forward_def send_packet_def Let_def split: option.split)

subsection \<open>Starting a session\<close>

lemma manage_prepared:
  assumes "heap d p = Some x" and "disp_status x = MDM_DISPLAY_PREPARED" and "disp_proxy x = Some s"
    and "0 < refs x"
  shows "\<exists>y. mdm_display_manage env notify p d =
      Some (True, put p y (d\<lparr>dtrace := Sys_spawn (command s) (log_path s) # Sys_clock # dtrace d\<rparr>)) \<and>
    disp_status y = MDM_DISPLAY_PREPARED \<and> disp_class y = disp_class x \<and> refs y = refs x \<and>
    (\<exists>r. disp_proxy y = Some r \<and> command r = command s \<and> log_path r = log_path s)"
  using assms
  by (auto simp: mdm_display_manage_def with_ref_def object_ref_def object_unref_def
      mdm_display_real_manage_def daemon_call_def dcall_def Let_def put_def mdm_slave_proxy_start_def
      spawn_slave_def)

text \<open>Finding a session depends on the class of the displays only.\<close>

lemma find_display_cong:
  "(\<And>p. P p = Q p) \<Longrightarrow> find_display P s = find_display Q s"
  by (rule arg_cong [of P Q "\<lambda>P. find_display P s"]) (rule ext)

lemma display_lookup_same:
  assumes "display_store (base g) = display_store (base f)" and "heap (base g) = (heap (base f))(p \<mapsto> y)"
    and "heap (base f) p = Some x" and "disp_class y = disp_class x"
  shows "mdm_xdmcp_display_lookup env sessid g = mdm_xdmcp_display_lookup env sessid f"
  using assms
  by (auto simp: mdm_xdmcp_display_lookup_def store_find_def lookup_by_session_id_def intro!: find_display_cong)

lemma answer_manage_prepared:
  assumes "mdm_xdmcp_display_lookup env sessid f = Some (Some p)" and "heap (base f) p = Some x"
    and "disp_status x = MDM_DISPLAY_PREPARED" and "disp_proxy x = Some s" and "0 < refs x"
  shows "\<exists>f' y. answer_manage env a sessid f = Some f' \<and>
    num_sessions f' = num_sessions f + 1 \<and> num_pending_sessions f' = num_pending_sessions f - 1 \<and>
    dtrace (base f') = [Sys_spawn (command s) (log_path s), Sys_clock, Sys_time] @
      (if honor_indirect (config f) then [Sys_time] else []) @ dtrace (base f) \<and>
    heap (base f') = (heap (base f))(p \<mapsto> y) \<and> display_store (base f') = display_store (base f) \<and>
    disp_status y = MDM_DISPLAY_PREPARED \<and> disp_class y = disp_class x \<and> refs y = refs x \<and>
    (\<exists>r. disp_proxy y = Some r \<and> command r = command s \<and> log_path r = log_path s)"
proof -
  let ?u = "resolve_forward_query env a (forget_indirect_client env a f)"
  let ?t = "Sys_time # (if honor_indirect (config f) then [Sys_time] else []) @ dtrace (base f)"
  have same: "same_sessions f ?u" and trace: "dtrace (base ?u) = ?t"
    by (simp_all add: resolve_same forget_same)
  then have u: "num_sessions ?u = num_sessions f" "num_pending_sessions ?u = num_pending_sessions f"
    "base ?u = (base f)\<lparr>dtrace := ?t\<rparr>"
    by (simp_all add: same_sessions_def) (use same_sessions_base [OF same] trace in simp)
  from manage_prepared [of "(base f)\<lparr>dtrace := ?t\<rparr>" p x s, OF _ assms(3-5)] assms(2)
  obtain y where y: "mdm_display_manage (x_daemon env) (display_notify (x_daemon env)) p ((base f)\<lparr>dtrace := ?t\<rparr>) =
      Some (True, put p y ((base f)\<lparr>dtrace := Sys_spawn (command s) (log_path s) # Sys_clock # ?t\<rparr>))"
    "disp_status y = MDM_DISPLAY_PREPARED" "disp_class y = disp_class x" "refs y = refs x"
    "\<exists>r. disp_proxy y = Some r \<and> command r = command s \<and> log_path r = log_path s"
    by fastforce
  have "answer_manage env a sessid f = start_session env a sessid p f"
    using assms by (simp add: answer_manage_def)
  also have "\<dots> = Some (?u\<lparr>num_sessions := num_sessions f + 1, num_pending_sessions := num_pending_sessions f - 1,
      base := put p y ((base f)\<lparr>dtrace := Sys_spawn (command s) (log_path s) # Sys_clock # ?t\<rparr>)\<rparr>)"
    using y(1) by (simp add: start_session_def base_op_def u Let_def)
  finally show ?thesis using y(2-5) by auto
qed

subsection \<open>Accepted requests\<close>

lemma host_allow_effect:
  "\<exists>c h. mdm_xdmcp_host_allow env a f =
     (d_result (x_daemon env) (Sys_hosts_ctl c h # Sys_getnameinfo a # ftrace f) \<noteq> 0,
      f\<lparr>base := (base f)\<lparr>dtrace := Sys_hosts_ctl c h # Sys_getnameinfo a # ftrace f\<rparr>\<rparr>)"
  by (simp add: mdm_xdmcp_host_allow_def fcall_def ftrace_def daemon_call_def dcall_def Let_def, blast)

lemma host_allow_same [simp]:
  "same_sessions f (snd (mdm_xdmcp_host_allow env a g)) = same_sessions f g"
  "sent (snd (mdm_xdmcp_host_allow env a g)) = sent g"
proof -
  obtain c h where "mdm_xdmcp_host_allow env a g =
     (d_result (x_daemon env) (Sys_hosts_ctl c h # Sys_getnameinfo a # ftrace g) \<noteq> 0,
      g\<lparr>base := (base g)\<lparr>dtrace := Sys_hosts_ctl c h # Sys_getnameinfo a # ftrace g\<rparr>\<rparr>)"
    using host_allow_effect by blast
  then show "same_sessions f (snd (mdm_xdmcp_host_allow env a g)) = same_sessions f g"
    and "sent (snd (mdm_xdmcp_host_allow env a g)) = sent g" by simp_all
qed

lemma sent_is_local [simp]: "sent (snd (is_local_address env a f)) = sent f"
  by (simp add: is_local_address_def split: prod.split)

lemma sent_host_is_full: "host_is_full env r a f = Some (b, g) \<Longrightarrow> sent g = sent f"
  by (auto simp: host_is_full_def split_beta bind_eq_Some_conv split: if_split_asm)

lemma sent_recount: "mdm_xdmcp_recount_sessions env f = Some g \<Longrightarrow> sent g = sent f"
  unfolding mdm_xdmcp_recount_sessions_def mdm_display_store_foreach_def
  by (rule foreach_until_inv [of "\<lambda>g. sent g = sent f" count_sessions])
     (auto simp: count_sessions_def bind_eq_Some_conv)

lemma sent_foreach_remove:
  assumes "\<And>p f b g. func p f = Some (b, g) \<Longrightarrow> sent g = sent f"
  shows "foreach_remove env func s f = Some g \<Longrightarrow> sent g = sent f"
  by (induction s arbitrary: f) (fastforce simp: bind_eq_Some_conv split: if_split_asm dest: assms)+

lemma sent_displays_purge:
  assumes "mdm_xdmcp_displays_purge env f = Some g"
  shows "sent g = sent f"
proof -
  from assms obtain u where u: "store_foreach_remove env (purge_displays env) f = Some u"
    and g: "mdm_xdmcp_recount_sessions env u = Some g"
    by (auto simp: mdm_xdmcp_displays_purge_def bind_eq_Some_conv)
  have "sent u = sent f"
    by (rule sent_foreach_remove [OF _ u [unfolded store_foreach_remove_def]])
       (auto simp: purge_displays_def bind_eq_Some_conv split_beta fcall_snd split: if_split_asm)
  with sent_recount [OF g] show ?thesis by simp
qed

lemma sent_dispose_check:
  assumes "display_dispose_check env h n f = Some g"
  shows "sent g = sent f"
proof -
  from assms obtain u where u: "store_foreach_remove env (remove_host h n) f = Some u"
    and g: "mdm_xdmcp_recount_sessions env u = Some g"
    by (auto simp: display_dispose_check_def bind_eq_Some_conv)
  have "sent u = sent f"
    by (rule sent_foreach_remove [OF _ u [unfolded store_foreach_remove_def]])
       (auto simp: remove_host_def bind_eq_Some_conv)
  with sent_recount [OF g] show ?thesis by simp
qed

lemma sent_base_op: "base_op g f = Some (r, f') \<Longrightarrow> sent f' = sent f"
  by (auto simp: base_op_def)

lemma sent_wants_chooser [simp]: "sent (snd (wants_chooser env a f)) = sent f"
  by (simp add: wants_chooser_def split_beta)

lemma sent_display_create:
  assumes "mdm_xdmcp_display_create env h a n f = Some (r, f')"
  shows "sent f' = sent f"
  using assms
proof (cases rule: display_create_cases)
  case (failed c u serial v p w x b y d)
  then show ?thesis
    using sent_wants_chooser [of env a f] next_session_serial [OF failed(2)] by (auto dest!: sent_base_op)
next
  case (created c u serial v p w x d e)
  then show ?thesis
    using sent_wants_chooser [of env a f] next_session_serial [OF created(2)] by (auto dest!: sent_base_op)
qed

definition accepts :: "xdmcp_factory \<Rightarrow> (xdmcp_packet \<times> address) list" where
  "accepts f = filter (\<lambda>e. hdr_opcode (pkt_header (fst e)) = ACCEPT) (sent f)"

lemma accepts_send:
  "accepts (send_packet v c len body a f) = (if c = ACCEPT then hd (sent (send_packet v c len body a f)) # accepts f else accepts f)"
  by (simp add: accepts_def send_packet_def)

lemma accepts_decline: "accepts (mdm_xdmcp_send_decline env a reason f) = accepts f"
proof -
  have "accepts (resolve_forward_query env a g) = accepts g" for g
    using query_lookup_same(3) [where env = env and a = a and g = g]
    by (cases "forward_query_lookup env a g")
       (auto simp: resolve_forward_query_def forward_query_destroy_def mdm_xdmcp_send_managed_forward_def
         mdm_xdmcp_really_send_managed_forward_def accepts_def send_packet_def Let_def opcodes split: option.split)
  then show ?thesis by (simp add: mdm_xdmcp_send_decline_def accepts_send opcodes Let_def)
qed

definition accept_packet :: "32 word \<Rightarrow> string \<Rightarrow> xdmcp_packet" where
  "accept_packet sessid cookie =
     \<lparr>pkt_header = \<lparr>hdr_version = XDM_PROTOCOL_VERSION, hdr_opcode = ACCEPT,
        hdr_length = 4 + (2 + 0) + (2 + 0) + (2 + length16 MIT_MAGIC_COOKIE) + (2 + length16 cookie)\<rparr>,
      pkt_fields = [CARD32 sessid, ARRAY8 [], ARRAY8 [], ARRAY8 MIT_MAGIC_COOKIE, ARRAY8 cookie]\<rparr>"

lemma enter_display_accepts:
  assumes "enter_display env a h n f = Some f'"
  shows "accepts f' = accepts f \<or>
    (\<exists>p sessid cookie. sessid \<noteq> 0 \<and> remote_session f' p a h n sessid cookie \<and>
       sent f' = (accept_packet sessid cookie, a) # sent f)"
proof -
  obtain u where u: "display_dispose_check env h n f = Some u"
    using assms by (auto simp: enter_display_def bind_eq_Some_conv)
  have su: "sent u = sent f" using u by (rule sent_dispose_check)
  show ?thesis
  proof (cases "num_pending_sessions u \<ge> max_pending_displays (config u)")
    case True
    with assms u su show ?thesis by (auto simp: enter_display_def accepts_decline) (simp add: accepts_def)
  next
    case False
    with assms u obtain r v where v: "mdm_xdmcp_display_create env h a n u = Some (r, v)"
      by (auto simp: enter_display_def bind_eq_Some_conv)
    have sv: "sent v = sent f" using sent_display_create [OF v] su by simp
    show ?thesis
    proof (cases r)
      case None
      with assms u v sv False show ?thesis by (simp add: enter_display_def accepts_def)
    next
      case (Some p)
      obtain sessid cookie where s: "sessid \<noteq> 0" "remote_session v p a h n sessid cookie"
        using display_create_session v Some by blast
      then have "f' = mdm_xdmcp_send_accept env a sessid [] [] MIT_MAGIC_COOKIE cookie v"
        using assms u v False Some by (auto simp: enter_display_def remote_session_def)
      then have "sent f' = (accept_packet sessid cookie, a) # sent f" and "base f' = base v"
        by (simp_all add: mdm_xdmcp_send_accept_def send_packet_def accept_packet_def Let_def length16_def sv)
      with s show ?thesis by (metis remote_session_base)
    qed
  qed
qed

lemma handle_request_accepts:
  assumes "mdm_xdmcp_handle_request env a len buf f = Some f'"
  shows "accepts f' = accepts f \<or>
    (\<exists>r p sessid cookie. read_request env buf = Some r \<and> supports_cookies r \<and> sessid \<noteq> 0 \<and>
       remote_session f' p a (numeric_host env a) (uint (req_dspnum r)) sessid cookie \<and>
       sent f' = (accept_packet sessid cookie, a) # sent f)"
proof -
  obtain allowed u where u: "mdm_xdmcp_host_allow env a f = (allowed, u)" by fastforce
  then have su: "sent u = sent f" using host_allow_same(2) [of env a f] by simp
  show ?thesis
  proof (cases allowed)
    case False
    with assms u su show ?thesis by (simp add: mdm_xdmcp_handle_request_def accepts_def)
  next
    case True
    with assms u obtain v where v: "mdm_xdmcp_displays_purge env u = Some v"
      by (auto simp: mdm_xdmcp_handle_request_def bind_eq_Some_conv)
    have sv: "sent v = sent f" using sent_displays_purge [OF v] su by simp
    show ?thesis
    proof (cases "\<exists>r. read_request env buf = Some r \<and> request_length r = len")
      case False
      with assms u v True sv show ?thesis
        by (auto simp: mdm_xdmcp_handle_request_def accepts_def split: option.split_asm)
    next
      case r: True
      then obtain r where r: "read_request env buf = Some r" and
        f': "answer_request env a (numeric_host env a) r v = Some f'"
        using assms u v True by (auto simp: mdm_xdmcp_handle_request_def)
      show ?thesis
      proof (cases "supports_cookies r \<and> \<not> num_sessions v \<ge> max_displays (config v)")
        case False
        with f' sv show ?thesis
          by (auto simp: answer_request_def accepts_decline split: if_split_asm) (simp_all add: accepts_def)
      next
        case True
        with f' obtain full w where w: "host_is_full env (\<ge>) a v = Some (full, w)"
          by (auto simp: answer_request_def bind_eq_Some_conv)
        have sw: "sent w = sent f" using sent_host_is_full [OF w] sv by simp
        show ?thesis
        proof (cases full)
          assume full
          with f' True w sw show ?thesis by (auto simp: answer_request_def accepts_decline) (simp add: accepts_def)
        next
          assume "\<not> full"
          then have "enter_display env a (numeric_host env a) (uint (req_dspnum r)) w = Some f'"
            using f' True w by (auto simp: answer_request_def)
          from enter_display_accepts [OF this] r True sw show ?thesis by (auto simp: accepts_def)
        qed
      qed
    qed
  qed
qed

end
