(* ===== verification/Xdmcp_Properties.thy ===== *)
theory Xdmcp_Properties
  imports Xdmcp_Sessions Display_Properties
begin

text \<open>
  What the XDMCP factory guarantees, and what it fails to: properties over the runs of the machine of
  \<open>Xdmcp_Machine\<close>, and of single requests.
\<close>

subsection \<open>A sample system\<close>

text \<open>
  The readers of the protocol on its bytes: numbers are in network order, an array is preceded by its
  length, in two bytes, and a list of arrays by their number, in one.
\<close>

definition bytes :: "nat list \<Rightarrow> string" where
  "bytes = map char_of"

fun read_card16 :: "string \<Rightarrow> (16 word \<times> string) option" where
  "read_card16 (a # b # s) = Some (of_nat (of_char a * 256 + of_char b), s)"
| "read_card16 _ = None"

definition read_card32 :: "string \<Rightarrow> (32 word \<times> string) option" where
  "read_card32 s =
     do {
       (high, s) \<leftarrow> read_card16 s;
       (low, s) \<leftarrow> read_card16 s;
       Some (of_nat (unat high * 65536 + unat low), s)
     }"

definition read_array8 :: "string \<Rightarrow> (string \<times> string) option" where
  "read_array8 s =
     do {
       (n, s) \<leftarrow> read_card16 s;
       if unat n \<le> length s then Some (take (unat n) s, drop (unat n) s) else None
     }"

fun read_many :: "(string \<Rightarrow> ('a \<times> string) option) \<Rightarrow> nat \<Rightarrow> string \<Rightarrow> ('a list \<times> string) option" where
  "read_many read 0 s = Some ([], s)"
| "read_many read (Suc n) s =
     do { (x, s) \<leftarrow> read s; (xs, s) \<leftarrow> read_many read n s; Some (x # xs, s) }"

fun read_counted :: "(string \<Rightarrow> ('a \<times> string) option) \<Rightarrow> string \<Rightarrow> ('a list \<times> string) option" where
  "read_counted read [] = None"
| "read_counted read (c # s) = read_many read (of_char c) s"

definition read_header :: "string \<Rightarrow> (xdmcp_header \<times> string) option" where
  "read_header s =
     do {
       (version, s) \<leftarrow> read_card16 s;
       (opcode, s) \<leftarrow> read_card16 s;
       (len, s) \<leftarrow> read_card16 s;
       Some (\<lparr>hdr_version = version, hdr_opcode = opcode, hdr_length = len\<rparr>, s)
     }"

definition sample_lib :: xdmcp_lib where
  "sample_lib =
     \<lparr>XdmcpReadHeader = read_header, XdmcpReadCARD16 = read_card16, XdmcpReadCARD32 = read_card32,
      XdmcpReadARRAY8 = read_array8, XdmcpReadARRAY16 = read_counted read_card16,
      XdmcpReadARRAYofARRAY8 = read_counted read_array8\<rparr>"

text \<open>Every call succeeds, and every number in the settings is 10; hosts are refused by the TCP wrappers when \<open>banned\<close>.\<close>

definition sample_daemon_env :: "bool \<Rightarrow> daemon_env" where
  "sample_daemon_env banned =
     (demo_env True)
       \<lparr>d_result := (\<lambda>t. case t of Sys_hosts_ctl c h # _ \<Rightarrow> if banned then 0 else 1 | _ \<Rightarrow> demo_result True t),
        d_string := (\<lambda>t. case t of Sys_random n # _ \<Rightarrow> Some ''0123456789abcdef''
                               | _ \<Rightarrow> Some ''/var/run/mdm/auth-for-mdm-abc''),
        d_integer := (\<lambda>k. Some 10)\<rparr>"

definition sample_host :: address where
  "sample_host = AF_INET (bytes [192, 0, 2, 7]) (bytes [0, 177])"

definition sample_env :: "bool \<Rightarrow> xdmcp_env" where
  "sample_env banned =
     \<lparr>x_daemon = sample_daemon_env banned, x_lib = sample_lib,
      x_numeric = (\<lambda>a. Some (''192.0.2.7'', ''177'')), x_interfaces = (\<lambda>t. Some []),
      x_addrinfo = (\<lambda>t. Some [sample_host]), x_inet_ntop = (\<lambda>s. Some ''192.0.2.7''),
      x_shell_parse = (\<lambda>s. None), x_hash_order = (\<lambda>s. s), x_stack_null = False\<rparr>"

definition sample_factory :: xdmcp_factory where
  "sample_factory = mdm_xdmcp_display_factory_init ''Linux'' ''host'' 7 daemon_init"

text \<open>A KEEPALIVE for the session 7 of display 0.\<close>

definition keepalive :: string where
  "keepalive = bytes [0, 1, 0, 13, 0, 6, 0, 0, 0, 0, 0, 7]"

lemmas sample_defs = sample_env_def sample_daemon_env_def sample_lib_def sample_host_def bytes_def
  read_header_def read_card32_def read_array8_def

lemmas socket_defs = mdm_xdmcp_display_factory_start_def open_port_def do_bind_def create_socket_def
  mdm_xdmcp_host_allow_def mdm_address_get_hostname_def mdm_address_get_numeric_info_def fcall_def
  ftrace_def daemon_call_def dcall_def

definition sample_config :: xdmcp_config where
  "sample_config =
     \<lparr>xdmcp_port = 10, use_multicast = False, multicast_address = None, honor_indirect = True,
      willing_script = None, max_displays_per_host = 10, max_displays = 10,
      max_pending_displays = 10, max_wait = 10, max_wait_indirect = 10\<rparr>"

definition started :: xdmcp_factory where
  "started = sample_factory\<lparr>config := sample_config, socket_fd := 100, socket_watch_id := True,
     base := daemon_init\<lparr>dtrace := [Sys_bind sample_host, Sys_socket 2,
       Sys_getaddrinfo None (Some (string_of_nat 10)) 10]\<rparr>\<rparr>"

lemma sample_results:
  "d_result (sample_daemon_env banned) (Sys_bind a # t) = 100"
  "d_result (sample_daemon_env banned) (Sys_socket n # t) = 100"
  "d_result (sample_daemon_env banned) (Sys_time # t) = 100"
  "d_result (sample_daemon_env banned) (Sys_hosts_ctl c h # t) = (if banned then 0 else 1)"
  by (simp_all add: sample_daemon_env_def)

lemma sample_configuration: "read_configuration (sample_daemon_env banned) default_config = sample_config"
  by (simp add: read_configuration_def sample_config_def settings_boolean_def default_config_def
      mdm_settings_direct_get_uint_def sample_daemon_env_def demo_env_def)

lemma sample_start: "run (xdmcp_step (sample_env banned)) [Xdmcp_start] sample_factory = Some started"
proof -
  have a: "x_addrinfo (sample_env banned) t = Some [sample_host]"
    "x_daemon (sample_env banned) = sample_daemon_env banned" for t
    by (simp_all add: sample_env_def)
  show ?thesis
    by (simp add: started_def xdmcp_step_def socket_defs sample_factory_def Let_def
        mdm_xdmcp_display_factory_init_def sample_configuration a sample_results internet_address_def
        sample_host_def sample_config_def daemon_init_def AF_INET_NUMBER_def AF_INET6_NUMBER_def)
qed

lemma sample_allowed:
  "mdm_xdmcp_host_allow (sample_env banned) a f = (\<not> banned, snd (mdm_xdmcp_host_allow (sample_env banned) a f))"
  by (simp add: socket_defs sample_defs Let_def)

text \<open>The answer to the KEEPALIVE of an unknown session.\<close>

definition answered :: xdmcp_factory where
  "answered = the (run (xdmcp_step (sample_env False)) [Xdmcp_start, Packet True (Some (keepalive, Some sample_host))]
     sample_factory)"

lemma started_fields:
  "sent started = []" "socket_watch_id started" "display_store (base started) = []"
  "heap (base started) = (\<lambda>p. None)" "next_object (base started) = 0" "config started = sample_config"
  "indirect_clients started = []" "forward_queries started = []" "session_serial started = 7"
  by (simp_all add: started_def sample_factory_def mdm_xdmcp_display_factory_init_def daemon_init_def)

lemma sample_keepalive:
  "run (xdmcp_step (sample_env False)) [Xdmcp_start, Packet True (Some (keepalive, Some sample_host))]
     sample_factory = Some answered"
  "sent answered = [(\<lparr>pkt_header = \<lparr>hdr_version = 1, hdr_opcode = ALIVE, hdr_length = 5\<rparr>,
     pkt_fields = [CARD8 0, CARD32 0]\<rparr>, sample_host)]"
  "display_store (base answered) = []"
proof -
  let ?g = "snd (fcall (sample_env False) (Sys_getnameinfo sample_host) started)"
  obtain t where t: "mdm_xdmcp_host_allow (sample_env False) sample_host ?g =
      (True, started\<lparr>base := (base started)\<lparr>dtrace := t\<rparr>\<rparr>)"
    using host_allow_effect [of "sample_env False" sample_host ?g]
    by (auto simp: sample_env_def sample_results fcall_snd)
  let ?f = "started\<lparr>base := (base started)\<lparr>dtrace := t\<rparr>\<rparr>"
  have r: "XdmcpReadHeader (x_lib (sample_env False)) keepalive =
      Some (\<lparr>hdr_version = 1, hdr_opcode = KEEPALIVE, hdr_length = 6\<rparr>, bytes [0, 0, 0, 0, 0, 7])"
    "XdmcpReadCARD16 (x_lib (sample_env False)) (bytes [0, 0, 0, 0, 0, 7]) = Some (0, bytes [0, 0, 0, 7])"
    "XdmcpReadCARD32 (x_lib (sample_env False)) (bytes [0, 0, 0, 7]) = Some (7, [])"
    by (simp_all add: sample_env_def sample_lib_def keepalive_def read_header_def read_card32_def bytes_def
        KEEPALIVE_def)
  have "xdmcp_step (sample_env False) (Packet True (Some (keepalive, Some sample_host))) started =
      mdm_xdmcp_send_alive (sample_env False) sample_host 0 7 ?f"
    by (simp add: xdmcp_step_def started_fields decode_packet_def r XDM_PROTOCOL_VERSION_def
        dispatch_packet_def opcodes mdm_xdmcp_handle_keepalive_def KEEPALIVE_def BROADCAST_QUERY_def
        QUERY_def INDIRECT_QUERY_def REQUEST_def MANAGE_def t)
  also have "\<dots> = Some (send_packet 1 ALIVE 5 [CARD8 0, CARD32 0] sample_host ?f)"
    by (simp add: mdm_xdmcp_send_alive_def mdm_xdmcp_display_lookup_def store_find_def sample_env_def
        mdm_xdmcp_display_lookup_by_host_def started_fields XDM_PROTOCOL_VERSION_def)
  finally have "run (xdmcp_step (sample_env False)) [Xdmcp_start, Packet True (Some (keepalive, Some sample_host))]
     sample_factory = Some (send_packet 1 ALIVE 5 [CARD8 0, CARD32 0] sample_host ?f)"
    using sample_start [of False] by (simp add: bind_eq_Some_conv)
  then show "run (xdmcp_step (sample_env False)) [Xdmcp_start, Packet True (Some (keepalive, Some sample_host))]
     sample_factory = Some answered"
    and "sent answered = [(\<lparr>pkt_header = \<lparr>hdr_version = 1, hdr_opcode = ALIVE, hdr_length = 5\<rparr>,
     pkt_fields = [CARD8 0, CARD32 0]\<rparr>, sample_host)]"
    and "display_store (base answered) = []"
    by (simp_all add: answered_def send_packet_def started_fields)
qed

lemmas sample_keepalive_store = sample_keepalive(3)

subsection \<open>Runs of the machine\<close>

lemma factory_init_inv: "base_inv d \<Longrightarrow> xdmcp_inv (mdm_xdmcp_display_factory_init system host serial d)"
  by (simp add: inv_defs mdm_xdmcp_display_factory_init_def)

lemma daemon_init_managed: "base_inv daemon_init"
  using daemon_inv_init by (simp add: base_inv_def never_managed_def daemon_init_def)

text \<open>
  C31: whatever arrives, every packet the factory sends announces in its header the size of the fields that
  follow. Only MANAGED_FORWARD and GOT_MANAGED_FORWARD announce two bytes more than they have.
\<close>

theorem packets_announce_their_length:
  assumes "run (xdmcp_step env) es (mdm_xdmcp_display_factory_init system host serial daemon_init) = Some f"
    and "(pkt, a) \<in> set (sent f)"
  shows "if hdr_opcode (pkt_header pkt) = MDM_XDMCP_MANAGED_FORWARD \<or>
            hdr_opcode (pkt_header pkt) = MDM_XDMCP_GOT_MANAGED_FORWARD
         then hdr_length (pkt_header pkt) = of_nat (body_size pkt) + 2 else length_announced pkt"
proof -
  have "xdmcp_inv f" by (rule xdmcp_machine.run_inv [OF factory_init_inv [OF daemon_init_managed] assms(1)])
  with assms(2) show ?thesis by (force simp: inv_defs packet_ok_def Let_def length_announced_def)
qed

theorem packets_announce_their_length_witness:
  "length_announced \<lparr>pkt_header = \<lparr>hdr_version = 1, hdr_opcode = ALIVE, hdr_length = 5\<rparr>,
     pkt_fields = [CARD8 0, CARD32 0]\<rparr>"
  using packets_announce_their_length [OF sample_keepalive(1) [unfolded sample_factory_def],
      of "\<lparr>pkt_header = \<lparr>hdr_version = 1, hdr_opcode = ALIVE, hdr_length = 5\<rparr>, pkt_fields = [CARD8 0, CARD32 0]\<rparr>"
        sample_host]
  by (simp add: sample_keepalive(2) opcodes)

text \<open>
  C36: the table of forwarded queries never has more than eleven entries, one more than its maximum says.
  The entries of the tables are distinct objects, none is ever old enough to expire, since their times
  are never set, and a managed forward is repeated once at most before its last repetition.
\<close>

theorem tables_stay_bounded:
  assumes "run (xdmcp_step env) es (mdm_xdmcp_display_factory_init system host serial daemon_init) = Some f"
  shows "length (forward_queries f) \<le> 11 \<and> distinct (map fq_node (forward_queries f)) \<and>
    distinct (map ic_node (indirect_clients f)) \<and> distinct (map mf_node (managed_forwards f)) \<and>
    fq_acctime ` set (forward_queries f) \<subseteq> {0} \<and> ic_acctime ` set (indirect_clients f) \<subseteq> {0} \<and>
    mf_times ` set (managed_forwards f) \<subseteq> {0, 1}"
proof -
  have "xdmcp_inv f" by (rule xdmcp_machine.run_inv [OF factory_init_inv [OF daemon_init_managed] assms])
  then show ?thesis by (fastforce simp: inv_defs MDM_MAX_FORWARD_QUERIES_def)
qed

theorem tables_stay_bounded_witness:
  "length (forward_queries answered) \<le> 11 \<and> distinct (map mf_node (managed_forwards answered))"
  using tables_stay_bounded [OF sample_keepalive(1) [unfolded sample_factory_def]] by simp

lemma foreach_until_first:
  assumes "\<And>i p a b c. func i p a = Some (b, c) \<Longrightarrow> b"
    and "foreach_until func s a = Some c"
  shows "c = a \<or> (\<exists>i p. func i p a = Some (True, c))"
proof (cases s)
  case Nil
  with assms(2) show ?thesis by simp
next
  case (Cons e l)
  obtain i p where e: "e = (i, p)" by fastforce
  with assms(2) Cons obtain b u where u: "func i p a = Some (b, u)" by (auto simp: bind_eq_Some_conv)
  moreover have b using u by (rule assms(1))
  ultimately show ?thesis using assms(2) Cons e by auto
qed

lemma host_count:
  assumes "mdm_xdmcp_num_displays_from_host env f a = Some n"
  shows "n \<in> {0, 1}"
proof -
  have "n = 0 \<or> (\<exists>i p. count_displays_from_host (base f) a i p 0 = Some (True, n))"
    by (rule foreach_until_first [OF _
          assms [unfolded mdm_xdmcp_num_displays_from_host_def mdm_display_store_foreach_def]])
       (auto simp: count_displays_from_host_def bind_eq_Some_conv)
  then show ?thesis
    by (auto simp: count_displays_from_host_def bind_eq_Some_conv split: option.split_asm if_split_asm)
qed

lemma session_count:
  assumes "never_managed (base f)" and "mdm_xdmcp_recount_sessions env f = Some g"
  shows "num_sessions g = 0 \<and> num_pending_sessions g \<in> {0, 1}"
proof -
  let ?f = "f\<lparr>num_sessions := 0, num_pending_sessions := 0\<rparr>"
  have "g = ?f \<or> (\<exists>i p. count_sessions i p ?f = Some (True, g))"
    by (rule foreach_until_first [OF _
          assms(2) [unfolded mdm_xdmcp_recount_sessions_def mdm_display_store_foreach_def]])
       (auto simp: count_sessions_def bind_eq_Some_conv)
  with never_managed_lookup [OF assms(1)] show ?thesis
    by (auto simp: count_sessions_def bind_eq_Some_conv split: if_split_asm)
qed

text \<open>
  C29: the limits on sessions are not enforced. The traversals of the store stop at the first display
  they see, no display ever becomes managed, and the displays that were accepted are prepared, which is
  not counted: right after a recount there is no session, one pending one at most, and no host has more than
  one display, however many are stored. For the same reason every ALIVE says that the session is not running.
\<close>

theorem session_limits_not_enforced:
  assumes "run (xdmcp_step env) es (mdm_xdmcp_display_factory_init system host serial daemon_init) = Some f"
    and "mdm_xdmcp_recount_sessions env f = Some g"
  shows "num_sessions g = 0 \<and> num_pending_sessions g \<in> {0, 1} \<and>
    {n. mdm_xdmcp_num_displays_from_host env f a = Some n} \<subseteq> {0, 1} \<and>
    {pkt_fields pkt | pkt b. (pkt, b) \<in> set (sent f) \<and> hdr_opcode (pkt_header pkt) = ALIVE}
      \<subseteq> range (\<lambda>sessid. [CARD8 0, CARD32 sessid])"
proof -
  have inv: "xdmcp_inv f" by (rule xdmcp_machine.run_inv [OF factory_init_inv [OF daemon_init_managed] assms(1)])
  have "{n. mdm_xdmcp_num_displays_from_host env f a = Some n} \<subseteq> {0, 1}"
    using host_count by blast
  moreover have "{pkt_fields pkt | pkt b. (pkt, b) \<in> set (sent f) \<and> hdr_opcode (pkt_header pkt) = ALIVE}
      \<subseteq> range (\<lambda>sessid. [CARD8 0, CARD32 sessid])"
    using inv by (fastforce simp: inv_defs packet_ok_def Let_def)
  ultimately show ?thesis
    using session_count [OF inv_never_managed [OF inv] assms(2)] by blast
qed

theorem session_limits_not_enforced_witness:
  "\<exists>g. mdm_xdmcp_recount_sessions (sample_env False) answered = Some g \<and> num_sessions g = 0 \<and>
     [CARD8 0, CARD32 0] \<in> range (\<lambda>sessid. [CARD8 0, CARD32 sessid])"
proof -
  have "display_store (base answered) = []" using sample_keepalive_store .
  then obtain g where g: "mdm_xdmcp_recount_sessions (sample_env False) answered = Some g"
    by (simp add: mdm_xdmcp_recount_sessions_def mdm_display_store_foreach_def sample_env_def)
  from session_limits_not_enforced [OF sample_keepalive(1) [unfolded sample_factory_def] g] g
  show ?thesis by auto
qed

subsection \<open>Requests\<close>

text \<open>
  C9: a REQUEST is answered with an ACCEPT only when the host is able to use cookies and its display has
  been created: it is in the store under its id, prepared, for the display number that was asked for, with
  the sender's address and a session number that is not 0; the ACCEPT goes to the sender and holds the
  session number and the cookie of the display's open authority file.
\<close>

theorem accepted_session_is_registered:
  assumes "mdm_xdmcp_handle_request env a len buf f = Some f'" and "accepts f' \<noteq> accepts f"
  shows "\<exists>r p x sessid cookie. read_request env buf = Some r \<and> supports_cookies r \<and> sessid \<noteq> 0 \<and>
    heap (base f') p = Some x \<and> store_lookup (display_store (base f')) (disp_id x) = Some p \<and>
    xdmcp_display (disp_class x) = Some \<lparr>remote_address = a, session_number = sessid\<rparr> \<and>
    x11_number x = uint (req_dspnum r) \<and> disp_status x = MDM_DISPLAY_PREPARED \<and> status_handler x \<and>
    x11_cookie x = Some cookie \<and> disp_access_file x \<noteq> None \<and>
    sent f' = (accept_packet sessid cookie, a) # sent f"
  using handle_request_accepts [OF assms(1)] assms(2) unfolding remote_session_def by blast

text \<open>A REQUEST for display 0 of a host with one address, and the state it leads to.\<close>

definition sample_request :: string where
  "sample_request = bytes [0, 0, 1, 0, 0, 1, 0, 4, 192, 0, 2, 7, 0, 0, 0, 0, 1, 0, 18] @ MIT_MAGIC_COOKIE @ bytes [0, 0]"

definition requested :: xdmcp_factory where
  "requested = the (mdm_xdmcp_handle_request (sample_env False) sample_host 39 sample_request started)"

lemma sample_requested:
  "mdm_xdmcp_handle_request (sample_env False) sample_host 39 sample_request started = Some requested"
  "accepts requested \<noteq> accepts started" "mdm_xdmcp_display_lookup (sample_env False) 7 requested = Some (Some 0)"
  "num_pending_sessions requested = 1"
  "\<exists>x s. heap (base requested) 0 = Some x \<and> disp_status x = MDM_DISPLAY_PREPARED \<and> disp_proxy x = Some s \<and> 0 < refs x"
proof -
  let ?f = "mdm_xdmcp_handle_request (sample_env False) sample_host 39 sample_request started"
  have "case ?f of None \<Rightarrow> False | Some f \<Rightarrow>
      length (accepts f) = 1 \<and> mdm_xdmcp_display_lookup (sample_env False) 7 f = Some (Some 0) \<and>
      num_pending_sessions f = 1 \<and>
      (case heap (base f) 0 of None \<Rightarrow> False
       | Some x \<Rightarrow> disp_status x = MDM_DISPLAY_PREPARED \<and> \<not> Option.is_none (disp_proxy x) \<and> 0 < refs x)"
    by code_simp
  then show "?f = Some requested" and "accepts requested \<noteq> accepts started"
    and "mdm_xdmcp_display_lookup (sample_env False) 7 requested = Some (Some 0)"
    and "num_pending_sessions requested = 1"
    and "\<exists>x s. heap (base requested) 0 = Some x \<and> disp_status x = MDM_DISPLAY_PREPARED \<and> disp_proxy x = Some s \<and> 0 < refs x"
    by (auto simp: requested_def accepts_def started_fields Option.is_none_def split: option.split_asm)
qed

theorem accepted_session_is_registered_witness:
  "\<exists>p x sessid. sessid \<noteq> 0 \<and> heap (base requested) p = Some x \<and>
     xdmcp_display (disp_class x) = Some \<lparr>remote_address = sample_host, session_number = sessid\<rparr> \<and>
     store_lookup (display_store (base requested)) (disp_id x) = Some p"
  using accepted_session_is_registered [OF sample_requested(1,2)] by blast

lemma refused_host:
  assumes "\<And>c t. d_result (x_daemon env) (Sys_hosts_ctl c (numeric_host env a) # t) = 0"
  shows "\<exists>t. mdm_xdmcp_host_allow env a f = (False, f\<lparr>base := (base f)\<lparr>dtrace := t\<rparr>\<rparr>)"
  using assms by (simp add: mdm_xdmcp_host_allow_def fcall_def daemon_call_def dcall_def Let_def) blast

lemma unwilling_effect:
  "\<exists>s u t. mdm_xdmcp_send_unwilling env a f = f\<lparr>sent := s, last_unwilling := u, base := (base f)\<lparr>dtrace := t\<rparr>\<rparr> \<and>
     (s = sent f \<or> (\<exists>pkt. s = (pkt, a) # sent f \<and> hdr_opcode (pkt_header pkt) = UNWILLING))"
  by (cases f) (auto simp: mdm_xdmcp_send_unwilling_def Let_def split_beta fcall_snd send_packet_def)

text \<open>
  C14: a packet from a host that the TCP wrappers refuse changes no table, no display and no count, whatever
  it holds, and does not stop the daemon. The only packet it may cause is one UNWILLING to the host itself.
\<close>

theorem banned_host_changes_nothing:
  assumes "\<And>c t. d_result (x_daemon env) (Sys_hosts_ctl c (numeric_host env a) # t) = 0"
  shows "\<exists>s u t. dispatch_packet env a header buf f =
      Some (f\<lparr>sent := s, last_unwilling := u, base := (base f)\<lparr>dtrace := t\<rparr>\<rparr>) \<and>
    (s = sent f \<or> (\<exists>pkt. s = (pkt, a) # sent f \<and> hdr_opcode (pkt_header pkt) = UNWILLING))"
proof -
  obtain t where t: "mdm_xdmcp_host_allow env a f = (False, f\<lparr>base := (base f)\<lparr>dtrace := t\<rparr>\<rparr>)"
    using refused_host [OF assms] by blast
  let ?g = "f\<lparr>base := (base f)\<lparr>dtrace := t\<rparr>\<rparr>"
  have "dispatch_packet env a header buf f \<in> {Some f, Some ?g, Some (mdm_xdmcp_send_unwilling env a ?g)}"
    by (simp add: dispatch_packet_def mdm_xdmcp_handle_broadcast_query_def mdm_xdmcp_handle_query_def
        mdm_xdmcp_handle_indirect_query_def mdm_xdmcp_handle_forward_query_def mdm_xdmcp_handle_request_def
        mdm_xdmcp_handle_manage_def mdm_xdmcp_handle_keepalive_def mdm_xdmcp_handle_managed_forward_def
        mdm_xdmcp_handle_got_managed_forward_def t Let_def)
  then consider (same) "dispatch_packet env a header buf f = Some f" | (refused) "dispatch_packet env a header buf f = Some ?g"
    | (answered) "dispatch_packet env a header buf f = Some (mdm_xdmcp_send_unwilling env a ?g)" by blast
  then show ?thesis
  proof cases
    case same
    then have "dispatch_packet env a header buf f = Some (f\<lparr>sent := sent f, last_unwilling := last_unwilling f,
        base := (base f)\<lparr>dtrace := dtrace (base f)\<rparr>\<rparr>)" by simp
    then show ?thesis by blast
  next
    case refused
    then have "dispatch_packet env a header buf f = Some (f\<lparr>sent := sent f, last_unwilling := last_unwilling f,
        base := (base f)\<lparr>dtrace := t\<rparr>\<rparr>)" by simp
    then show ?thesis by blast
  next
    case answered
    with unwilling_effect [of env a ?g] show ?thesis by auto
  qed
qed

theorem banned_host_changes_nothing_witness:
  "\<exists>f. dispatch_packet (sample_env True) sample_host \<lparr>hdr_version = 1, hdr_opcode = REQUEST, hdr_length = 2\<rparr>
     (bytes [0, 0]) started = Some f \<and> display_store (base f) = [] \<and> num_sessions f = num_sessions started"
proof -
  have "d_result (x_daemon (sample_env True)) (Sys_hosts_ctl c (numeric_host (sample_env True) sample_host) # t) = 0"
    for c t by (simp add: sample_env_def sample_results)
  from banned_host_changes_nothing [of "sample_env True" sample_host, OF this,
      of "\<lparr>hdr_version = 1, hdr_opcode = REQUEST, hdr_length = 2\<rparr>" "bytes [0, 0]" started]
  show ?thesis by (auto simp: started_fields)
qed

text \<open>
  C34: a MANAGE that repeats the number of a session whose slave has been started starts another one over
  it: the display is still prepared. Another session is counted, and one pending less, below 0 if there is
  none.
\<close>

theorem repeated_manage_starts_second_slave:
  assumes "mdm_xdmcp_display_lookup env sessid f = Some (Some p)" and "heap (base f) p = Some x"
    and "disp_status x = MDM_DISPLAY_PREPARED" and "disp_proxy x = Some s" and "0 < refs x"
    and "answer_manage env a sessid f = Some f'"
  shows "\<exists>f''. answer_manage env b sessid f' = Some f'' \<and>
    num_sessions f'' = num_sessions f + 2 \<and> num_pending_sessions f'' = num_pending_sessions f - 2 \<and>
    filter is_spawn (dtrace (base f'')) =
      [Sys_spawn (command s) (log_path s), Sys_spawn (command s) (log_path s)] @ filter is_spawn (dtrace (base f))"
proof -
  from answer_manage_prepared [OF assms(1-5), of a] assms(6) obtain y r where y:
    "num_sessions f' = num_sessions f + 1" "num_pending_sessions f' = num_pending_sessions f - 1"
    "dtrace (base f') = [Sys_spawn (command s) (log_path s), Sys_clock, Sys_time] @
      (if honor_indirect (config f) then [Sys_time] else []) @ dtrace (base f)"
    "heap (base f') = (heap (base f))(p \<mapsto> y)" "display_store (base f') = display_store (base f)"
    "disp_status y = MDM_DISPLAY_PREPARED" "disp_class y = disp_class x" "refs y = refs x"
    "disp_proxy y = Some r" "command r = command s" "log_path r = log_path s"
    by auto
  have "mdm_xdmcp_display_lookup env sessid f' = Some (Some p)"
    using display_lookup_same [OF y(5,4) assms(2) y(7)] assms(1) by simp
  from answer_manage_prepared [OF this _ y(6,9), of b] y assms(5) show ?thesis
    by (auto simp: algebra_simps)
qed

theorem repeated_manage_starts_second_slave_witness:
  "\<exists>f g. answer_manage (sample_env False) sample_host 7 requested = Some f \<and>
     answer_manage (sample_env False) sample_host 7 f = Some g \<and> num_pending_sessions g = 2 ^ 32 - 1"
proof -
  obtain x s where x: "heap (base requested) 0 = Some x" "disp_status x = MDM_DISPLAY_PREPARED"
    "disp_proxy x = Some s" "0 < refs x" using sample_requested(5) by blast
  obtain f where f: "answer_manage (sample_env False) sample_host 7 requested = Some f"
    using answer_manage_prepared [OF sample_requested(3) x] by blast
  from repeated_manage_starts_second_slave [OF sample_requested(3) x f, of sample_host] f sample_requested(4)
  show ?thesis by auto
qed

subsection \<open>Managed forwards\<close>

lemma older_nodes:
  assumes "\<forall>mf \<in> set l. mf_node mf < n"
  shows "filter (\<lambda>m. mf_node m \<noteq> n) l = l"
    and "map (\<lambda>m. if mf_node m = n then m\<lparr>mf_times := k\<rparr> else m) l = l"
  using assms by (auto intro!: filter_True map_idI)

text \<open>
  C39: a MANAGED_FORWARD that is not acknowledged is sent three times, at once and at two timeouts, and then
  forgotten; the acknowledgement of its manager for its display removes it before, with its timer, and leaves
  the others alone.
\<close>

theorem managed_forward_sent_three_times:
  assumes "\<forall>mf \<in> set (managed_forwards f). mf_node mf < next_node f" and "socket_fd f > 0"
    and "internet_address manager" and "internet_address origin"
  shows "managed_forwards (mdm_xdmcp_whack_queued_managed_forwards manager origin
       (mdm_xdmcp_send_managed_forward env manager origin f)) = managed_forwards f \<and>
    (let g = managed_forward_handler env (next_node f) (managed_forward_handler env (next_node f)
       (mdm_xdmcp_send_managed_forward env manager origin f))
     in managed_forwards g = managed_forwards f \<and>
        (\<exists>pkt. sent g = [(pkt, manager), (pkt, manager), (pkt, manager)] @ sent f \<and>
           hdr_opcode (pkt_header pkt) = MDM_XDMCP_MANAGED_FORWARD \<and>
           pkt_fields pkt = [ARRAY8 (set_address_for_request origin)]))"
  using assms(2-4) older_nodes [OF assms(1)]
  by (simp add: mdm_xdmcp_whack_queued_managed_forwards_def mdm_xdmcp_send_managed_forward_def
      mdm_xdmcp_really_send_managed_forward_def send_packet_def same_forward_def managed_forward_handler_def Let_def)

theorem managed_forward_sent_three_times_witness:
  "managed_forwards (managed_forward_handler (sample_env False) 0 (managed_forward_handler (sample_env False) 0
     (mdm_xdmcp_send_managed_forward (sample_env False) sample_host sample_host started))) = []"
proof -
  have "managed_forwards started = []" "next_node started = 0" "socket_fd started > 0" "internet_address sample_host"
    by (simp_all add: started_def sample_factory_def mdm_xdmcp_display_factory_init_def sample_host_def
        internet_address_def)
  with managed_forward_sent_three_times [of started sample_host sample_host "sample_env False"]
  show ?thesis by (simp add: Let_def)
qed

subsection \<open>Malformed packets\<close>

text \<open>
  a MANAGE that ends before its session number stops the daemon: the array for the display class has not
  been read yet when it is disposed of, and its pointer is whatever the stack holds. Any allowed host can
  send one.
\<close>

theorem short_manage_packet_aborts:
  assumes "socket_watch_id f" and "\<And>c t. d_result (x_daemon env) (Sys_hosts_ctl c (numeric_host env a) # t) \<noteq> 0"
    and "XdmcpReadHeader (x_lib env) buf = Some (\<lparr>hdr_version = 1, hdr_opcode = MANAGE, hdr_length = n\<rparr>, rest)"
    and "XdmcpReadCARD32 (x_lib env) rest = None" and "\<not> x_stack_null env"
  shows "xdmcp_step env (Packet True (Some (buf, Some a))) f = None"
proof -
  have "fst (mdm_xdmcp_host_allow env a g)" for g
    using assms(2) by (simp add: mdm_xdmcp_host_allow_def fcall_def daemon_call_def dcall_def Let_def)
  then have "mdm_xdmcp_handle_manage env a len rest g = None" for len g
    using assms(4,5) by (simp add: mdm_xdmcp_handle_manage_def split_beta)
  with assms(1,3) show ?thesis
    by (simp add: xdmcp_step_def decode_packet_def dispatch_packet_def XDM_PROTOCOL_VERSION_def MANAGE_def
        BROADCAST_QUERY_def QUERY_def INDIRECT_QUERY_def REQUEST_def opcodes Let_def)
qed

theorem short_manage_packet_aborts_witness:
  "run (xdmcp_step (sample_env False))
     [Xdmcp_start, Packet True (Some (bytes [0, 1, 0, 10, 0, 2, 7, 7], Some sample_host))] sample_factory = None"
proof -
  have "d_result (x_daemon (sample_env False)) (Sys_hosts_ctl c (numeric_host (sample_env False) sample_host) # t) \<noteq> 0"
    for c t by (simp add: sample_env_def sample_results)
  from short_manage_packet_aborts [of started "sample_env False", OF started_fields(2) this,
      of "bytes [0, 1, 0, 10, 0, 2, 7, 7]" 2 "bytes [7, 7]"] sample_start [of False]
  show ?thesis
    by (simp add: sample_env_def sample_lib_def read_header_def read_card32_def bytes_def MANAGE_def
        Option.bind_eq_Some_conv)
qed

end
