(* ===== verification/Daemon_Properties.thy ===== *)
theory Daemon_Properties
  imports Xdmcp_Properties
begin

text \<open>
  What the daemon guarantees of its displays as a whole, over the runs of the machine with both
  factories. Remote displays come into being only while XDMCP is on, which it is not by default
  (\<open>xdmcp/Enable\<close> in \<open>data/mdm.schemas\<close>): without it the daemon follows the life cycle of its local
  displays exactly, and the store owns every display. The numbers of the local displays are their own
  with or without it.
\<close>

subsection \<open>The daemon without XDMCP\<close>

text \<open>The factory that was never started.\<close>

definition xdmcp_off :: "xdmcp_factory \<Rightarrow> bool" where
  "xdmcp_off f \<longleftrightarrow> \<not> socket_watch_id f \<and> socket_fd f = -1 \<and> managed_forwards f = []"

lemma off_init: "xdmcp_off (mdm_xdmcp_display_factory_init system host serial d)"
  by (simp add: xdmcp_off_def mdm_xdmcp_display_factory_init_def)

lemma settled_local: "settled d \<Longrightarrow> heap d p = Some x \<Longrightarrow> xdmcp_display (disp_class x) = None"
  by (simp add: settled_def)

lemma off_other_event:
  assumes "xdmcp_off f" and "settled (base f)" and "e \<noteq> Xdmcp_start" and "\<nexists>b. e = Base_event b"
    and "xdmcp_step env e f = Some f'"
  shows "f' = f"
proof (cases e)
  case Xdmcp_stop
  with assms(1,5) show ?thesis
    by (simp add: xdmcp_step_def xdmcp_off_def mdm_xdmcp_display_factory_stop_def)
next
  case (Packet readable datagram)
  with assms(1,5) show ?thesis by (simp add: xdmcp_step_def xdmcp_off_def)
next
  case (Managed_forward_timeout node)
  with assms(1,5) show ?thesis by (simp add: xdmcp_step_def xdmcp_off_def managed_forward_handler_def)
next
  case (Hostname_selected p hostname)
  show ?thesis
  proof (cases "heap (base f) p")
    case None
    with Hostname_selected assms(5) show ?thesis by (simp add: xdmcp_step_def)
  next
    case (Some x)
    with Hostname_selected assms(5) settled_local [OF assms(2) Some] show ?thesis
      by (cases "disp_class x") (simp_all add: xdmcp_step_def)
  qed
qed (use assms(3,4) in simp_all)

lemma base_event:
  assumes "settled (base f)" and "xdmcp_step env (Base_event b) f = Some f'"
  shows "\<exists>d. daemon_step (x_daemon env) b (base f) = Some d \<and> f' = f\<lparr>base := d\<rparr>"
proof (cases "\<exists>p. b = Finish_idle p")
  case True
  then obtain p where p: "b = Finish_idle p" by blast
  show ?thesis
  proof (cases "heap (base f) p")
    case None
    with assms(2) p show ?thesis by (simp add: xdmcp_step_def daemon_step_def)
  next
    case (Some x)
    have h: "display_handler (x_daemon env) x = status_notify (x_daemon env)"
      using settled_local [OF assms(1) Some] by (simp add: display_handler_def)
    show ?thesis
    proof (cases "finish_idle_id x")
      case True
      with assms(2) p Some h show ?thesis by (simp add: xdmcp_step_def daemon_step_def) blast
    next
      case False
      with assms(2) p Some show ?thesis by (simp add: xdmcp_step_def daemon_step_def)
    qed
  qed
next
  case False
  with assms(2) have "map_option (\<lambda>d. f\<lparr>base := d\<rparr>) (daemon_step (x_daemon env) b (base f)) = Some f'"
    by (cases b) (simp_all add: xdmcp_step_def)
  then show ?thesis by (simp add: map_option_case split: option.split_asm)
qed

lemma run_off:
  assumes "run (xdmcp_step env) es (mdm_xdmcp_display_factory_init system host serial daemon_init) = Some f"
    and "Xdmcp_start \<notin> set es" and "length es < 2 ^ 31 - 1"
  shows "xdmcp_off f \<and> settled (base f) \<and> next_object (base f) \<le> length es"
  using assms
proof (induction es arbitrary: f rule: rev_induct)
  case Nil
  then show ?case
    using off_init settled_init by (auto simp: mdm_xdmcp_display_factory_init_def daemon_init_def)
next
  case (snoc e es)
  obtain u where u: "run (xdmcp_step env) es (mdm_xdmcp_display_factory_init system host serial daemon_init) = Some u"
    and f: "xdmcp_step env e u = Some f"
    using snoc.prems(1) by (auto simp: run_snoc bind_eq_Some_conv)
  have IH: "xdmcp_off u" "settled (base u)" "next_object (base u) \<le> length es"
    using snoc.IH [OF u] snoc.prems(2,3) by simp_all
  show ?case
  proof (cases "\<exists>b. e = Base_event b")
    case False
    with off_other_event [OF IH(1,2) _ _ f] snoc.prems(2) have "f = u" by auto
    with IH show ?thesis by simp
  next
    case True
    then obtain b d where d: "daemon_step (x_daemon env) b (base u) = Some d" and f': "f = u\<lparr>base := d\<rparr>"
      using base_event [OF IH(2)] f by blast
    have one: "one_event (base u) d"
      by (rule daemon_step_one_event [OF IH(2) _ d]) (use IH(3) snoc.prems(3) in simp)
    have "settled d"
      by (rule one_event_settled [OF IH(2) one]) (use IH(3) snoc.prems(3) in simp)
    with one_event_grows [OF one] IH f' show ?thesis by (simp add: xdmcp_off_def)
  qed
qed

text \<open>A run of the local displays is one of the daemon.\<close>

lemma run_base_events:
  "run (daemon_step (x_daemon env)) es (base f) = Some d \<Longrightarrow> \<forall>p. Finish_idle p \<notin> set es \<Longrightarrow>
     run (xdmcp_step env) (map Base_event es) f = Some (f\<lparr>base := d\<rparr>)"
proof (induction es arbitrary: f)
  case Nil
  then show ?case by simp
next
  case (Cons e es)
  then obtain u where u: "daemon_step (x_daemon env) e (base f) = Some u"
    and d: "run (daemon_step (x_daemon env)) es u = Some d" by (auto simp: bind_eq_Some_conv)
  have "xdmcp_step env (Base_event e) f = Some (f\<lparr>base := u\<rparr>)"
    using u Cons.prems(2) by (cases e) (auto simp: xdmcp_step_def)
  with Cons.IH [of "f\<lparr>base := u\<rparr>"] d Cons.prems(2) show ?case by simp
qed

definition quiet_env :: xdmcp_env where
  "quiet_env = (sample_env False)\<lparr>x_daemon := demo_env False\<rparr>"

definition two_local :: xdmcp_factory where
  "two_local = sample_factory\<lparr>base := two_displays\<rparr>"

lemma two_local_run:
  "run (xdmcp_step quiet_env) [Base_event Factory_start, Base_event Create_transient]
     (mdm_xdmcp_display_factory_init ''Linux'' ''host'' 7 daemon_init) = Some two_local"
  using run_base_events [of quiet_env "[Factory_start, Create_transient]" sample_factory two_displays] demo_two
  by (simp add: quiet_env_def two_local_def sample_factory_def mdm_xdmcp_display_factory_init_def)




text \<open>
  C10: while XDMCP is off, its default, the store owns the displays between two events: a display that
  exists is stored under its id, and the store's reference is its only one, so that no display is leaked
  by a reference too many nor used after its last reference went; every entry of the store is a display
  that exists, under its id.
\<close>

theorem store_owns_displays:
  assumes "run (xdmcp_step env) es (mdm_xdmcp_display_factory_init system host serial daemon_init) = Some f"
    and "Xdmcp_start \<notin> set es" and "length es < 2 ^ 31 - 1"
  shows "(\<forall>p x. heap (base f) p = Some x \<longrightarrow>
      refs x = 1 \<and> store_lookup (display_store (base f)) (disp_id x) = Some p) \<and>
    (\<forall>i p. store_lookup (display_store (base f)) i = Some p \<longrightarrow> (\<exists>x. heap (base f) p = Some x \<and> disp_id x = i))"
proof -
  have s: "settled (base f)" using run_off [OF assms] by simp
  have lookup: "store_lookup (display_store (base f)) i = Some p \<longleftrightarrow> (i, p) \<in> set (display_store (base f))" for i p
    using s by (simp add: settled_def store_lookup_def store_valid_def)
  from s show ?thesis unfolding lookup by (auto simp: settled_def)
qed

theorem store_owns_displays_witness:
  "\<exists>x y. heap two_displays 0 = Some x \<and> heap two_displays 1 = Some y \<and> refs x = 1 \<and> refs y = 1 \<and>
     store_lookup (display_store two_displays) (disp_id y) = Some 1"
proof -
  obtain x y where "heap two_displays 0 = Some x" "heap two_displays 1 = Some y"
    using two_displays_heap by blast
  with store_owns_displays [OF two_local_run] show ?thesis by (simp add: two_local_def)
qed

subsection \<open>The numbers of the local displays\<close>

text \<open>
  C17: whatever XDMCP clients send and however many remote displays there are, no two local displays
  have the same X display number, and the number of every local display that exists is reserved. The
  bound says that the numbers have not run out.
\<close>

theorem displays_have_own_numbers:
  assumes "run (xdmcp_step env) es (mdm_xdmcp_display_factory_init system host serial daemon_init) = Some f"
    and "length (displays (base f)) < 2 ^ 32"
    and "heap (base f) p = Some x" and "xdmcp_display (disp_class x) = None"
    and "heap (base f) q = Some y" and "xdmcp_display (disp_class y) = None" and "p \<noteq> q"
  shows "x11_number x \<noteq> x11_number y \<and> word_of_int (x11_number x) \<in> set (displays (base f))"
proof -
  have "xdmcp_inv f" by (rule xdmcp_machine.run_inv [OF factory_init_inv [OF daemon_init_managed] assms(1)])
  then have "daemon_inv (base f)" using inv_base_inv by (simp add: base_inv_def)
  with assms(2) have own: "own_numbers (base f)" by (simp add: daemon_inv_def)
  then obtain num where "num \<in> set (displays (base f))" "x11_number x = sint num"
    using assms(3,4) unfolding own_numbers_def by blast
  with own assms(3-7) show ?thesis unfolding own_numbers_def by auto
qed

theorem displays_have_own_numbers_witness:
  "\<exists>x y. heap two_displays 0 = Some x \<and> heap two_displays 1 = Some y \<and> x11_number x \<noteq> x11_number y \<and>
     word_of_int (x11_number x) \<in> set (displays two_displays)"
proof -
  obtain x y where xy: "heap two_displays 0 = Some x" "heap two_displays 1 = Some y" "displays two_displays = [1, 0]"
    using two_displays_heap by blast
  have "settled two_displays" using run_settled [OF demo_two] by simp
  with xy have "xdmcp_display (disp_class x) = None" "xdmcp_display (disp_class y) = None"
    by (auto simp: settled_def)
  with displays_have_own_numbers [OF two_local_run, of 0 x 1 y] xy show ?thesis by (simp add: two_local_def)
qed

end
