(* ===== verification/Slave_World.thy ===== *)
theory Slave_World
  imports Worker_Machine
begin

text \<open>
  The outside world of the slave, the process that runs one display: the session worker and the
  greeter at the other ends of two private D-Bus connections, the daemon and ConsoleKit on the
  system bus, the X server, the kernel and the files.

  As for the other processes, \<open>strace\<close> is the list of what the slave has done, newest first, and an
  answer may depend on all of it. The signals to the worker are those the worker's model handles
  (\<^typ>\<open>signal\<close>), and a reply to one of its methods is what that model receives (\<^typ>\<open>dbus_reply\<close>).

  An operation returns an option: \<^term>\<open>None\<close> is the end of the process, by a failed assertion, a NULL
  pointer or \<open>exit\<close>.
\<close>

subsection \<open>The trace\<close>

datatype ut_type = USER_PROCESS | DEAD_PROCESS | INIT_PROCESS | LOGIN_PROCESS | UT_OTHER nat

record utmp =
  ut_type :: ut_type
  ut_user :: string
  ut_pid :: int
  ut_id :: string
  ut_host :: string
  ut_line :: string
  ut_tv :: int

datatype greeter_args = G_void | G_string string | G_string_int string int

text \<open>
  What the slave does. The X server process, the greeter's process and their sessions are objects
  of other files (\<open>mdm-server.c\<close>, \<open>mdm-welcome-session.c\<close>): the slave's calls to them are entries too.
\<close>

datatype scall = To_worker signal | Worker_reply dbus_reply | Close_worker
  | To_greeter string greeter_args | Greeter_reply string
  | Listen string | Spawn_worker "string list" "string list" | Kill int | Waitpid int
  | Write_wtmp utmp | Write_btmp utmp | Put_utmp utmp | Read_utmp | Get_time
  | Register_object string | Settings_value string | Display_method string "string option"
  | CK_method string string "string list"
  | Open_display "string option" | Add_hosts | Remove_hosts | Save_root_windows
  | Run_script "string list" "string list" | Run_command "string list" "string list"
  | Setenv string "string option"
  | Plymouth string | Set_alarm int
  | Server_new "string option" "bool option" | Server_start | Server_start_on_active_vt | Server_stop
  | Greeter_start "string option" "string option" | Greeter_stop
  | Emit_stopped

type_synonym strace = "scall list"

subsection \<open>The answers\<close>

text \<open>A session's desktop file as GLib's key file reader shows it: \<^term>\<open>de_bypass\<close> is \<^term>\<open>None\<close> when the file
  has no such key.\<close>

record desktop_entry =
  de_hidden :: "key_file_error + bool"
  de_try_exec :: "string option"
  de_exec :: "key_file_error + string"
  de_comment :: "key_file_error + string"
  de_bypass :: "(key_file_error + bool) option"

text \<open>
  The fields of \<open>slave_env\<close>: the integer, string and string list answers of the newest call
  (\<^term>\<open>None\<close>: an error, or NULL; a negative integer: an error, and for a yes or no answer 0 is no); whether the connection to the worker and the one to the greeter are
  still open; the desktop file of a name in a list of directories, the programs in \<open>PATH\<close>, the entries
  of a directory; the environment variables \<open>LANGUAGE\<close> and \<open>WINDOWPATH\<close> and the locale; the layouts and
  variants of the X server's keyboard, if it can be asked; the order of a hash table's traversal; the
  password database, the existence of a file, and whether it is a script that can be run; \<open>waitpid\<close> by
  attempt; GLib's parser of command lines; the slave's environment; the entries of utmp; the status
  of a script that was waited for, and the terminal's number in the X server's property, if it has one;
  the details of the timed login the display gives; the device of the X server's display; two settings;
  the string that is read behind a pointer to freed memory; the value of an uninitialised integer.
\<close>

record slave_env =
  s_result :: "strace \<Rightarrow> int"
  s_string :: "strace \<Rightarrow> string option"
  s_strings :: "strace \<Rightarrow> string list option"
  s_connected :: "strace \<Rightarrow> bool"
  s_greeter_connected :: "strace \<Rightarrow> bool"
  s_desktop_file :: "strace \<Rightarrow> string list \<Rightarrow> string \<Rightarrow> desktop_entry option"
  s_in_path :: "strace \<Rightarrow> string \<Rightarrow> bool"
  s_dir :: "strace \<Rightarrow> string \<Rightarrow> string list option"
  s_language :: "string option"
  s_locale :: "string option"
  s_windowpath :: "strace \<Rightarrow> string option"
  s_layouts :: "strace \<Rightarrow> (string list \<times> string list) option"
  s_hash_order :: "(string \<times> string) list \<Rightarrow> (string \<times> string) list"
  s_getpwnam :: "strace \<Rightarrow> string \<Rightarrow> nat \<Rightarrow> passwd option \<times> errno option"
  s_exists :: "strace \<Rightarrow> string \<Rightarrow> bool"
  s_is_script :: "strace \<Rightarrow> string \<Rightarrow> bool"
  s_waitpid :: "strace \<Rightarrow> nat \<Rightarrow> errno + int"
  s_shell_parse :: "string \<Rightarrow> string list option"
  s_environ :: "(string \<times> string) list"
  s_utmp :: "strace \<Rightarrow> utmp list"
  s_wait_status :: "strace \<Rightarrow> wait_status"
  s_timed_login :: "strace \<Rightarrow> (bool \<times> string \<times> int) option"
  s_active_vt :: "strace \<Rightarrow> nat option"
  s_display_device :: "strace \<Rightarrow> string option"
  s_ping_interval :: "int option"
  s_disallow_tcp :: "bool option"
  s_freed_memory :: "strace \<Rightarrow> string"
  s_uninitialised :: int

definition scall :: "slave_env \<Rightarrow> scall \<Rightarrow> strace \<Rightarrow> int \<times> strace" where
  "scall env c t = (let t = c # t in (s_result env t, t))"

definition scall_string :: "slave_env \<Rightarrow> scall \<Rightarrow> strace \<Rightarrow> string option \<times> strace" where
  "scall_string env c t = (let t = c # t in (s_string env t, t))"

definition scall_strings :: "slave_env \<Rightarrow> scall \<Rightarrow> strace \<Rightarrow> string list option \<times> strace" where
  "scall_strings env c t = (let t = c # t in (s_strings env t, t))"

lemma snd_scall [simp]:
  "snd (scall env c t) = c # t" "snd (scall_string env c t) = c # t"
  "snd (scall_strings env c t) = c # t"
  by (simp_all add: scall_def scall_string_def scall_strings_def Let_def)

definition get_pwent :: "slave_env \<Rightarrow> string \<Rightarrow> strace \<Rightarrow> passwd option option" where
  "get_pwent env name t = map_option snd (mdm_get_pwent_for_name (s_getpwnam env t name))"

text \<open>The environment of a child: a hash table written out as \<open>NAME=value\<close> strings.\<close>

definition listify_hash :: "slave_env \<Rightarrow> (string \<times> string) list \<Rightarrow> string list" where
  "listify_hash env h = map (\<lambda>(key, val). key @ ''='' @ val) (s_hash_order env h)"

text \<open>\<open>g_strdup_printf\<close> writes \<open>(null)\<close> for a NULL string.\<close>

definition printed :: "string option \<Rightarrow> string" where
  "printed s = (case s of None \<Rightarrow> ''(null)'' | Some s \<Rightarrow> s)"

end
