(* ===== verification/Session_Record.thy ===== *)
theory Session_Record
  imports Slave_World
begin

text \<open>
  The log of the sessions, \<open>daemon/mdm-session-record.c\<close>, as it is compiled on Linux: \<open>wtmp\<close> and \<open>utmp\<close>
  for logins and logouts, \<open>btmp\<close> for failed attempts. A record is a zeroed structure whose fields are
  filled with \<open>strncpy\<close>: at most as many characters as the field has, without a NUL when it is full.
  The entries of \<open>utmp\<close> belong to the C library.
\<close>

definition empty_record :: utmp where
  "empty_record = \<lparr>ut_type = UT_OTHER 0, ut_user = [], ut_pid = 0, ut_id = [], ut_host = [],
     ut_line = [], ut_tv = 0\<rparr>"

definition strncpy :: "string \<Rightarrow> nat \<Rightarrow> string" where
  "strncpy s n = take n (c_string s)"

definition record_set_username :: "string option \<Rightarrow> utmp \<Rightarrow> utmp" where
  "record_set_username user_name u =
     (let username = (case user_name of Some name \<Rightarrow> name | None \<Rightarrow> ''(unknown)'')
      in u\<lparr>ut_user := strncpy username 32\<rparr>)"

definition record_set_timestamp :: "slave_env \<Rightarrow> utmp \<Rightarrow> strace \<Rightarrow> utmp \<times> strace" where
  "record_set_timestamp env u t =
     (case scall env Get_time t of (now, t) \<Rightarrow> (u\<lparr>ut_tv := now\<rparr>, t))"

definition record_set_pid :: "int \<Rightarrow> utmp \<Rightarrow> utmp" where
  "record_set_pid p u = (if p \<noteq> 0 then u\<lparr>ut_pid := p\<rparr> else u)"

text \<open>\<open>strncpy\<close> of a NULL pointer.\<close>

definition record_set_id :: "string option \<Rightarrow> utmp \<Rightarrow> utmp option" where
  "record_set_id ident u =
     (case ident of None \<Rightarrow> None | Some s \<Rightarrow> Some (u\<lparr>ut_id := strncpy s 4\<rparr>))"

definition record_set_host :: "string option \<Rightarrow> string option \<Rightarrow> utmp \<Rightarrow> utmp" where
  "record_set_host x11_display host_name u =
     (let host = (case (host_name, x11_display) of
                    (Some h, Some d) \<Rightarrow> if take 1 d = '':'' then Some (h @ d) else Some d
                  | _ \<Rightarrow> x11_display)
      in case host of None \<Rightarrow> u | Some h \<Rightarrow> u\<lparr>ut_host := strncpy h 256\<rparr>)"

definition record_set_line :: "string option \<Rightarrow> string option \<Rightarrow> utmp \<Rightarrow> utmp" where
  "record_set_line device x11_display u =
     (case device of
        Some dev \<Rightarrow>
          if take 5 dev = ''/dev/'' then u\<lparr>ut_line := strncpy (drop 5 dev) 32\<rparr>
          else (case x11_display of
                  Some d \<Rightarrow> if take 1 d = '':'' then u\<lparr>ut_line := strncpy d 32\<rparr> else u
                | None \<Rightarrow> u)
      | None \<Rightarrow>
          (case x11_display of
             Some d \<Rightarrow> if take 1 d = '':'' then u\<lparr>ut_line := strncpy d 32\<rparr> else u
           | None \<Rightarrow> u))"

text \<open>The part the three records share: the time, the pid, the id, the host and the line.\<close>

definition fill_record ::
  "slave_env \<Rightarrow> int \<Rightarrow> string option \<Rightarrow> string option \<Rightarrow> string option \<Rightarrow> utmp \<Rightarrow> strace
     \<Rightarrow> (utmp \<times> strace) option" where
  "fill_record env session_pid host_name x11_display device u t =
     do {
       let (u, t) = record_set_timestamp env u t;
       let u = record_set_pid session_pid u;
       u \<leftarrow> record_set_id x11_display u;
       let u = record_set_host x11_display host_name u;
       Some (record_set_line device x11_display u, t)
     }"

text \<open>The loop over \<open>utmp\<close> stops at an entry of the same line or process; the record is written once,
  inside the loop or behind it.\<close>

fun find_user_process :: "utmp \<Rightarrow> utmp list \<Rightarrow> utmp option" where
  "find_user_process session_record [] = None"
| "find_user_process session_record (u # us) =
     (if ut_type u = USER_PROCESS \<and>
         (ut_line u = ut_line session_record \<or> ut_pid u = ut_pid session_record)
      then Some u else find_user_process session_record us)"

definition mdm_session_record_login ::
  "slave_env \<Rightarrow> int \<Rightarrow> string option \<Rightarrow> string option \<Rightarrow> string option \<Rightarrow> string option \<Rightarrow> strace
     \<Rightarrow> strace option" where
  "mdm_session_record_login env session_pid user_name host_name x11_display device t =
     do {
       let u = record_set_username user_name empty_record;
       let u = u\<lparr>ut_type := USER_PROCESS\<rparr>;
       (session_record, t) \<leftarrow> fill_record env session_pid host_name x11_display device u t;
       let t = Write_wtmp session_record # t;
       let t = Read_utmp # t;
       (case find_user_process session_record (s_utmp env t) of
          Some u \<Rightarrow> Some (Put_utmp session_record # t)
        | None \<Rightarrow> Some (Put_utmp session_record # t))
     }"

text \<open>\<open>getutxid\<close>: the first entry of one of the four kinds of process whose id is the record's.\<close>

fun getutxid :: "utmp \<Rightarrow> utmp list \<Rightarrow> utmp option" where
  "getutxid session_record [] = None"
| "getutxid session_record (u # us) =
     (if ut_type u \<in> {USER_PROCESS, DEAD_PROCESS, INIT_PROCESS, LOGIN_PROCESS} \<and>
         ut_id u = ut_id session_record
      then Some u else getutxid session_record us)"

text \<open>
  The condition of the loop reads one entry with \<open>getutxent\<close> and then searches behind it, and every
  path of the body leaves the loop.
\<close>

definition mdm_session_record_logout ::
  "slave_env \<Rightarrow> int \<Rightarrow> string option \<Rightarrow> string option \<Rightarrow> string option \<Rightarrow> string option \<Rightarrow> strace
     \<Rightarrow> strace option" where
  "mdm_session_record_logout env session_pid user_name host_name x11_display device t =
     do {
       let u = empty_record\<lparr>ut_type := DEAD_PROCESS\<rparr>;
       (session_record, t) \<leftarrow> fill_record env session_pid host_name x11_display device u t;
       let t = Write_wtmp session_record # t;
       let t = Read_utmp # t;
       (case s_utmp env t of
          [] \<Rightarrow> Some t
        | _ # us \<Rightarrow>
            (case getutxid session_record us of
               None \<Rightarrow> Some t
             | Some u \<Rightarrow>
                 if ut_pid u = session_pid \<and> ut_type u = DEAD_PROCESS then Some t
                 else Some (Put_utmp (u\<lparr>ut_type := DEAD_PROCESS, ut_tv := ut_tv session_record\<rparr>) # t)))
     }"

definition mdm_session_record_failed ::
  "slave_env \<Rightarrow> int \<Rightarrow> string option \<Rightarrow> string option \<Rightarrow> string option \<Rightarrow> string option \<Rightarrow> strace
     \<Rightarrow> strace option" where
  "mdm_session_record_failed env session_pid user_name host_name x11_display device t =
     do {
       let u = record_set_username user_name empty_record;
       let u = u\<lparr>ut_type := USER_PROCESS\<rparr>;
       (session_record, t) \<leftarrow> fill_record env session_pid host_name x11_display device u t;
       Some (Write_btmp session_record # t)
     }"

end
