(* ===== verification/Worker_Job.thy ===== *)
theory Worker_Job
  imports Slave_World
begin

text \<open>
  The slave's handle on the process of the session worker, \<open>daemon/mdm-session-worker-job.c\<close>:
  starting it with the address of the D-Bus server in its environment, watching it and stopping it.
  The identifier of the child watch is the boolean "was added and not removed"; \<open>job_watch_armed\<close> is
  the main loop's side of it, which reports the end of a child once.
\<close>

record worker_job =
  job_command :: string
  job_pid :: int
  job_watch_id :: bool
  job_watch_armed :: bool
  job_server_address :: "string option"

definition LIBEXECDIR :: string where
  "LIBEXECDIR = ''/usr/libexec''"

definition mdm_session_worker_job_init :: worker_job where
  "mdm_session_worker_job_init =
     \<lparr>job_command = LIBEXECDIR @ ''/mdm-session-worker'', job_pid = -1, job_watch_id = False,
      job_watch_armed = False, job_server_address = None\<rparr>"

definition mdm_session_worker_job_set_server_address ::
  "string option \<Rightarrow> worker_job \<Rightarrow> worker_job" where
  "mdm_session_worker_job_set_server_address address job = job\<lparr>job_server_address := address\<rparr>"

text \<open>The slave's own environment with the address of the session's server, empty when there is none.\<close>

definition get_job_environment :: "slave_env \<Rightarrow> worker_job \<Rightarrow> string list" where
  "get_job_environment env job =
     listify_hash env
       (AList.update ''MDM_SESSION_DBUS_ADDRESS''
          (case job_server_address job of None \<Rightarrow> [] | Some a \<Rightarrow> a) (s_environ env))"

text \<open>
  \<open>g_spawn_async_with_pipes\<close> answers the pid of the child, negative when it could not be started: the
  pid then stays what it was, and the child watch is added all the same.
\<close>

definition mdm_session_worker_job_spawn ::
  "slave_env \<Rightarrow> worker_job \<Rightarrow> strace \<Rightarrow> bool \<times> worker_job \<times> strace" where
  "mdm_session_worker_job_spawn env job t =
     (case s_shell_parse env (job_command job) of
        None \<Rightarrow> (False, job, t)
      | Some argv \<Rightarrow>
          (case scall env (Spawn_worker argv (get_job_environment env job)) t of (child, t) \<Rightarrow>
             let ret = (child \<ge> 0);
                 job = (if ret then job\<lparr>job_pid := child\<rparr> else job)
             in (ret, job\<lparr>job_watch_id := True, job_watch_armed := ret\<rparr>, t)))"

definition mdm_session_worker_job_start ::
  "slave_env \<Rightarrow> worker_job \<Rightarrow> strace \<Rightarrow> bool \<times> worker_job \<times> strace" where
  "mdm_session_worker_job_start env job t = mdm_session_worker_job_spawn env job t"

definition session_worker_job_died ::
  "slave_env \<Rightarrow> worker_job \<Rightarrow> strace \<Rightarrow> (worker_job \<times> strace) option" where
  "session_worker_job_died env job t =
     do {
       let t = Waitpid (job_pid job) # t;
       _ \<leftarrow> mdm_wait_on_pid (s_waitpid env t) 0;
       Some (job\<lparr>job_pid := -1\<rparr>, t)
     }"

definition mdm_session_worker_job_stop ::
  "slave_env \<Rightarrow> worker_job \<Rightarrow> strace \<Rightarrow> (worker_job \<times> strace) option" where
  "mdm_session_worker_job_stop env job t =
     (if job_pid job \<le> 1 then Some (job, t)
      else let job = job\<lparr>job_watch_id := False, job_watch_armed := False\<rparr>
        in (case scall env (Kill (job_pid job)) t of (res, t) \<Rightarrow>
              if res < 0 then Some (job, t) else session_worker_job_died env job t))"

text \<open>The end of the worker as the main loop reports it, and the signal it leads to.\<close>

datatype job_signal = Job_exited int | Job_died int

definition session_worker_job_child_watch ::
  "wait_status \<Rightarrow> worker_job \<Rightarrow> worker_job \<times> job_signal option" where
  "session_worker_job_child_watch status job =
     (job\<lparr>job_pid := -1, job_watch_armed := False\<rparr>,
      (case status of
         Status code \<Rightarrow> Some (Job_exited code)
       | Signal num \<Rightarrow> Some (Job_died num)
       | Unknown_status \<Rightarrow> None))"

end
