(* ===== verification/Session_Direct.thy ===== *)
theory Session_Direct
  imports Session_Record Worker_Job "HOL-Library.List_Lexorder" "HOL-Library.Char_ord"
begin

text \<open>
  One conversation of the slave with a session worker, \<open>daemon/mdm-session-direct.c\<close>: its state, the
  signals it sends to the worker, and the choice of the session, the language and the layout. What
  the worker sends and what the slave asks for is in \<open>Session_Handlers\<close>.

  \<open>sd_pending_reply\<close> is the query of the worker that was not answered yet; \<open>sd_worker_connection\<close> and
  \<open>sd_server\<close> are the pointers "not NULL".
\<close>

subsection \<open>The state\<close>

record session_direct =
  sd_selected_session :: "string option"
  sd_saved_session :: "string option"
  sd_selected_language :: "string option"
  sd_saved_language :: "string option"
  sd_selected_layout :: "string option"
  sd_saved_layout :: "string option"
  sd_selected_user :: "string option"
  sd_user_x11_authority_file :: "string option"
  sd_pending_reply :: "(string \<times> payload) option"
  sd_worker_connection :: bool
  sd_job :: "worker_job option"
  sd_session_pid :: int
  sd_is_running :: bool
  sd_id :: "string option"
  sd_display_id :: "string option"
  sd_display_name :: "string option"
  sd_display_hostname :: "string option"
  sd_display_device :: "string option"
  sd_display_x11_authority_file :: "string option"
  sd_display_is_local :: bool
  sd_fallback_session_name :: "string option"
  sd_server :: bool
  sd_server_address :: "string option"
  sd_environment :: "(string \<times> string) list"

text \<open>The signals of the object. The handlers the object connects to its own signals are part of the
  operations below; those of the slave are in \<open>Simple_Slave\<close>.\<close>

datatype session_signal = Sig_conversation_started
  | Sig_setup_complete | Sig_setup_failed string
  | Sig_reset_complete | Sig_reset_failed string
  | Sig_authenticated | Sig_authentication_failed string
  | Sig_authorized | Sig_authorization_failed string
  | Sig_accredited | Sig_accreditation_failed string
  | Sig_info_query string | Sig_secret_info_query string | Sig_info string | Sig_problem string
  | Sig_session_opened | Sig_session_open_failed string
  | Sig_session_started int | Sig_session_start_failed string
  | Sig_session_exited int | Sig_session_died int
  | Sig_selected_user_changed "string option"
  | Sig_default_language_name_changed "string option"
  | Sig_default_layout_name_changed "string option"
  | Sig_default_session_name_changed "string option"

subsection \<open>Signals to the worker\<close>

definition worker_is_connected :: "slave_env \<Rightarrow> session_direct \<Rightarrow> strace \<Rightarrow> bool" where
  "worker_is_connected env s t \<longleftrightarrow> sd_worker_connection s \<and> s_connected env t"

definition send_dbus_message :: "slave_env \<Rightarrow> signal \<Rightarrow> session_direct \<Rightarrow> strace \<Rightarrow> strace" where
  "send_dbus_message env message s t =
     (if \<not> sd_worker_connection s then t
      else if \<not> s_connected env t then t
      else To_worker message # t)"

text \<open>A NULL pointer cannot be appended to a D-Bus message.\<close>

definition send_dbus_string_signal ::
  "slave_env \<Rightarrow> (string option \<Rightarrow> signal) \<Rightarrow> string option \<Rightarrow> session_direct \<Rightarrow> strace \<Rightarrow> strace option"
where
  "send_dbus_string_signal env name text s t =
     (case text of None \<Rightarrow> None | Some x \<Rightarrow> Some (send_dbus_message env (name (Some x)) s t))"

definition send_dbus_bool_signal ::
  "slave_env \<Rightarrow> (bool option \<Rightarrow> signal) \<Rightarrow> bool \<Rightarrow> session_direct \<Rightarrow> strace \<Rightarrow> strace" where
  "send_dbus_bool_signal env name b s t = send_dbus_message env (name (Some b)) s t"

definition send_dbus_void_signal :: "slave_env \<Rightarrow> signal \<Rightarrow> session_direct \<Rightarrow> strace \<Rightarrow> strace" where
  "send_dbus_void_signal env name s t = send_dbus_message env name s t"

text \<open>A reply on the worker's connection, which libdbus refuses to send on a NULL pointer.\<close>

definition send_reply :: "dbus_reply \<Rightarrow> session_direct \<Rightarrow> strace \<Rightarrow> strace" where
  "send_reply r s t = (if sd_worker_connection s then Worker_reply r # t else t)"

subsection \<open>The files of the sessions\<close>

definition get_system_session_dirs :: "string list" where
  "get_system_session_dirs =
     [''/etc/X11/sessions/'', ''/etc/dm/Sessions/'', ''/usr/share/xsessions/'',
      ''/usr/share/mdm/BuiltInSessions/'']"

definition MDM_CUSTOM_SESSION :: string where
  "MDM_CUSTOM_SESSION = ''custom''"

definition load_session_file :: "slave_env \<Rightarrow> string \<Rightarrow> strace \<Rightarrow> desktop_entry option" where
  "load_session_file env file t = s_desktop_file env t get_system_session_dirs file"

text \<open>The command of a session's file: \<^term>\<open>None\<close> when the code returns \<open>FALSE\<close>.\<close>

definition get_session_command_for_file :: "slave_env \<Rightarrow> string \<Rightarrow> strace \<Rightarrow> string option" where
  "get_session_command_for_file env file t =
     (case load_session_file env file t of
        None \<Rightarrow> None
      | Some key_file \<Rightarrow>
          if de_hidden key_file = Inr True then None
          else if (case de_try_exec key_file of None \<Rightarrow> False | Some e \<Rightarrow> \<not> s_in_path env t e) then None
          else (case de_exec key_file of Inl _ \<Rightarrow> None | Inr exec \<Rightarrow> Some exec))"

definition get_session_comment_for_file :: "slave_env \<Rightarrow> string \<Rightarrow> strace \<Rightarrow> string option" where
  "get_session_comment_for_file env file t =
     (case load_session_file env file t of
        None \<Rightarrow> None
      | Some key_file \<Rightarrow> (case de_comment key_file of Inl _ \<Rightarrow> None | Inr c \<Rightarrow> Some c))"

text \<open>A NULL name is printed as \<open>(null)\<close>, and compared with the custom session's when there is no such
  file.\<close>

definition get_session_command_for_name ::
  "slave_env \<Rightarrow> string option \<Rightarrow> strace \<Rightarrow> string option option" where
  "get_session_command_for_name env name t =
     (case get_session_command_for_file env (printed name @ ''.desktop'') t of
        Some command \<Rightarrow> Some (Some command)
      | None \<Rightarrow>
          (case name of
             None \<Rightarrow> None
           | Some n \<Rightarrow> Some (if n = MDM_CUSTOM_SESSION then Some MDM_CUSTOM_SESSION else None)))"

subsection \<open>The defaults\<close>

definition get_default_language_name :: "slave_env \<Rightarrow> session_direct \<Rightarrow> string option" where
  "get_default_language_name env s =
     (case sd_saved_language s of
        Some l \<Rightarrow> Some l
      | None \<Rightarrow>
          (case s_language env of
             Some langlist \<Rightarrow>
               if length langlist > 0
               then Some (if CHR '':'' \<in> set langlist then takeWhile (\<lambda>c. c \<noteq> CHR '':'') langlist
                          else langlist)
               else s_locale env
           | None \<Rightarrow> s_locale env))"

text \<open>The first layout of the X server, with its variant if it is not empty; otherwise \<open>us\<close>.
  The code keeps the engine that asks the X server once it has one; the model opens the display each
  time.\<close>

definition get_system_default_layout ::
  "slave_env \<Rightarrow> session_direct \<Rightarrow> strace \<Rightarrow> string \<times> strace" where
  "get_system_default_layout env s t =
     (let t = Open_display (sd_display_name s) # t
      in (case s_layouts env t of
            Some (layout # _, variant # _) \<Rightarrow>
              (if variant \<noteq> [] then layout @ [CHR 0x09] @ variant else layout)
          | Some (layout # _, []) \<Rightarrow> layout
          | _ \<Rightarrow> ''us'', t))"

definition get_default_layout_name ::
  "slave_env \<Rightarrow> session_direct \<Rightarrow> strace \<Rightarrow> string \<times> session_direct \<times> strace" where
  "get_default_layout_name env s t =
     (case sd_saved_layout s of
        Some l \<Rightarrow> (l, s, t)
      | None \<Rightarrow>
          (case get_system_default_layout env s t of
             (l, t) \<Rightarrow> (l, s\<lparr>sd_saved_layout := Some l\<rparr>, t)))"

text \<open>The session files of one directory that can be run, inserted into the sorted sequence.\<close>

definition add_sessions_of_dir :: "slave_env \<Rightarrow> strace \<Rightarrow> string \<Rightarrow> string list \<Rightarrow> string list" where
  "add_sessions_of_dir env t dir sessions =
     (case s_dir env t dir of
        None \<Rightarrow> sessions
      | Some names \<Rightarrow>
          fold (\<lambda>base_name sessions.
                  if drop (length base_name - 8) base_name = ''.desktop'' \<and>
                     get_session_command_for_file env base_name t \<noteq> None
                  then insort base_name sessions else sessions) names sessions)"

definition first_session :: "slave_env \<Rightarrow> strace \<Rightarrow> string option" where
  "first_session env t =
     (case fold (add_sessions_of_dir env t) get_system_session_dirs [] of
        [] \<Rightarrow> None
      | base_name # _ \<Rightarrow> Some (take (length base_name - length ''.desktop'') base_name))"

text \<open>
  The administrator's default, if it can be run; the cached name, if it still can; \<open>mate\<close>; the first
  session there is, in the order of the names. The commands are looked up for names that are not
  NULL, so that the lookup does not fail.
\<close>

definition runnable :: "slave_env \<Rightarrow> string \<Rightarrow> strace \<Rightarrow> bool" where
  "runnable env name t \<longleftrightarrow>
     (case get_session_command_for_name env (Some name) t of Some (Some _) \<Rightarrow> True | _ \<Rightarrow> False)"

definition get_fallback_session_name ::
  "slave_env \<Rightarrow> session_direct \<Rightarrow> strace \<Rightarrow> string option \<times> session_direct \<times> strace" where
  "get_fallback_session_name env s t =
     (case scall_string env (Settings_value ''daemon/DefaultSession'') t of (val, t) \<Rightarrow>
        if (case val of Some name \<Rightarrow> runnable env name t | None \<Rightarrow> False) then (val, s, t)
        else if (case sd_fallback_session_name s of Some name \<Rightarrow> runnable env name t | None \<Rightarrow> False)
        then (sd_fallback_session_name s, s, t)
        else let name = (if runnable env ''mate'' t then Some ''mate'' else first_session env t)
             in (name, s\<lparr>sd_fallback_session_name := name\<rparr>, t))"

definition get_default_session_name ::
  "slave_env \<Rightarrow> session_direct \<Rightarrow> strace \<Rightarrow> string option \<times> session_direct \<times> strace" where
  "get_default_session_name env s t =
     (case sd_saved_session s of
        Some n \<Rightarrow> (Some n, s, t)
      | None \<Rightarrow> get_fallback_session_name env s t)"

subsection \<open>The session, the language and the layout that are used\<close>

definition get_language_name :: "slave_env \<Rightarrow> session_direct \<Rightarrow> string option" where
  "get_language_name env s =
     (case sd_selected_language s of
        Some l \<Rightarrow> Some l
      | None \<Rightarrow> get_default_language_name env s)"

definition get_layout_name ::
  "slave_env \<Rightarrow> session_direct \<Rightarrow> strace \<Rightarrow> string \<times> session_direct \<times> strace" where
  "get_layout_name env s t =
     (case sd_selected_layout s of
        Some l \<Rightarrow> (l, s, t)
      | None \<Rightarrow> get_default_layout_name env s t)"

definition get_session_name ::
  "slave_env \<Rightarrow> session_direct \<Rightarrow> strace \<Rightarrow> string option \<times> session_direct \<times> strace" where
  "get_session_name env s t =
     (case sd_selected_session s of
        Some n \<Rightarrow> (Some n, s, t)
      | None \<Rightarrow> get_default_session_name env s t)"

fun ascii_down :: "char \<Rightarrow> char" where
  "ascii_down c = (if CHR ''A'' \<le> c \<and> c \<le> CHR ''Z'' then char_of (of_char c + (32 :: nat)) else c)"

fun contains :: "string \<Rightarrow> string \<Rightarrow> bool" where
  "contains needle [] = (needle = [])"
| "contains needle (c # cs) = (take (length needle) (c # cs) = needle \<or> contains needle cs)"

text \<open>The comment, or the name of the file, which has been freed before it is searched.\<close>

definition get_is_session_failsafe ::
  "slave_env \<Rightarrow> session_direct \<Rightarrow> strace \<Rightarrow> bool \<times> session_direct \<times> strace" where
  "get_is_session_failsafe env s t =
     (case get_session_name env s t of (name, s, t) \<Rightarrow>
        let filename = printed name @ ''.desktop''
        in (case get_session_comment_for_file env filename t of
              None \<Rightarrow> (False, s, t)
            | Some comment \<Rightarrow>
                (contains ''failsafe'' (map ascii_down comment) \<or>
                 contains ''failsafe'' (map ascii_down (s_freed_memory env t)), s, t)))"

text \<open>A session that cannot be run ends the slave with \<open>exit (1)\<close>.\<close>

definition get_session_command ::
  "slave_env \<Rightarrow> session_direct \<Rightarrow> strace \<Rightarrow> (string \<times> session_direct \<times> strace) option" where
  "get_session_command env s t =
     (case get_session_name env s t of (name, s, t) \<Rightarrow>
        do {
          command \<leftarrow> get_session_command_for_name env name t;
          (case command of None \<Rightarrow> None | Some c \<Rightarrow> Some (c, s, t))
        })"

definition mdm_session_direct_bypasses_xsession ::
  "slave_env \<Rightarrow> session_direct \<Rightarrow> strace \<Rightarrow> bool \<times> session_direct \<times> strace" where
  "mdm_session_direct_bypasses_xsession env s t =
     (case get_session_name env s t of (name, s, t) \<Rightarrow>
        ((case load_session_file env (printed name @ ''.desktop'') t of
            None \<Rightarrow> False
          | Some key_file \<Rightarrow>
              (case de_bypass key_file of None \<Rightarrow> False | Some (Inl _) \<Rightarrow> False | Some (Inr b) \<Rightarrow> b)), s, t))"

subsection \<open>Choices of the user\<close>

definition mdm_session_direct_select_user :: "string option \<Rightarrow> session_direct \<Rightarrow> session_direct" where
  "mdm_session_direct_select_user text s =
     s\<lparr>sd_selected_user := text, sd_saved_session := None, sd_saved_language := None,
       sd_saved_layout := None\<rparr>"

definition selection :: "string \<Rightarrow> string option" where
  "selection text = (if text = ''__previous'' then None else Some text)"

definition mdm_session_direct_select_session ::
  "slave_env \<Rightarrow> string \<Rightarrow> session_direct \<Rightarrow> strace \<Rightarrow> (session_direct \<times> strace) option" where
  "mdm_session_direct_select_session env text s t =
     (let s = s\<lparr>sd_selected_session := selection text\<rparr>
      in do {
        let (name, s, t) = get_session_name env s t;
        t \<leftarrow> send_dbus_string_signal env SetSessionName name s t;
        let (failsafe, s, t) = get_is_session_failsafe env s t;
        Some (s, send_dbus_bool_signal env SetIsFailsafe failsafe s t)
      })"

definition mdm_session_direct_select_language ::
  "slave_env \<Rightarrow> string \<Rightarrow> session_direct \<Rightarrow> strace \<Rightarrow> (session_direct \<times> strace) option" where
  "mdm_session_direct_select_language env text s t =
     (let s = s\<lparr>sd_selected_language := selection text\<rparr>
      in do {
        t \<leftarrow> send_dbus_string_signal env SetLanguageName (get_language_name env s) s t;
        Some (s, t)
      })"

definition mdm_session_direct_select_layout ::
  "slave_env \<Rightarrow> string \<Rightarrow> session_direct \<Rightarrow> strace \<Rightarrow> (session_direct \<times> strace) option" where
  "mdm_session_direct_select_layout env text s t =
     (let s = s\<lparr>sd_selected_layout := selection text\<rparr>
      in do {
        let (name, s, t) = get_layout_name env s t;
        t \<leftarrow> send_dbus_string_signal env SetLayoutName (Some name) s t;
        Some (s, t)
      })"

end
