(* ===== verification/Session_Handlers.thy ===== *)
theory Session_Handlers
  imports Session_Direct
begin

text \<open>
  The operations of the object \<open>MdmSessionDirect\<close> of \<open>daemon/mdm-session-direct.c\<close>: the messages of
  the worker, the connection and the process of the worker, and the interface \<open>MdmSession\<close> that the
  slave uses (\<open>daemon/mdm-session.c\<close> only dispatches to it).

  A GObject signal runs its handlers while it is emitted. Two kinds are told apart. The changes of
  the defaults and of the selected user reach handlers of the slave that only write to the greeter:
  the parameter \<open>notify\<close> is what they do to the trace. Every other signal is emitted at the end of
  the operation, which returns it: the slave's handler, which may close the very session, runs on
  the result.
\<close>

subsection \<open>The object's handlers of its own signals\<close>

text \<open>A session that failed to start is recorded as a login, and none is connected to \<open>session-died\<close>.\<close>

definition record_signal ::
  "slave_env \<Rightarrow> session_signal \<Rightarrow> session_direct \<Rightarrow> strace \<Rightarrow> strace option" where
  "record_signal env sig s t =
     (let record = (\<lambda>f. f env (sd_session_pid s) (sd_selected_user s) (sd_display_hostname s)
                            (sd_display_name s) (sd_display_device s) t)
      in case sig of
           Sig_authentication_failed _ \<Rightarrow> record mdm_session_record_failed
         | Sig_session_started _ \<Rightarrow> record mdm_session_record_login
         | Sig_session_start_failed _ \<Rightarrow> record mdm_session_record_login
         | Sig_session_exited _ \<Rightarrow> record mdm_session_record_logout
         | _ \<Rightarrow> Some t)"

type_synonym session_result = "(session_signal option \<times> session_direct \<times> strace) option"

definition emit_signal ::
  "slave_env \<Rightarrow> session_signal \<Rightarrow> session_direct \<Rightarrow> strace \<Rightarrow> session_result" where
  "emit_signal env sig s t =
     do { t \<leftarrow> record_signal env sig s t; Some (Some sig, s, t) }"

definition mdm_session_direct_defaults_changed ::
  "slave_env \<Rightarrow> (session_signal \<Rightarrow> strace \<Rightarrow> strace) \<Rightarrow> session_direct \<Rightarrow> strace
     \<Rightarrow> session_direct \<times> strace" where
  "mdm_session_direct_defaults_changed env notify s t =
     (let t = notify (Sig_default_language_name_changed (get_default_language_name env s)) t;
          (layout, s, t) = get_default_layout_name env s t;
          t = notify (Sig_default_layout_name_changed (Some layout)) t;
          (name, s, t) = get_default_session_name env s t;
          t = notify (Sig_default_session_name_changed name) t
      in (s, t))"

subsection \<open>Queries of the worker\<close>

definition cancel_pending_query :: "session_direct \<Rightarrow> strace \<Rightarrow> session_direct \<times> strace" where
  "cancel_pending_query s t =
     (if sd_pending_reply s = None then (s, t)
      else let t = send_reply (Reply_error MDM_SESSION_DBUS_ERROR_CANCEL) s t
           in (s\<lparr>sd_pending_reply := None\<rparr>, t))"

definition answer_pending_query ::
  "string \<Rightarrow> session_direct \<Rightarrow> strace \<Rightarrow> (session_direct \<times> strace) option" where
  "answer_pending_query answer s t =
     (if sd_pending_reply s = None then None
      else let t = send_reply (Reply answer) s t
           in Some (s\<lparr>sd_pending_reply := None\<rparr>, t))"

definition set_pending_query ::
  "string \<times> payload \<Rightarrow> session_direct \<Rightarrow> session_direct option" where
  "set_pending_query message s =
     (if sd_pending_reply s \<noteq> None then None else Some (s\<lparr>sd_pending_reply := Some message\<rparr>))"

text \<open>The arguments of a message: a string that is not there is an uninitialised pointer.\<close>

definition string_arg :: "payload \<Rightarrow> string option" where
  "string_arg args = (case args of P_string text \<Rightarrow> Some text | _ \<Rightarrow> None)"

definition int_arg :: "int \<Rightarrow> payload \<Rightarrow> int" where
  "int_arg initial args = (case args of P_int n \<Rightarrow> n | _ \<Rightarrow> initial)"

definition handle_query ::
  "slave_env \<Rightarrow> (string \<Rightarrow> session_signal) \<Rightarrow> string \<Rightarrow> payload \<Rightarrow> session_direct \<Rightarrow> strace
     \<Rightarrow> session_result" where
  "handle_query env sig member args s t =
     do {
       text \<leftarrow> string_arg args;
       s \<leftarrow> set_pending_query (member, args) s;
       emit_signal env (sig text) s t
     }"

definition mdm_session_direct_handle_info_query ::
  "slave_env \<Rightarrow> payload \<Rightarrow> session_direct \<Rightarrow> strace \<Rightarrow> session_result" where
  "mdm_session_direct_handle_info_query env args s t = handle_query env Sig_info_query ''InfoQuery'' args s t"

definition mdm_session_direct_handle_secret_info_query ::
  "slave_env \<Rightarrow> payload \<Rightarrow> session_direct \<Rightarrow> strace \<Rightarrow> session_result" where
  "mdm_session_direct_handle_secret_info_query env args s t = handle_query env Sig_secret_info_query ''SecretInfoQuery'' args s t"

subsection \<open>Results of the worker\<close>

text \<open>The methods that only report: an empty reply, then the signal.\<close>

definition handle_void ::
  "slave_env \<Rightarrow> session_signal \<Rightarrow> session_direct \<Rightarrow> strace \<Rightarrow> session_result" where
  "handle_void env sig s t = emit_signal env sig s (Worker_reply (Reply []) # t)"

definition handle_string ::
  "slave_env \<Rightarrow> (string \<Rightarrow> session_signal) \<Rightarrow> payload \<Rightarrow> session_direct \<Rightarrow> strace \<Rightarrow> session_result"
where
  "handle_string env sig args s t =
     do { text \<leftarrow> string_arg args; handle_void env (sig text) s t }"

definition mdm_session_direct_handle_setup_complete ::
  "slave_env \<Rightarrow> session_direct \<Rightarrow> strace \<Rightarrow> session_result" where
  "mdm_session_direct_handle_setup_complete env s t = handle_void env Sig_setup_complete s t"

definition mdm_session_direct_handle_reset_complete ::
  "slave_env \<Rightarrow> session_direct \<Rightarrow> strace \<Rightarrow> session_result" where
  "mdm_session_direct_handle_reset_complete env s t = handle_void env Sig_reset_complete s t"

definition mdm_session_direct_handle_authenticated ::
  "slave_env \<Rightarrow> session_direct \<Rightarrow> strace \<Rightarrow> session_result" where
  "mdm_session_direct_handle_authenticated env s t = handle_void env Sig_authenticated s t"

definition mdm_session_direct_handle_authorized ::
  "slave_env \<Rightarrow> session_direct \<Rightarrow> strace \<Rightarrow> session_result" where
  "mdm_session_direct_handle_authorized env s t = handle_void env Sig_authorized s t"

definition mdm_session_direct_handle_accredited ::
  "slave_env \<Rightarrow> session_direct \<Rightarrow> strace \<Rightarrow> session_result" where
  "mdm_session_direct_handle_accredited env s t = handle_void env Sig_accredited s t"

definition mdm_session_direct_handle_setup_failed ::
  "slave_env \<Rightarrow> payload \<Rightarrow> session_direct \<Rightarrow> strace \<Rightarrow> session_result" where
  "mdm_session_direct_handle_setup_failed env args s t = handle_string env Sig_setup_failed args s t"

definition mdm_session_direct_handle_reset_failed ::
  "slave_env \<Rightarrow> payload \<Rightarrow> session_direct \<Rightarrow> strace \<Rightarrow> session_result" where
  "mdm_session_direct_handle_reset_failed env args s t = handle_string env Sig_reset_failed args s t"

definition mdm_session_direct_handle_authentication_failed ::
  "slave_env \<Rightarrow> payload \<Rightarrow> session_direct \<Rightarrow> strace \<Rightarrow> session_result" where
  "mdm_session_direct_handle_authentication_failed env args s t = handle_string env Sig_authentication_failed args s t"

definition mdm_session_direct_handle_authorization_failed ::
  "slave_env \<Rightarrow> payload \<Rightarrow> session_direct \<Rightarrow> strace \<Rightarrow> session_result" where
  "mdm_session_direct_handle_authorization_failed env args s t = handle_string env Sig_authorization_failed args s t"

definition mdm_session_direct_handle_accreditation_failed ::
  "slave_env \<Rightarrow> payload \<Rightarrow> session_direct \<Rightarrow> strace \<Rightarrow> session_result" where
  "mdm_session_direct_handle_accreditation_failed env args s t = handle_string env Sig_accreditation_failed args s t"

definition mdm_session_direct_handle_info ::
  "slave_env \<Rightarrow> payload \<Rightarrow> session_direct \<Rightarrow> strace \<Rightarrow> session_result" where
  "mdm_session_direct_handle_info env args s t = handle_string env Sig_info args s t"

definition mdm_session_direct_handle_problem ::
  "slave_env \<Rightarrow> payload \<Rightarrow> session_direct \<Rightarrow> strace \<Rightarrow> session_result" where
  "mdm_session_direct_handle_problem env args s t = handle_string env Sig_problem args s t"

definition mdm_session_direct_handle_open_failed ::
  "slave_env \<Rightarrow> payload \<Rightarrow> session_direct \<Rightarrow> strace \<Rightarrow> session_result" where
  "mdm_session_direct_handle_open_failed env args s t = handle_string env Sig_session_open_failed args s t"

definition mdm_session_direct_handle_start_failed ::
  "slave_env \<Rightarrow> payload \<Rightarrow> session_direct \<Rightarrow> strace \<Rightarrow> session_result" where
  "mdm_session_direct_handle_start_failed env args s t = handle_string env Sig_session_start_failed args s t"

definition mdm_session_direct_handle_username_changed ::
  "slave_env \<Rightarrow> (session_signal \<Rightarrow> strace \<Rightarrow> strace) \<Rightarrow> payload \<Rightarrow> session_direct \<Rightarrow> strace
     \<Rightarrow> session_result" where
  "mdm_session_direct_handle_username_changed env notify args s t =
     do {
       text \<leftarrow> string_arg args;
       let t = Worker_reply (Reply []) # t;
       let s = mdm_session_direct_select_user (if length text > 0 then Some text else None) s;
       let t = notify (Sig_selected_user_changed (sd_selected_user s)) t;
       let (s, t) = mdm_session_direct_defaults_changed env notify s t;
       Some (None, s, t)
     }"

definition mdm_session_direct_handle_cancel_pending_query ::
  "session_direct \<Rightarrow> strace \<Rightarrow> session_result" where
  "mdm_session_direct_handle_cancel_pending_query s t =
     (case cancel_pending_query s t of (s, t) \<Rightarrow> Some (None, s, Worker_reply (Reply []) # t))"

text \<open>The signal is emitted before the reply is sent; its handlers do not write to the trace.\<close>

definition mdm_session_direct_handle_session_opened ::
  "slave_env \<Rightarrow> session_direct \<Rightarrow> strace \<Rightarrow> session_result" where
  "mdm_session_direct_handle_session_opened env s t =
     (case emit_signal env Sig_session_opened s t of
        None \<Rightarrow> None
      | Some (sig, s, t) \<Rightarrow> Some (sig, s, Worker_reply (Reply []) # t))"

definition mdm_session_direct_handle_session_started ::
  "slave_env \<Rightarrow> payload \<Rightarrow> session_direct \<Rightarrow> strace \<Rightarrow> session_result" where
  "mdm_session_direct_handle_session_started env args s t =
     (let p = int_arg 0 args;
          t = Worker_reply (Reply []) # t;
          s = s\<lparr>sd_session_pid := p, sd_is_running := True\<rparr>
      in emit_signal env (Sig_session_started p) s t)"

definition mdm_session_direct_handle_session_exited ::
  "slave_env \<Rightarrow> payload \<Rightarrow> session_direct \<Rightarrow> strace \<Rightarrow> session_result" where
  "mdm_session_direct_handle_session_exited env args s t =
     (let code = int_arg (s_uninitialised env) args;
          t = Worker_reply (Reply []) # t;
          s = s\<lparr>sd_is_running := False\<rparr>
      in emit_signal env (Sig_session_exited code) s t)"

definition mdm_session_direct_handle_session_died ::
  "slave_env \<Rightarrow> payload \<Rightarrow> session_direct \<Rightarrow> strace \<Rightarrow> session_result" where
  "mdm_session_direct_handle_session_died env args s t =
     (let code = int_arg (s_uninitialised env) args;
          t = Worker_reply (Reply []) # t;
          s = s\<lparr>sd_is_running := False\<rparr>
      in emit_signal env (Sig_session_died code) s t)"

text \<open>The comparison with a default that is NULL ends the process.\<close>

definition mdm_session_direct_handle_saved_language_name_read ::
  "slave_env \<Rightarrow> (session_signal \<Rightarrow> strace \<Rightarrow> strace) \<Rightarrow> payload \<Rightarrow> session_direct \<Rightarrow> strace
     \<Rightarrow> session_result" where
  "mdm_session_direct_handle_saved_language_name_read env notify args s t =
     do {
       language \<leftarrow> string_arg args;
       let t = Worker_reply (Reply []) # t;
       dflt \<leftarrow> get_default_language_name env s;
       (if language \<noteq> dflt
        then Some (None, s\<lparr>sd_saved_language := Some language\<rparr>,
                   notify (Sig_default_language_name_changed (Some language)) t)
        else Some (None, s, t))
     }"

definition mdm_session_direct_handle_saved_layout_name_read ::
  "slave_env \<Rightarrow> (session_signal \<Rightarrow> strace \<Rightarrow> strace) \<Rightarrow> payload \<Rightarrow> session_direct \<Rightarrow> strace
     \<Rightarrow> session_result" where
  "mdm_session_direct_handle_saved_layout_name_read env notify args s t =
     do {
       layout \<leftarrow> string_arg args;
       let t = Worker_reply (Reply []) # t;
       let (dflt, s, t) = get_default_layout_name env s t;
       (if layout \<noteq> dflt
        then Some (None, s\<lparr>sd_saved_layout := Some layout\<rparr>,
                   notify (Sig_default_layout_name_changed (Some layout)) t)
        else Some (None, s, t))
     }"

definition mdm_session_direct_handle_saved_session_name_read ::
  "slave_env \<Rightarrow> (session_signal \<Rightarrow> strace \<Rightarrow> strace) \<Rightarrow> payload \<Rightarrow> session_direct \<Rightarrow> strace
     \<Rightarrow> session_result" where
  "mdm_session_direct_handle_saved_session_name_read env notify args s t =
     do {
       name \<leftarrow> string_arg args;
       let t = Worker_reply (Reply []) # t;
       (if \<not> runnable env name t then Some (None, s\<lparr>sd_saved_session := None\<rparr>, t)
        else case get_default_session_name env s t of
               (None, s, t) \<Rightarrow> None
             | (Some dflt, s, t) \<Rightarrow>
                 if name \<noteq> dflt
                 then Some (None, s\<lparr>sd_saved_session := Some name\<rparr>,
                            notify (Sig_default_session_name_changed (Some name)) t)
                 else Some (None, s, t))
     }"

text \<open>The dispatch of the worker's method calls; a method that is not known is left to the library.\<close>

definition session_worker_message ::
  "slave_env \<Rightarrow> (session_signal \<Rightarrow> strace \<Rightarrow> strace) \<Rightarrow> string \<Rightarrow> payload \<Rightarrow> session_direct \<Rightarrow> strace
     \<Rightarrow> session_result" where
  "session_worker_message env notify member args s t =
     (if member = ''InfoQuery'' then mdm_session_direct_handle_info_query env args s t
      else if member = ''SecretInfoQuery'' then mdm_session_direct_handle_secret_info_query env args s t
      else if member = ''Info'' then mdm_session_direct_handle_info env args s t
      else if member = ''Problem'' then mdm_session_direct_handle_problem env args s t
      else if member = ''CancelPendingQuery'' then mdm_session_direct_handle_cancel_pending_query s t
      else if member = ''SetupComplete'' then mdm_session_direct_handle_setup_complete env s t
      else if member = ''SetupFailed'' then mdm_session_direct_handle_setup_failed env args s t
      else if member = ''ResetComplete'' then mdm_session_direct_handle_reset_complete env s t
      else if member = ''ResetFailed'' then mdm_session_direct_handle_reset_failed env args s t
      else if member = ''Authenticated'' then mdm_session_direct_handle_authenticated env s t
      else if member = ''AuthenticationFailed'' then mdm_session_direct_handle_authentication_failed env args s t
      else if member = ''Authorized'' then mdm_session_direct_handle_authorized env s t
      else if member = ''AuthorizationFailed'' then mdm_session_direct_handle_authorization_failed env args s t
      else if member = ''Accredited'' then mdm_session_direct_handle_accredited env s t
      else if member = ''AccreditationFailed'' then mdm_session_direct_handle_accreditation_failed env args s t
      else if member = ''UsernameChanged''
      then mdm_session_direct_handle_username_changed env notify args s t
      else if member = ''SessionOpened'' then mdm_session_direct_handle_session_opened env s t
      else if member = ''OpenFailed'' then mdm_session_direct_handle_open_failed env args s t
      else if member = ''SessionStarted'' then mdm_session_direct_handle_session_started env args s t
      else if member = ''StartFailed'' then mdm_session_direct_handle_start_failed env args s t
      else if member = ''SessionExited'' then mdm_session_direct_handle_session_exited env args s t
      else if member = ''SessionDied'' then mdm_session_direct_handle_session_died env args s t
      else if member = ''SavedLanguageNameRead''
      then mdm_session_direct_handle_saved_language_name_read env notify args s t
      else if member = ''SavedLayoutNameRead''
      then mdm_session_direct_handle_saved_layout_name_read env notify args s t
      else if member = ''SavedSessionNameRead''
      then mdm_session_direct_handle_saved_session_name_read env notify args s t
      else Some (None, s, t))"

subsection \<open>The worker's connection and process\<close>

definition allow_user_function :: "nat \<Rightarrow> bool" where
  "allow_user_function user_id \<longleftrightarrow> user_id = 0"

definition handle_connection :: "session_direct \<Rightarrow> strace \<Rightarrow> session_result" where
  "handle_connection s t =
     (if \<not> sd_worker_connection s
      then Some (Some Sig_conversation_started, s\<lparr>sd_worker_connection := True\<rparr>, t)
      else Some (None, s, t))"

definition worker_exited ::
  "slave_env \<Rightarrow> int \<Rightarrow> session_direct \<Rightarrow> strace \<Rightarrow> session_result" where
  "worker_exited env code s t =
     (if sd_is_running s then emit_signal env (Sig_session_exited code) s t else Some (None, s, t))"

definition worker_died ::
  "slave_env \<Rightarrow> int \<Rightarrow> session_direct \<Rightarrow> strace \<Rightarrow> session_result" where
  "worker_died env signum s t =
     (if sd_is_running s then emit_signal env (Sig_session_died signum) s t else Some (None, s, t))"

definition worker_ended ::
  "slave_env \<Rightarrow> wait_status \<Rightarrow> session_direct \<Rightarrow> strace \<Rightarrow> session_result" where
  "worker_ended env status s t =
     (case sd_job s of
        None \<Rightarrow> Some (None, s, t)
      | Some job \<Rightarrow>
          if \<not> job_watch_armed job then Some (None, s, t)
          else (case session_worker_job_child_watch status job of (job, sig) \<Rightarrow>
            let s = s\<lparr>sd_job := Some job\<rparr>
            in case sig of
                 Some (Job_exited code) \<Rightarrow> worker_exited env code s t
               | Some (Job_died signum) \<Rightarrow> worker_died env signum s t
               | None \<Rightarrow> Some (None, s, t)))"

text \<open>A second start on the same object loses the job of the first.\<close>

definition start_worker :: "slave_env \<Rightarrow> session_direct \<Rightarrow> strace \<Rightarrow> session_direct \<times> strace" where
  "start_worker env s t =
     (let job = mdm_session_worker_job_set_server_address (sd_server_address s)
                  mdm_session_worker_job_init;
          (res, job, t) = mdm_session_worker_job_start env job t
      in (s\<lparr>sd_job := Some job\<rparr>, t))"

definition stop_worker ::
  "slave_env \<Rightarrow> worker_job \<Rightarrow> session_direct \<Rightarrow> strace \<Rightarrow> (session_direct \<times> strace) option" where
  "stop_worker env job s t =
     do {
       let (s, t) = cancel_pending_query s t;
       let (s, t) = (if sd_worker_connection s
                     then (s\<lparr>sd_worker_connection := False\<rparr>, Close_worker # t) else (s, t));
       (job, t) \<leftarrow> mdm_session_worker_job_stop env job t;
       Some (s\<lparr>sd_job := None\<rparr>, t)
     }"

subsection \<open>The interface of the slave\<close>

definition mdm_session_direct_start_conversation ::
  "slave_env \<Rightarrow> session_direct \<Rightarrow> strace \<Rightarrow> session_direct \<times> strace" where
  "mdm_session_direct_start_conversation env s t = start_worker env s t"

definition or_empty :: "string option \<Rightarrow> string" where
  "or_empty s = (case s of Some x \<Rightarrow> x | None \<Rightarrow> [])"

definition send_setup ::
  "slave_env \<Rightarrow> string \<Rightarrow> session_direct \<Rightarrow> strace \<Rightarrow> strace" where
  "send_setup env service_name s t =
     send_dbus_message env
       (Setup (Some (service_name, or_empty (sd_display_name s), or_empty (sd_display_device s),
          or_empty (sd_display_hostname s), or_empty (sd_display_x11_authority_file s)))) s t"

definition send_setup_for_user ::
  "slave_env \<Rightarrow> string \<Rightarrow> session_direct \<Rightarrow> strace \<Rightarrow> strace" where
  "send_setup_for_user env service_name s t =
     send_dbus_message env
       (SetupForUser (Some (service_name, or_empty (sd_display_name s),
          or_empty (sd_display_device s), or_empty (sd_display_hostname s),
          or_empty (sd_display_x11_authority_file s), or_empty (sd_selected_user s)))) s t"

definition mdm_session_direct_setup ::
  "slave_env \<Rightarrow> (session_signal \<Rightarrow> strace \<Rightarrow> strace) \<Rightarrow> string \<Rightarrow> session_direct \<Rightarrow> strace
     \<Rightarrow> session_direct \<times> strace" where
  "mdm_session_direct_setup env notify service_name s t =
     (if \<not> worker_is_connected env s t then (s, t)
      else let t = send_setup env service_name s t
           in mdm_session_direct_defaults_changed env notify s t)"

definition mdm_session_direct_setup_for_user ::
  "slave_env \<Rightarrow> (session_signal \<Rightarrow> strace \<Rightarrow> strace) \<Rightarrow> string \<Rightarrow> string option \<Rightarrow> session_direct
     \<Rightarrow> strace \<Rightarrow> session_direct \<times> strace" where
  "mdm_session_direct_setup_for_user env notify service_name user s t =
     (if \<not> worker_is_connected env s t then (s, t)
      else if user = None then (s, t)
      else let s = mdm_session_direct_select_user user s;
               t = send_setup_for_user env service_name s t
           in mdm_session_direct_defaults_changed env notify s t)"

definition mdm_session_direct_authenticate ::
  "slave_env \<Rightarrow> session_direct \<Rightarrow> strace \<Rightarrow> strace" where
  "mdm_session_direct_authenticate env s t =
     (if \<not> worker_is_connected env s t then t else send_dbus_void_signal env Authenticate s t)"

definition mdm_session_direct_authorize ::
  "slave_env \<Rightarrow> session_direct \<Rightarrow> strace \<Rightarrow> strace" where
  "mdm_session_direct_authorize env s t =
     (if \<not> worker_is_connected env s t then t else send_dbus_void_signal env Authorize s t)"

datatype session_cred = MDM_SESSION_CRED_ESTABLISH | MDM_SESSION_CRED_REFRESH

definition mdm_session_direct_accredit ::
  "slave_env \<Rightarrow> session_cred \<Rightarrow> session_direct \<Rightarrow> strace \<Rightarrow> strace" where
  "mdm_session_direct_accredit env cred s t =
     (if \<not> worker_is_connected env s t then t
      else case cred of
             MDM_SESSION_CRED_ESTABLISH \<Rightarrow> send_dbus_void_signal env EstablishCredentials s t
           | MDM_SESSION_CRED_REFRESH \<Rightarrow> send_dbus_void_signal env RefreshCredentials s t)"

definition mdm_session_direct_open_session ::
  "slave_env \<Rightarrow> session_direct \<Rightarrow> strace \<Rightarrow> strace" where
  "mdm_session_direct_open_session env s t = send_dbus_void_signal env OpenSession s t"

subsection \<open>Starting the session\<close>

definition mdm_session_direct_set_environment_variable ::
  "string \<Rightarrow> string option \<Rightarrow> session_direct \<Rightarrow> session_direct" where
  "mdm_session_direct_set_environment_variable key val s =
     (case val of
        None \<Rightarrow> s
      | Some v \<Rightarrow> s\<lparr>sd_environment := AList.update key v (sd_environment s)\<rparr>)"

text \<open>The layout is exported only when it is the default one.\<close>

definition setup_session_environment ::
  "slave_env \<Rightarrow> session_direct \<Rightarrow> strace \<Rightarrow> session_direct \<times> strace" where
  "setup_session_environment env s t =
     (let (name, s, t) = get_session_name env s t;
          s = mdm_session_direct_set_environment_variable ''MDMSESSION'' name s;
          (name, s, t) = get_session_name env s t;
          s = mdm_session_direct_set_environment_variable ''DESKTOP_SESSION'' name s;
          s = mdm_session_direct_set_environment_variable ''LANG'' (get_language_name env s) s;
          s = mdm_session_direct_set_environment_variable ''MDM_LANG'' (get_language_name env s) s;
          (layout, s, t) = get_layout_name env s t;
          (dflt, s, t) = get_default_layout_name env s t;
          s = (if layout = dflt
               then mdm_session_direct_set_environment_variable ''MDM_KEYBOARD_LAYOUT'' (Some layout) s
               else s);
          s = mdm_session_direct_set_environment_variable ''DISPLAY'' (sd_display_name s) s;
          s = (if sd_user_x11_authority_file s \<noteq> None
               then mdm_session_direct_set_environment_variable ''XAUTHORITY''
                      (sd_user_x11_authority_file s) s
               else s);
          s = (if s_windowpath env t \<noteq> None
               then mdm_session_direct_set_environment_variable ''WINDOWPATH'' (s_windowpath env t) s
               else s);
          s = mdm_session_direct_set_environment_variable ''PATH''
                (Some (if BINDIR = ''/usr/bin'' then MDM_SESSION_DEFAULT_PATH
                       else BINDIR @ '':'' @ MDM_SESSION_DEFAULT_PATH)) s
      in (s, t))"

definition send_environment :: "slave_env \<Rightarrow> session_direct \<Rightarrow> strace \<Rightarrow> strace" where
  "send_environment env s t =
     fold (\<lambda>(key, val). send_dbus_message env (SetEnvironmentVariable (Some (key, val))) s)
       (s_hash_order env (sd_environment s)) t"

definition MDMCONFDIR :: string where
  "MDMCONFDIR = ''/etc/mdm''"

definition mdm_session_direct_start_session ::
  "slave_env \<Rightarrow> session_direct \<Rightarrow> strace \<Rightarrow> (session_direct \<times> strace) option" where
  "mdm_session_direct_start_session env s t =
     (if sd_is_running s then Some (s, t)
      else do {
        (command, s, t) \<leftarrow> get_session_command env s t;
        let (bypasses, s, t) = mdm_session_direct_bypasses_xsession env s t;
        let program = (if bypasses then command
                       else MDMCONFDIR @ ''/Xsession '' @ [CHR 0x22] @ command @ [CHR 0x22]);
        let (s, t) = setup_session_environment env s t;
        let t = send_environment env s t;
        t \<leftarrow> send_dbus_string_signal env StartProgram (Some program) s t;
        Some (s, t)
      })"

subsection \<open>The end of a conversation\<close>

definition mdm_session_direct_close ::
  "slave_env \<Rightarrow> session_direct \<Rightarrow> strace \<Rightarrow> (session_direct \<times> strace) option" where
  "mdm_session_direct_close env s t =
     do {
       (s, t) \<leftarrow>
         (case sd_job s of
            None \<Rightarrow> Some (s, t)
          | Some job \<Rightarrow>
              do {
                t \<leftarrow> (if sd_is_running s
                     then mdm_session_record_logout env (sd_session_pid s) (sd_selected_user s)
                            (sd_display_hostname s) (sd_display_name s) (sd_display_device s) t
                     else Some t);
                stop_worker env job s t
              });
       Some (s\<lparr>sd_selected_user := None, sd_selected_session := None, sd_saved_session := None,
               sd_selected_language := None, sd_saved_language := None, sd_selected_layout := None,
               sd_saved_layout := None, sd_user_x11_authority_file := None, sd_environment := [],
               sd_session_pid := -1, sd_is_running := False\<rparr>, t)
     }"

definition mdm_session_direct_answer_query ::
  "string \<Rightarrow> session_direct \<Rightarrow> strace \<Rightarrow> (session_direct \<times> strace) option" where
  "mdm_session_direct_answer_query text s t = answer_pending_query text s t"

definition mdm_session_direct_cancel :: "session_direct \<Rightarrow> strace \<Rightarrow> session_direct \<times> strace" where
  "mdm_session_direct_cancel s t = cancel_pending_query s t"

text \<open>The disposal of the object: the conversation is closed and the server with it.\<close>

definition mdm_session_direct_dispose ::
  "slave_env \<Rightarrow> session_direct \<Rightarrow> strace \<Rightarrow> (session_direct \<times> strace) option" where
  "mdm_session_direct_dispose env s t =
     do {
       (s, t) \<leftarrow> mdm_session_direct_close env s t;
       Some (s\<lparr>sd_display_id := None, sd_display_name := None, sd_display_hostname := None,
               sd_display_device := None, sd_display_x11_authority_file := None,
               sd_server_address := None, sd_server := False, sd_environment := []\<rparr>, t)
     }"

subsection \<open>A new object\<close>

definition zeroed_session :: session_direct where
  "zeroed_session =
     \<lparr>sd_selected_session = None, sd_saved_session = None, sd_selected_language = None,
      sd_saved_language = None, sd_selected_layout = None, sd_saved_layout = None,
      sd_selected_user = None, sd_user_x11_authority_file = None, sd_pending_reply = None,
      sd_worker_connection = False, sd_job = None, sd_session_pid = 0, sd_is_running = False,
      sd_id = None, sd_display_id = None, sd_display_name = None, sd_display_hostname = None,
      sd_display_device = None, sd_display_x11_authority_file = None, sd_display_is_local = False,
      sd_fallback_session_name = None, sd_server = False, sd_server_address = None,
      sd_environment = []\<rparr>"

text \<open>The server's address as libdbus reports it; \<^term>\<open>None\<close>: it cannot listen.\<close>

definition setup_server :: "slave_env \<Rightarrow> session_direct \<Rightarrow> strace \<Rightarrow> session_direct \<times> strace" where
  "setup_server env s t =
     (case scall_string env (Listen ''unix:abstract=/tmp/mdm-session-'') t of
        (None, t) \<Rightarrow> (s\<lparr>sd_server := False\<rparr>, t)
      | (Some address, t) \<Rightarrow> (s\<lparr>sd_server := True, sd_server_address := Some address\<rparr>, t))"

definition mdm_session_direct_init :: "slave_env \<Rightarrow> strace \<Rightarrow> session_direct \<times> strace" where
  "mdm_session_direct_init env t = setup_server env (zeroed_session\<lparr>sd_session_pid := -1\<rparr>) t"

definition DISPLAY_PREFIX :: string where
  "DISPLAY_PREFIX = ''/org/mate/DisplayManager/Display''"

text \<open>The id of an object that belongs to a display: \<^term>\<open>None\<close> when the display's id has no such prefix
  and the assertion fails.\<close>

definition object_id :: "string \<Rightarrow> string option \<Rightarrow> string option" where
  "object_id prefix display_id =
     (case display_id of
        None \<Rightarrow> None
      | Some d \<Rightarrow>
          if take (length DISPLAY_PREFIX) d = DISPLAY_PREFIX
          then Some (prefix @ drop (length DISPLAY_PREFIX) d) else None)"

text \<open>Without the system bus the slave exits.\<close>

definition register_object :: "slave_env \<Rightarrow> string \<Rightarrow> strace \<Rightarrow> strace option" where
  "register_object env ident t =
     (case scall env (Register_object ident) t of (res, t) \<Rightarrow> if res < 0 then None else Some t)"

definition mdm_session_direct_constructor ::
  "slave_env \<Rightarrow> session_direct \<Rightarrow> strace \<Rightarrow> (session_direct \<times> strace) option" where
  "mdm_session_direct_constructor env s t =
     do {
       ident \<leftarrow> object_id ''/org/mate/DisplayManager/Session'' (sd_display_id s);
       t \<leftarrow> register_object env ident t;
       Some (s\<lparr>sd_id := Some ident\<rparr>, t)
     }"

datatype session_property = PROP_DISPLAY_ID "string option" | PROP_DISPLAY_NAME "string option"
  | PROP_DISPLAY_HOSTNAME "string option" | PROP_DISPLAY_DEVICE "string option"
  | PROP_USER_X11_AUTHORITY_FILE "string option" | PROP_DISPLAY_X11_AUTHORITY_FILE "string option"
  | PROP_DISPLAY_IS_LOCAL bool

fun mdm_session_direct_set_property :: "session_property \<Rightarrow> session_direct \<Rightarrow> session_direct" where
  "mdm_session_direct_set_property (PROP_DISPLAY_ID x) s = s\<lparr>sd_display_id := x\<rparr>"
| "mdm_session_direct_set_property (PROP_DISPLAY_NAME x) s = s\<lparr>sd_display_name := x\<rparr>"
| "mdm_session_direct_set_property (PROP_DISPLAY_HOSTNAME x) s = s\<lparr>sd_display_hostname := x\<rparr>"
| "mdm_session_direct_set_property (PROP_DISPLAY_DEVICE x) s = s\<lparr>sd_display_device := x\<rparr>"
| "mdm_session_direct_set_property (PROP_USER_X11_AUTHORITY_FILE x) s =
     s\<lparr>sd_user_x11_authority_file := x\<rparr>"
| "mdm_session_direct_set_property (PROP_DISPLAY_X11_AUTHORITY_FILE x) s =
     s\<lparr>sd_display_x11_authority_file := x\<rparr>"
| "mdm_session_direct_set_property (PROP_DISPLAY_IS_LOCAL x) s = s\<lparr>sd_display_is_local := x\<rparr>"

definition mdm_session_direct_new ::
  "slave_env \<Rightarrow> string option \<Rightarrow> string option \<Rightarrow> string option \<Rightarrow> string option \<Rightarrow> string option
     \<Rightarrow> bool \<Rightarrow> strace \<Rightarrow> (session_direct \<times> strace) option" where
  "mdm_session_direct_new env display_id display host device authority is_local t =
     do {
       let (s, t) = mdm_session_direct_init env t;
       let s = fold mdm_session_direct_set_property
                 [PROP_DISPLAY_ID display_id, PROP_DISPLAY_NAME display, PROP_DISPLAY_HOSTNAME host,
                  PROP_DISPLAY_DEVICE device, PROP_DISPLAY_X11_AUTHORITY_FILE authority,
                  PROP_DISPLAY_IS_LOCAL is_local, PROP_USER_X11_AUTHORITY_FILE None] s;
       mdm_session_direct_constructor env s t
     }"

end
