(* ===== verification/Mdm_Slave.thy ===== *)
theory Mdm_Slave
  imports Session_Handlers
begin

text \<open>
  The part all slaves share, \<open>daemon/mdm-slave.c\<close>: what the slave caches of its display, the scripts
  of the administrator, the connection to the X server, the details of the automatic login, the
  authority file of the user, and the switch to a session the user has already. The X library is seen
  through the answers of \<open>slave_env\<close>; the saving of the root window and the cursor are single calls of the
  trace or left out.
\<close>

record mdm_slave =
  sl_id :: "string option"
  sl_server_display :: bool
  sl_display_id :: "string option"
  sl_display_name :: "string option"
  sl_display_number :: int
  sl_display_hostname :: "string option"
  sl_display_is_local :: bool
  sl_display_seat_id :: "string option"
  sl_display_x11_authority_file :: "string option"
  sl_windowpath :: "string option"
  sl_display_x11_cookie :: "string option"
  sl_display_proxy :: bool

text \<open>A new slave has the defaults of the class: the properties but the display's id are not given.\<close>

definition mdm_slave_init :: mdm_slave where
  "mdm_slave_init =
     \<lparr>sl_id = None, sl_server_display = False, sl_display_id = None, sl_display_name = None,
      sl_display_number = -1, sl_display_hostname = None, sl_display_is_local = True,
      sl_display_seat_id = None, sl_display_x11_authority_file = None, sl_windowpath = None,
      sl_display_x11_cookie = None, sl_display_proxy = False\<rparr>"

definition mdm_slave_constructor ::
  "slave_env \<Rightarrow> mdm_slave \<Rightarrow> strace \<Rightarrow> (mdm_slave \<times> strace) option" where
  "mdm_slave_constructor env sl t =
     do {
       ident \<leftarrow> object_id ''/org/mate/DisplayManager/Slave'' (sl_display_id sl);
       t \<leftarrow> register_object env ident t;
       Some (sl\<lparr>sl_id := Some ident\<rparr>, t)
     }"

subsection \<open>Scripts\<close>

definition AUTHDIR :: string where
  "AUTHDIR = ''/var/lib/mdm''"

definition set_login_variables :: "string \<Rightarrow> (string \<times> string) list \<Rightarrow> (string \<times> string) list" where
  "set_login_variables user h =
     AList.update ''USERNAME'' user (AList.update ''USER'' user (AList.update ''LOGNAME'' user h))"

definition set_passwd_variables :: "passwd \<Rightarrow> (string \<times> string) list \<Rightarrow> (string \<times> string) list" where
  "set_passwd_variables pwent h =
     AList.update ''SHELL'' (pw_shell pwent)
       (if pw_dir pwent \<noteq> []
        then AList.update ''PWD'' (pw_dir pwent) (AList.update ''HOME'' (pw_dir pwent) h) else h)"

text \<open>A NULL value is printed. \<open>g_strconcat\<close> stops at a NULL element: without a display name the name of
  the servers' file is NULL and ends the path.\<close>

definition get_script_environment ::
  "slave_env \<Rightarrow> mdm_slave \<Rightarrow> string option \<Rightarrow> strace \<Rightarrow> string list option" where
  "get_script_environment env sl user t =
     do {
       let h = [(''HOME'', ''/''), (''PWD'', ''/''), (''SHELL'', ''/bin/sh'')];
       h \<leftarrow> (case user of
              None \<Rightarrow> Some h
            | Some u \<Rightarrow>
                do {
                  let h = set_login_variables u h;
                  pwent \<leftarrow> get_pwent env u t;
                  Some (case pwent of None \<Rightarrow> h | Some p \<Rightarrow> set_passwd_variables p h)
                });
       let x_servers_file =
         g_build_filename (AUTHDIR # (case sl_display_name sl of None \<Rightarrow> [] | Some d \<Rightarrow> [d @ ''.Xservers'']));
       let h = AList.update ''X_SERVERS'' x_servers_file h;
       let h = (if \<not> sl_display_is_local sl
                then AList.update ''REMOTE_HOST'' (printed (sl_display_hostname sl)) h else h);
       let h = AList.update ''XAUTHORITY'' (printed (sl_display_x11_authority_file sl)) h;
       let h = AList.update ''DISPLAY'' (printed (sl_display_name sl)) h;
       let h = AList.update ''PATH'' MDM_SESSION_DEFAULT_PATH h;
       let h = AList.update ''RUNNING_UNDER_MDM'' ''true'' h;
       Some (listify_hash env (AList.delete ''MAIL'' h))
     }"

text \<open>The script of the display, of the remote host, or the default one. A NULL display name ends the
  first path behind the directory.\<close>

definition find_script :: "slave_env \<Rightarrow> mdm_slave \<Rightarrow> string \<Rightarrow> strace \<Rightarrow> string option" where
  "find_script env sl dir t =
     (let candidates =
        g_build_filename (dir # (case sl_display_name sl of None \<Rightarrow> [] | Some d \<Rightarrow> [d])) #
        (case sl_display_hostname sl of
           None \<Rightarrow> []
         | Some h \<Rightarrow> if h \<noteq> [] then [g_build_filename [dir, h]] else []) @
        [g_build_filename [dir, ''Default'']]
      in find (s_is_script env t) candidates)"

text \<open>
  The value is true when there is no script, when the script failed or was killed, and false when it
  succeeded. The status is a variable that a failing \<open>g_spawn_sync\<close> does not set.
\<close>

definition mdm_slave_run_script ::
  "slave_env \<Rightarrow> mdm_slave \<Rightarrow> string \<Rightarrow> string \<Rightarrow> strace \<Rightarrow> (bool \<times> strace) option" where
  "mdm_slave_run_script env sl dir login t =
     (case find_script env sl dir t of
        None \<Rightarrow> Some (True, t)
      | Some script \<Rightarrow>
          (case s_shell_parse env script of
             None \<Rightarrow> Some (False, t)
           | Some argv \<Rightarrow>
               do {
                 environ \<leftarrow> get_script_environment env sl (Some login) t;
                 let t = Run_script argv environ # t;
                 Some (case s_wait_status env t of Status code \<Rightarrow> code \<noteq> 0 | _ \<Rightarrow> True, t)
               }))"

subsection \<open>The X server\<close>

text \<open>The number is printed into a buffer of ten characters.\<close>

definition mdm_slave_set_windowpath ::
  "slave_env \<Rightarrow> mdm_slave \<Rightarrow> strace \<Rightarrow> mdm_slave \<times> strace" where
  "mdm_slave_set_windowpath env sl t =
     (case s_active_vt env t of
        None \<Rightarrow> (sl, t)
      | Some num \<Rightarrow>
          let nums = take 9 (string_of_nat num);
              path = (case s_windowpath env t of None \<Rightarrow> nums | Some w \<Rightarrow> w @ '':'' @ nums)
          in (sl\<lparr>sl_windowpath := Some path\<rparr>, Setenv ''WINDOWPATH'' (Some path) # t))"

definition mdm_slave_connect_to_x11_display ::
  "slave_env \<Rightarrow> mdm_slave \<Rightarrow> strace \<Rightarrow> (bool \<times> mdm_slave \<times> strace) option" where
  "mdm_slave_connect_to_x11_display env sl t =
     do {
       let t = Setenv ''DISPLAY'' (sl_display_name sl) # t;
       let t = Setenv ''XAUTHORITY'' (sl_display_x11_authority_file sl) # t;
       cookie \<leftarrow> sl_display_x11_cookie sl;
       let (opened, t) = scall env (Open_display (sl_display_name sl)) t;
       let sl = sl\<lparr>sl_server_display := (opened > 0)\<rparr>;
       (if \<not> opened > 0 then Some (False, sl, t)
        else if sl_display_is_local sl
        then (case mdm_slave_set_windowpath env sl (Add_hosts # t) of (sl, t) \<Rightarrow> Some (True, sl, t))
        else Some (True, sl, t))
     }"

subsection \<open>The display in the daemon\<close>

text \<open>A call on a proxy that is gone fails without a message.\<close>

definition display_call ::
  "slave_env \<Rightarrow> mdm_slave \<Rightarrow> string \<Rightarrow> string option \<Rightarrow> strace \<Rightarrow> string option \<times> strace" where
  "display_call env sl method arg t =
     (if sl_display_proxy sl then scall_string env (Display_method method arg) t else (None, t))"

definition display_int_call ::
  "slave_env \<Rightarrow> mdm_slave \<Rightarrow> string \<Rightarrow> strace \<Rightarrow> int \<times> strace" where
  "display_int_call env sl method t =
     (if sl_display_proxy sl then scall env (Display_method method None) t else (-1, t))"

definition display_proxy_destroyed_cb :: "mdm_slave \<Rightarrow> mdm_slave" where
  "display_proxy_destroyed_cb sl = sl\<lparr>sl_display_proxy := False\<rparr>"

definition mdm_slave_set_slave_bus_name :: "slave_env \<Rightarrow> mdm_slave \<Rightarrow> strace \<Rightarrow> bool \<times> strace" where
  "mdm_slave_set_slave_bus_name env sl t =
     (case display_int_call env sl ''SetSlaveBusName'' t of (res, t) \<Rightarrow> (res \<ge> 0, t))"

text \<open>The values the slave caches, one call each; the first that fails ends the start with \<open>FALSE\<close>.\<close>

definition cache_display_values ::
  "slave_env \<Rightarrow> mdm_slave \<Rightarrow> strace \<Rightarrow> bool \<times> mdm_slave \<times> strace" where
  "cache_display_values env sl t =
     (case display_int_call env sl ''IsLocal'' t of (is_local, t) \<Rightarrow>
      if is_local < 0 then (False, sl, t) else
      let sl = sl\<lparr>sl_display_is_local := (is_local > 0)\<rparr> in
      case display_call env sl ''GetX11DisplayName'' None t of
        (None, t) \<Rightarrow> (False, sl, t)
      | (Some name, t) \<Rightarrow>
      let sl = sl\<lparr>sl_display_name := Some name\<rparr> in
      case display_int_call env sl ''GetX11DisplayNumber'' t of (number, t) \<Rightarrow>
      if number < 0 then (False, sl, t) else
      let sl = sl\<lparr>sl_display_number := number\<rparr> in
      case display_call env sl ''GetRemoteHostname'' None t of
        (None, t) \<Rightarrow> (False, sl, t)
      | (Some host, t) \<Rightarrow>
      let sl = sl\<lparr>sl_display_hostname := Some host\<rparr> in
      case display_call env sl ''GetX11Cookie'' None t of
        (None, t) \<Rightarrow> (False, sl, t)
      | (Some cookie, t) \<Rightarrow>
      let sl = sl\<lparr>sl_display_x11_cookie := Some cookie\<rparr> in
      case display_call env sl ''GetX11AuthorityFile'' None t of
        (None, t) \<Rightarrow> (False, sl, t)
      | (Some file, t) \<Rightarrow>
      let sl = sl\<lparr>sl_display_x11_authority_file := Some file\<rparr> in
      case display_call env sl ''GetSeatId'' None t of
        (None, t) \<Rightarrow> (False, sl, t)
      | (Some seat, t) \<Rightarrow> (True, sl\<lparr>sl_display_seat_id := Some seat\<rparr>, t))"

text \<open>
  The creation of the proxy is the entry \<open>NewProxy\<close>, negative when it fails. An id that is not the
  display's own ends the process; so does a proxy that is there already.
\<close>

definition mdm_slave_real_start ::
  "slave_env \<Rightarrow> mdm_slave \<Rightarrow> strace \<Rightarrow> (bool \<times> mdm_slave \<times> strace) option" where
  "mdm_slave_real_start env sl t =
     (if sl_display_proxy sl then None
      else case scall env (Display_method ''NewProxy'' (sl_display_id sl)) t of (res, t) \<Rightarrow>
        if res < 0 then Some (False, sl, t)
        else let sl = sl\<lparr>sl_display_proxy := True\<rparr>
          in (case display_call env sl ''GetId'' None t of
                (None, t) \<Rightarrow> Some (False, sl, t)
              | (Some ident, t) \<Rightarrow>
                  if sl_display_id sl \<noteq> Some ident then None
                  else (case mdm_slave_set_slave_bus_name env sl t of (_, t) \<Rightarrow>
                          Some (cache_display_values env sl t))))"

text \<open>Dropping the last reference to the proxy destroys it, which the slave is told.\<close>

definition mdm_slave_real_stop :: "mdm_slave \<Rightarrow> mdm_slave" where
  "mdm_slave_real_stop sl = (if sl_display_proxy sl then display_proxy_destroyed_cb sl else sl)"

definition mdm_slave_stopped :: "strace \<Rightarrow> strace" where
  "mdm_slave_stopped t = Emit_stopped # t"

text \<open>The user's authority file, and the end of the greeter's access to the display in any case.\<close>

definition mdm_slave_add_user_authorization ::
  "slave_env \<Rightarrow> mdm_slave \<Rightarrow> string option \<Rightarrow> strace \<Rightarrow> string option \<times> strace" where
  "mdm_slave_add_user_authorization env sl user t =
     (case display_call env sl ''AddUserAuthorization'' user t of
        (filename, t) \<Rightarrow> (filename, Remove_hosts # t))"

subsection \<open>The automatic login\<close>

definition is_space :: "char \<Rightarrow> bool" where
  "is_space c \<longleftrightarrow> c \<in> set [CHR '' '', CHR 0x09, CHR 0x0A, CHR 0x0B, CHR 0x0C, CHR 0x0D]"

definition g_strchomp :: "string \<Rightarrow> string" where
  "g_strchomp s = rev (dropWhile is_space (rev s))"

text \<open>A name that ends with a pipe symbol is the command that prints the name.\<close>

definition mdm_slave_parse_enriched_login ::
  "slave_env \<Rightarrow> mdm_slave \<Rightarrow> string option \<Rightarrow> strace \<Rightarrow> (string option \<times> strace) option" where
  "mdm_slave_parse_enriched_login env sl user t =
     (if null_or_empty user then Some (None, t)
      else if last (the user) \<noteq> CHR ''|'' then Some (user, t)
      else case s_shell_parse env (butlast (the user)) of
             None \<Rightarrow> Some (None, t)
           | Some argv \<Rightarrow>
               do {
                 environ \<leftarrow> get_script_environment env sl None t;
                 let (std_output, t) = scall_string env (Run_command argv environ) t;
                 Some (case std_output of
                         None \<Rightarrow> None
                       | Some out \<Rightarrow> (if g_strchomp out \<noteq> [] then Some (g_strchomp out) else None), t)
               })"

text \<open>
  \<open>enabled0\<close> and \<open>delay0\<close> are what the caller's variables hold: they are only written for a name that is
  a user's. The last component is the user, NULL otherwise.
\<close>

definition mdm_slave_get_timed_login_details ::
  "slave_env \<Rightarrow> mdm_slave \<Rightarrow> bool \<Rightarrow> int \<Rightarrow> strace
     \<Rightarrow> ((bool \<times> int \<times> string option) \<times> strace) option" where
  "mdm_slave_get_timed_login_details env sl enabled0 delay0 t =
     do {
       let (details, t) = (if sl_display_proxy sl
                           then let t = Display_method ''GetTimedLoginDetails'' None # t
                                in (s_timed_login env t, t)
                           else (None, t));
       let (enabled, user, delay) = (case details of
                                       None \<Rightarrow> (False, None, 0)
                                     | Some (e, u, d) \<Rightarrow> (e, Some u, d));
       (user, t) \<leftarrow> mdm_slave_parse_enriched_login env sl user t;
       (case user of
          None \<Rightarrow> Some ((enabled0, delay0, None), t)
        | Some u \<Rightarrow>
            do {
              pwent \<leftarrow> get_pwent env u t;
              Some (case pwent of
                      None \<Rightarrow> (enabled0, delay0, None)
                    | Some _ \<Rightarrow> (enabled, delay, Some u), t)
            })
     }"

subsection \<open>Switching to a session of the user\<close>

text \<open>The name must not be NULL.\<close>

definition get_uid_for_user :: "slave_env \<Rightarrow> string option \<Rightarrow> strace \<Rightarrow> nat option option" where
  "get_uid_for_user env user t =
     do { u \<leftarrow> user; pwent \<leftarrow> get_pwent env u t; Some (map_option pw_uid pwent) }"

text \<open>The slave's own session is left out; its display has a name once it was started.\<close>

definition x11_session_is_on_seat ::
  "slave_env \<Rightarrow> mdm_slave \<Rightarrow> string \<Rightarrow> string option \<Rightarrow> strace \<Rightarrow> bool \<times> strace" where
  "x11_session_is_on_seat env sl session_id seat_id t =
     (if null_or_empty seat_id \<or> session_id = [] then (False, t)
      else case scall_string env (CK_method session_id ''GetSeatId'' []) t of (sid, t) \<Rightarrow>
        if null_or_empty sid \<or> sid \<noteq> seat_id then (False, t)
        else case scall_string env (CK_method session_id ''GetX11Display'' []) t of (x11_display, t) \<Rightarrow>
          if null_or_empty x11_display \<or> sl_display_name sl = x11_display then (False, t)
          else case scall_string env (CK_method session_id ''GetX11DisplayDevice'' []) t of (device, t) \<Rightarrow>
            (\<not> null_or_empty device, t))"

fun first_on_seat ::
  "slave_env \<Rightarrow> mdm_slave \<Rightarrow> string list \<Rightarrow> strace \<Rightarrow> string option \<times> strace" where
  "first_on_seat env sl [] t = (None, t)"
| "first_on_seat env sl (ssid # ssids) t =
     (case x11_session_is_on_seat env sl ssid (sl_display_seat_id sl) t of (on_seat, t) \<Rightarrow>
        if on_seat then (Some ssid, t) else first_on_seat env sl ssids t)"

definition mdm_slave_get_primary_session_id_for_user ::
  "slave_env \<Rightarrow> mdm_slave \<Rightarrow> string option \<Rightarrow> strace \<Rightarrow> (string option \<times> strace) option" where
  "mdm_slave_get_primary_session_id_for_user env sl user t =
     (if null_or_empty (sl_display_seat_id sl) then Some (None, t)
      else case scall env (CK_method (the (sl_display_seat_id sl)) ''CanActivateSessions'' []) t of
             (can_activate, t) \<Rightarrow>
        if can_activate \<le> 0 then Some (None, t)
        else do {
          uid \<leftarrow> get_uid_for_user env user t;
          (case uid of
             None \<Rightarrow> Some (None, t)
           | Some u \<Rightarrow>
               (case scall_strings env
                       (CK_method ''/org/freedesktop/ConsoleKit/Manager'' ''GetSessionsForUnixUser''
                          [string_of_nat u]) t of
                  (None, t) \<Rightarrow> Some (None, t)
                | (Some sessions, t) \<Rightarrow> Some (first_on_seat env sl sessions t)))
        })"

definition activate_session_id ::
  "slave_env \<Rightarrow> string \<Rightarrow> string \<Rightarrow> strace \<Rightarrow> bool \<times> strace" where
  "activate_session_id env seat_id session_id t =
     (case scall env (CK_method seat_id ''ActivateSession'' [session_id]) t of (res, t) \<Rightarrow> (res \<ge> 0, t))"

definition session_unlock :: "slave_env \<Rightarrow> string \<Rightarrow> strace \<Rightarrow> bool \<times> strace" where
  "session_unlock env ssid t =
     (case scall env (CK_method ssid ''Unlock'' []) t of (res, t) \<Rightarrow> (res \<ge> 0, t))"

definition mdm_slave_switch_to_user_session ::
  "slave_env \<Rightarrow> mdm_slave \<Rightarrow> string option \<Rightarrow> strace \<Rightarrow> (bool \<times> strace) option" where
  "mdm_slave_switch_to_user_session env sl user t =
     do {
       (ssid_to_activate, t) \<leftarrow> mdm_slave_get_primary_session_id_for_user env sl user t;
       (case ssid_to_activate of
          None \<Rightarrow> Some (False, t)
        | Some ssid \<Rightarrow>
            (case activate_session_id env (the (sl_display_seat_id sl)) ssid t of (res, t) \<Rightarrow>
               if \<not> res then Some (False, t)
               else case session_unlock env ssid t of (_, t) \<Rightarrow> Some (True, t)))
     }"

end
