(* ===== verification/Greeter_Server.thy ===== *)
theory Greeter_Server
  imports Slave_World
begin

text \<open>
  The slave's end of the connection with the greeter, \<open>daemon/mdm-greeter-server.c\<close>: the signals it sends
  to the greeter, and the greeter's method calls, which become signals of the object. The pointers to
  the server and the connection are the booleans "not NULL".
\<close>

record greeter_server =
  gs_user_name :: "string option"
  gs_group_name :: "string option"
  gs_display_id :: "string option"
  gs_server :: bool
  gs_server_address :: "string option"
  gs_greeter_connection :: bool

datatype greeter_signal = Greeter_begin_auto_login string | Greeter_begin_verification
  | Greeter_begin_verification_for_user string | Greeter_query_answer string
  | Greeter_session_selected string | Greeter_hostname_selected string
  | Greeter_language_selected string | Greeter_layout_selected string
  | Greeter_user_selected string | Greeter_cancelled | Greeter_connected | Greeter_disconnected
  | Greeter_start_session_when_ready | Greeter_start_session_later

subsection \<open>Signals to the greeter\<close>

text \<open>Nothing is sent without a server object, without a connection, or on a closed one.\<close>

definition send_to_greeter ::
  "slave_env \<Rightarrow> string \<Rightarrow> greeter_args \<Rightarrow> greeter_server option \<Rightarrow> strace \<Rightarrow> strace" where
  "send_to_greeter env name args gs t =
     (case gs of
        None \<Rightarrow> t
      | Some g \<Rightarrow>
          if \<not> gs_greeter_connection g then t
          else if \<not> s_greeter_connected env t then t
          else To_greeter name args # t)"

definition greeter_string_signal ::
  "slave_env \<Rightarrow> string \<Rightarrow> string option \<Rightarrow> greeter_server option \<Rightarrow> strace \<Rightarrow> strace" where
  "greeter_string_signal env name text gs t =
     send_to_greeter env name (G_string (case text of Some x \<Rightarrow> x | None \<Rightarrow> [])) gs t"

definition greeter_string_and_int_signal ::
  "slave_env \<Rightarrow> string \<Rightarrow> string option \<Rightarrow> int \<Rightarrow> greeter_server option \<Rightarrow> strace \<Rightarrow> strace" where
  "greeter_string_and_int_signal env name text number gs t =
     send_to_greeter env name (G_string_int (case text of Some x \<Rightarrow> x | None \<Rightarrow> []) number) gs t"

definition greeter_void_signal ::
  "slave_env \<Rightarrow> string \<Rightarrow> greeter_server option \<Rightarrow> strace \<Rightarrow> strace" where
  "greeter_void_signal env name gs t = send_to_greeter env name G_void gs t"

definition mdm_greeter_server_info_query ::
  "slave_env \<Rightarrow> string \<Rightarrow> greeter_server option \<Rightarrow> strace \<Rightarrow> strace" where
  "mdm_greeter_server_info_query env text = greeter_string_signal env ''InfoQuery'' (Some text)"

definition mdm_greeter_server_secret_info_query ::
  "slave_env \<Rightarrow> string \<Rightarrow> greeter_server option \<Rightarrow> strace \<Rightarrow> strace" where
  "mdm_greeter_server_secret_info_query env text =
     greeter_string_signal env ''SecretInfoQuery'' (Some text)"

definition mdm_greeter_server_info ::
  "slave_env \<Rightarrow> string \<Rightarrow> greeter_server option \<Rightarrow> strace \<Rightarrow> strace" where
  "mdm_greeter_server_info env text = greeter_string_signal env ''Info'' (Some text)"

definition mdm_greeter_server_problem ::
  "slave_env \<Rightarrow> string \<Rightarrow> greeter_server option \<Rightarrow> strace \<Rightarrow> strace" where
  "mdm_greeter_server_problem env text = greeter_string_signal env ''Problem'' (Some text)"

definition mdm_greeter_server_authentication_failed ::
  "slave_env \<Rightarrow> greeter_server option \<Rightarrow> strace \<Rightarrow> strace" where
  "mdm_greeter_server_authentication_failed env = greeter_void_signal env ''AuthenticationFailed''"

definition mdm_greeter_server_reset ::
  "slave_env \<Rightarrow> greeter_server option \<Rightarrow> strace \<Rightarrow> strace" where
  "mdm_greeter_server_reset env = greeter_void_signal env ''Reset''"

definition mdm_greeter_server_ready ::
  "slave_env \<Rightarrow> greeter_server option \<Rightarrow> strace \<Rightarrow> strace" where
  "mdm_greeter_server_ready env = greeter_void_signal env ''Ready''"

definition mdm_greeter_server_selected_user_changed ::
  "slave_env \<Rightarrow> string option \<Rightarrow> greeter_server option \<Rightarrow> strace \<Rightarrow> strace" where
  "mdm_greeter_server_selected_user_changed env user =
     greeter_string_signal env ''SelectedUserChanged'' user"

definition mdm_greeter_server_default_language_name_changed ::
  "slave_env \<Rightarrow> string option \<Rightarrow> greeter_server option \<Rightarrow> strace \<Rightarrow> strace" where
  "mdm_greeter_server_default_language_name_changed env name =
     greeter_string_signal env ''DefaultLanguageNameChanged'' name"

definition mdm_greeter_server_default_layout_name_changed ::
  "slave_env \<Rightarrow> string option \<Rightarrow> greeter_server option \<Rightarrow> strace \<Rightarrow> strace" where
  "mdm_greeter_server_default_layout_name_changed env name =
     greeter_string_signal env ''DefaultLayoutNameChanged'' name"

definition mdm_greeter_server_default_session_name_changed ::
  "slave_env \<Rightarrow> string option \<Rightarrow> greeter_server option \<Rightarrow> strace \<Rightarrow> strace" where
  "mdm_greeter_server_default_session_name_changed env name =
     greeter_string_signal env ''DefaultSessionNameChanged'' name"

definition mdm_greeter_server_select_user ::
  "slave_env \<Rightarrow> string \<Rightarrow> greeter_server option \<Rightarrow> strace \<Rightarrow> strace" where
  "mdm_greeter_server_select_user env user = greeter_string_signal env ''SelectUser'' (Some user)"

definition mdm_greeter_server_request_timed_login ::
  "slave_env \<Rightarrow> string option \<Rightarrow> int \<Rightarrow> greeter_server option \<Rightarrow> strace \<Rightarrow> strace" where
  "mdm_greeter_server_request_timed_login env user delay =
     greeter_string_and_int_signal env ''TimedLoginRequested'' user delay"

definition mdm_greeter_server_user_authorized ::
  "slave_env \<Rightarrow> greeter_server option \<Rightarrow> strace \<Rightarrow> strace" where
  "mdm_greeter_server_user_authorized env = greeter_void_signal env ''UserAuthorized''"

subsection \<open>The greeter's method calls\<close>

text \<open>
  The reply goes out first, then the signal is emitted. A missing string is an uninitialised pointer
  that the handlers of the signal use; a missing boolean an uninitialised integer.
\<close>

definition greeter_handle_void :: "greeter_signal \<Rightarrow> strace \<Rightarrow> (greeter_signal option \<times> strace) option" where
  "greeter_handle_void sig t = Some (Some sig, Greeter_reply [] # t)"

definition greeter_handle_string ::
  "(string \<Rightarrow> greeter_signal) \<Rightarrow> payload \<Rightarrow> strace \<Rightarrow> (greeter_signal option \<times> strace) option" where
  "greeter_handle_string sig args t =
     (case args of P_string text \<Rightarrow> greeter_handle_void (sig text) t | _ \<Rightarrow> None)"

definition handle_begin_verification :: "strace \<Rightarrow> (greeter_signal option \<times> strace) option" where
  "handle_begin_verification t = greeter_handle_void Greeter_begin_verification t"

definition handle_cancel :: "strace \<Rightarrow> (greeter_signal option \<times> strace) option" where
  "handle_cancel t = greeter_handle_void Greeter_cancelled t"

definition handle_disconnect :: "strace \<Rightarrow> (greeter_signal option \<times> strace) option" where
  "handle_disconnect t = greeter_handle_void Greeter_disconnected t"

definition handle_begin_verification_for_user ::
  "payload \<Rightarrow> strace \<Rightarrow> (greeter_signal option \<times> strace) option" where
  "handle_begin_verification_for_user args t = greeter_handle_string Greeter_begin_verification_for_user args t"

definition handle_begin_auto_login ::
  "payload \<Rightarrow> strace \<Rightarrow> (greeter_signal option \<times> strace) option" where
  "handle_begin_auto_login args t = greeter_handle_string Greeter_begin_auto_login args t"

definition handle_answer_query ::
  "payload \<Rightarrow> strace \<Rightarrow> (greeter_signal option \<times> strace) option" where
  "handle_answer_query args t = greeter_handle_string Greeter_query_answer args t"

definition handle_select_session ::
  "payload \<Rightarrow> strace \<Rightarrow> (greeter_signal option \<times> strace) option" where
  "handle_select_session args t = greeter_handle_string Greeter_session_selected args t"

definition handle_select_hostname ::
  "payload \<Rightarrow> strace \<Rightarrow> (greeter_signal option \<times> strace) option" where
  "handle_select_hostname args t = greeter_handle_string Greeter_hostname_selected args t"

definition handle_select_language ::
  "payload \<Rightarrow> strace \<Rightarrow> (greeter_signal option \<times> strace) option" where
  "handle_select_language args t = greeter_handle_string Greeter_language_selected args t"

definition handle_select_layout ::
  "payload \<Rightarrow> strace \<Rightarrow> (greeter_signal option \<times> strace) option" where
  "handle_select_layout args t = greeter_handle_string Greeter_layout_selected args t"

definition handle_select_user ::
  "payload \<Rightarrow> strace \<Rightarrow> (greeter_signal option \<times> strace) option" where
  "handle_select_user args t = greeter_handle_string Greeter_user_selected args t"

definition handle_get_display_id ::
  "greeter_server \<Rightarrow> strace \<Rightarrow> (greeter_signal option \<times> strace) option" where
  "handle_get_display_id g t =
     (case gs_display_id g of None \<Rightarrow> None | Some ident \<Rightarrow> Some (None, Greeter_reply ident # t))"

definition handle_start_session_when_ready ::
  "slave_env \<Rightarrow> payload \<Rightarrow> strace \<Rightarrow> (greeter_signal option \<times> strace) option" where
  "handle_start_session_when_ready env args t =
     (let should_start_session = (case args of P_int b \<Rightarrow> b \<noteq> 0 | _ \<Rightarrow> s_uninitialised env \<noteq> 0)
      in greeter_handle_void
           (if should_start_session then Greeter_start_session_when_ready
            else Greeter_start_session_later) t)"

text \<open>\<open>HostnameSession\<close> is the name the code compares with; the interface calls the method
  \<open>SelectHostname\<close>, which is therefore not handled.\<close>

definition greeter_handle_child_message ::
  "slave_env \<Rightarrow> greeter_server \<Rightarrow> string \<Rightarrow> payload \<Rightarrow> strace \<Rightarrow> (greeter_signal option \<times> strace) option"
where
  "greeter_handle_child_message env g member args t =
     (if member = ''BeginVerification'' then handle_begin_verification t
      else if member = ''BeginVerificationForUser''
      then handle_begin_verification_for_user args t
      else if member = ''BeginAutoLogin'' then handle_begin_auto_login args t
      else if member = ''AnswerQuery'' then handle_answer_query args t
      else if member = ''SelectSession'' then handle_select_session args t
      else if member = ''HostnameSession'' then handle_select_hostname args t
      else if member = ''SelectLanguage'' then handle_select_language args t
      else if member = ''SelectLayout'' then handle_select_layout args t
      else if member = ''SelectUser'' then handle_select_user args t
      else if member = ''Cancel'' then handle_cancel t
      else if member = ''Disconnect'' then handle_disconnect t
      else if member = ''GetDisplayId'' then handle_get_display_id g t
      else if member = ''StartSessionWhenReady'' then handle_start_session_when_ready env args t
      else Some (None, t))"

subsection \<open>The connection\<close>

definition greeter_connection_lost :: "greeter_server \<Rightarrow> greeter_server" where
  "greeter_connection_lost g = g\<lparr>gs_greeter_connection := False\<rparr>"

definition greeter_allow_user_function ::
  "slave_env \<Rightarrow> greeter_server \<Rightarrow> nat \<Rightarrow> strace \<Rightarrow> bool option" where
  "greeter_allow_user_function env g user_id t =
     (case gs_user_name g of
        None \<Rightarrow> Some False
      | Some name \<Rightarrow>
          do {
            pwent \<leftarrow> get_pwent env name t;
            Some (case pwent of None \<Rightarrow> False | Some p \<Rightarrow> pw_uid p = user_id)
          })"

definition greeter_handle_connection ::
  "greeter_server \<Rightarrow> greeter_signal option \<times> greeter_server" where
  "greeter_handle_connection g =
     (if \<not> gs_greeter_connection g then (Some Greeter_connected, g\<lparr>gs_greeter_connection := True\<rparr>)
      else (None, g))"

definition MDM_USERNAME :: string where
  "MDM_USERNAME = ''mdm''"

definition MDM_GROUPNAME :: string where
  "MDM_GROUPNAME = ''mdm''"

definition mdm_greeter_server_new :: "string option \<Rightarrow> greeter_server" where
  "mdm_greeter_server_new ident =
     \<lparr>gs_user_name = Some MDM_USERNAME, gs_group_name = Some MDM_GROUPNAME, gs_display_id = ident,
      gs_server = False, gs_server_address = None, gs_greeter_connection = False\<rparr>"

definition mdm_greeter_server_start ::
  "slave_env \<Rightarrow> greeter_server \<Rightarrow> strace \<Rightarrow> bool \<times> greeter_server \<times> strace" where
  "mdm_greeter_server_start env g t =
     (case scall_string env (Listen ''unix:abstract=/tmp/mdm-greeter-'') t of
        (None, t) \<Rightarrow> (False, g\<lparr>gs_server := False\<rparr>, t)
      | (Some address, t) \<Rightarrow>
          (True, g\<lparr>gs_server := True, gs_server_address := Some address\<rparr>, t))"

text \<open>Stopping the server does nothing: it is neither closed nor told to the greeter.\<close>

definition mdm_greeter_server_stop :: "greeter_server \<Rightarrow> bool \<times> greeter_server" where
  "mdm_greeter_server_stop g = (False, g)"

end
