(* ===== verification/Simple_Slave.thy ===== *)
theory Simple_Slave
  imports Mdm_Slave Greeter_Server
begin

text \<open>
  The slave of an ordinary display, \<open>daemon/mdm-simple-slave.c\<close>: it starts the X server, then the greeter or
  the automatic login, carries the conversation between the greeter and the session worker, and starts
  the session. The machine \<open>slave_step\<close> has one event per callback of the main loop.

  The sources of the main loop are part of the state: \<open>ss_greeter_reset\<close> is the callback that is queued
  under \<open>greeter_reset_id\<close>, \<open>ss_start_session\<close> that under \<open>start_session_id\<close>, \<open>ss_connect_sources\<close> the number of
  sources that try to connect to the X server, \<open>ss_quit\<close> that the main loop has been quit. The greeter's
  process and the X server are the booleans "not NULL".
\<close>

subsection \<open>The state\<close>

datatype reset_callback = Greeter_reset_timeout | Auth_failed_reset_timeout

record simple_slave =
  ss_base :: mdm_slave
  ss_greeter_reset :: "reset_callback option"
  ss_start_session :: bool
  ss_ping_interval :: int
  ss_connection_attempts :: nat
  ss_connect_sources :: nat
  ss_server :: bool
  ss_session :: "session_direct option"
  ss_greeter_server :: "greeter_server option"
  ss_greeter :: bool
  ss_start_session_when_ready :: bool
  ss_waiting_to_start_session :: bool
  ss_plymouth_is_running :: bool
  ss_username :: "string option"
  ss_quit :: bool
  ss_trace :: strace

definition mdm_simple_slave_new ::
  "slave_env \<Rightarrow> string option \<Rightarrow> string option \<Rightarrow> strace \<Rightarrow> simple_slave option" where
  "mdm_simple_slave_new env ident user t =
     do {
       (base, t) \<leftarrow> mdm_slave_constructor env (mdm_slave_init\<lparr>sl_display_id := ident\<rparr>) t;
       Some \<lparr>ss_base = base, ss_greeter_reset = None, ss_start_session = False, ss_ping_interval = 0,
             ss_connection_attempts = 0, ss_connect_sources = 0, ss_server = False, ss_session = None,
             ss_greeter_server = None, ss_greeter = False, ss_start_session_when_ready = False,
             ss_waiting_to_start_session = False, ss_plymouth_is_running = False,
             ss_username = user, ss_quit = False, ss_trace = t\<rparr>
     }"

definition act :: "scall \<Rightarrow> simple_slave \<Rightarrow> simple_slave" where
  "act c ss = ss\<lparr>ss_trace := c # ss_trace ss\<rparr>"

definition to_greeter ::
  "(greeter_server option \<Rightarrow> strace \<Rightarrow> strace) \<Rightarrow> simple_slave \<Rightarrow> simple_slave" where
  "to_greeter send ss = ss\<lparr>ss_trace := send (ss_greeter_server ss) (ss_trace ss)\<rparr>"

text \<open>An operation of the session, whose guards let a NULL session pass without effect.\<close>

definition on_session ::
  "(session_direct \<Rightarrow> strace \<Rightarrow> (session_direct \<times> strace) option) \<Rightarrow> simple_slave \<Rightarrow> simple_slave option"
where
  "on_session f ss =
     (case ss_session ss of
        None \<Rightarrow> Some ss
      | Some s \<Rightarrow> do { (s, t) \<leftarrow> f s (ss_trace ss); Some (ss\<lparr>ss_session := Some s, ss_trace := t\<rparr>) })"

definition returns ::
  "(session_direct \<Rightarrow> strace \<Rightarrow> session_direct \<times> strace) \<Rightarrow> session_direct \<Rightarrow> strace
     \<Rightarrow> (session_direct \<times> strace) option" where
  "returns f s t = Some (f s t)"

definition writes ::
  "(session_direct \<Rightarrow> strace \<Rightarrow> strace) \<Rightarrow> session_direct \<Rightarrow> strace
     \<Rightarrow> (session_direct \<times> strace) option" where
  "writes f s t = Some (s, f s t)"

definition mdm_session_direct_get_username :: "simple_slave \<Rightarrow> string option" where
  "mdm_session_direct_get_username ss =
     (case ss_session ss of None \<Rightarrow> None | Some s \<Rightarrow> sd_selected_user s)"

definition run_script :: "slave_env \<Rightarrow> string \<Rightarrow> string option \<Rightarrow> simple_slave \<Rightarrow> simple_slave option" where
  "run_script env dir user ss =
     (case user of
        None \<Rightarrow> Some ss
      | Some u \<Rightarrow>
          do {
            (_, t) \<leftarrow> mdm_slave_run_script env (ss_base ss) (MDMCONFDIR @ dir) u (ss_trace ss);
            Some (ss\<lparr>ss_trace := t\<rparr>)
          })"

definition stopped :: "simple_slave \<Rightarrow> simple_slave" where
  "stopped ss = ss\<lparr>ss_trace := mdm_slave_stopped (ss_trace ss), ss_quit := True\<rparr>"

text \<open>What the handlers of the session's changes of defaults do: they tell the greeter.\<close>

definition notify_greeter ::
  "slave_env \<Rightarrow> greeter_server option \<Rightarrow> session_signal \<Rightarrow> strace \<Rightarrow> strace" where
  "notify_greeter env gs sig t =
     (case sig of
        Sig_selected_user_changed text \<Rightarrow> mdm_greeter_server_selected_user_changed env text gs t
      | Sig_default_language_name_changed text \<Rightarrow>
          mdm_greeter_server_default_language_name_changed env text gs t
      | Sig_default_layout_name_changed text \<Rightarrow>
          mdm_greeter_server_default_layout_name_changed env text gs t
      | Sig_default_session_name_changed text \<Rightarrow>
          mdm_greeter_server_default_session_name_changed env text gs t
      | _ \<Rightarrow> t)"

definition mdm_session_setup :: "slave_env \<Rightarrow> string \<Rightarrow> simple_slave \<Rightarrow> simple_slave option" where
  "mdm_session_setup env service_name ss =
     on_session (returns (mdm_session_direct_setup env (notify_greeter env (ss_greeter_server ss))
                          service_name)) ss"

definition mdm_session_setup_for_user ::
  "slave_env \<Rightarrow> string \<Rightarrow> string option \<Rightarrow> simple_slave \<Rightarrow> simple_slave option" where
  "mdm_session_setup_for_user env service_name user ss =
     on_session (returns (mdm_session_direct_setup_for_user env
                          (notify_greeter env (ss_greeter_server ss)) service_name user)) ss"

subsection \<open>Sessions\<close>

text \<open>The slave holds the only reference: dropping it disposes of the object.\<close>

definition destroy_session :: "slave_env \<Rightarrow> simple_slave \<Rightarrow> simple_slave option" where
  "destroy_session env ss =
     (case ss_session ss of
        None \<Rightarrow> Some ss
      | Some s \<Rightarrow>
          do {
            (s, t) \<leftarrow> mdm_session_direct_close env s (ss_trace ss);
            (s, t) \<leftarrow> mdm_session_direct_dispose env s t;
            Some (ss\<lparr>ss_session := None, ss_trace := t\<rparr>)
          })"

text \<open>The handlers the slave connects to the new object are those of \<open>on_session_signal\<close> and
  \<open>notify_greeter\<close>.\<close>

definition create_new_session :: "slave_env \<Rightarrow> simple_slave \<Rightarrow> simple_slave option" where
  "create_new_session env ss =
     (let base = ss_base ss;
          device = (if ss_server ss then s_display_device env (ss_trace ss) else None)
      in do {
        (s, t) \<leftarrow> mdm_session_direct_new env (sl_display_id base) (sl_display_name base)
                   (sl_display_hostname base) device (sl_display_x11_authority_file base)
                   (sl_display_is_local base) (ss_trace ss);
        Some (ss\<lparr>ss_session := Some s, ss_trace := t\<rparr>)
      })"

definition mdm_session_start_conversation :: "slave_env \<Rightarrow> simple_slave \<Rightarrow> simple_slave option" where
  "mdm_session_start_conversation env ss =
     on_session (returns (mdm_session_direct_start_conversation env)) ss"

definition reset_session :: "slave_env \<Rightarrow> simple_slave \<Rightarrow> simple_slave option" where
  "reset_session env ss =
     do {
       ss \<leftarrow> destroy_session env ss;
       ss \<leftarrow> create_new_session env ss;
       mdm_session_start_conversation env ss
     }"

subsection \<open>The greeter\<close>

definition DEFAULT_PING_INTERVAL :: int where
  "DEFAULT_PING_INTERVAL = 15"

definition start_greeter :: "slave_env \<Rightarrow> simple_slave \<Rightarrow> simple_slave option" where
  "start_greeter env ss =
     do {
       let ss = ss\<lparr>ss_ping_interval :=
                     (case s_ping_interval env of Some i \<Rightarrow> i | None \<Rightarrow> DEFAULT_PING_INTERVAL)\<rparr>;
       let ss = (if \<not> sl_display_is_local (ss_base ss) \<and> ss_ping_interval ss > 0
                 then act (Set_alarm (ss_ping_interval ss)) ss else ss);
       ss \<leftarrow> run_script env ''/Init'' (Some MDM_USERNAME) ss;
       let g = mdm_greeter_server_new (sl_display_id (ss_base ss));
       let (_, g, t) = mdm_greeter_server_start env g (ss_trace ss);
       Some (act (Greeter_start (sl_display_x11_authority_file (ss_base ss)) (gs_server_address g))
              (ss\<lparr>ss_greeter_server := Some g, ss_greeter := True, ss_trace := t\<rparr>))
     }"

definition stop_greeter :: "slave_env \<Rightarrow> simple_slave \<Rightarrow> simple_slave option" where
  "stop_greeter env ss =
     (if \<not> ss_greeter ss then Some ss
      else do {
        ss \<leftarrow> run_script env ''/PostLogin'' (mdm_session_direct_get_username ss) ss;
        Some (act Greeter_stop
               (ss\<lparr>ss_greeter_server := map_option (snd \<circ> mdm_greeter_server_stop) (ss_greeter_server ss),
                  ss_greeter := False\<rparr>))
      })"

subsection \<open>Resetting the login\<close>

definition greeter_reset_timeout :: "slave_env \<Rightarrow> simple_slave \<Rightarrow> simple_slave option" where
  "greeter_reset_timeout env ss =
     do {
       ss \<leftarrow> (if ss_greeter_server ss \<noteq> None
             then reset_session env (to_greeter (mdm_greeter_server_reset env) ss)
             else do { ss \<leftarrow> start_greeter env ss; create_new_session env ss });
       Some (ss\<lparr>ss_greeter_reset := None\<rparr>)
     }"

definition auth_failed_reset_timeout :: "slave_env \<Rightarrow> simple_slave \<Rightarrow> simple_slave option" where
  "auth_failed_reset_timeout env ss =
     do {
       ss \<leftarrow> (if ss_greeter_server ss \<noteq> None
             then reset_session env (to_greeter (mdm_greeter_server_authentication_failed env) ss)
             else do { ss \<leftarrow> start_greeter env ss; create_new_session env ss });
       Some (ss\<lparr>ss_greeter_reset := None\<rparr>)
     }"

definition queue_greeter_reset :: "simple_slave \<Rightarrow> simple_slave" where
  "queue_greeter_reset ss =
     (if ss_greeter_reset ss \<noteq> None then ss else ss\<lparr>ss_greeter_reset := Some Greeter_reset_timeout\<rparr>)"

definition queue_auth_failed_reset :: "simple_slave \<Rightarrow> simple_slave" where
  "queue_auth_failed_reset ss =
     (if ss_greeter_reset ss \<noteq> None then ss
      else ss\<lparr>ss_greeter_reset := Some Auth_failed_reset_timeout\<rparr>)"

definition queue_start_session :: "simple_slave \<Rightarrow> simple_slave" where
  "queue_start_session ss = (if ss_start_session ss then ss else ss\<lparr>ss_start_session := True\<rparr>)"

definition try_migrate_session :: "slave_env \<Rightarrow> simple_slave \<Rightarrow> (bool \<times> simple_slave) option" where
  "try_migrate_session env ss =
     do {
       (res, t) \<leftarrow> mdm_slave_switch_to_user_session env (ss_base ss)
                    (mdm_session_direct_get_username ss) (ss_trace ss);
       Some (res, ss\<lparr>ss_trace := t\<rparr>)
     }"

text \<open>The file is asserted not to be NULL.\<close>

definition start_session_timeout :: "slave_env \<Rightarrow> simple_slave \<Rightarrow> simple_slave option" where
  "start_session_timeout env ss =
     do {
       (migrated, ss) \<leftarrow> try_migrate_session env ss;
       ss \<leftarrow> (if migrated
             then do { ss \<leftarrow> destroy_session env ss; Some (queue_greeter_reset ss) }
             else do {
               ss \<leftarrow> stop_greeter env ss;
               let (auth_file, t) = mdm_slave_add_user_authorization env (ss_base ss)
                                      (mdm_session_direct_get_username ss) (ss_trace ss);
               let ss = ss\<lparr>ss_trace := t\<rparr>;
               file \<leftarrow> auth_file;
               let ss = ss\<lparr>ss_session := map_option
                             (mdm_session_direct_set_property (PROP_USER_X11_AUTHORITY_FILE (Some file)))
                             (ss_session ss)\<rparr>;
               on_session (mdm_session_direct_start_session env) ss
             });
       Some (ss\<lparr>ss_start_session := False\<rparr>)
     }"

subsection \<open>Signals of the session\<close>

definition on_session_started :: "slave_env \<Rightarrow> simple_slave \<Rightarrow> simple_slave option" where
  "on_session_started env ss =
     run_script env ''/PreSession'' (mdm_session_direct_get_username ss) ss"

definition on_session_exited :: "simple_slave \<Rightarrow> simple_slave" where
  "on_session_exited ss = stopped ss"

definition on_session_died :: "simple_slave \<Rightarrow> simple_slave" where
  "on_session_died ss = stopped ss"

definition on_session_setup_complete :: "slave_env \<Rightarrow> simple_slave \<Rightarrow> simple_slave option" where
  "on_session_setup_complete env ss = on_session (writes (mdm_session_direct_authenticate env)) ss"

text \<open>The handlers of the four failures that are alike; the text of the message is never NULL.\<close>

definition report_problem :: "slave_env \<Rightarrow> string \<Rightarrow> simple_slave \<Rightarrow> simple_slave" where
  "report_problem env message ss =
     (if ss_greeter_server ss \<noteq> None then to_greeter (mdm_greeter_server_problem env message) ss else ss)"

definition on_session_setup_failed :: "slave_env \<Rightarrow> string \<Rightarrow> simple_slave \<Rightarrow> simple_slave option" where
  "on_session_setup_failed env message ss =
     do { ss \<leftarrow> destroy_session env (report_problem env message ss); Some (queue_greeter_reset ss) }"

definition on_session_authenticated :: "slave_env \<Rightarrow> simple_slave \<Rightarrow> simple_slave option" where
  "on_session_authenticated env ss = on_session (writes (mdm_session_direct_authorize env)) ss"

definition on_session_authentication_failed ::
  "slave_env \<Rightarrow> string \<Rightarrow> simple_slave \<Rightarrow> simple_slave option" where
  "on_session_authentication_failed env message ss =
     do { ss \<leftarrow> destroy_session env (report_problem env message ss); Some (queue_auth_failed_reset ss) }"

text \<open>The primary session is looked up, but credentials are established in any case.\<close>

definition mdm_simple_slave_accredit_when_ready :: "slave_env \<Rightarrow> simple_slave \<Rightarrow> simple_slave option" where
  "mdm_simple_slave_accredit_when_ready env ss =
     (if ss_start_session_when_ready ss
      then do {
        let ss = ss\<lparr>ss_waiting_to_start_session := False\<rparr>;
        (ssid, t) \<leftarrow> mdm_slave_get_primary_session_id_for_user env (ss_base ss)
                      (mdm_session_direct_get_username ss) (ss_trace ss);
        let cred_flag = (if null_or_empty ssid then MDM_SESSION_CRED_ESTABLISH
                         else MDM_SESSION_CRED_ESTABLISH);
        on_session (writes (mdm_session_direct_accredit env cred_flag)) (ss\<lparr>ss_trace := t\<rparr>)
      }
      else Some (ss\<lparr>ss_waiting_to_start_session := True\<rparr>))"

definition on_session_authorized :: "slave_env \<Rightarrow> simple_slave \<Rightarrow> simple_slave option" where
  "on_session_authorized env ss =
     (if ss_greeter_server ss \<noteq> None
      then mdm_simple_slave_accredit_when_ready env
             (to_greeter (mdm_greeter_server_user_authorized env) ss)
      else mdm_simple_slave_accredit_when_ready env (ss\<lparr>ss_start_session_when_ready := True\<rparr>))"

definition on_session_authorization_failed ::
  "slave_env \<Rightarrow> string \<Rightarrow> simple_slave \<Rightarrow> simple_slave option" where
  "on_session_authorization_failed env message ss =
     do { ss \<leftarrow> destroy_session env (report_problem env message ss); Some (queue_greeter_reset ss) }"

definition on_session_accredited :: "slave_env \<Rightarrow> simple_slave \<Rightarrow> simple_slave option" where
  "on_session_accredited env ss = on_session (writes (mdm_session_direct_open_session env)) ss"

definition on_session_accreditation_failed ::
  "slave_env \<Rightarrow> string \<Rightarrow> simple_slave \<Rightarrow> simple_slave option" where
  "on_session_accreditation_failed env message ss =
     do {
       (migrated, ss) \<leftarrow> try_migrate_session env ss;
       ss \<leftarrow> destroy_session env (if migrated then ss else report_problem env message ss);
       Some (queue_greeter_reset ss)
     }"

definition on_session_opened :: "simple_slave \<Rightarrow> simple_slave" where
  "on_session_opened ss = queue_start_session ss"

definition on_session_open_failed :: "slave_env \<Rightarrow> simple_slave \<Rightarrow> simple_slave option" where
  "on_session_open_failed env ss =
     do {
       ss \<leftarrow> destroy_session env (report_problem env ''Unable to open session'' ss);
       Some (queue_greeter_reset ss)
     }"

definition using_ecryptfs :: "slave_env \<Rightarrow> string option \<Rightarrow> strace \<Rightarrow> bool" where
  "using_ecryptfs env user t =
     (case user of
        None \<Rightarrow> False
      | Some u \<Rightarrow>
          (case fst (s_getpwnam env t u 0) of
             None \<Rightarrow> False
           | Some info \<Rightarrow> s_exists env t (g_build_filename [pw_dir info, ''.ecryptfs'', ''auto-mount''])))"

definition mdm_simple_slave_set_username :: "string option \<Rightarrow> simple_slave \<Rightarrow> simple_slave" where
  "mdm_simple_slave_set_username user ss = ss\<lparr>ss_username := user\<rparr>"

text \<open>A user the slave was started for is selected in the greeter; without a greeter nothing is done.\<close>

definition on_session_conversation_started :: "slave_env \<Rightarrow> simple_slave \<Rightarrow> simple_slave option" where
  "on_session_conversation_started env ss =
     (let ss = to_greeter (mdm_greeter_server_ready env) ss
      in case ss_username ss of
           Some user \<Rightarrow>
             Some (if ss_greeter_server ss \<noteq> None
                   then to_greeter (mdm_greeter_server_select_user env user)
                          (mdm_simple_slave_set_username None ss)
                   else ss)
         | None \<Rightarrow>
             do {
               ((enabled, delay, user), t) \<leftarrow>
                 mdm_slave_get_timed_login_details env (ss_base ss) False (s_uninitialised env)
                   (ss_trace ss);
               let ss = ss\<lparr>ss_trace := t\<rparr>;
               (if \<not> enabled \<or> using_ecryptfs env user t then Some ss
                else if ss_greeter_server ss \<noteq> None
                then Some (to_greeter (mdm_greeter_server_request_timed_login env user delay) ss)
                else mdm_session_setup_for_user env ''mdm-autologin'' user ss)
             })"

text \<open>No handler is connected to \<open>session-start-failed\<close>.\<close>

definition on_session_signal ::
  "slave_env \<Rightarrow> session_signal \<Rightarrow> simple_slave \<Rightarrow> simple_slave option" where
  "on_session_signal env sig ss =
     (case sig of
        Sig_conversation_started \<Rightarrow> on_session_conversation_started env ss
      | Sig_setup_complete \<Rightarrow> on_session_setup_complete env ss
      | Sig_setup_failed message \<Rightarrow> on_session_setup_failed env message ss
      | Sig_authenticated \<Rightarrow> on_session_authenticated env ss
      | Sig_authentication_failed message \<Rightarrow> on_session_authentication_failed env message ss
      | Sig_authorized \<Rightarrow> on_session_authorized env ss
      | Sig_authorization_failed message \<Rightarrow> on_session_authorization_failed env message ss
      | Sig_accredited \<Rightarrow> on_session_accredited env ss
      | Sig_accreditation_failed message \<Rightarrow> on_session_accreditation_failed env message ss
      | Sig_session_opened \<Rightarrow> Some (on_session_opened ss)
      | Sig_session_open_failed message \<Rightarrow> on_session_open_failed env ss
      | Sig_info text \<Rightarrow> Some (to_greeter (mdm_greeter_server_info env text) ss)
      | Sig_problem text \<Rightarrow> Some (to_greeter (mdm_greeter_server_problem env text) ss)
      | Sig_info_query text \<Rightarrow> Some (to_greeter (mdm_greeter_server_info_query env text) ss)
      | Sig_secret_info_query text \<Rightarrow> Some (to_greeter (mdm_greeter_server_secret_info_query env text) ss)
      | Sig_session_started p \<Rightarrow> on_session_started env ss
      | Sig_session_exited code \<Rightarrow> Some (on_session_exited ss)
      | Sig_session_died signum \<Rightarrow> Some (on_session_died ss)
      | Sig_reset_complete \<Rightarrow> Some ss
      | Sig_reset_failed _ \<Rightarrow> Some ss
      | Sig_session_start_failed _ \<Rightarrow> Some ss
      | _ \<Rightarrow> Some (to_greeter (\<lambda>gs. notify_greeter env gs sig) ss))"

text \<open>An operation of the session that may emit a signal, with the slave's handler behind it.\<close>

definition session_event ::
  "slave_env \<Rightarrow> (session_direct \<Rightarrow> strace \<Rightarrow> session_result) \<Rightarrow> simple_slave \<Rightarrow> simple_slave option" where
  "session_event env f ss =
     (case ss_session ss of
        None \<Rightarrow> Some ss
      | Some s \<Rightarrow>
          do {
            (sig, s, t) \<leftarrow> f s (ss_trace ss);
            let ss = ss\<lparr>ss_session := Some s, ss_trace := t\<rparr>;
            (case sig of None \<Rightarrow> Some ss | Some x \<Rightarrow> on_session_signal env x ss)
          })"

subsection \<open>Signals of the greeter\<close>

definition on_greeter_begin_verification :: "slave_env \<Rightarrow> simple_slave \<Rightarrow> simple_slave option" where
  "on_greeter_begin_verification env ss = mdm_session_setup env ''mdm'' ss"

definition on_greeter_begin_auto_login :: "slave_env \<Rightarrow> string \<Rightarrow> simple_slave \<Rightarrow> simple_slave option" where
  "on_greeter_begin_auto_login env user ss =
     mdm_session_setup_for_user env ''mdm-autologin'' (Some user) ss"

definition on_greeter_begin_verification_for_user ::
  "slave_env \<Rightarrow> string \<Rightarrow> simple_slave \<Rightarrow> simple_slave option" where
  "on_greeter_begin_verification_for_user env user ss =
     mdm_session_setup_for_user env ''mdm'' (Some user) ss"

definition on_greeter_answer :: "string \<Rightarrow> simple_slave \<Rightarrow> simple_slave option" where
  "on_greeter_answer text ss = on_session (mdm_session_direct_answer_query text) ss"

definition on_greeter_session_selected :: "slave_env \<Rightarrow> string \<Rightarrow> simple_slave \<Rightarrow> simple_slave option" where
  "on_greeter_session_selected env text ss = on_session (mdm_session_direct_select_session env text) ss"

definition on_greeter_language_selected :: "slave_env \<Rightarrow> string \<Rightarrow> simple_slave \<Rightarrow> simple_slave option" where
  "on_greeter_language_selected env text ss = on_session (mdm_session_direct_select_language env text) ss"

definition on_greeter_layout_selected :: "slave_env \<Rightarrow> string \<Rightarrow> simple_slave \<Rightarrow> simple_slave option" where
  "on_greeter_layout_selected env text ss = on_session (mdm_session_direct_select_layout env text) ss"

definition on_greeter_cancel :: "simple_slave \<Rightarrow> simple_slave" where
  "on_greeter_cancel ss = queue_greeter_reset ss"

definition on_greeter_connected :: "slave_env \<Rightarrow> simple_slave \<Rightarrow> simple_slave option" where
  "on_greeter_connected env ss =
     do {
       ss \<leftarrow> mdm_session_start_conversation env ss;
       Some (if \<not> sl_display_is_local (ss_base ss) then act (Set_alarm 0) ss else ss)
     }"

definition on_start_session_when_ready :: "slave_env \<Rightarrow> simple_slave \<Rightarrow> simple_slave option" where
  "on_start_session_when_ready env ss =
     (let ss = ss\<lparr>ss_start_session_when_ready := True\<rparr>
      in if ss_waiting_to_start_session ss then mdm_simple_slave_accredit_when_ready env ss else Some ss)"

definition on_start_session_later :: "simple_slave \<Rightarrow> simple_slave" where
  "on_start_session_later ss = ss\<lparr>ss_start_session_when_ready := False\<rparr>"

definition on_greeter_signal ::
  "slave_env \<Rightarrow> greeter_signal \<Rightarrow> simple_slave \<Rightarrow> simple_slave option" where
  "on_greeter_signal env sig ss =
     (case sig of
        Greeter_begin_auto_login user \<Rightarrow> on_greeter_begin_auto_login env user ss
      | Greeter_begin_verification \<Rightarrow> on_greeter_begin_verification env ss
      | Greeter_begin_verification_for_user user \<Rightarrow> on_greeter_begin_verification_for_user env user ss
      | Greeter_query_answer text \<Rightarrow> on_greeter_answer text ss
      | Greeter_session_selected text \<Rightarrow> on_greeter_session_selected env text ss
      | Greeter_language_selected text \<Rightarrow> on_greeter_language_selected env text ss
      | Greeter_layout_selected text \<Rightarrow> on_greeter_layout_selected env text ss
      | Greeter_user_selected text \<Rightarrow> Some ss
      | Greeter_connected \<Rightarrow> on_greeter_connected env ss
      | Greeter_cancelled \<Rightarrow> Some (on_greeter_cancel ss)
      | Greeter_start_session_when_ready \<Rightarrow> on_start_session_when_ready env ss
      | Greeter_start_session_later \<Rightarrow> Some (on_start_session_later ss)
      | Greeter_hostname_selected _ \<Rightarrow> Some ss
      | Greeter_disconnected \<Rightarrow> Some ss)"

definition greeter_method ::
  "slave_env \<Rightarrow> nat \<Rightarrow> string \<Rightarrow> payload \<Rightarrow> simple_slave \<Rightarrow> simple_slave option" where
  "greeter_method env user_id member args ss =
     (case ss_greeter_server ss of
        None \<Rightarrow> Some ss
      | Some g \<Rightarrow>
          if \<not> gs_greeter_connection g then Some ss
          else do {
            allowed \<leftarrow> greeter_allow_user_function env g user_id (ss_trace ss);
            (if \<not> allowed then Some ss
             else do {
               (sig, t) \<leftarrow> greeter_handle_child_message env g member args (ss_trace ss);
               let ss = ss\<lparr>ss_trace := t\<rparr>;
               (case sig of None \<Rightarrow> Some ss | Some x \<Rightarrow> on_greeter_signal env x ss)
             })
          })"

definition greeter_connects :: "slave_env \<Rightarrow> simple_slave \<Rightarrow> simple_slave option" where
  "greeter_connects env ss =
     (case ss_greeter_server ss of
        None \<Rightarrow> Some ss
      | Some g \<Rightarrow>
          (case greeter_handle_connection g of (sig, g) \<Rightarrow>
             let ss = ss\<lparr>ss_greeter_server := Some g\<rparr>
             in (case sig of None \<Rightarrow> Some ss | Some x \<Rightarrow> on_greeter_signal env x ss)))"

subsection \<open>Plymouth and the X server\<close>

definition plymouth_is_running :: "slave_env \<Rightarrow> simple_slave \<Rightarrow> bool \<times> simple_slave" where
  "plymouth_is_running env ss =
     (case scall env (Plymouth ''--ping'') (ss_trace ss) of (res, t) \<Rightarrow>
        (res \<ge> 0 \<and> s_wait_status env t = Status 0, ss\<lparr>ss_trace := t\<rparr>))"

definition plymouth_has_active_vt :: "slave_env \<Rightarrow> simple_slave \<Rightarrow> bool \<times> simple_slave" where
  "plymouth_has_active_vt env ss =
     (case scall env (Plymouth ''--has-active-vt'') (ss_trace ss) of (res, t) \<Rightarrow>
        (res \<ge> 0 \<and> s_wait_status env t = Status 0, ss\<lparr>ss_trace := t\<rparr>))"

definition plymouth_prepare_for_transition :: "simple_slave \<Rightarrow> simple_slave" where
  "plymouth_prepare_for_transition ss = act (Plymouth ''deactivate'') ss"

definition plymouth_quit_with_transition :: "simple_slave \<Rightarrow> simple_slave" where
  "plymouth_quit_with_transition ss =
     (act (Plymouth ''quit --retain-splash'') ss)\<lparr>ss_plymouth_is_running := False\<rparr>"

definition plymouth_quit_without_transition :: "simple_slave \<Rightarrow> simple_slave" where
  "plymouth_quit_without_transition ss =
     (act (Plymouth ''quit'') ss)\<lparr>ss_plymouth_is_running := False\<rparr>"

definition slave_setup_server :: "simple_slave \<Rightarrow> simple_slave" where
  "slave_setup_server ss =
     (let ss = act Save_root_windows ss
      in if ss_plymouth_is_running ss then plymouth_quit_with_transition ss else ss)"

definition MAX_CONNECT_ATTEMPTS :: nat where
  "MAX_CONNECT_ATTEMPTS = 10"

text \<open>The source is kept until the connection works, or \<open>exit (1)\<close>.\<close>

definition idle_connect_to_display :: "slave_env \<Rightarrow> simple_slave \<Rightarrow> simple_slave option" where
  "idle_connect_to_display env ss =
     do {
       let ss = ss\<lparr>ss_connection_attempts := ss_connection_attempts ss + 1\<rparr>;
       (res, base, t) \<leftarrow> mdm_slave_connect_to_x11_display env (ss_base ss) (ss_trace ss);
       let ss = ss\<lparr>ss_base := base, ss_trace := t\<rparr>;
       (if res
        then do {
          let ss = slave_setup_server ss;
          ((enabled, delay, user), t) \<leftarrow>
            mdm_slave_get_timed_login_details env (ss_base ss) False 0 (ss_trace ss);
          let ss = ss\<lparr>ss_trace := t\<rparr>;
          ss \<leftarrow> (if \<not> enabled \<or> delay > 0 \<or> using_ecryptfs env user t
                then do { ss \<leftarrow> start_greeter env ss; create_new_session env ss }
                else do {
                  ss \<leftarrow> run_script env ''/Init'' (Some MDM_USERNAME) ss;
                  reset_session env ss
                });
          Some (ss\<lparr>ss_connect_sources := ss_connect_sources ss - 1\<rparr>)
        }
        else if ss_connection_attempts ss \<ge> MAX_CONNECT_ATTEMPTS then None else Some ss)
     }"

definition on_server_ready :: "simple_slave \<Rightarrow> simple_slave" where
  "on_server_ready ss = ss\<lparr>ss_connect_sources := ss_connect_sources ss + 1\<rparr>"

definition on_server_exited :: "simple_slave \<Rightarrow> simple_slave" where
  "on_server_exited ss =
     (let ss = stopped ss
      in if ss_plymouth_is_running ss then plymouth_quit_without_transition ss else ss)"

definition on_server_died :: "simple_slave \<Rightarrow> simple_slave" where
  "on_server_died ss =
     (let ss = stopped ss
      in if ss_plymouth_is_running ss then plymouth_quit_without_transition ss else ss)"

definition start_server :: "slave_env \<Rightarrow> scall \<Rightarrow> simple_slave \<Rightarrow> bool \<times> simple_slave" where
  "start_server env how ss =
     (case scall env how (ss_trace ss) of (res, t) \<Rightarrow> (res \<ge> 0, ss\<lparr>ss_trace := t\<rparr>))"

text \<open>A remote display's server is there already: it is tried every half second.\<close>

definition mdm_simple_slave_run :: "slave_env \<Rightarrow> simple_slave \<Rightarrow> simple_slave option" where
  "mdm_simple_slave_run env ss =
     (if sl_display_is_local (ss_base ss)
      then (let ss = (act (Server_new (sl_display_name (ss_base ss)) (s_disallow_tcp env)) ss)
                       \<lparr>ss_server := True\<rparr>;
                (running, ss) = plymouth_is_running env ss;
                ss = ss\<lparr>ss_plymouth_is_running := running\<rparr>;
                (res, ss) =
                  (if running
                   then (case plymouth_has_active_vt env (plymouth_prepare_for_transition ss) of
                           (active, ss) \<Rightarrow>
                             if active then start_server env Server_start_on_active_vt ss
                             else start_server env Server_start (plymouth_quit_without_transition ss))
                   else start_server env Server_start ss)
            in if \<not> res then None else Some ss)
      else Some (ss\<lparr>ss_connect_sources := ss_connect_sources ss + 1\<rparr>))"

text \<open>The result of the start of the base class is not looked at.\<close>

definition mdm_simple_slave_start :: "slave_env \<Rightarrow> simple_slave \<Rightarrow> simple_slave option" where
  "mdm_simple_slave_start env ss =
     do {
       (_, base, t) \<leftarrow> mdm_slave_real_start env (ss_base ss) (ss_trace ss);
       mdm_simple_slave_run env (ss\<lparr>ss_base := base, ss_trace := t\<rparr>)
     }"

definition mdm_simple_slave_stop :: "slave_env \<Rightarrow> simple_slave \<Rightarrow> simple_slave option" where
  "mdm_simple_slave_stop env ss =
     do {
       let ss = ss\<lparr>ss_base := mdm_slave_real_stop (ss_base ss)\<rparr>;
       ss \<leftarrow> (if ss_greeter ss then stop_greeter env ss else Some ss);
       ss \<leftarrow> (if ss_session ss \<noteq> None
             then do {
               ss \<leftarrow> run_script env ''/PostSession'' (mdm_session_direct_get_username ss) ss;
               destroy_session env ss
             }
             else Some ss);
       Some (if ss_server ss then (act Server_stop ss)\<lparr>ss_server := False\<rparr> else ss)
     }"

definition mdm_simple_slave_finalize :: "slave_env \<Rightarrow> simple_slave \<Rightarrow> simple_slave option" where
  "mdm_simple_slave_finalize env ss =
     do {
       ss \<leftarrow> mdm_simple_slave_stop env ss;
       Some (ss\<lparr>ss_greeter_reset := None\<rparr>)
     }"

subsection \<open>The machine\<close>

text \<open>
  The callbacks of the main loop. libdbus hands a new connection over before its peer has told who it
  is; the user id is that of the peer, and the messages of a peer that is not allowed are dropped.
\<close>

datatype slave_event = Slave_start | Slave_finalize | Connect_source | Greeter_reset_source
  | Start_session_source
  | Worker_connects | Worker_calls nat string payload | Worker_ends wait_status
  | Greeter_connects | Greeter_calls nat string payload | Greeter_disconnects | Greeter_ends
  | Server_ready | Server_exits | Server_dies | Proxy_destroyed

definition slave_step :: "slave_env \<Rightarrow> slave_event \<Rightarrow> simple_slave \<Rightarrow> simple_slave option" where
  "slave_step env e ss =
     (if ss_quit ss then (if e = Slave_finalize then mdm_simple_slave_finalize env ss else Some ss)
      else case e of
        Slave_start \<Rightarrow> mdm_simple_slave_start env ss
      | Slave_finalize \<Rightarrow> Some ss
      | Connect_source \<Rightarrow>
          if ss_connect_sources ss > 0 then idle_connect_to_display env ss else Some ss
      | Greeter_reset_source \<Rightarrow>
          (case ss_greeter_reset ss of
             None \<Rightarrow> Some ss
           | Some Greeter_reset_timeout \<Rightarrow> greeter_reset_timeout env ss
           | Some Auth_failed_reset_timeout \<Rightarrow> auth_failed_reset_timeout env ss)
      | Start_session_source \<Rightarrow>
          if ss_start_session ss then start_session_timeout env ss else Some ss
      | Worker_connects \<Rightarrow> session_event env handle_connection ss
      | Worker_calls user_id member args \<Rightarrow>
          session_event env
            (\<lambda>s t. if sd_worker_connection s \<and> allow_user_function user_id
                  then session_worker_message env (notify_greeter env (ss_greeter_server ss)) member args s t
                  else Some (None, s, t)) ss
      | Worker_ends status \<Rightarrow> session_event env (worker_ended env status) ss
      | Greeter_connects \<Rightarrow> greeter_connects env ss
      | Greeter_calls user_id member args \<Rightarrow> greeter_method env user_id member args ss
      | Greeter_disconnects \<Rightarrow>
          Some (ss\<lparr>ss_greeter_server := map_option greeter_connection_lost (ss_greeter_server ss)\<rparr>)
      | Greeter_ends \<Rightarrow> if ss_greeter ss then Some (stopped ss) else Some ss
      | Server_ready \<Rightarrow> if ss_server ss then Some (on_server_ready ss) else Some ss
      | Server_exits \<Rightarrow> if ss_server ss then Some (on_server_exited ss) else Some ss
      | Server_dies \<Rightarrow> if ss_server ss then Some (on_server_died ss) else Some ss
      | Proxy_destroyed \<Rightarrow> Some (ss\<lparr>ss_base := display_proxy_destroyed_cb (ss_base ss)\<rparr>))"

end
