(* ===== verification/Slave_Frames.thy ===== *)
theory Slave_Frames
  imports Simple_Slave
begin

text \<open>
  What the operations of the slave write to its trace. \<open>sends A t t'\<close> says that the trace grew from \<open>t\<close> to
  \<open>t'\<close> and that every signal to the worker among the new entries is one of \<open>A\<close>. The operations that send
  nothing to the worker are shown to do so for every \<open>A\<close>, so that their lemmas compose.

  \<open>holds P x\<close> is the weakest precondition of an operation that may end the process: its result, if there
  is one, satisfies \<open>P\<close>. The rules \<open>holds_rules\<close> have the shape of a specification: what is known of the
  trace before, and what has to follow from what is known behind it.
\<close>

named_theorems sends_rules \<open>what an operation may send to the worker\<close>
named_theorems holds_rules \<open>the same of an operation that may end the process\<close>

subsection \<open>Weakest preconditions\<close>

definition holds :: "('a \<Rightarrow> bool) \<Rightarrow> 'a option \<Rightarrow> bool" where
  "holds P x \<longleftrightarrow> (\<forall>y. x = Some y \<longrightarrow> P y)"

lemma holds_simps [simp]:
  "holds P None" "holds P (Some y) = P y"
  "holds P (Option.bind x f) = holds (\<lambda>y. holds P (f y)) x"
  by (auto simp: holds_def bind_eq_Some_conv)

lemma holds_if [simp]: "holds P (if b then x else y) = ((b \<longrightarrow> holds P x) \<and> (\<not> b \<longrightarrow> holds P y))"
  by simp

lemma holdsD: "holds P x \<Longrightarrow> x = Some y \<Longrightarrow> P y"
  by (simp add: holds_def)

lemma holds_any: "(\<And>y. P y) \<Longrightarrow> holds P x"
  by (simp add: holds_def)

lemma holds_mono: "holds P x \<Longrightarrow> (\<And>y. P y \<Longrightarrow> Q y) \<Longrightarrow> holds Q x"
  by (auto simp: holds_def)

subsection \<open>Traces\<close>

fun to_worker :: "scall \<Rightarrow> signal option" where
  "to_worker (To_worker sig) = Some sig"
| "to_worker _ = None"

definition sends :: "signal set \<Rightarrow> strace \<Rightarrow> strace \<Rightarrow> bool" where
  "sends A t t' \<longleftrightarrow> (\<exists>new. t' = new @ t \<and> (\<forall>c \<in> set new. \<forall>sig. to_worker c = Some sig \<longrightarrow> sig \<in> A))"

lemma sends_refl [simp, intro]: "sends A t t"
  by (simp add: sends_def)

lemma sends_trans: "sends A t u \<Longrightarrow> sends A u v \<Longrightarrow> sends A t v"
  by (force simp: sends_def)

lemma sends_mono: "sends A t u \<Longrightarrow> A \<subseteq> B \<Longrightarrow> sends B t u"
  by (fastforce simp: sends_def)

lemma sends_Cons:
  assumes "sends A t u" and "\<And>sig. to_worker c = Some sig \<Longrightarrow> sig \<in> A"
  shows "sends A t (c # u)"
proof -
  from assms(1) obtain new where "u = new @ t"
    and "\<forall>c \<in> set new. \<forall>sig. to_worker c = Some sig \<longrightarrow> sig \<in> A"
    by (auto simp: sends_def)
  then have "c # u = (c # new) @ t"
    and "\<forall>d \<in> set (c # new). \<forall>sig. to_worker d = Some sig \<longrightarrow> sig \<in> A"
    using assms(2) by auto
  then show ?thesis unfolding sends_def by blast
qed

lemma sends_Cons_quiet [simp]: "to_worker c = None \<Longrightarrow> sends A t u \<Longrightarrow> sends A t (c # u)"
  by (rule sends_Cons) auto

lemma sends_in: "sends A t u \<Longrightarrow> To_worker sig \<in> set u \<Longrightarrow> To_worker sig \<in> set t \<or> sig \<in> A"
  by (fastforce simp: sends_def)

subsection \<open>The world, the log and the job\<close>

lemma scall_sends [sends_rules]:
  "scall env c t = (r, t') \<Longrightarrow> to_worker c = None \<Longrightarrow> sends A t0 t \<Longrightarrow> sends A t0 t'"
  "scall_string env c t = (x, t') \<Longrightarrow> to_worker c = None \<Longrightarrow> sends A t0 t \<Longrightarrow> sends A t0 t'"
  "scall_strings env c t = (y, t') \<Longrightarrow> to_worker c = None \<Longrightarrow> sends A t0 t \<Longrightarrow> sends A t0 t'"
  by (auto simp: scall_def scall_string_def scall_strings_def Let_def)

lemma fill_record_holds [holds_rules]:
  assumes "sends A t0 t" and "\<And>r t'. sends A t0 t' \<Longrightarrow> Q (r, t')"
  shows "holds Q (fill_record env p h d x u t)"
  using assms
  by (auto simp: fill_record_def record_set_timestamp_def record_set_id_def scall_def Let_def
      split: option.split)

lemma mdm_session_record_holds [holds_rules]:
  assumes "sends A t0 t" and "\<And>t'. sends A t0 t' \<Longrightarrow> Q t'"
  shows "holds Q (mdm_session_record_login env p u h d x t)"
    and "holds Q (mdm_session_record_logout env p u h d x t)"
    and "holds Q (mdm_session_record_failed env p u h d x t)"
  using assms
  by (auto simp: mdm_session_record_login_def mdm_session_record_logout_def Let_def
      mdm_session_record_failed_def intro!: fill_record_holds split: option.split list.split)

lemma job_start_sends [sends_rules]:
  "mdm_session_worker_job_start env job t = (r, job', t') \<Longrightarrow> sends A t0 t \<Longrightarrow> sends A t0 t'"
  by (auto simp: mdm_session_worker_job_start_def mdm_session_worker_job_spawn_def scall_def Let_def
      split: option.split_asm)

lemma job_stop_holds [holds_rules]:
  assumes "sends A t0 t" and "\<And>j t'. sends A t0 t' \<Longrightarrow> Q (j, t')"
  shows "holds Q (mdm_session_worker_job_stop env job t)"
proof -
  have "holds R x" if "\<And>y. R y" for R and x :: "int option option"
    using that by (simp add: holds_def)
  with assms show ?thesis
    by (auto simp: mdm_session_worker_job_stop_def session_worker_job_died_def scall_def Let_def)
qed

subsection \<open>The session\<close>

lemma send_dbus_message_sends: "m \<in> A \<Longrightarrow> sends A t0 t \<Longrightarrow> sends A t0 (send_dbus_message env m s t)"
  by (auto simp: send_dbus_message_def intro: sends_Cons)

lemma send_dbus_signal_sends [sends_rules]:
  "g (Some b) \<in> A \<Longrightarrow> sends A t0 t \<Longrightarrow> sends A t0 (send_dbus_bool_signal env g b s t)"
  "m \<in> A \<Longrightarrow> sends A t0 t \<Longrightarrow> sends A t0 (send_dbus_void_signal env m s t)"
  by (auto simp: send_dbus_bool_signal_def send_dbus_void_signal_def intro: send_dbus_message_sends)

lemma send_dbus_string_signal_holds [holds_rules]:
  assumes "sends A t0 t" and "range (f \<circ> Some) \<subseteq> A" and "\<And>t'. sends A t0 t' \<Longrightarrow> Q t'"
  shows "holds Q (send_dbus_string_signal env f x s t)"
  using assms
  by (auto simp: send_dbus_string_signal_def split: option.split intro!: send_dbus_message_sends)

lemma send_reply_sends [simp]: "sends A t0 t \<Longrightarrow> sends A t0 (send_reply r s t)"
  by (simp add: send_reply_def)

lemma get_default_layout_name_sends [sends_rules]:
  "get_default_layout_name env s t = (l, s', t') \<Longrightarrow> sends A t0 t \<Longrightarrow> sends A t0 t'"
  by (auto simp: get_default_layout_name_def get_system_default_layout_def Let_def
      split: option.split_asm)

lemma get_default_session_name_sends [sends_rules]:
  "get_default_session_name env s t = (n, s', t') \<Longrightarrow> sends A t0 t \<Longrightarrow> sends A t0 t'"
  by (auto simp: get_default_session_name_def get_fallback_session_name_def scall_string_def Let_def
      split: option.split_asm if_split_asm)

lemma get_name_sends [sends_rules]:
  "get_layout_name env s t = (l, s', t') \<Longrightarrow> sends A t0 t \<Longrightarrow> sends A t0 t'"
  "get_session_name env s t = (n, s', t') \<Longrightarrow> sends A t0 t \<Longrightarrow> sends A t0 t'"
  by (auto simp: get_layout_name_def get_session_name_def split: option.split_asm
      intro: sends_rules)

lemma get_session_sends [sends_rules]:
  "get_is_session_failsafe env s t = (b, s', t') \<Longrightarrow> sends A t0 t \<Longrightarrow> sends A t0 t'"
  "mdm_session_direct_bypasses_xsession env s t = (b, s', t') \<Longrightarrow> sends A t0 t \<Longrightarrow> sends A t0 t'"
  by (auto simp: get_is_session_failsafe_def Let_def mdm_session_direct_bypasses_xsession_def
      split: prod.split_asm option.split_asm intro: sends_rules)

lemma get_session_command_holds [holds_rules]:
  assumes "sends A t0 t" and "\<And>c s' t'. sends A t0 t' \<Longrightarrow> Q (c, s', t')"
  shows "holds Q (get_session_command env s t)"
  using assms
  by (auto simp: get_session_command_def holds_def bind_eq_Some_conv intro: sends_rules
      split: prod.splits option.splits)

lemma select_holds [holds_rules]:
  assumes "sends A t0 t" and "\<And>s' t'. sends A t0 t' \<Longrightarrow> Q (s', t')"
  shows "range SetSessionName \<union> range SetIsFailsafe \<subseteq> A \<Longrightarrow>
      holds Q (mdm_session_direct_select_session env x s t)"
    and "range SetLanguageName \<subseteq> A \<Longrightarrow> holds Q (mdm_session_direct_select_language env x s t)"
    and "range SetLayoutName \<subseteq> A \<Longrightarrow> holds Q (mdm_session_direct_select_layout env x s t)"
  using assms(1)
  by (auto simp: mdm_session_direct_select_session_def mdm_session_direct_select_language_def
      mdm_session_direct_select_layout_def Let_def split: prod.split
      intro!: send_dbus_string_signal_holds [where A = A and ?t0.0 = t0] assms(2))
     (blast intro: sends_rules)+

lemma emit_signal_holds [holds_rules]:
  assumes "sends A t0 t" and "\<And>t'. sends A t0 t' \<Longrightarrow> Q (Some sig, s, t')"
  shows "holds Q (emit_signal env sig s t)"
  using assms
  by (cases sig)
     (auto simp: emit_signal_def record_signal_def Let_def intro!: mdm_session_record_holds)

text \<open>What the handlers of the defaults' changes must keep.\<close>

definition notifies :: "(session_signal \<Rightarrow> strace \<Rightarrow> strace) \<Rightarrow> bool" where
  "notifies notify \<longleftrightarrow> (\<forall>sig t. sends {} t (notify sig t))"

lemma notifies_sends [sends_rules]:
  "notifies notify \<Longrightarrow> sends A t0 t \<Longrightarrow> sends A t0 (notify sig t)"
  unfolding notifies_def by (meson empty_subsetI sends_mono sends_trans)

lemma defaults_changed_sends [sends_rules]:
  "mdm_session_direct_defaults_changed env notify s t = (s', t') \<Longrightarrow> notifies notify \<Longrightarrow>
     sends A t0 t \<Longrightarrow> sends A t0 t'"
  by (auto simp: mdm_session_direct_defaults_changed_def Let_def split: prod.split_asm)
     (blast intro: sends_rules)

lemma setup_sends [sends_rules]:
  "mdm_session_direct_setup env notify n s t = (s', t') \<Longrightarrow> range Setup \<subseteq> A \<Longrightarrow> notifies notify \<Longrightarrow>
     sends A t0 t \<Longrightarrow> sends A t0 t'"
  "mdm_session_direct_setup_for_user env notify n u s t = (s', t') \<Longrightarrow> range SetupForUser \<subseteq> A \<Longrightarrow>
     notifies notify \<Longrightarrow> sends A t0 t \<Longrightarrow> sends A t0 t'"
  by (auto simp: mdm_session_direct_setup_def mdm_session_direct_setup_for_user_def Let_def
      send_setup_def send_setup_for_user_def split: if_split_asm
      elim!: defaults_changed_sends intro: send_dbus_message_sends)

lemma cancel_pending_query_sends [sends_rules]:
  "cancel_pending_query s t = (s', t') \<Longrightarrow> sends A t0 t \<Longrightarrow> sends A t0 t'"
  by (auto simp: cancel_pending_query_def Let_def split: if_split_asm)

lemma answer_query_holds [holds_rules]:
  assumes "sends A t0 t" and "\<And>s' t'. sends A t0 t' \<Longrightarrow> Q (s', t')"
  shows "holds Q (mdm_session_direct_answer_query text s t)"
  using assms
  by (auto simp: mdm_session_direct_answer_query_def answer_pending_query_def Let_def)

lemma start_conversation_sends [sends_rules]:
  "mdm_session_direct_start_conversation env s t = (s', t') \<Longrightarrow> sends A t0 t \<Longrightarrow> sends A t0 t'"
  by (auto simp: mdm_session_direct_start_conversation_def start_worker_def Let_def
      split: prod.split_asm intro: sends_rules)

lemma stop_worker_holds [holds_rules]:
  assumes "sends A t0 t" and "\<And>s' t'. sends A t0 t' \<Longrightarrow> Q (s', t')"
  shows "holds Q (stop_worker env job s t)"
  using assms(1)
  by (auto simp: stop_worker_def Let_def split: prod.split if_split
      intro!: job_stop_holds [where A = A and ?t0.0 = t0] assms(2) dest: cancel_pending_query_sends)

lemma close_holds [holds_rules]:
  assumes "sends A t0 t" and "\<And>s' t'. sends A t0 t' \<Longrightarrow> Q (s', t')"
  shows "holds Q (mdm_session_direct_close env s t)"
  using assms(1)
  by (auto simp: mdm_session_direct_close_def split: option.split
      intro!: stop_worker_holds [where A = A and ?t0.0 = t0]
        mdm_session_record_holds [where A = A and ?t0.0 = t0] assms(2))

lemma dispose_holds [holds_rules]:
  assumes "sends A t0 t" and "\<And>s' t'. sends A t0 t' \<Longrightarrow> Q (s', t')"
  shows "holds Q (mdm_session_direct_dispose env s t)"
  using assms(1)
  by (auto simp: mdm_session_direct_dispose_def intro!: close_holds [where A = A and ?t0.0 = t0] assms(2))

lemma session_new_holds [holds_rules]:
  assumes "sends A t0 t" and "\<And>s' t'. sends A t0 t' \<Longrightarrow> Q (s', t')"
  shows "holds Q (mdm_session_direct_new env i n h d a l t)"
  using assms(1)
  by (auto simp: mdm_session_direct_new_def mdm_session_direct_constructor_def Let_def holds_def
      mdm_session_direct_init_def setup_server_def scall_string_def register_object_def scall_def
      bind_eq_Some_conv intro!: assms(2) split: option.split_asm if_split_asm prod.split_asm)

lemma setup_environment_sends [sends_rules]:
  assumes "setup_session_environment env s t = (s', t')" and "sends A t0 t"
  shows "sends A t0 t'"
proof -
  let ?set = mdm_session_direct_set_environment_variable
  obtain n1 s1 t1 where 1: "get_session_name env s t = (n1, s1, t1)" using prod_cases3 by blast
  let ?s1 = "?set ''MDMSESSION'' n1 s1"
  obtain n2 s2 t2 where 2: "get_session_name env ?s1 t1 = (n2, s2, t2)" using prod_cases3 by blast
  let ?s2 = "?set ''DESKTOP_SESSION'' n2 s2"
  let ?s3 = "?set ''LANG'' (get_language_name env ?s2) ?s2"
  let ?s4 = "?set ''MDM_LANG'' (get_language_name env ?s3) ?s3"
  obtain l3 s3 t3 where 3: "get_layout_name env ?s4 t2 = (l3, s3, t3)" using prod_cases3 by blast
  obtain l4 s4 t4 where 4: "get_default_layout_name env s3 t3 = (l4, s4, t4)" using prod_cases3 by blast
  have "t' = t4"
    using assms(1) by (simp add: setup_session_environment_def Let_def 1 2 3 4)
  have "sends A t0 t2" using assms(2) 1 2 by (blast intro: sends_rules)
  then show ?thesis unfolding \<open>t' = t4\<close> using 3 4 by (blast intro: sends_rules)
qed

lemma send_environment_sends [sends_rules]:
  "range SetEnvironmentVariable \<subseteq> A \<Longrightarrow> sends A t0 t \<Longrightarrow> sends A t0 (send_environment env s t)"
proof -
  assume A: "range SetEnvironmentVariable \<subseteq> A" and t: "sends A t0 t"
  have "sends A t0 (fold (\<lambda>(key, val). send_dbus_message env (SetEnvironmentVariable (Some (key, val))) s) l t)"
    for l using t by (induction l arbitrary: t) (use A in \<open>auto intro!: send_dbus_message_sends\<close>)
  then show ?thesis by (simp add: send_environment_def)
qed

definition start_signals :: "signal set" where
  "start_signals = range SetEnvironmentVariable \<union> range StartProgram"

lemma start_session_holds [holds_rules]:
  assumes "sends A t0 t" and "start_signals \<subseteq> A" and "\<And>s' t'. sends A t0 t' \<Longrightarrow> Q (s', t')"
  shows "holds Q (mdm_session_direct_start_session env s t)"
  using assms(1,2)
  by (auto simp: mdm_session_direct_start_session_def Let_def start_signals_def
      intro!: get_session_command_holds [where A = A and ?t0.0 = t0]
        send_dbus_string_signal_holds [where A = A and ?t0.0 = t0] assms(3)
      split: prod.split)
     (blast intro: sends_rules)+

lemmas report_handler_defs =
  mdm_session_direct_handle_info_query_def mdm_session_direct_handle_secret_info_query_def
  mdm_session_direct_handle_info_def mdm_session_direct_handle_problem_def
  mdm_session_direct_handle_setup_complete_def mdm_session_direct_handle_setup_failed_def
  mdm_session_direct_handle_reset_complete_def mdm_session_direct_handle_reset_failed_def
  mdm_session_direct_handle_authenticated_def mdm_session_direct_handle_authentication_failed_def
  mdm_session_direct_handle_authorized_def mdm_session_direct_handle_authorization_failed_def
  mdm_session_direct_handle_accredited_def mdm_session_direct_handle_accreditation_failed_def
  mdm_session_direct_handle_open_failed_def mdm_session_direct_handle_start_failed_def

lemma handle_holds:
  assumes "sends A t0 t" and "\<And>r s' t'. sends A t0 t' \<Longrightarrow> Q (r, s', t')"
  shows "holds Q (handle_void env sig s t)" and "holds Q (handle_string env f args s t)"
    and "holds Q (handle_query env f member args s t)"
    and "holds Q (mdm_session_direct_handle_cancel_pending_query s t)"
    and "holds Q (mdm_session_direct_handle_session_opened env s t)"
    and "holds Q (mdm_session_direct_handle_session_started env args s t)"
    and "holds Q (mdm_session_direct_handle_session_exited env args s t)"
    and "holds Q (mdm_session_direct_handle_session_died env args s t)"
proof -
  have emit: "holds R (emit_signal env sig s t)"
    if "sends A t0 t" "\<And>t'. sends A t0 t' \<Longrightarrow> R (Some sig, s, t')" for R sig s t
    using that by (rule emit_signal_holds)
  show void: "holds Q (handle_void env sig s t)" for sig
    unfolding handle_void_def by (rule emit) (simp_all add: assms)
  show "holds Q (handle_string env f args s t)"
    by (cases args) (simp_all add: handle_string_def string_arg_def void)
  show "holds Q (handle_query env f member args s t)"
    by (cases args) (auto simp: handle_query_def string_arg_def set_pending_query_def intro!: emit assms)
  show "holds Q (mdm_session_direct_handle_cancel_pending_query s t)"
    using assms(1) by (auto simp: mdm_session_direct_handle_cancel_pending_query_def
        intro!: assms(2) dest: cancel_pending_query_sends split: prod.split)
  show "holds Q (mdm_session_direct_handle_session_opened env s t)"
    using assms by (simp add: mdm_session_direct_handle_session_opened_def emit_signal_def
        record_signal_def)
  show "holds Q (mdm_session_direct_handle_session_started env args s t)"
    "holds Q (mdm_session_direct_handle_session_exited env args s t)"
    "holds Q (mdm_session_direct_handle_session_died env args s t)"
    unfolding mdm_session_direct_handle_session_started_def Let_def
      mdm_session_direct_handle_session_exited_def mdm_session_direct_handle_session_died_def
    by (rule emit; simp add: assms)+
qed

lemma handle_defaults_holds:
  assumes "sends A t0 t" and "notifies notify" and "\<And>r s' t'. sends A t0 t' \<Longrightarrow> Q (r, s', t')"
  shows "holds Q (mdm_session_direct_handle_username_changed env notify args s t)"
    and "holds Q (mdm_session_direct_handle_saved_language_name_read env notify args s t)"
    and "holds Q (mdm_session_direct_handle_saved_layout_name_read env notify args s t)"
    and "holds Q (mdm_session_direct_handle_saved_session_name_read env notify args s t)"
proof -
  note n = notifies_sends [OF assms(2)]
  have r: "sends A t0 (Worker_reply (Reply []) # t)" using assms(1) by simp
  have Q: "sends A t0 (snd p) \<Longrightarrow> Q (r, p)" for r p by (cases p) (simp add: assms(3))
  have d: "sends A t0 t \<Longrightarrow> sends A t0 (snd (mdm_session_direct_defaults_changed env notify s t))" for s t
    using defaults_changed_sends [OF _ assms(2)] by (metis prod.collapse)
  show "holds Q (mdm_session_direct_handle_username_changed env notify args s t)"
    using r by (cases args)
      (auto simp: mdm_session_direct_handle_username_changed_def string_arg_def Let_def
        intro!: Q d n)
  show "holds Q (mdm_session_direct_handle_saved_language_name_read env notify args s t)"
    using r by (cases args)
      (auto simp: mdm_session_direct_handle_saved_language_name_read_def string_arg_def holds_def
        Let_def bind_eq_Some_conv intro!: assms(3) n split: if_split_asm)
  show "holds Q (mdm_session_direct_handle_saved_layout_name_read env notify args s t)"
    using r by (cases args)
      (auto simp: mdm_session_direct_handle_saved_layout_name_read_def string_arg_def Let_def
        intro!: assms(3) n elim!: get_default_layout_name_sends split: prod.split)
  show "holds Q (mdm_session_direct_handle_saved_session_name_read env notify args s t)"
    using r by (cases args)
      (auto simp: mdm_session_direct_handle_saved_session_name_read_def string_arg_def Let_def
        intro!: assms(3) n elim!: get_default_session_name_sends split: prod.split option.split)
qed

lemma worker_message_holds [holds_rules]:
  assumes "sends A t0 t" and "notifies notify" and "\<And>r s' t'. sends A t0 t' \<Longrightarrow> Q (r, s', t')"
  shows "holds Q (session_worker_message env notify member args s t)"
  unfolding session_worker_message_def report_handler_defs holds_if
  using handle_holds [where Q = Q and A = A and ?t0.0 = t0, OF assms(1) assms(3)]
    handle_defaults_holds [where Q = Q and A = A and ?t0.0 = t0, OF assms(1,2) assms(3)] assms(1,3)
  by simp

lemma worker_ended_holds [holds_rules]:
  assumes "sends A t0 t" and "\<And>r s' t'. sends A t0 t' \<Longrightarrow> Q (r, s', t')"
  shows "holds Q (worker_ended env status s t)"
  using assms
  by (auto simp: worker_ended_def worker_exited_def worker_died_def Let_def
      session_worker_job_child_watch_def intro!: emit_signal_holds
      split: option.split job_signal.split wait_status.split)

subsection \<open>The slave\<close>

text \<open>
  \<open>moves A ss ss'\<close>: the trace grows as \<open>sends\<close> says, and the two flags that lead to later signals, the
  queued start of the session and the wait for the greeter, are what they were.
\<close>

definition moves :: "signal set \<Rightarrow> simple_slave \<Rightarrow> simple_slave \<Rightarrow> bool" where
  "moves A ss ss' \<longleftrightarrow> sends A (ss_trace ss) (ss_trace ss') \<and>
     ss_start_session ss' = ss_start_session ss \<and>
     ss_waiting_to_start_session ss' = ss_waiting_to_start_session ss"

lemma moves_refl [simp]: "moves A ss ss"
  by (simp add: moves_def)

lemma moves_update [simp]:
  "moves A ss (s'\<lparr>ss_session := x\<rparr>) = moves A ss s'"
  "moves A ss (s'\<lparr>ss_greeter_server := g\<rparr>) = moves A ss s'"
  "moves A ss (s'\<lparr>ss_greeter := b\<rparr>) = moves A ss s'"
  "moves A ss (s'\<lparr>ss_greeter_reset := r\<rparr>) = moves A ss s'"
  "moves A ss (s'\<lparr>ss_base := base\<rparr>) = moves A ss s'"
  "moves A ss (s'\<lparr>ss_quit := q\<rparr>) = moves A ss s'"
  "moves A ss (s'\<lparr>ss_server := sv\<rparr>) = moves A ss s'"
  "moves A ss (s'\<lparr>ss_ping_interval := i\<rparr>) = moves A ss s'"
  "moves A ss (s'\<lparr>ss_connection_attempts := n\<rparr>) = moves A ss s'"
  "moves A ss (s'\<lparr>ss_connect_sources := n\<rparr>) = moves A ss s'"
  "moves A ss (s'\<lparr>ss_username := u\<rparr>) = moves A ss s'"
  "moves A ss (s'\<lparr>ss_plymouth_is_running := p\<rparr>) = moves A ss s'"
  "moves A ss (s'\<lparr>ss_start_session_when_ready := w\<rparr>) = moves A ss s'"
  by (simp_all add: moves_def)

lemma moves_trace [intro!]:
  "moves A ss s' \<Longrightarrow> sends A (ss_trace s') t \<Longrightarrow> moves A ss (s'\<lparr>ss_trace := t\<rparr>)"
  by (auto simp: moves_def intro: sends_trans)

lemma moves_act [simp, intro!]: "moves A ss s' \<Longrightarrow> to_worker c = None \<Longrightarrow> moves A ss (act c s')"
  by (auto simp: act_def)

lemma moves_to_greeter [simp, intro!]:
  "moves A ss s' \<Longrightarrow> (\<And>gs t. sends A t (f gs t)) \<Longrightarrow> moves A ss (to_greeter f s')"
  by (auto simp: to_greeter_def)

lemma send_to_greeter_sends [simp]: "sends A t (send_to_greeter env n a gs t)"
  by (simp add: send_to_greeter_def split: option.split)

lemmas greeter_send_defs =
  greeter_string_signal_def greeter_string_and_int_signal_def greeter_void_signal_def
  mdm_greeter_server_info_query_def mdm_greeter_server_secret_info_query_def
  mdm_greeter_server_info_def mdm_greeter_server_problem_def
  mdm_greeter_server_authentication_failed_def mdm_greeter_server_reset_def
  mdm_greeter_server_ready_def mdm_greeter_server_selected_user_changed_def
  mdm_greeter_server_default_language_name_changed_def
  mdm_greeter_server_default_layout_name_changed_def
  mdm_greeter_server_default_session_name_changed_def mdm_greeter_server_select_user_def
  mdm_greeter_server_request_timed_login_def mdm_greeter_server_user_authorized_def

lemma greeter_sends [simp]:
  "sends A t (mdm_greeter_server_info_query env x gs t)"
  "sends A t (mdm_greeter_server_secret_info_query env x gs t)"
  "sends A t (mdm_greeter_server_info env x gs t)"
  "sends A t (mdm_greeter_server_problem env x gs t)"
  "sends A t (mdm_greeter_server_authentication_failed env gs t)"
  "sends A t (mdm_greeter_server_reset env gs t)"
  "sends A t (mdm_greeter_server_ready env gs t)"
  "sends A t (mdm_greeter_server_select_user env x gs t)"
  "sends A t (mdm_greeter_server_request_timed_login env y d gs t)"
  "sends A t (mdm_greeter_server_user_authorized env gs t)"
  "sends A t (notify_greeter env gs sig t)"
  by (simp_all add: greeter_send_defs notify_greeter_def split: session_signal.split)

lemma notifies_greeter [simp]: "notifies (notify_greeter env gs)"
  by (simp add: notifies_def)

subsection \<open>Scripts, displays and ConsoleKit\<close>

lemma run_script_holds [holds_rules]:
  assumes "moves A s0 ss" and "\<And>ss'. moves A s0 ss' \<Longrightarrow> Q ss'"
  shows "holds Q (run_script env dir user ss)"
  using assms(1)
  by (auto simp: run_script_def mdm_slave_run_script_def holds_def bind_eq_Some_conv Let_def
      intro!: assms(2) split: option.split_asm)

lemma first_on_seat_sends:
  "first_on_seat env sl ids t = (x, t') \<Longrightarrow> sends A t0 t \<Longrightarrow> sends A t0 t'"
proof (induction ids arbitrary: t)
  case (Cons i ids)
  obtain b u where "x11_session_is_on_seat env sl i (sl_display_seat_id sl) t = (b, u)"
    by fastforce
  moreover from this have "sends A t0 u"
    using Cons.prems(2)
    by (auto simp: x11_session_is_on_seat_def scall_string_def Let_def split: if_split_asm)
  ultimately show ?case using Cons by (auto split: if_split_asm)
qed simp

lemma get_primary_holds [holds_rules]:
  assumes "sends A t0 t" and "\<And>x t'. sends A t0 t' \<Longrightarrow> Q (x, t')"
  shows "holds Q (mdm_slave_get_primary_session_id_for_user env sl user t)"
proof -
  have Q: "sends A t0 (snd p) \<Longrightarrow> Q p" for p by (cases p) (simp add: assms(2))
  have "sends A t0 (snd (first_on_seat env sl ids t))" if "sends A t0 t" for ids t
    using first_on_seat_sends [OF _ that] by (metis prod.collapse)
  then show ?thesis
    using assms(1)
    by (auto simp: mdm_slave_get_primary_session_id_for_user_def scall_def scall_strings_def Let_def
        intro!: Q holds_any split: option.split)
qed

lemma try_migrate_holds [holds_rules]:
  assumes "moves A s0 ss" and "\<And>m ss'. moves A s0 ss' \<Longrightarrow> ss_session ss' = ss_session ss \<Longrightarrow> Q (m, ss')"
  shows "holds Q (try_migrate_session env ss)"
proof -
  have s: "sends A (ss_trace ss) (ss_trace ss)" by simp
  show ?thesis
    unfolding try_migrate_session_def mdm_slave_switch_to_user_session_def holds_simps
    by (rule get_primary_holds [OF s])
       (auto simp: activate_session_id_def session_unlock_def scall_def Let_def assms(1)
         intro!: assms(2) split: option.split)
qed

lemma add_user_authorization_sends [sends_rules]:
  "mdm_slave_add_user_authorization env sl user t = (f, t') \<Longrightarrow> sends A t0 t \<Longrightarrow> sends A t0 t'"
  by (auto simp: mdm_slave_add_user_authorization_def display_call_def scall_string_def Let_def
      split: if_split_asm)

lemma timed_login_holds [holds_rules]:
  assumes "sends A t0 t" and "\<And>d t'. sends A t0 t' \<Longrightarrow> Q (d, t')"
  shows "holds Q (mdm_slave_get_timed_login_details env sl e d t)"
proof -
  have parse: "holds R (mdm_slave_parse_enriched_login env sl user t)"
    if "sends A t0 t" and "\<And>u t'. sends A t0 t' \<Longrightarrow> R (u, t')" for R user t
    using that by (auto simp: mdm_slave_parse_enriched_login_def scall_string_def Let_def
        intro!: holds_any split: option.split)
  show ?thesis
    using assms(1)
    by (auto simp: mdm_slave_get_timed_login_details_def Let_def intro!: parse holds_any [where x = "get_pwent _ _ _"] assms(2)
        split: option.split prod.split)
qed

end
