(* ===== verification/Slave_Causes.thy ===== *)
theory Slave_Causes
  imports Slave_Frames
begin

text \<open>
  Why the slave sends what it sends to the worker: every handler of the slave is shown to send no more
  than its own signals, and to queue the start of the session, or the wait for the greeter, only on
  the worker's word. Over a run this gives every signal the event that caused it.
\<close>

subsection \<open>Operations on the session\<close>

lemma on_session_holds:
  assumes "moves A s0 ss" and "\<And>ss'. moves A s0 ss' \<Longrightarrow> Q ss'"
    and "\<And>s R. (\<And>s' t'. sends A (ss_trace ss) t' \<Longrightarrow> R (s', t')) \<Longrightarrow> holds R (f s (ss_trace ss))"
  shows "holds Q (on_session f ss)"
  using assms(1)
  by (auto simp: on_session_def intro!: assms(2,3) split: option.split)

lemma on_session_returns:
  assumes "moves A s0 ss" and "\<And>ss'. moves A s0 ss' \<Longrightarrow> Q ss'"
    and "\<And>s s' t'. f s (ss_trace ss) = (s', t') \<Longrightarrow> sends A (ss_trace ss) t'"
  shows "holds Q (on_session (returns f) ss)"
  using assms(1)
  by (auto simp: on_session_def returns_def intro!: assms(2) assms(3) split: option.split prod.split)

lemma on_session_writes:
  assumes "moves A s0 ss" and "\<And>ss'. moves A s0 ss' \<Longrightarrow> Q ss'"
    and "\<And>s. sends A (ss_trace ss) (f s (ss_trace ss))"
  shows "holds Q (on_session (writes f) ss)"
  using assms(1)
  by (auto simp: on_session_def writes_def intro!: assms(2) assms(3) split: option.split)

lemma setup_holds [holds_rules]:
  assumes "moves A s0 ss" and "\<And>ss'. moves A s0 ss' \<Longrightarrow> Q ss'"
  shows "range Setup \<subseteq> A \<Longrightarrow> holds Q (mdm_session_setup env n ss)"
    and "range SetupForUser \<subseteq> A \<Longrightarrow> holds Q (mdm_session_setup_for_user env n u ss)"
  unfolding mdm_session_setup_def mdm_session_setup_for_user_def
  by - (rule on_session_returns [OF assms], assumption, erule setup_sends, assumption, simp, simp)+

lemma destroy_session_holds [holds_rules]:
  assumes "moves A s0 ss" and "\<And>ss'. moves A s0 ss' \<Longrightarrow> ss_session ss' = None \<Longrightarrow> Q ss'"
  shows "holds Q (destroy_session env ss)"
  using assms(1)
  by (auto simp: destroy_session_def intro!: close_holds [where A = A and ?t0.0 = "ss_trace ss"]
      dispose_holds [where A = A and ?t0.0 = "ss_trace ss"] assms(2) split: option.split)

lemma create_new_session_holds [holds_rules]:
  assumes "moves A s0 ss" and "\<And>ss'. moves A s0 ss' \<Longrightarrow> Q ss'"
  shows "holds Q (create_new_session env ss)"
  using assms(1)
  by (auto simp: create_new_session_def Let_def
      intro!: session_new_holds [where A = A and ?t0.0 = "ss_trace ss"] assms(2))

lemma start_conversation_holds [holds_rules]:
  assumes "moves A s0 ss" and "\<And>ss'. moves A s0 ss' \<Longrightarrow> Q ss'"
  shows "holds Q (mdm_session_start_conversation env ss)"
  unfolding mdm_session_start_conversation_def
  by (rule on_session_returns [OF assms], assumption, erule start_conversation_sends, simp)

lemma reset_session_holds [holds_rules]:
  assumes "moves A s0 ss" and "\<And>ss'. moves A s0 ss' \<Longrightarrow> Q ss'"
  shows "holds Q (reset_session env ss)"
  unfolding reset_session_def holds_simps
  by (intro destroy_session_holds [OF assms(1)] create_new_session_holds start_conversation_holds assms(2))

lemma greeter_server_start_sends [sends_rules]:
  "mdm_greeter_server_start env g t = (b, g', t') \<Longrightarrow> sends A t0 t \<Longrightarrow> sends A t0 t'"
  by (auto simp: mdm_greeter_server_start_def scall_string_def Let_def split: option.split_asm)

lemma start_greeter_holds [holds_rules]:
  assumes "moves A s0 ss" and "\<And>ss'. moves A s0 ss' \<Longrightarrow> Q ss'"
  shows "holds Q (start_greeter env ss)"
proof -
  have "sends A t (snd (snd (mdm_greeter_server_start env g t)))" for g t
    using greeter_server_start_sends [OF _ sends_refl] by (metis prod.collapse)
  then show ?thesis
    using assms(1)
    by (auto simp: start_greeter_def Let_def case_prod_beta
        intro!: run_script_holds [where A = A and ?s0.0 = s0] assms(2))
qed

lemma stop_greeter_holds [holds_rules]:
  assumes "moves A s0 ss" and "\<And>ss'. moves A s0 ss' \<Longrightarrow> Q ss'"
  shows "holds Q (stop_greeter env ss)"
  using assms(1)
  by (auto simp: stop_greeter_def intro!: run_script_holds [where A = A and ?s0.0 = s0] assms(2))

lemmas greeter_holds = start_greeter_holds stop_greeter_holds

lemma reset_timeout_holds [holds_rules]:
  assumes "moves A s0 ss" and "\<And>ss'. moves A s0 ss' \<Longrightarrow> Q ss'"
  shows "holds Q (greeter_reset_timeout env ss)" and "holds Q (auth_failed_reset_timeout env ss)"
  using assms(1)
  by (auto simp: greeter_reset_timeout_def auth_failed_reset_timeout_def
      intro!: reset_session_holds [where A = A and ?s0.0 = s0] assms(2)
        greeter_holds [where A = A and ?s0.0 = s0] create_new_session_holds [where A = A and ?s0.0 = s0])

lemma moves_queue [simp]:
  "moves A s0 (queue_greeter_reset ss) = moves A s0 ss"
  "moves A s0 (queue_auth_failed_reset ss) = moves A s0 ss"
  by (simp_all add: queue_greeter_reset_def queue_auth_failed_reset_def)

lemma moves_report_problem [simp]: "moves A s0 ss \<Longrightarrow> moves A s0 (report_problem env m ss)"
  by (simp add: report_problem_def)

subsection \<open>Handlers\<close>

text \<open>\<open>progress A st w\<close>: the start of the session is queued only if \<open>st\<close>, the wait begins only if \<open>w\<close>.\<close>

definition progress ::
  "signal set \<Rightarrow> bool \<Rightarrow> bool \<Rightarrow> simple_slave \<Rightarrow> simple_slave \<Rightarrow> bool" where
  "progress A st w ss ss' \<longleftrightarrow> sends A (ss_trace ss) (ss_trace ss') \<and>
     (ss_start_session ss' \<longrightarrow> ss_start_session ss \<or> st) \<and>
     (ss_waiting_to_start_session ss' \<longrightarrow> ss_waiting_to_start_session ss \<or> w)"

lemma moves_progress [intro]: "moves A ss ss' \<Longrightarrow> progress A st w ss ss'"
  by (auto simp: moves_def progress_def)

lemma progress_mono: "progress A st w ss ss' \<Longrightarrow> A \<subseteq> B \<Longrightarrow> (st \<Longrightarrow> st') \<Longrightarrow> (w \<Longrightarrow> w') \<Longrightarrow> progress B st' w' ss ss'"
  by (auto simp: progress_def intro: sends_mono)

text \<open>The signals to the worker that follow a signal of the session.\<close>

fun follow_up :: "session_signal \<Rightarrow> signal set" where
  "follow_up Sig_conversation_started = range SetupForUser"
| "follow_up Sig_setup_complete = {Authenticate}"
| "follow_up Sig_authenticated = {Authorize}"
| "follow_up Sig_authorized = {EstablishCredentials}"
| "follow_up Sig_accredited = {OpenSession}"
| "follow_up _ = {}"

lemma writes_holds:
  assumes "moves A s0 ss" and "\<And>ss'. moves A s0 ss' \<Longrightarrow> Q ss'"
  shows "Authenticate \<in> A \<Longrightarrow> holds Q (on_session (writes (mdm_session_direct_authenticate env)) ss)"
    and "Authorize \<in> A \<Longrightarrow> holds Q (on_session (writes (mdm_session_direct_authorize env)) ss)"
    and "EstablishCredentials \<in> A \<Longrightarrow>
      holds Q (on_session (writes (mdm_session_direct_accredit env MDM_SESSION_CRED_ESTABLISH)) ss)"
    and "OpenSession \<in> A \<Longrightarrow> holds Q (on_session (writes (mdm_session_direct_open_session env)) ss)"
  unfolding mdm_session_direct_authenticate_def mdm_session_direct_authorize_def
    mdm_session_direct_accredit_def mdm_session_direct_open_session_def
  by - (rule on_session_writes [OF assms], assumption, simp add: send_dbus_signal_sends)+

lemma accredit_when_ready_holds:
  assumes "ss_trace ss = ss_trace s0 \<or> sends {EstablishCredentials} (ss_trace s0) (ss_trace ss)"
    and "ss_start_session ss = ss_start_session s0"
    and "ss_waiting_to_start_session ss = ss_waiting_to_start_session s0"
  shows "holds (progress {EstablishCredentials} False True s0)
           (mdm_simple_slave_accredit_when_ready env ss)"
proof -
  let ?A = "{EstablishCredentials}"
  have t: "sends ?A (ss_trace s0) (ss_trace ss)" using assms(1) by auto
  have m: "moves ?A (s0\<lparr>ss_waiting_to_start_session := False\<rparr>)
      (ss\<lparr>ss_waiting_to_start_session := False, ss_trace := t'\<rparr>)" if "sends ?A (ss_trace s0) t'" for t'
    using that assms by (simp add: moves_def)
  have p: "progress ?A False True s0 ss'" if "moves ?A (s0\<lparr>ss_waiting_to_start_session := False\<rparr>) ss'" for ss'
    using that by (auto simp: moves_def progress_def)
  show ?thesis
    unfolding mdm_simple_slave_accredit_when_ready_def Let_def
    using t assms
    by (auto simp: progress_def [where ss' = "ss\<lparr>ss_waiting_to_start_session := True\<rparr>"]
        intro!: get_primary_holds [where A = ?A and ?t0.0 = "ss_trace s0"] writes_holds(3) [OF m p])
qed

lemma conversation_started_holds:
  "holds (moves (range SetupForUser) ss) (on_session_conversation_started env ss)"
proof -
  let ?A = "range SetupForUser" and ?s = "to_greeter (mdm_greeter_server_ready env) ss"
  have s: "moves ?A ss ?s" by simp
  show ?thesis
    unfolding on_session_conversation_started_def Let_def mdm_simple_slave_set_username_def
    by (auto simp: case_prod_beta split: option.split
        intro!: timed_login_holds [where A = ?A and ?t0.0 = "ss_trace ?s"] moves_trace [OF s]
          setup_holds(2) [where A = ?A and ?s0.0 = ss])
qed

lemma failure_holds:
  "holds (moves A ss) (on_session_setup_failed env m ss)"
  "holds (moves A ss) (on_session_authentication_failed env m ss)"
  "holds (moves A ss) (on_session_authorization_failed env m ss)"
  "holds (moves A ss) (on_session_open_failed env ss)"
  unfolding on_session_setup_failed_def on_session_authentication_failed_def
    on_session_authorization_failed_def on_session_open_failed_def holds_simps
  by (rule destroy_session_holds [where A = A and ?s0.0 = ss], simp, simp)+

lemma accreditation_failed_holds:
  "holds (moves A ss) (on_session_accreditation_failed env m ss)"
  unfolding on_session_accreditation_failed_def holds_simps
  by (rule try_migrate_holds [where A = A and ?s0.0 = ss])
     (auto intro!: destroy_session_holds [where A = A and ?s0.0 = ss])

lemma on_session_signal_holds:
  "holds (progress (follow_up sig) (sig = Sig_session_opened) (sig = Sig_authorized) ss)
     (on_session_signal env sig ss)"
proof -
  have m: "holds (progress A st w ss) x" if "holds (moves A ss) x" for A st w x
    using that by (rule holds_mono) (rule moves_progress)
  note w = writes_holds [OF moves_refl, where Q = "moves A s" and ?s0.0 = s for A s]
  show ?thesis
  proof (cases sig)
    case Sig_authorized
    then show ?thesis
      by (auto simp: on_session_signal_def on_session_authorized_def to_greeter_def
          intro!: accredit_when_ready_holds)
  next
    case Sig_session_opened
    then show ?thesis
      by (simp add: on_session_signal_def on_session_opened_def queue_start_session_def progress_def)
  next
    case Sig_conversation_started
    then show ?thesis using m [OF conversation_started_holds] by (simp add: on_session_signal_def)
  next
    case Sig_setup_complete
    then show ?thesis
      by (simp add: on_session_signal_def on_session_setup_complete_def m writes_holds(1) [OF moves_refl])
  next
    case Sig_authenticated
    then show ?thesis
      by (simp add: on_session_signal_def on_session_authenticated_def m writes_holds(2) [OF moves_refl])
  next
    case Sig_accredited
    then show ?thesis
      by (simp add: on_session_signal_def on_session_accredited_def m writes_holds(4) [OF moves_refl])
  qed (auto simp: on_session_signal_def on_session_started_def on_session_exited_def
      on_session_died_def stopped_def mdm_slave_stopped_def
      progress_def [where ss' = "ss\<lparr>ss_trace := t, ss_quit := True\<rparr>" for t]
      intro!: m failure_holds accreditation_failed_holds run_script_holds [OF moves_refl])
qed

end
