(* ===== verification/Slave_Runs.thy ===== *)
theory Slave_Runs
  imports Slave_Causes
begin

text \<open>
  Every event of the slave with the signals to the worker that it may cause, and the proof that a step
  causes no others: the signals of a run all have their event in the run.
\<close>

subsection \<open>What a message of the worker makes the session emit\<close>

definition said_by :: "session_signal \<Rightarrow> string" where
  "said_by sig =
     (case sig of
        Sig_setup_complete \<Rightarrow> ''SetupComplete'' | Sig_authenticated \<Rightarrow> ''Authenticated''
      | Sig_authorized \<Rightarrow> ''Authorized'' | Sig_accredited \<Rightarrow> ''Accredited''
      | Sig_session_opened \<Rightarrow> ''SessionOpened'' | _ \<Rightarrow> [])"

definition said :: "string \<Rightarrow> session_signal option \<Rightarrow> bool" where
  "said member r \<longleftrightarrow>
     (\<forall>sig. r = Some sig \<longrightarrow> sig \<noteq> Sig_conversation_started \<and> (said_by sig = [] \<or> said_by sig = member))"

lemma said_None [simp]: "said member None"
  by (simp add: said_def)

lemma said_Some [simp]:
  "said member (Some sig) \<longleftrightarrow> sig \<noteq> Sig_conversation_started \<and> (said_by sig = [] \<or> said_by sig = member)"
  by (simp add: said_def)

lemma emit_signal_says: "said member (Some sig) \<Longrightarrow> holds (\<lambda>(r, _). said member r) (emit_signal env sig s t)"
  by (auto simp: emit_signal_def intro: holds_any)

lemma handle_says:
  assumes "\<And>text. said member (Some (f text))"
  shows "holds (\<lambda>(r, _). said member r) (handle_query env f m args s t)"
    and "holds (\<lambda>(r, _). said member r) (handle_string env f args s t)"
  using assms emit_signal_says
  by (auto simp: handle_query_def handle_string_def handle_void_def intro!: holds_any)

lemma handle_void_says:
  "said member (Some sig) \<Longrightarrow> holds (\<lambda>(r, _). said member r) (handle_void env sig s t)"
  by (simp add: handle_void_def emit_signal_says)

lemma handle_opened_says:
  "holds (\<lambda>(r, _). said ''SessionOpened'' r) (mdm_session_direct_handle_session_opened env s t)"
  by (simp add: mdm_session_direct_handle_session_opened_def emit_signal_def record_signal_def said_by_def)

lemma handle_quiet_says:
  "holds (\<lambda>(r, _). said member r) (mdm_session_direct_handle_username_changed env notify args s t)"
  "holds (\<lambda>(r, _). said member r) (mdm_session_direct_handle_saved_language_name_read env notify args s t)"
  "holds (\<lambda>(r, _). said member r) (mdm_session_direct_handle_saved_layout_name_read env notify args s t)"
  "holds (\<lambda>(r, _). said member r) (mdm_session_direct_handle_saved_session_name_read env notify args s t)"
  "holds (\<lambda>(r, _). said member r) (mdm_session_direct_handle_cancel_pending_query s t)"
  "holds (\<lambda>(r, _). said member r) (mdm_session_direct_handle_session_started env args s t)"
  "holds (\<lambda>(r, _). said member r) (mdm_session_direct_handle_session_exited env args s t)"
  "holds (\<lambda>(r, _). said member r) (mdm_session_direct_handle_session_died env args s t)"
  by (auto simp: mdm_session_direct_handle_username_changed_def
      mdm_session_direct_handle_saved_language_name_read_def
      mdm_session_direct_handle_saved_layout_name_read_def
      mdm_session_direct_handle_saved_session_name_read_def
      mdm_session_direct_handle_cancel_pending_query_def
      mdm_session_direct_handle_session_started_def mdm_session_direct_handle_session_exited_def
      mdm_session_direct_handle_session_died_def Let_def case_prod_beta said_by_def
      intro!: holds_any emit_signal_says split: option.split)

lemma worker_message_says:
  "holds (\<lambda>(r, _). said member r) (session_worker_message env notify member args s t)"
  unfolding session_worker_message_def report_handler_defs
  by (auto simp: handle_opened_says said_by_def handle_says handle_void_says handle_quiet_says)

lemma worker_ended_says: "holds (\<lambda>(r, _). said member r) (worker_ended env status s t)"
  by (auto simp: worker_ended_def worker_exited_def worker_died_def Let_def said_by_def
      intro!: emit_signal_says split: option.split job_signal.split prod.split)

subsection \<open>Events and the signals they cause\<close>

definition worker_message_causes :: "string \<Rightarrow> signal set" where
  "worker_message_causes member =
     (if member = ''SetupComplete'' then {Authenticate}
      else if member = ''Authenticated'' then {Authorize}
      else if member = ''Authorized'' then {EstablishCredentials}
      else if member = ''Accredited'' then {OpenSession}
      else if member = ''SessionOpened'' then start_signals
      else {})"

definition greeter_message_causes :: "string \<Rightarrow> signal set" where
  "greeter_message_causes member =
     (if member = ''BeginVerification'' then range Setup
      else if member = ''BeginVerificationForUser'' \<or> member = ''BeginAutoLogin'' then range SetupForUser
      else if member = ''SelectSession'' then range SetSessionName \<union> range SetIsFailsafe
      else if member = ''SelectLanguage'' then range SetLanguageName
      else if member = ''SelectLayout'' then range SetLayoutName
      else {})"

text \<open>A message of the worker counts only from a peer that runs as the superuser.\<close>

definition causes :: "slave_event \<Rightarrow> signal set" where
  "causes e =
     (case e of
        Worker_connects \<Rightarrow> range SetupForUser
      | Worker_calls user_id member args \<Rightarrow> if user_id = 0 then worker_message_causes member else {}
      | Greeter_calls user_id member args \<Rightarrow> greeter_message_causes member
      | _ \<Rightarrow> {})"

text \<open>The queued start and the wait are the worker's words that have not been acted upon yet.\<close>

definition allowed :: "signal set \<Rightarrow> simple_slave \<Rightarrow> bool" where
  "allowed C ss \<longleftrightarrow> (\<forall>sig. To_worker sig \<in> set (ss_trace ss) \<longrightarrow> sig \<in> C) \<and>
     (ss_start_session ss \<longrightarrow> start_signals \<subseteq> C) \<and>
     (ss_waiting_to_start_session ss \<longrightarrow> EstablishCredentials \<in> C)"

lemma allowed_progress:
  assumes "progress A st w ss ss'" and "allowed C ss"
    and "A \<subseteq> C" and "st \<Longrightarrow> start_signals \<subseteq> C" and "w \<Longrightarrow> EstablishCredentials \<in> C"
  shows "allowed C ss'"
  using assms sends_in unfolding allowed_def progress_def by blast

lemma allowed_moves: "moves A ss ss' \<Longrightarrow> allowed C ss \<Longrightarrow> A \<subseteq> C \<Longrightarrow> allowed C ss'"
  using allowed_progress [OF moves_progress [where st = False and w = False]] by blast

lemma holds_allowed_moves:
  "holds (moves A ss) x \<Longrightarrow> allowed C ss \<Longrightarrow> A \<subseteq> C \<Longrightarrow> holds (allowed C) x"
  by (erule holds_mono) (rule allowed_moves)

lemma allowed_update [simp]:
  "allowed C (ss\<lparr>ss_session := x\<rparr>) = allowed C ss"
  "allowed C (ss\<lparr>ss_greeter_server := g\<rparr>) = allowed C ss"
  "allowed C (ss\<lparr>ss_base := base\<rparr>) = allowed C ss"
  "allowed C (ss\<lparr>ss_server := sv\<rparr>) = allowed C ss"
  "allowed C (ss\<lparr>ss_quit := q\<rparr>) = allowed C ss"
  "allowed C (ss\<lparr>ss_greeter_reset := r\<rparr>) = allowed C ss"
  "allowed C (ss\<lparr>ss_connection_attempts := n\<rparr>) = allowed C ss"
  "allowed C (ss\<lparr>ss_connect_sources := n\<rparr>) = allowed C ss"
  "allowed C (ss\<lparr>ss_plymouth_is_running := p\<rparr>) = allowed C ss"
  "allowed C (ss\<lparr>ss_start_session_when_ready := b\<rparr>) = allowed C ss"
  by (simp_all add: allowed_def)

lemma allowed_trace: "allowed C ss \<Longrightarrow> sends A (ss_trace ss) t \<Longrightarrow> A \<subseteq> C \<Longrightarrow> allowed C (ss\<lparr>ss_trace := t\<rparr>)"
  using sends_in unfolding allowed_def by fastforce

lemma allowed_act [simp]: "to_worker c = None \<Longrightarrow> allowed C ss \<Longrightarrow> allowed C (act c ss)"
  unfolding act_def by (rule allowed_trace [where A = "{}"]) auto

subsection \<open>Events of the worker\<close>

lemma follow_up_said: "said member (Some sig) \<Longrightarrow> follow_up sig \<subseteq> worker_message_causes member"
  by (cases sig) (auto simp: said_by_def worker_message_causes_def)

lemma opened_said: "said member (Some Sig_session_opened) \<Longrightarrow> worker_message_causes member = start_signals"
  by (auto simp: said_by_def worker_message_causes_def)

lemma session_event_allowed:
  assumes "allowed C ss"
    and "\<And>s. holds (\<lambda>(r, s', t'). sends {} (ss_trace ss) t' \<and>
            (\<forall>sig. r = Some sig \<longrightarrow> follow_up sig \<subseteq> C \<and> (sig = Sig_session_opened \<longrightarrow> start_signals \<subseteq> C)))
          (f s (ss_trace ss))"
  shows "holds (allowed C) (session_event env f ss)"
proof (cases "ss_session ss")
  case None
  then show ?thesis using assms(1) by (simp add: session_event_def)
next
  case (Some s)
  have "holds (allowed C) (on_session_signal env sig (ss\<lparr>ss_session := Some s', ss_trace := t'\<rparr>))"
    if "sends {} (ss_trace ss) t'" and "follow_up sig \<subseteq> C"
      and "sig = Sig_session_opened \<longrightarrow> start_signals \<subseteq> C" for sig s' t'
  proof (rule holds_mono [OF on_session_signal_holds])
    fix y
    let ?ss = "ss\<lparr>ss_session := Some s', ss_trace := t'\<rparr>"
    assume p: "progress (follow_up sig) (sig = Sig_session_opened) (sig = Sig_authorized) ?ss y"
    have "allowed C (ss\<lparr>ss_trace := t'\<rparr>)" using allowed_trace [OF assms(1) that(1)] by simp
    then have "allowed C ?ss" by (simp add: allowed_def)
    then show "allowed C y" using that by (auto intro: allowed_progress [OF p])
  qed
  moreover have "allowed C (ss\<lparr>ss_session := Some s', ss_trace := t'\<rparr>)"
    if "sends {} (ss_trace ss) t'" for s' t'
    using allowed_trace [OF assms(1) that] by (simp add: allowed_def)
  ultimately show ?thesis
    using holds_mono [OF assms(2) [of s]] Some
    by (auto simp: session_event_def Let_def split: option.split elim!: holds_mono [OF assms(2)])
qed

lemma holds_conj: "holds P x \<Longrightarrow> holds Q x \<Longrightarrow> holds (\<lambda>y. P y \<and> Q y) x"
  by (simp add: holds_def)

lemma worker_calls_allowed:
  assumes "allowed C ss" and "worker_message_causes member \<subseteq> C"
  shows "holds (allowed C)
           (session_event env (\<lambda>s. session_worker_message env (notify_greeter env g) member args s) ss)"
proof (rule session_event_allowed [OF assms(1)])
  fix s
  have "holds (\<lambda>(r, s', t'). sends {} (ss_trace ss) t')
      (session_worker_message env (notify_greeter env g) member args s (ss_trace ss))"
    by (rule worker_message_holds [where A = "{}" and ?t0.0 = "ss_trace ss"]) auto
  from holds_conj [OF this worker_message_says]
  show "holds (\<lambda>(r, s', t'). sends {} (ss_trace ss) t' \<and>
          (\<forall>sig. r = Some sig \<longrightarrow> follow_up sig \<subseteq> C \<and> (sig = Sig_session_opened \<longrightarrow> start_signals \<subseteq> C)))
        (session_worker_message env (notify_greeter env g) member args s (ss_trace ss))"
  proof (rule holds_mono)
    fix y :: "session_signal option \<times> session_direct \<times> strace"
    obtain r s' t' where y: "y = (r, s', t')" by (cases y)
    assume "(case y of (r, s', t') \<Rightarrow> sends {} (ss_trace ss) t') \<and> (case y of (r, _) \<Rightarrow> said member r)"
    then have "sends {} (ss_trace ss) t'" and r: "said member r" by (simp_all add: y)
    moreover have "follow_up sig \<subseteq> C" if "r = Some sig" for sig
      using that r follow_up_said [of member sig] assms(2) by blast
    moreover have "start_signals \<subseteq> C" if "r = Some Sig_session_opened"
      using that r assms(2) opened_said [of member] by simp
    ultimately show "case y of (r, s', t') \<Rightarrow> sends {} (ss_trace ss) t' \<and>
        (\<forall>sig. r = Some sig \<longrightarrow> follow_up sig \<subseteq> C \<and> (sig = Sig_session_opened \<longrightarrow> start_signals \<subseteq> C))"
      by (auto simp: y)
  qed
qed

lemma worker_dropped_allowed:
  "allowed C ss \<Longrightarrow> holds (allowed C) (session_event env (\<lambda>s t. Some (None, s, t)) ss)"
  by (rule session_event_allowed) auto

lemma worker_message_allowed:
  assumes "allowed C ss" and "user_id = 0 \<longrightarrow> worker_message_causes member \<subseteq> C"
  shows "holds (allowed C)
    (session_event env
       (\<lambda>s t. if sd_worker_connection s \<and> allow_user_function user_id
             then session_worker_message env (notify_greeter env g) member args s t
             else Some (None, s, t)) ss)"
proof (cases "ss_session ss")
  case None
  then show ?thesis using assms(1) by (simp add: session_event_def)
next
  case (Some s)
  then show ?thesis
    using worker_calls_allowed [OF assms(1), of member env g args] worker_dropped_allowed [OF assms(1), of env]
      assms(2)
    by (cases "sd_worker_connection s \<and> user_id = 0")
       (auto simp: session_event_def allow_user_function_def)
qed

lemma worker_connects_allowed:
  assumes "allowed C ss" and "range SetupForUser \<subseteq> C"
  shows "holds (allowed C) (session_event env handle_connection ss)"
  by (rule session_event_allowed [OF assms(1)]) (use assms(2) in \<open>auto simp: handle_connection_def\<close>)

lemma worker_ends_allowed:
  assumes "allowed C ss"
  shows "holds (allowed C) (session_event env (worker_ended env status) ss)"
proof (rule session_event_allowed [OF assms])
  fix s
  have "holds (\<lambda>(r, s', t'). sends {} (ss_trace ss) t') (worker_ended env status s (ss_trace ss))"
    by (rule worker_ended_holds [where A = "{}" and ?t0.0 = "ss_trace ss"]) auto
  from holds_conj [OF this worker_ended_says [where member = "''x''"]]
  show "holds (\<lambda>(r, s', t'). sends {} (ss_trace ss) t' \<and>
          (\<forall>sig. r = Some sig \<longrightarrow> follow_up sig \<subseteq> C \<and> (sig = Sig_session_opened \<longrightarrow> start_signals \<subseteq> C)))
        (worker_ended env status s (ss_trace ss))"
  proof (rule holds_mono)
    fix y :: "session_signal option \<times> session_direct \<times> strace"
    obtain r s' t' where y: "y = (r, s', t')" by (cases y)
    assume a: "(case y of (r, s', t') \<Rightarrow> sends {} (ss_trace ss) t') \<and> (case y of (r, _) \<Rightarrow> said ''x'' r)"
    then have "follow_up sig = {} \<and> sig \<noteq> Sig_session_opened" if "r = Some sig" for sig
      using that follow_up_said [of "''x''" sig]
      by (auto simp: y worker_message_causes_def said_by_def)
    then show "case y of (r, s', t') \<Rightarrow> sends {} (ss_trace ss) t' \<and>
        (\<forall>sig. r = Some sig \<longrightarrow> follow_up sig \<subseteq> C \<and> (sig = Sig_session_opened \<longrightarrow> start_signals \<subseteq> C))"
      using a by (auto simp: y)
  qed
qed

subsection \<open>Events of the greeter\<close>

fun asked :: "greeter_signal \<Rightarrow> signal set" where
  "asked Greeter_begin_verification = range Setup"
| "asked (Greeter_begin_verification_for_user user) = range SetupForUser"
| "asked (Greeter_begin_auto_login user) = range SetupForUser"
| "asked (Greeter_session_selected text) = range SetSessionName \<union> range SetIsFailsafe"
| "asked (Greeter_language_selected text) = range SetLanguageName"
| "asked (Greeter_layout_selected text) = range SetLayoutName"
| "asked _ = {}"

lemma start_when_ready_allowed:
  "allowed C ss \<Longrightarrow> holds (allowed C) (on_start_session_when_ready env ss)"
  unfolding on_start_session_when_ready_def Let_def
  by (auto simp: allowed_def [where ss = ss]
      intro!: holds_mono [OF accredit_when_ready_holds [where ?s0.0 = ss]] elim!: allowed_progress)

lemma greeter_signal_moves:
  assumes "sig \<noteq> Greeter_start_session_when_ready"
  shows "holds (moves (asked sig) ss) (on_greeter_signal env sig ss)"
proof -
  note on = on_session_holds [OF moves_refl, where Q = "moves A s" and A = A and ?s0.0 = s for A s]
  note st = sends_refl [where t = "ss_trace ss"]
  show ?thesis
    using assms
    by (cases sig)
       (auto simp: on_greeter_signal_def on_greeter_begin_verification_def on_greeter_begin_auto_login_def
          on_greeter_begin_verification_for_user_def on_greeter_answer_def
          on_greeter_session_selected_def on_greeter_language_selected_def
          on_greeter_layout_selected_def on_greeter_cancel_def on_greeter_connected_def
          on_start_session_later_def
          intro!: setup_holds [OF moves_refl] on select_holds [OF st] answer_query_holds [OF st]
            start_conversation_holds [OF moves_refl])
qed

lemma greeter_signal_allowed:
  "allowed C ss \<Longrightarrow> asked sig \<subseteq> C \<Longrightarrow> holds (allowed C) (on_greeter_signal env sig ss)"
  using holds_allowed_moves [OF greeter_signal_moves] start_when_ready_allowed
  by (cases "sig = Greeter_start_session_when_ready") (auto simp: on_greeter_signal_def)

definition says :: "signal set \<Rightarrow> strace \<Rightarrow> greeter_signal option \<times> strace \<Rightarrow> bool" where
  "says C t x \<longleftrightarrow> sends {} t (snd x) \<and> (\<forall>sig. fst x = Some sig \<longrightarrow> asked sig \<subseteq> C)"

lemma greeter_handle_says:
  "asked sig \<subseteq> C \<Longrightarrow> holds (says C t) (greeter_handle_void sig t)"
  "(\<And>x. asked (f x) \<subseteq> C) \<Longrightarrow> holds (says C t) (greeter_handle_string f args t)"
  "holds (says C t) (handle_get_display_id g t)"
  by (auto simp: greeter_handle_void_def greeter_handle_string_def says_def handle_get_display_id_def
      split: payload.split option.split)

lemma greeter_says:
  "holds (says (greeter_message_causes member) t) (greeter_handle_child_message env g member args t)"
  unfolding greeter_handle_child_message_def
    handle_begin_verification_for_user_def handle_begin_auto_login_def handle_answer_query_def
    handle_select_session_def handle_select_hostname_def handle_select_language_def
    handle_select_layout_def handle_select_user_def handle_start_session_when_ready_def
    handle_begin_verification_def handle_cancel_def handle_disconnect_def
  by (simp add: greeter_message_causes_def greeter_handle_says) (simp add: says_def)

lemma greeter_method_allowed:
  assumes "allowed C ss" and "greeter_message_causes member \<subseteq> C"
  shows "holds (allowed C) (greeter_method env user_id member args ss)"
proof (cases "ss_greeter_server ss")
  case None
  then show ?thesis using assms(1) by (simp add: greeter_method_def)
next
  case (Some g)
  let ?t = "ss_trace ss"
  have "holds (allowed C)
          (do {
             (r, t') \<leftarrow> greeter_handle_child_message env g member args ?t;
             case r of None \<Rightarrow> Some (ss\<lparr>ss_trace := t'\<rparr>)
             | Some x \<Rightarrow> on_greeter_signal env x (ss\<lparr>ss_trace := t'\<rparr>)
           })"
    unfolding holds_simps
    by (rule holds_mono [OF greeter_says [where member = member]])
       (use assms in \<open>auto simp: says_def subset_iff split: option.split prod.split
          intro!: greeter_signal_allowed allowed_trace [where A = "{}"]\<close>)
  then show ?thesis
    using assms(1) Some
    by (cases "greeter_allow_user_function env g user_id ?t") (auto simp: greeter_method_def Let_def)
qed

lemma greeter_connects_allowed:
  assumes "allowed C ss"
  shows "holds (allowed C) (greeter_connects env ss)"
  using assms
  by (auto simp: greeter_connects_def greeter_handle_connection_def Let_def
      intro!: greeter_signal_allowed split: option.split)

subsection \<open>Everything else\<close>

lemma plymouth_moves [simp]:
  "moves A s0 ss \<Longrightarrow> moves A s0 (snd (plymouth_is_running env ss))"
  "moves A s0 ss \<Longrightarrow> moves A s0 (snd (plymouth_has_active_vt env ss))"
  "moves A s0 ss \<Longrightarrow> moves A s0 (plymouth_prepare_for_transition ss)"
  "moves A s0 ss \<Longrightarrow> moves A s0 (plymouth_quit_with_transition ss)"
  "moves A s0 ss \<Longrightarrow> moves A s0 (plymouth_quit_without_transition ss)"
  "moves A s0 ss \<Longrightarrow> moves A s0 (slave_setup_server ss)"
  "moves A s0 ss \<Longrightarrow> to_worker c = None \<Longrightarrow> moves A s0 (snd (start_server env c ss))"
  by (auto simp: plymouth_is_running_def plymouth_has_active_vt_def plymouth_prepare_for_transition_def
      plymouth_quit_with_transition_def plymouth_quit_without_transition_def slave_setup_server_def
      start_server_def scall_def Let_def)

lemma server_moves [simp]:
  "moves A ss (on_server_ready ss)" "moves A ss (on_server_exited ss)" "moves A ss (on_server_died ss)"
  "moves A ss (stopped ss)"
  by (simp_all add: on_server_ready_def on_server_exited_def on_server_died_def Let_def stopped_def
      mdm_slave_stopped_def moves_trace)

lemma run_moves: "moves A s0 ss \<Longrightarrow> holds (moves A s0) (mdm_simple_slave_run env ss)"
  by (auto simp: mdm_simple_slave_run_def Let_def case_prod_beta)

lemma connect_to_display_holds:
  assumes "moves A s0 ss" and "\<And>r b t'. sends A (ss_trace ss) t' \<Longrightarrow> Q (r, b, t')"
  shows "holds Q (mdm_slave_connect_to_x11_display env (ss_base ss) (ss_trace ss))"
  by (auto simp: mdm_slave_connect_to_x11_display_def mdm_slave_set_windowpath_def scall_def
      Let_def intro!: assms(2) holds_any split: option.split prod.split)

lemma display_call_sends [sends_rules]:
  "sends A t0 t \<Longrightarrow> sends A t0 (snd (display_call env sl m a t))"
  "sends A t0 t \<Longrightarrow> sends A t0 (snd (display_int_call env sl m t))"
  by (auto simp: display_call_def display_int_call_def scall_string_def scall_def Let_def)

lemma cache_display_values_sends [sends_rules]:
  "sends A t0 t \<Longrightarrow> sends A t0 (snd (snd (cache_display_values env sl t)))"
  by (simp add: cache_display_values_def Let_def case_prod_beta display_call_sends split: option.split)

lemma real_start_holds:
  assumes "\<And>r b t'. sends A t t' \<Longrightarrow> Q (r, b, t')"
  shows "holds Q (mdm_slave_real_start env sl t)"
proof -
  have Q: "sends A t (snd (snd x)) \<Longrightarrow> Q x" for x by (cases x) (simp add: assms)
  show ?thesis
    by (auto simp: mdm_slave_real_start_def mdm_slave_set_slave_bus_name_def scall_def Let_def
        case_prod_beta intro!: Q cache_display_values_sends display_call_sends split: option.split)
qed

lemma start_moves: "holds (moves A ss) (mdm_simple_slave_start env ss)"
  unfolding mdm_simple_slave_start_def holds_simps
  by (rule real_start_holds [where A = A]) (auto intro!: run_moves)

lemma idle_connect_moves: "holds (moves A ss) (idle_connect_to_display env ss)"
proof -
  have prepared: "holds (moves A ss)
      (do {
         let ss = slave_setup_server s1;
         ((enabled, delay, user), t) \<leftarrow>
           mdm_slave_get_timed_login_details env (ss_base ss) False 0 (ss_trace ss);
         let ss = ss\<lparr>ss_trace := t\<rparr>;
         ss \<leftarrow> (if \<not> enabled \<or> delay > 0 \<or> using_ecryptfs env user t
               then do { ss \<leftarrow> start_greeter env ss; create_new_session env ss }
               else do {
                 ss \<leftarrow> run_script env ''/Init'' (Some MDM_USERNAME) ss;
                 reset_session env ss
               });
         Some (ss\<lparr>ss_connect_sources := ss_connect_sources ss - 1\<rparr>)
       })" if "moves A ss s1" for s1
  proof -
    have s: "moves A ss (slave_setup_server s1)" using that by simp
    show ?thesis
      unfolding Let_def
      by (auto simp: case_prod_beta
          intro!: timed_login_holds [where A = A and ?t0.0 = "ss_trace (slave_setup_server s1)"]
            start_greeter_holds [where A = A and ?s0.0 = ss]
            create_new_session_holds [where A = A and ?s0.0 = ss]
            run_script_holds [where A = A and ?s0.0 = ss]
            reset_session_holds [where A = A and ?s0.0 = ss] moves_trace [OF s])
  qed
  show ?thesis
    unfolding idle_connect_to_display_def Let_def holds_simps
    apply (rule connect_to_display_holds [where A = A and ?s0.0 = ss], simp)
    subgoal premises p for r b t'
    proof -
      let ?s = "ss\<lparr>ss_connection_attempts := ss_connection_attempts ss + 1, ss_base := b, ss_trace := t'\<rparr>"
      have s: "moves A ss ?s" using p by auto
      show ?thesis
      proof (cases r)
        case True
        show ?thesis using prepared [OF s] by (simp only: True if_True prod.case Let_def holds_simps)
      qed (use s in simp)
    qed
    done
qed

lemma start_session_timeout_allowed:
  assumes "allowed C ss" and "ss_start_session ss"
  shows "holds (allowed C) (start_session_timeout env ss)"
proof -
  have C: "start_signals \<subseteq> C" using assms by (simp add: allowed_def)
  have Q: "allowed C (s\<lparr>ss_start_session := False\<rparr>)" if "moves start_signals ss s" for s
    using allowed_moves [OF that assms(1) C] by (simp add: allowed_def)
  let ?A = start_signals
  have auth: "sends ?A t (snd (mdm_slave_add_user_authorization env b u t))" for b u t
    using add_user_authorization_sends [OF _ sends_refl] by (metis prod.collapse)
  show ?thesis
    unfolding start_session_timeout_def holds_simps Let_def case_prod_beta
    by (rule try_migrate_holds [where A = ?A and ?s0.0 = ss])
       (auto simp: case_prod_beta
          intro!: destroy_session_holds [where A = ?A and ?s0.0 = ss]
            stop_greeter_holds [where A = ?A and ?s0.0 = ss] Q auth
            holds_any [where x = "fst (mdm_slave_add_user_authorization env b u t)" for b u t]
            on_session_holds [where A = ?A and ?s0.0 = ss]
            start_session_holds [where A = ?A])
qed

lemma stop_moves: "holds (moves A ss) (mdm_simple_slave_stop env ss)"
  unfolding mdm_simple_slave_stop_def Let_def
  by (auto intro!: stop_greeter_holds [where A = A and ?s0.0 = ss]
      run_script_holds [where A = A and ?s0.0 = ss] destroy_session_holds [where A = A and ?s0.0 = ss])

subsection \<open>Steps and runs\<close>

lemma slave_step_allowed:
  assumes "allowed C ss" and "causes e \<subseteq> C"
  shows "holds (allowed C) (slave_step env e ss)"
proof -
  note m = holds_allowed_moves [OF _ assms(1) empty_subsetI]
  show ?thesis
  proof (cases "ss_quit ss")
    case True
    then show ?thesis
      using m [OF stop_moves] assms(1)
      by (auto simp: slave_step_def mdm_simple_slave_finalize_def)
  next
    case False
    have "holds (allowed C) (if b then x else Some ss)" if "b \<Longrightarrow> holds (allowed C) x" for b x
      using that assms(1) by simp
    note cond = this
    show ?thesis
      using False assms m [OF start_moves] m [OF idle_connect_moves] allowed_moves [OF server_moves(1) assms(1) empty_subsetI]
        allowed_moves [OF server_moves(2) assms(1) empty_subsetI]
        allowed_moves [OF server_moves(3) assms(1) empty_subsetI]
        allowed_moves [OF server_moves(4) assms(1) empty_subsetI]
        m [OF reset_timeout_holds(1) [OF moves_refl]] m [OF reset_timeout_holds(2) [OF moves_refl]]
      by (cases e)
         (auto simp: slave_step_def causes_def split: option.split reset_callback.split
            intro!: start_session_timeout_allowed worker_connects_allowed worker_message_allowed
              worker_ends_allowed greeter_connects_allowed greeter_method_allowed)
  qed
qed

lemma run_allowed:
  assumes "allowed C ss" and "\<And>e. e \<in> set es \<Longrightarrow> causes e \<subseteq> C" and "run (slave_step env) es ss = Some ss'"
  shows "allowed C ss'"
  using assms
proof (induction es arbitrary: ss)
  case (Cons e es)
  then obtain s1 where "slave_step env e ss = Some s1" and "run (slave_step env) es s1 = Some ss'"
    by (auto simp: bind_eq_Some_conv)
  moreover have "allowed C s1"
    using holdsD [OF slave_step_allowed] Cons.prems(1,2) calculation(1) by fastforce
  ultimately show ?case using Cons by simp
qed simp

end
