(* ===== verification/Slave_Properties.thy ===== *)
theory Slave_Properties
  imports Slave_Runs
begin

text \<open>
  The properties of the slave and of the conversation it leads between the greeter and the worker. The
  witnesses run the model on one concrete environment, in which the greeter's user is \<open>mdm\<close> and the
  session \<open>mate\<close> is installed.
\<close>

subsection \<open>A concrete slave\<close>

definition greeter_user :: passwd where
  "greeter_user =
     \<lparr>pw_name = ''mdm'', pw_uid = 42, pw_gid = 42, pw_dir = ''/var/lib/mdm'', pw_shell = ''/bin/false''\<rparr>"

definition login_user :: passwd where
  "login_user =
     \<lparr>pw_name = ''ann'', pw_uid = 1000, pw_gid = 1000, pw_dir = ''/home/ann'', pw_shell = ''/bin/sh''\<rparr>"

definition mate_session :: desktop_entry where
  "mate_session =
     \<lparr>de_hidden = Inr False, de_try_exec = None, de_exec = Inr ''mate-session'',
      de_comment = Inr ''MATE'', de_bypass = None\<rparr>"

fun sample_string :: "strace \<Rightarrow> string option" where
  "sample_string (Settings_value key # t) = None"
| "sample_string (Display_method m a # t) =
     (if m = ''GetId'' then Some ''/org/mate/DisplayManager/Display1'' else Some '':0'')"
| "sample_string t = Some ''unix:abstract=/tmp/mdm''"

definition sample_slave_env :: slave_env where
  "sample_slave_env =
     \<lparr>s_result = (\<lambda>t. 1), s_string = sample_string, s_strings = (\<lambda>t. Some []),
      s_connected = (\<lambda>t. True), s_greeter_connected = (\<lambda>t. True),
      s_desktop_file = (\<lambda>t dirs f. if f = ''mate.desktop'' then Some mate_session else None),
      s_in_path = (\<lambda>t f. True), s_dir = (\<lambda>t d. None), s_language = None, s_locale = Some ''C'',
      s_windowpath = (\<lambda>t. None), s_layouts = (\<lambda>t. None), s_hash_order = (\<lambda>h. h),
      s_getpwnam = (\<lambda>t name i. (if name = ''mdm'' then Some greeter_user
                                else if name = ''ann'' then Some login_user else None, None)),
      s_exists = (\<lambda>t f. False), s_is_script = (\<lambda>t f. False), s_waitpid = (\<lambda>t i. Inr 0),
      s_shell_parse = (\<lambda>c. Some [c]), s_environ = [], s_utmp = (\<lambda>t. []),
      s_wait_status = (\<lambda>t. Status 0), s_timed_login = (\<lambda>t. None), s_active_vt = (\<lambda>t. None),
      s_display_device = (\<lambda>t. None), s_ping_interval = None, s_disallow_tcp = None,
      s_freed_memory = (\<lambda>t. []), s_uninitialised = 0\<rparr>"

definition some_slave :: "simple_slave option \<Rightarrow> simple_slave" where
  "some_slave x = (case x of Some ss \<Rightarrow> ss | None \<Rightarrow> undefined)"

definition new_slave :: "simple_slave option" where
  "new_slave = mdm_simple_slave_new sample_slave_env (Some ''/org/mate/DisplayManager/Display1'') None []"

text \<open>The display is started, the greeter and the worker connect, and the greeter begins a login.\<close>

definition greeter_events :: "slave_event list" where
  "greeter_events =
     [Slave_start, Server_ready, Connect_source, Greeter_connects, Worker_connects,
      Greeter_calls 42 ''BeginVerification'' P_void, Worker_calls 0 ''SetupComplete'' P_void,
      Worker_calls 0 ''SecretInfoQuery'' (P_string ''Password:''),
      Greeter_calls 42 ''AnswerQuery'' (P_string ''secret''),
      Worker_calls 0 ''UsernameChanged'' (P_string ''ann''), Worker_calls 0 ''Authenticated'' P_void,
      Worker_calls 0 ''Authorized'' P_void,
      Greeter_calls 42 ''StartSessionWhenReady'' (P_int 1), Worker_calls 0 ''Accredited'' P_void,
      Worker_calls 0 ''SessionOpened'' P_void, Start_session_source]"

subsection \<open>Signals to the worker\<close>

lemma new_allowed:
  assumes "mdm_simple_slave_new env ident user [] = Some ss"
  shows "allowed C ss"
  using assms
  by (auto simp: mdm_simple_slave_new_def mdm_slave_constructor_def register_object_def scall_def
      bind_eq_Some_conv allowed_def Let_def split: if_split_asm)

text \<open>
  C4: Over every run of a new slave, whatever the greeter, the worker, the X server, the daemon and the
  files do, each signal that has been sent to the worker has the event that asks for it in the run:
  authentication follows \<open>SetupComplete\<close>, authorization \<open>Authenticated\<close>, the credentials
  \<open>Authorized\<close>, the opening of the session \<open>Accredited\<close>, and the environment and the program
  \<open>SessionOpened\<close>, each said by a peer that runs as the superuser; a conversation is set up only
  when the greeter asks for it or when the worker connects.
\<close>

theorem signals_have_causes:
  assumes "mdm_simple_slave_new env ident user [] = Some ss"
    and "run (slave_step env) es ss = Some ss'" and "To_worker sig \<in> set (ss_trace ss')"
  shows "\<exists>e \<in> set es. sig \<in> causes e"
proof -
  have "allowed (\<Union> (causes ` set es)) ss'"
    by (rule run_allowed [OF new_allowed [OF assms(1)] _ assms(2)]) blast
  with assms(3) show ?thesis by (auto simp: allowed_def)
qed

subsection \<open>The concrete login\<close>

definition logged_in_slave :: simple_slave where
  "logged_in_slave = the (run (slave_step sample_slave_env) greeter_events (the new_slave))"

lemma login_ends:
  "\<not> Option.is_none new_slave \<and>
   (case run (slave_step sample_slave_env) greeter_events (the new_slave) of
      None \<Rightarrow> False
    | Some ss \<Rightarrow> To_worker OpenSession \<in> set (ss_trace ss))"
  by code_simp

lemma new_slave_some:
  "mdm_simple_slave_new sample_slave_env (Some ''/org/mate/DisplayManager/Display1'') None [] = Some (the new_slave)"
  using login_ends by (auto simp: new_slave_def Option.is_none_def)

lemma login_runs: "run (slave_step sample_slave_env) greeter_events (the new_slave) = Some logged_in_slave"
  and login_opened: "To_worker OpenSession \<in> set (ss_trace logged_in_slave)"
  using login_ends unfolding logged_in_slave_def
  by (cases "run (slave_step sample_slave_env) greeter_events (the new_slave)"; simp)+

theorem signals_have_causes_witness:
  "\<exists>e \<in> set greeter_events. OpenSession \<in> causes e"
  by (rule signals_have_causes [OF new_slave_some login_runs login_opened])

subsection \<open>The conversation with the worker\<close>

text \<open>A slave in the middle of a login.\<close>

definition sample_session_direct :: session_direct where
  "sample_session_direct =
     zeroed_session\<lparr>sd_worker_connection := True, sd_saved_layout := Some ''us'',
       sd_selected_user := Some ''ann'', sd_display_name := Some '':0'', sd_session_pid := 77,
       sd_is_running := True\<rparr>"

definition sample_greeter :: greeter_server where
  "sample_greeter =
     mdm_greeter_server_new (Some ''/org/mate/DisplayManager/Display1'')\<lparr>gs_greeter_connection := True\<rparr>"

definition sample_slave :: simple_slave where
  "sample_slave =
     \<lparr>ss_base = mdm_slave_init\<lparr>sl_display_name := Some '':0'', sl_display_is_local := True,
        sl_display_x11_cookie := Some ''cookie'', sl_display_proxy := True\<rparr>,
      ss_greeter_reset = None, ss_start_session = False, ss_ping_interval = 0,
      ss_connection_attempts = 0, ss_connect_sources = 1, ss_server = True,
      ss_session = Some sample_session_direct, ss_greeter_server = Some sample_greeter,
      ss_greeter = True, ss_start_session_when_ready = False, ss_waiting_to_start_session = False,
      ss_plymouth_is_running = False, ss_username = None, ss_quit = False, ss_trace = []\<rparr>"

lemma sample_slave_simps [simp]:
  "\<not> ss_quit sample_slave" "ss_session sample_slave = Some sample_session_direct"
  "ss_greeter_server sample_slave = Some sample_greeter" "ss_trace sample_slave = []"
  "ss_connect_sources sample_slave = 1" "ss_connection_attempts sample_slave = 0"
  "sl_display_x11_cookie (ss_base sample_slave) = Some ''cookie''"
  by (simp_all add: sample_slave_def)

lemma sample_session_simps [simp]:
  "sd_worker_connection sample_session_direct" "sd_pending_reply sample_session_direct = None"
  "sd_session_pid sample_session_direct = 77" "sd_selected_user sample_session_direct = Some ''ann''"
  "sd_display_hostname sample_session_direct = None" "sd_display_name sample_session_direct = Some '':0''"
  "sd_display_device sample_session_direct = None" "gs_greeter_connection sample_greeter"
  "gs_user_name sample_greeter = Some ''mdm''"
  by (simp_all add: sample_session_direct_def zeroed_session_def sample_greeter_def
      mdm_greeter_server_new_def MDM_USERNAME_def)

lemma sample_env_simps [simp]:
  "s_connected sample_slave_env t" "s_greeter_connected sample_slave_env t"
  by (simp_all add: sample_slave_env_def)

lemma sample_pwent [simp]: "get_pwent sample_slave_env ''mdm'' t = Some (Some greeter_user)"
  by (simp add: get_pwent_def sample_slave_env_def) code_simp

text \<open>What the worker reports when it has reached a state, and the slave's answer.\<close>

definition handshake :: "(string \<times> nat \<times> signal) list" where
  "handshake =
     [(''SetupComplete'', MDM_SESSION_WORKER_STATE_SETUP_COMPLETE, Authenticate),
      (''Authenticated'', MDM_SESSION_WORKER_STATE_AUTHENTICATED, Authorize),
      (''Accredited'', MDM_SESSION_WORKER_STATE_ACCREDITED, OpenSession)]"

lemma same_session [simp]: "ss_session ss = Some s \<Longrightarrow> ss\<lparr>ss_session := Some s\<rparr> = ss"
  by (cases ss) simp

lemma same_session_trace [simp]:
  "ss_session ss = Some s \<Longrightarrow> ss\<lparr>ss_session := Some s, ss_trace := t\<rparr> = ss\<lparr>ss_trace := t\<rparr>"
  by (cases ss) simp

text \<open>A call of the worker that is heard, and what some of the calls do.\<close>

lemma worker_calls:
  assumes "\<not> ss_quit ss" and "ss_session ss = Some s" and "sd_worker_connection s"
  shows "slave_step env (Worker_calls 0 member args) ss =
    do {
      (sig, s', t) \<leftarrow> session_worker_message env (notify_greeter env (ss_greeter_server ss)) member args s
                       (ss_trace ss);
      case sig of
        None \<Rightarrow> Some (ss\<lparr>ss_session := Some s', ss_trace := t\<rparr>)
      | Some x \<Rightarrow> on_session_signal env x (ss\<lparr>ss_session := Some s', ss_trace := t\<rparr>)
    }"
  using assms by (simp add: slave_step_def session_event_def allow_user_function_def Let_def)

lemma worker_members:
  "session_worker_message env n ''SecretInfoQuery'' args s t =
     handle_query env Sig_secret_info_query ''SecretInfoQuery'' args s t"
  "session_worker_message env n ''SetupComplete'' args s t = handle_void env Sig_setup_complete s t"
  "session_worker_message env n ''Authenticated'' args s t = handle_void env Sig_authenticated s t"
  "session_worker_message env n ''Accredited'' args s t = handle_void env Sig_accredited s t"
  "session_worker_message env n ''Authorized'' args s t = handle_void env Sig_authorized s t"
  "session_worker_message env n ''SessionOpened'' args s t =
     (case emit_signal env Sig_session_opened s t of
        None \<Rightarrow> None | Some (sig, s, t) \<Rightarrow> Some (sig, s, Worker_reply (Reply []) # t))"
  "session_worker_message env n ''StartFailed'' args s t = handle_string env Sig_session_start_failed args s t"
  "session_worker_message env n ''SessionExited'' args s t = mdm_session_direct_handle_session_exited env args s t"
  "session_worker_message env n ''SessionDied'' args s t = mdm_session_direct_handle_session_died env args s t"
  by (simp_all only: session_worker_message_def report_handler_defs
      mdm_session_direct_handle_session_opened_def) simp_all

lemmas session_signal_defs =
  handle_void_def handle_string_def handle_query_def string_arg_def emit_signal_def record_signal_def
  on_session_signal_def send_dbus_void_signal_def send_dbus_message_def worker_is_connected_def
  on_session_def writes_def returns_def

text \<open>What follows the worker's report that the user is authorized: the primary session is looked up, and the
  worker is asked for the credentials.\<close>

definition accredited_next :: "slave_env \<Rightarrow> simple_slave \<Rightarrow> simple_slave option" where
  "accredited_next env ss =
     map_option (\<lambda>(ssid, t). ss\<lparr>ss_waiting_to_start_session := False,
         ss_trace := To_worker EstablishCredentials # t\<rparr>)
       (mdm_slave_get_primary_session_id_for_user env (ss_base ss)
          (Option.bind (ss_session ss) sd_selected_user) (ss_trace ss))"

lemma accredit_when_ready:
  assumes "ss_session ss = Some s" and "sd_worker_connection s" and "\<And>t. s_connected env t"
  shows "mdm_simple_slave_accredit_when_ready env ss =
    (if ss_start_session_when_ready ss then accredited_next env ss
     else Some (ss\<lparr>ss_waiting_to_start_session := True\<rparr>))"
proof -
  have "mdm_session_direct_get_username (ss\<lparr>ss_waiting_to_start_session := False\<rparr>)
      = Option.bind (ss_session ss) sd_selected_user"
    by (simp add: mdm_session_direct_get_username_def assms(1))
  then show ?thesis
    using assms
    by (cases "mdm_slave_get_primary_session_id_for_user env (ss_base ss)
          (Option.bind (ss_session ss) sd_selected_user) (ss_trace ss)")
      (auto simp: mdm_simple_slave_accredit_when_ready_def accredited_next_def on_session_def writes_def
        mdm_session_direct_accredit_def send_dbus_void_signal_def send_dbus_message_def worker_is_connected_def
        mdm_session_direct_get_username_def)
qed

lemma report_answered:
  assumes "(member, st, answer) \<in> set handshake"
    and "\<not> ss_quit ss" and "ss_session ss = Some s" and "sd_worker_connection s"
    and "\<And>t. s_connected env t"
  shows "slave_step env (Worker_calls 0 member P_void) ss =
           Some (ss\<lparr>ss_trace := To_worker answer # Worker_reply (Reply []) # ss_trace ss\<rparr>)
         \<and> worker_dbus_handle_message wenv answer (w\<lparr>state := st\<rparr>) = Some (queue_state_change (w\<lparr>state := st\<rparr>))"
  using assms
  by (auto simp: handshake_def worker_calls worker_members session_signal_defs on_session_setup_complete_def
      on_session_authenticated_def on_session_accredited_def mdm_session_direct_authenticate_def
      mdm_session_direct_authorize_def mdm_session_direct_open_session_def worker_dbus_handle_message_def
      on_authenticate_def on_authorize_def on_open_session_def)

text \<open>The report \<open>Authorized\<close>: it is answered at once without a greeter, and otherwise if the greeter has said
  before that the session may start.\<close>

definition authorized_answered :: "slave_env \<Rightarrow> simple_slave \<Rightarrow> simple_slave option" where
  "authorized_answered env ss =
     (let heard = ss\<lparr>ss_trace := Worker_reply (Reply []) # ss_trace ss\<rparr>;
          told = ss\<lparr>ss_trace := mdm_greeter_server_user_authorized env (ss_greeter_server ss)
            (Worker_reply (Reply []) # ss_trace ss)\<rparr>
      in if ss_greeter_server ss = None then accredited_next env (heard\<lparr>ss_start_session_when_ready := True\<rparr>)
         else if ss_start_session_when_ready ss then accredited_next env told
         else Some (told\<lparr>ss_waiting_to_start_session := True\<rparr>))"

text \<open>The greeter's \<open>StartSessionWhenReady\<close>: it brings the answer that is waiting.\<close>

definition start_allowed :: "slave_env \<Rightarrow> simple_slave \<Rightarrow> simple_slave option" where
  "start_allowed env ss =
     (let ready = ss\<lparr>ss_trace := Greeter_reply [] # ss_trace ss, ss_start_session_when_ready := True\<rparr>
      in if ss_waiting_to_start_session ss then accredited_next env ready else Some ready)"

lemma authorized_report:
  assumes "\<not> ss_quit ss" and "ss_session ss = Some s" and "sd_worker_connection s"
    and "\<And>t. s_connected env t"
  shows "slave_step env (Worker_calls 0 ''Authorized'' P_void) ss = authorized_answered env ss"
  using assms(1-3)
  by (simp add: worker_calls worker_members session_signal_defs on_session_authorized_def to_greeter_def
      accredit_when_ready [OF _ assms(3,4)] authorized_answered_def Let_def)

lemma greeter_allows_start:
  assumes "\<not> ss_quit ss" and "ss_session ss = Some s" and "sd_worker_connection s"
    and "\<And>t. s_connected env t"
    and "ss_greeter_server ss = Some g" and "gs_greeter_connection g"
    and "greeter_allow_user_function env g user_id (ss_trace ss) = Some True" and "n \<noteq> 0"
  shows "slave_step env (Greeter_calls user_id ''StartSessionWhenReady'' (P_int n)) ss = start_allowed env ss"
  using assms(1-3,5-)
  by (simp add: slave_step_def greeter_method_def greeter_handle_child_message_def
      handle_start_session_when_ready_def greeter_handle_void_def on_greeter_signal_def
      on_start_session_when_ready_def accredit_when_ready [OF _ assms(3,4)] start_allowed_def Let_def)

text \<open>
  C5: While the worker's connection is open, each report of the worker on its way to the session is answered
  by exactly one signal of the slave, which the worker accepts in the state it has then: it queues its
  next change of state, and does not log the signal as spurious. \<open>SetupComplete\<close>, \<open>Authenticated\<close> and
  \<open>Accredited\<close> are answered at once. \<open>Authorized\<close> is answered with \<open>EstablishCredentials\<close> at once
  without a greeter, and with one only when the greeter has said that the session may start: until then
  the greeter is told, the slave waits, and the greeter's \<open>StartSessionWhenReady\<close> brings the answer.
  \<open>SessionOpened\<close> queues the start of the session.
\<close>

theorem slave_answers_worker:
  assumes "\<not> ss_quit ss" and "ss_session ss = Some s" and "sd_worker_connection s"
    and "\<And>t. s_connected env t"
    and "ss_greeter_server ss = Some g \<longrightarrow> gs_greeter_connection g
      \<and> greeter_allow_user_function env g user_id (ss_trace ss) = Some True" and "n \<noteq> 0"
  shows "(\<forall>(member, st, answer) \<in> set handshake.
           slave_step env (Worker_calls 0 member P_void) ss =
             Some (ss\<lparr>ss_trace := To_worker answer # Worker_reply (Reply []) # ss_trace ss\<rparr>)
           \<and> worker_dbus_handle_message wenv answer (w\<lparr>state := st\<rparr>)
             = Some (queue_state_change (w\<lparr>state := st\<rparr>)))
    \<and> slave_step env (Worker_calls 0 ''Authorized'' P_void) ss = authorized_answered env ss
    \<and> (ss_greeter_server ss = Some g \<longrightarrow>
        slave_step env (Greeter_calls user_id ''StartSessionWhenReady'' (P_int n)) ss = start_allowed env ss)
    \<and> worker_dbus_handle_message wenv EstablishCredentials (w\<lparr>state := MDM_SESSION_WORKER_STATE_AUTHORIZED\<rparr>)
      = Some (queue_state_change
          (w\<lparr>state := MDM_SESSION_WORKER_STATE_AUTHORIZED, cred_flags := PAM_ESTABLISH_CRED\<rparr>))
    \<and> slave_step env (Worker_calls 0 ''SessionOpened'' P_void) ss =
      Some (ss\<lparr>ss_start_session := True, ss_trace := Worker_reply (Reply []) # ss_trace ss\<rparr>)"
proof (intro conjI)
  show "\<forall>(member, st, answer) \<in> set handshake.
           slave_step env (Worker_calls 0 member P_void) ss =
             Some (ss\<lparr>ss_trace := To_worker answer # Worker_reply (Reply []) # ss_trace ss\<rparr>)
           \<and> worker_dbus_handle_message wenv answer (w\<lparr>state := st\<rparr>)
             = Some (queue_state_change (w\<lparr>state := st\<rparr>))"
    using report_answered [OF _ assms(1-4)] by blast
  show "ss_greeter_server ss = Some g \<longrightarrow>
      slave_step env (Greeter_calls user_id ''StartSessionWhenReady'' (P_int n)) ss = start_allowed env ss"
    using greeter_allows_start [OF assms(1-4)] assms(5,6) by blast
  show "worker_dbus_handle_message wenv EstablishCredentials (w\<lparr>state := MDM_SESSION_WORKER_STATE_AUTHORIZED\<rparr>)
      = Some (queue_state_change
          (w\<lparr>state := MDM_SESSION_WORKER_STATE_AUTHORIZED, cred_flags := PAM_ESTABLISH_CRED\<rparr>))"
    by (simp add: worker_dbus_handle_message_def on_establish_credentials_def)
  show "slave_step env (Worker_calls 0 ''SessionOpened'' P_void) ss =
      Some (ss\<lparr>ss_start_session := True, ss_trace := Worker_reply (Reply []) # ss_trace ss\<rparr>)"
    using assms(1-3)
    by (simp add: worker_calls worker_members session_signal_defs on_session_opened_def queue_start_session_def)
qed (rule authorized_report [OF assms(1-4)])

text \<open>The greeter is there and has not asked for the session yet: the slave waits, then the answer comes.\<close>

theorem slave_answers_worker_witness:
  "slave_step sample_slave_env (Worker_calls 0 ''SetupComplete'' P_void) sample_slave =
     Some (sample_slave\<lparr>ss_trace := [To_worker Authenticate, Worker_reply (Reply [])]\<rparr>)
   \<and> slave_step sample_slave_env (Worker_calls 0 ''Authorized'' P_void) sample_slave =
     Some (sample_slave\<lparr>ss_trace := [To_greeter ''UserAuthorized'' G_void, Worker_reply (Reply [])],
       ss_waiting_to_start_session := True\<rparr>)"
proof -
  have user: "ss_greeter_server sample_slave = Some sample_greeter \<longrightarrow> gs_greeter_connection sample_greeter
      \<and> greeter_allow_user_function sample_slave_env sample_greeter 42 (ss_trace sample_slave) = Some True"
    by (simp add: greeter_allow_user_function_def greeter_user_def)
  have "authorized_answered sample_slave_env sample_slave =
     Some (sample_slave\<lparr>ss_trace := [To_greeter ''UserAuthorized'' G_void, Worker_reply (Reply [])],
       ss_waiting_to_start_session := True\<rparr>)"
    by (simp add: authorized_answered_def mdm_greeter_server_user_authorized_def greeter_void_signal_def
        send_to_greeter_def sample_slave_def [THEN arg_cong [where f = ss_start_session_when_ready]])
  moreover have "(''SetupComplete'', MDM_SESSION_WORKER_STATE_SETUP_COMPLETE, Authenticate) \<in> set handshake"
    by (simp add: handshake_def)
  ultimately show ?thesis
    using slave_answers_worker [OF _ _ _ _ user, of sample_session_direct 1] by fastforce
qed

text \<open>
  C19: Nobody but the superuser speaks for the worker and nobody but the greeter's user for the
  greeter: a call by any other user changes nothing, whatever its name and arguments. The first
  connection is accepted before its user is known, though: a stranger's has the place of the worker's.
\<close>

theorem strangers_are_not_heard:
  assumes "user_id \<noteq> 0" and "ss_greeter_server ss = Some g" and "gs_user_name g = Some name"
    and "get_pwent env name (ss_trace ss) = Some (Some p)" and "pw_uid p \<noteq> other"
  shows "slave_step env (Worker_calls user_id member args) ss = Some ss
         \<and> slave_step env (Greeter_calls other member args) ss = Some ss"
  using assms
  by (cases "ss_session ss")
     (auto simp: slave_step_def session_event_def allow_user_function_def greeter_method_def
        greeter_allow_user_function_def)

theorem strangers_are_not_heard_witness:
  "slave_step sample_slave_env (Worker_calls 1000 ''SessionOpened'' P_void) sample_slave = Some sample_slave"
  using strangers_are_not_heard
    [of 1000 sample_slave sample_greeter "''mdm''" sample_slave_env greeter_user 1000 "''SessionOpened''" P_void]
  by (simp add: greeter_user_def)

text \<open>
  C11: A question of the worker reaches the greeter, and the greeter's answer the worker, unchanged: the
  worker's call gets the text that was typed as its reply, and no query is pending behind it, so that
  the next question can be asked.
\<close>

theorem question_is_answered:
  assumes "\<not> ss_quit ss" and "ss_session ss = Some s" and "sd_worker_connection s"
    and "sd_pending_reply s = None" and "ss_greeter_server ss = Some g" and "gs_greeter_connection g"
    and "\<And>t. s_greeter_connected env t"
    and "\<And>t. greeter_allow_user_function env g user_id t = Some True"
  shows "run (slave_step env)
           [Worker_calls 0 ''SecretInfoQuery'' (P_string question),
            Greeter_calls user_id ''AnswerQuery'' (P_string answer)] ss =
         Some (ss\<lparr>ss_trace := Worker_reply (Reply answer) # Greeter_reply [] #
                 To_greeter ''SecretInfoQuery'' (G_string question) # ss_trace ss\<rparr>)"
proof -
  let ?q = "(''SecretInfoQuery'', P_string question)"
  let ?ss = "ss\<lparr>ss_session := Some (s\<lparr>sd_pending_reply := Some ?q\<rparr>),
      ss_trace := To_greeter ''SecretInfoQuery'' (G_string question) # ss_trace ss\<rparr>"
  have "slave_step env (Worker_calls 0 ''SecretInfoQuery'' (P_string question)) ss = Some ?ss"
    using assms
    by (auto simp: worker_calls worker_members session_signal_defs set_pending_query_def to_greeter_def send_to_greeter_def
        mdm_greeter_server_secret_info_query_def greeter_string_signal_def)
  moreover have "s\<lparr>sd_pending_reply := None\<rparr> = s"
    using assms by (cases s) simp
  ultimately show ?thesis
    using assms
    by (auto simp: slave_step_def greeter_method_def greeter_handle_child_message_def
        handle_answer_query_def greeter_handle_string_def greeter_handle_void_def on_greeter_signal_def
        on_greeter_answer_def on_session_def mdm_session_direct_answer_query_def
        answer_pending_query_def send_reply_def Let_def)
qed

theorem question_is_answered_witness:
  "run (slave_step sample_slave_env)
     [Worker_calls 0 ''SecretInfoQuery'' (P_string ''Password:''),
      Greeter_calls 42 ''AnswerQuery'' (P_string ''secret'')] sample_slave =
   Some (sample_slave\<lparr>ss_trace := [Worker_reply (Reply ''secret''), Greeter_reply [],
           To_greeter ''SecretInfoQuery'' (G_string ''Password:'')]\<rparr>)"
  by (subst question_is_answered [where s = sample_session_direct and g = sample_greeter])
     (simp_all add: greeter_allow_user_function_def greeter_user_def)

subsection \<open>The X server\<close>

lemma connect_fails:
  assumes "\<not> ss_quit ss" and "ss_connect_sources ss > 0"
    and "sl_display_x11_cookie (ss_base ss) \<noteq> None"
    and "\<And>name t. s_result env (Open_display name # t) \<le> 0"
  shows "slave_step env Connect_source ss =
    (if ss_connection_attempts ss + 1 \<ge> MAX_CONNECT_ATTEMPTS then None
     else let sl = ss_base ss
          in Some (ss\<lparr>ss_connection_attempts := ss_connection_attempts ss + 1,
                     ss_base := sl\<lparr>sl_server_display := False\<rparr>,
                     ss_trace := Open_display (sl_display_name sl)
                       # Setenv ''XAUTHORITY'' (sl_display_x11_authority_file sl)
                       # Setenv ''DISPLAY'' (sl_display_name sl) # ss_trace ss\<rparr>))"
  using assms
  by (auto simp: slave_step_def idle_connect_to_display_def mdm_slave_connect_to_x11_display_def
      scall_def Let_def not_less [symmetric])

lemma connect_runs:
  assumes "\<not> ss_quit ss" and "ss_connect_sources ss > 0"
    and "sl_display_x11_cookie (ss_base ss) \<noteq> None"
    and "\<And>name t. s_result env (Open_display name # t) \<le> 0"
  shows "run (slave_step env) (replicate n Connect_source) ss \<noteq> None \<longleftrightarrow>
    n = 0 \<or> ss_connection_attempts ss + n < MAX_CONNECT_ATTEMPTS"
  using assms(1-3)
proof (induction n arbitrary: ss)
  case (Suc n)
  show ?case
  proof (cases "ss_connection_attempts ss + 1 \<ge> MAX_CONNECT_ATTEMPTS")
    case True
    then show ?thesis using connect_fails [OF Suc.prems assms(4)] by simp
  next
    case False
    then obtain s1 where "slave_step env Connect_source ss = Some s1"
      and "ss_connection_attempts s1 = ss_connection_attempts ss + 1" and "\<not> ss_quit s1"
      and "ss_connect_sources s1 > 0" and "sl_display_x11_cookie (ss_base s1) \<noteq> None"
      using connect_fails [OF Suc.prems assms(4)] Suc.prems by (auto simp: Let_def)
    then show ?thesis using Suc.IH [of s1] False by auto
  qed
qed simp

text \<open>
  C12: Against an X server that never accepts the connection the slave gives up: it survives nine
  attempts and ends itself at the tenth, so that the polling of the display always ends.
\<close>

theorem connection_attempts_bounded:
  assumes "\<not> ss_quit ss" and "ss_connect_sources ss > 0" and "ss_connection_attempts ss = 0"
    and "sl_display_x11_cookie (ss_base ss) \<noteq> None"
    and "\<And>name t. s_result env (Open_display name # t) \<le> 0"
  shows "run (slave_step env) (replicate n Connect_source) ss = None \<longleftrightarrow> n \<ge> MAX_CONNECT_ATTEMPTS"
  using connect_runs [OF assms(1,2,4,5), where n = n] assms(3) by (auto simp: MAX_CONNECT_ATTEMPTS_def)

theorem connection_attempts_bounded_witness:
  "run (slave_step (sample_slave_env\<lparr>s_result := \<lambda>t. 0\<rparr>)) (replicate 10 Connect_source) sample_slave = None"
  by (subst connection_attempts_bounded) (simp_all add: MAX_CONNECT_ATTEMPTS_def)

subsection \<open>Sessions that do not start, and those that end\<close>

text \<open>
  C18: A session that fails to start is recorded in \<open>wtmp\<close> and \<open>utmp\<close> as a login of its user, and this
  record is all that happens: the slave neither resets the conversation nor tells the greeter nor
  stops, and waits for a session that will not come.
\<close>

theorem failed_start_is_a_login:
  assumes "\<not> ss_quit ss" and "ss_session ss = Some s" and "sd_worker_connection s"
  shows "slave_step env (Worker_calls 0 ''StartFailed'' (P_string message)) ss =
    map_option (\<lambda>t. ss\<lparr>ss_trace := t\<rparr>)
      (mdm_session_record_login env (sd_session_pid s) (sd_selected_user s) (sd_display_hostname s)
         (sd_display_name s) (sd_display_device s) (Worker_reply (Reply []) # ss_trace ss))"
  using assms
  by (auto simp: worker_calls worker_members session_signal_defs Let_def split: bind_split)

theorem failed_start_is_a_login_witness:
  "slave_step sample_slave_env (Worker_calls 0 ''StartFailed'' (P_string ''no'')) sample_slave =
    map_option (\<lambda>t. sample_slave\<lparr>ss_trace := t\<rparr>)
      (mdm_session_record_login sample_slave_env 77 (Some ''ann'') None (Some '':0'') None
         [Worker_reply (Reply [])])"
  using failed_start_is_a_login [where ss = sample_slave and env = sample_slave_env] by simp

definition recorded :: "scall \<Rightarrow> bool" where
  "recorded c = (case c of Write_wtmp u \<Rightarrow> True | Put_utmp u \<Rightarrow> True | _ \<Rightarrow> False)"

lemma close_records_nothing:
  "holds (\<lambda>(s', t'). filter recorded t' = filter recorded t)
     (mdm_session_direct_close env (s\<lparr>sd_is_running := False\<rparr>) t)"
proof -
  have job: "holds (\<lambda>(j, t'). filter recorded t' = filter recorded t) (mdm_session_worker_job_stop env job t)"
    for job t
    by (auto simp: mdm_session_worker_job_stop_def session_worker_job_died_def scall_def Let_def
        recorded_def intro!: holds_any [where P = "\<lambda>y. P" for P])
  have stop: "holds (\<lambda>(s', t'). filter recorded t' = filter recorded t) (stop_worker env job s t)" for job s
    using job by (fastforce simp: stop_worker_def cancel_pending_query_def send_reply_def recorded_def Let_def
        elim!: holds_mono split: prod.split)
  show ?thesis
    using stop [unfolded case_prod_beta]
    by (auto simp: mdm_session_direct_close_def case_prod_beta split: option.split)
qed

text \<open>
  C13: When the worker reports that the session's program has exited, the logout is recorded once and
  the slave stops. When it reports that the program was killed by a signal, the slave stops and nothing
  is recorded, neither then nor when the conversation is closed: the user stays logged in in \<open>utmp\<close>.
\<close>

theorem killed_session_stays_in_utmp:
  assumes "\<not> ss_quit ss" and "ss_session ss = Some s" and "sd_worker_connection s"
  shows "slave_step env (Worker_calls 0 ''SessionExited'' (P_int code)) ss =
      map_option (\<lambda>t. ss\<lparr>ss_session := Some (s\<lparr>sd_is_running := False\<rparr>), ss_trace := Emit_stopped # t,
                       ss_quit := True\<rparr>)
        (mdm_session_record_logout env (sd_session_pid s) (sd_selected_user s) (sd_display_hostname s)
           (sd_display_name s) (sd_display_device s) (Worker_reply (Reply []) # ss_trace ss))
    \<and> slave_step env (Worker_calls 0 ''SessionDied'' (P_int code)) ss =
      Some (ss\<lparr>ss_session := Some (s\<lparr>sd_is_running := False\<rparr>),
               ss_trace := Emit_stopped # Worker_reply (Reply []) # ss_trace ss, ss_quit := True\<rparr>)
    \<and> holds (\<lambda>(s', t'). filter recorded t' = filter recorded t)
        (mdm_session_direct_close env (s\<lparr>sd_is_running := False\<rparr>) t)"
  using assms close_records_nothing
  by (auto simp: worker_calls worker_members session_signal_defs Let_def
      mdm_session_direct_handle_session_exited_def mdm_session_direct_handle_session_died_def
      on_session_exited_def on_session_died_def stopped_def mdm_slave_stopped_def split: bind_split)

theorem killed_session_stays_in_utmp_witness:
  "slave_step sample_slave_env (Worker_calls 0 ''SessionDied'' (P_int 9)) sample_slave =
      Some (sample_slave\<lparr>ss_session := Some (sample_session_direct\<lparr>sd_is_running := False\<rparr>),
               ss_trace := [Emit_stopped, Worker_reply (Reply [])], ss_quit := True\<rparr>)"
  by (subst conjunct1 [OF conjunct2 [OF killed_session_stays_in_utmp [where s = sample_session_direct]]]) simp_all

end
