(* ===== verification/Session_Properties.thy ===== *)
theory Session_Properties
  imports Slave_Properties
begin

text \<open>
  The properties of the session object itself and of the end of the slave: which session is started when
  the user has not chosen one, what happens to a choice that does not exist, what the environment of the
  session says of the keyboard, the record of the logout, the automatic login, and what a stopped slave
  holds.
\<close>

subsection \<open>Names of sessions\<close>

lemma runnable_iff_command:
  "runnable env name t \<longleftrightarrow> get_session_command_for_file env (name @ ''.desktop'') t \<noteq> None
     \<or> name = MDM_CUSTOM_SESSION"
  by (auto simp: runnable_def get_session_command_for_name_def printed_def split: option.splits)

text \<open>The files \<open>add_sessions_of_dir\<close> may add.\<close>

definition startable :: "slave_env \<Rightarrow> strace \<Rightarrow> string \<Rightarrow> bool" where
  "startable env t base_name \<longleftrightarrow> drop (length base_name - 8) base_name = ''.desktop'' \<and>
     get_session_command_for_file env base_name t \<noteq> None"

lemma add_sessions_of_dir_set:
  "set (add_sessions_of_dir env t dir sessions) =
     set sessions \<union> {f. startable env t f \<and> (\<exists>names. s_dir env t dir = Some names \<and> f \<in> set names)}"
proof -
  have "set (fold (\<lambda>f sessions. if drop (length f - 8) f = ''.desktop'' \<and> get_session_command_for_file env f t \<noteq> None
                        then insort f sessions else sessions) names xs) =
        set xs \<union> {f \<in> set names. startable env t f}" for names xs
    by (induction names arbitrary: xs) (auto simp: startable_def set_insort_key)
  then show ?thesis
    by (auto simp: add_sessions_of_dir_def split: option.split)
qed

lemma all_sessions_set:
  "set (fold (add_sessions_of_dir env t) dirs sessions) =
     set sessions \<union> {f. startable env t f \<and> (\<exists>dir \<in> set dirs. \<exists>names. s_dir env t dir = Some names \<and> f \<in> set names)}"
  by (induction dirs arbitrary: sessions) (auto simp: add_sessions_of_dir_set)

lemma startable_name:
  assumes "startable env t f"
  shows "take (length f - length ''.desktop'') f @ ''.desktop'' = f"
proof -
  have l: "length ''.desktop'' = 8" and d: "drop (length f - 8) f = ''.desktop''"
    using assms by (simp_all add: startable_def)
  show ?thesis unfolding l using append_take_drop_id [of "length f - 8" f] unfolding d .
qed

lemma first_session_runs: "first_session env t = Some n \<Longrightarrow> runnable env n t"
proof -
  assume "first_session env t = Some n"
  then obtain f fs where fs: "fold (add_sessions_of_dir env t) get_system_session_dirs [] = f # fs"
    and n: "n = take (length f - length ''.desktop'') f"
    by (auto simp: first_session_def split: list.split_asm)
  have "startable env t f"
    using all_sessions_set [of env t get_system_session_dirs "[]"] fs by auto
  then show ?thesis
    using startable_name [of env t f] by (simp add: runnable_iff_command n startable_def)
qed

text \<open>
  C27: The session that is started when the user has chosen none and none is saved can be run: the
  administrator's, the one found before, \<open>mate\<close>, or the first of the installed ones; and there is none only
  if the administrator's and \<open>mate\<close> cannot be run and no directory of sessions has a file that can.
\<close>

theorem fallback_session_runs:
  assumes "get_fallback_session_name env s t = (name, s', t')"
  shows "case name of
      Some n \<Rightarrow> runnable env n t'
    | None \<Rightarrow> \<not> runnable env ''mate'' t' \<and>
        (\<forall>dir \<in> set get_system_session_dirs. \<forall>names f. s_dir env t' dir = Some names \<longrightarrow> f \<in> set names
            \<longrightarrow> \<not> startable env t' f)"
proof (cases name)
  case (Some n)
  then show ?thesis
    using assms first_session_runs [of env t' n]
    by (auto simp: get_fallback_session_name_def scall_string_def Let_def split: if_split_asm option.split_asm)
next
  case None
  then have "\<not> runnable env ''mate'' t'" and "first_session env t' = None"
    using assms by (auto simp: get_fallback_session_name_def scall_string_def Let_def split: if_split_asm option.split_asm)
  then have "set (fold (add_sessions_of_dir env t') get_system_session_dirs []) = {}"
    by (simp add: first_session_def split: list.split_asm)
  then show ?thesis
    using \<open>\<not> runnable env ''mate'' t'\<close> None
    unfolding all_sessions_set by auto
qed

lemma sample_fallback:
  "get_fallback_session_name sample_slave_env sample_session_direct [] =
     (Some ''mate'', sample_session_direct\<lparr>sd_fallback_session_name := Some ''mate''\<rparr>,
      [Settings_value ''daemon/DefaultSession''])"
  by code_simp

theorem fallback_session_runs_witness:
  "runnable sample_slave_env ''mate'' [Settings_value ''daemon/DefaultSession'']"
  using fallback_session_runs [OF sample_fallback] by simp

text \<open>
  C28: A choice of the greeter is taken without being looked up. A session of that name that cannot be
  run, the custom one apart, ends the whole slave when the session is started after the login.
\<close>

theorem unknown_session_ends_slave:
  assumes "mdm_session_direct_select_session env name s t = Some (s', t')"
    and "name \<noteq> ''__previous''" and "\<And>t. \<not> runnable env name t" and "\<not> sd_is_running s'"
  shows "mdm_session_direct_start_session env s' t'' = None"
proof -
  have "sd_selected_session s' = Some name"
    using assms(1,2)
    by (auto simp: mdm_session_direct_select_session_def selection_def Let_def get_session_name_def
        get_is_session_failsafe_def bind_eq_Some_conv split: option.split_asm)
  moreover have "get_session_command_for_name env (Some name) t'' = Some None"
    using assms(3) [of t''] by (auto simp: runnable_def get_session_command_for_name_def split: option.split_asm)
  ultimately show ?thesis
    using assms(4)
    by (simp add: mdm_session_direct_start_session_def get_session_command_def get_session_name_def)
qed

definition waiting_session :: session_direct where
  "waiting_session = sample_session_direct\<lparr>sd_is_running := False\<rparr>"

lemma sample_selects:
  "case mdm_session_direct_select_session sample_slave_env ''kde'' waiting_session [] of
     None \<Rightarrow> False | Some (s, t) \<Rightarrow> \<not> sd_is_running s"
  by code_simp

theorem unknown_session_ends_slave_witness:
  "mdm_session_direct_start_session sample_slave_env
     (fst (the (mdm_session_direct_select_session sample_slave_env ''kde'' waiting_session []))) [] = None"
proof -
  have "\<not> runnable sample_slave_env ''kde'' t" for t
    by (simp add: runnable_iff_command get_session_command_for_file_def load_session_file_def
        sample_slave_env_def MDM_CUSTOM_SESSION_def)
  then show ?thesis
    using sample_selects unknown_session_ends_slave
      [where env = sample_slave_env and name = "''kde''" and s = waiting_session and t = "[]"]
    by (auto split: option.split_asm)
qed

subsection \<open>The environment of the session\<close>

lemma get_session_name_layout:
  assumes "get_session_name env s t = (n, s', t')"
  shows "sd_selected_layout s' = sd_selected_layout s \<and> sd_saved_layout s' = sd_saved_layout s
    \<and> sd_environment s' = sd_environment s"
  using assms
  by (auto simp: get_session_name_def get_default_session_name_def get_fallback_session_name_def
      scall_string_def Let_def split: option.split_asm if_split_asm)

lemma set_variable_layout [simp]:
  "sd_selected_layout (mdm_session_direct_set_environment_variable k v s) = sd_selected_layout s"
  "sd_saved_layout (mdm_session_direct_set_environment_variable k v s) = sd_saved_layout s"
  "map_of (sd_environment (mdm_session_direct_set_environment_variable k v s)) k' =
     (if k = k' \<and> v \<noteq> None then v else map_of (sd_environment s) k')"
  by (auto simp: mdm_session_direct_set_environment_variable_def update_conv' split: option.split)

text \<open>
  The keyboard layout the user has chosen reaches the session's environment exactly when it is the
  default one; a layout that differs from the default is not exported at all.
\<close>

theorem chosen_layout_is_not_exported:
  assumes "sd_selected_layout s = Some layout" and "sd_saved_layout s = Some dflt"
  shows "map_of (sd_environment (fst (setup_session_environment env s t))) ''MDM_KEYBOARD_LAYOUT'' =
    (if layout = dflt then Some layout else map_of (sd_environment s) ''MDM_KEYBOARD_LAYOUT'')"
proof -
  let ?set = mdm_session_direct_set_environment_variable
  obtain n1 s1 t1 where 1: "get_session_name env s t = (n1, s1, t1)" using prod_cases3 by blast
  let ?s1 = "?set ''MDMSESSION'' n1 s1"
  obtain n2 s2 t2 where 2: "get_session_name env ?s1 t1 = (n2, s2, t2)" using prod_cases3 by blast
  have s1: "sd_selected_layout s1 = Some layout" "sd_saved_layout s1 = Some dflt"
    "sd_environment s1 = sd_environment s"
    using get_session_name_layout [OF 1] assms by simp_all
  have s2: "sd_selected_layout s2 = Some layout" "sd_saved_layout s2 = Some dflt"
    "sd_environment s2 = sd_environment ?s1"
    using get_session_name_layout [OF 2] s1 by simp_all
  have "map_of (sd_environment s2) ''MDM_KEYBOARD_LAYOUT'' =
      map_of (sd_environment s) ''MDM_KEYBOARD_LAYOUT''"
    unfolding s2(3) by (simp add: s1(3))
  then show ?thesis
    by (simp add: setup_session_environment_def Let_def 1 2 get_layout_name_def
        get_default_layout_name_def s2)
qed

theorem chosen_layout_is_not_exported_witness:
  "map_of (sd_environment (fst (setup_session_environment sample_slave_env
     (sample_session_direct\<lparr>sd_selected_layout := Some ''de''\<rparr>) []))) ''MDM_KEYBOARD_LAYOUT'' = None"
  by (simp add: chosen_layout_is_not_exported [where layout = "''de''" and dflt = "''us''"]
      sample_session_direct_def zeroed_session_def)

subsection \<open>The record of the logout\<close>

text \<open>
  The logout never looks at the first entry of \<open>utmp\<close>: the loop's condition reads it and searches
  behind it. Whatever the entry is, the outcome is the same, and when it is the only one, the
  session's own perhaps, nothing is marked as dead in \<open>utmp\<close>.
\<close>

theorem logout_ignores_first_entry:
  assumes "\<And>t. s_utmp env t = u # us"
  shows "mdm_session_record_logout env pid user host display device t =
      mdm_session_record_logout (env\<lparr>s_utmp := \<lambda>t. v # us\<rparr>) pid user host display device t
    \<and> holds (\<lambda>t'. \<exists>r new. t' = Read_utmp # Write_wtmp r # new)
        (mdm_session_record_logout (env\<lparr>s_utmp := \<lambda>t. [u]\<rparr>) pid user host display device t)"
proof -
  have "fill_record (env\<lparr>s_utmp := x\<rparr>) p h d y e t = fill_record env p h d y e t" for x p h d y e
    by (simp add: fill_record_def record_set_timestamp_def scall_def Let_def)
  then show ?thesis
    using assms
    by (auto simp: mdm_session_record_logout_def Let_def case_prod_beta intro!: holds_any)
qed

definition own_entry :: utmp where
  "own_entry = \<lparr>ut_type = USER_PROCESS, ut_user = ''ann'', ut_pid = 42, ut_id = '':0'', ut_host = '':0'',
     ut_line = '':0'', ut_tv = 0\<rparr>"

theorem logout_ignores_first_entry_witness:
  "mdm_session_record_logout (sample_slave_env\<lparr>s_utmp := \<lambda>t. [own_entry]\<rparr>) 42 (Some ''ann'') None (Some '':0'') None [] =
   mdm_session_record_logout
     (sample_slave_env\<lparr>s_utmp := \<lambda>t. [own_entry], s_utmp := \<lambda>t. [own_entry\<lparr>ut_pid := 7\<rparr>]\<rparr>) 42 (Some ''ann'') None (Some '':0'') None []"
  using logout_ignores_first_entry [where env = "sample_slave_env\<lparr>s_utmp := \<lambda>t. [own_entry]\<rparr>" and us = "[]"
      and u = own_entry and v = "own_entry\<lparr>ut_pid := 7\<rparr>"] by simp

subsection \<open>The end of the slave\<close>

lemma run_script_trace:
  "holds (\<lambda>ss'. \<exists>t. ss' = ss\<lparr>ss_trace := t\<rparr>) (run_script env dir user ss)"
proof (cases user)
  case None
  have "ss\<lparr>ss_trace := ss_trace ss\<rparr> = ss" by (cases ss) simp
  then have "\<exists>t. ss = ss\<lparr>ss_trace := t\<rparr>" by metis
  then show ?thesis unfolding run_script_def None by simp
next
  case (Some u)
  then show ?thesis by (auto simp: run_script_def case_prod_beta intro!: holds_any)
qed

lemma destroy_session_none:
  "holds (\<lambda>ss'. \<exists>t. ss' = ss\<lparr>ss_session := None, ss_trace := t\<rparr>) (destroy_session env ss)"
proof (cases "ss_session ss")
  case None
  then have "ss\<lparr>ss_session := None, ss_trace := ss_trace ss\<rparr> = ss" by (cases ss) simp
  then have "\<exists>t. ss = ss\<lparr>ss_session := None, ss_trace := t\<rparr>" by metis
  then show ?thesis unfolding destroy_session_def None by simp
next
  case (Some s)
  then show ?thesis by (auto simp: destroy_session_def case_prod_beta intro!: holds_any)
qed

text \<open>
  A slave that has been finalized holds nothing of its display: no conversation, no greeter, no X
  server, no proxy of the display and no queued reset, whatever it was doing when it was stopped.
\<close>

theorem finalized_slave_holds_nothing:
  assumes "ss_quit ss" and "slave_step env Slave_finalize ss = Some ss'"
  shows "ss_session ss' = None \<and> \<not> ss_greeter ss' \<and> \<not> ss_server ss' \<and> ss_greeter_reset ss' = None
    \<and> \<not> sl_display_proxy (ss_base ss')"
proof -
  let ?released = "\<lambda>s. \<not> sl_display_proxy (ss_base s)"
  have base: "?released (ss\<lparr>ss_base := mdm_slave_real_stop (ss_base ss)\<rparr>)"
    by (simp add: mdm_slave_real_stop_def display_proxy_destroyed_cb_def)
  have greeter: "holds (\<lambda>s'. ?released s' \<and> \<not> ss_greeter s')
      (if ss_greeter s then stop_greeter env s else Some s)" if "?released s" for s
    using that by (auto simp: stop_greeter_def act_def intro!: holds_mono [OF run_script_trace])
  have session: "holds (\<lambda>s'. ?released s' \<and> \<not> ss_greeter s' \<and> ss_session s' = None)
      (if ss_session s \<noteq> None
       then do { s \<leftarrow> run_script env ''/PostSession'' (mdm_session_direct_get_username s) s; destroy_session env s }
       else Some s)" if "?released s \<and> \<not> ss_greeter s" for s
    using that by (auto intro!: holds_mono [OF run_script_trace] holds_mono [OF destroy_session_none])
  have "holds (\<lambda>s'. ?released s' \<and> \<not> ss_greeter s' \<and> ss_session s' = None \<and> \<not> ss_server s')
      (mdm_simple_slave_stop env ss)"
    unfolding mdm_simple_slave_stop_def Let_def holds_simps
    by (rule holds_mono [OF greeter [OF base]], drule session, erule holds_mono) (auto simp: act_def)
  then show ?thesis
    using assms by (auto simp: slave_step_def mdm_simple_slave_finalize_def holds_def bind_eq_Some_conv)
qed

lemma sample_finalizes:
  "\<not> Option.is_none (slave_step sample_slave_env Slave_finalize (sample_slave\<lparr>ss_quit := True\<rparr>))"
  by code_simp

theorem finalized_slave_holds_nothing_witness:
  "ss_session (the (slave_step sample_slave_env Slave_finalize (sample_slave\<lparr>ss_quit := True\<rparr>))) = None"
  using sample_finalizes
    finalized_slave_holds_nothing [where ss = "sample_slave\<lparr>ss_quit := True\<rparr>" and env = sample_slave_env]
  by (auto simp: Option.is_none_def)

subsection \<open>Automatic login\<close>

definition of_the_greeter :: "slave_event \<Rightarrow> bool" where
  "of_the_greeter e = (case e of Greeter_connects \<Rightarrow> True | Greeter_calls u m a \<Rightarrow> True
     | Greeter_disconnects \<Rightarrow> True | _ \<Rightarrow> False)"

text \<open>
  A question of the worker in an automatic login, which has no greeter, stays pending: nothing is
  sent, no event of a greeter can answer it, and the worker's next question ends the slave.
\<close>

theorem automatic_login_cannot_answer:
  assumes "\<not> ss_quit ss" and "ss_session ss = Some s" and "sd_worker_connection s"
    and "sd_pending_reply s = None" and "ss_greeter_server ss = None" and "list_all of_the_greeter es"
  shows "run (slave_step env) (Worker_calls 0 ''SecretInfoQuery'' (P_string question) # es) ss =
      Some (ss\<lparr>ss_session := Some (s\<lparr>sd_pending_reply := Some (''SecretInfoQuery'', P_string question)\<rparr>)\<rparr>)
    \<and> run (slave_step env) (Worker_calls 0 ''SecretInfoQuery'' (P_string question) # es
        @ [Worker_calls 0 ''SecretInfoQuery'' (P_string question')]) ss = None"
proof -
  let ?ss = "ss\<lparr>ss_session := Some (s\<lparr>sd_pending_reply := Some (''SecretInfoQuery'', P_string question)\<rparr>)\<rparr>"
  have same: "ss\<lparr>ss_session := x, ss_trace := ss_trace ss\<rparr> = ss\<lparr>ss_session := x\<rparr>" for x by (cases ss) simp
  have q: "slave_step env (Worker_calls 0 ''SecretInfoQuery'' (P_string question)) ss = Some ?ss"
    using assms
    by (auto simp: worker_calls worker_members session_signal_defs set_pending_query_def to_greeter_def same
        send_to_greeter_def mdm_greeter_server_secret_info_query_def greeter_string_signal_def)
  have es: "run (slave_step env) es ?ss = Some ?ss"
    using assms(6)
  proof (induction es)
    case (Cons e es)
    have "slave_step env e ?ss = Some ?ss"
      using Cons.prems assms
      by (cases e) (auto simp: of_the_greeter_def slave_step_def greeter_connects_def greeter_method_def)
    then show ?case using Cons by simp
  qed simp
  have "slave_step env (Worker_calls 0 ''SecretInfoQuery'' (P_string question')) ?ss = None"
    using assms
    by (subst worker_calls [where s = "s\<lparr>sd_pending_reply := Some (''SecretInfoQuery'', P_string question)\<rparr>"])
       (auto simp: worker_members handle_query_def string_arg_def set_pending_query_def)
  then show ?thesis using q es by (simp add: run_append)
qed

theorem automatic_login_cannot_answer_witness:
  "run (slave_step sample_slave_env)
     [Worker_calls 0 ''SecretInfoQuery'' (P_string ''Password:''), Greeter_connects,
      Worker_calls 0 ''SecretInfoQuery'' (P_string ''Token:'')]
     (sample_slave\<lparr>ss_greeter_server := None, ss_greeter := False\<rparr>) = None"
proof -
  have "run (slave_step sample_slave_env)
      (Worker_calls 0 ''SecretInfoQuery'' (P_string ''Password:'') # [Greeter_connects] @
       [Worker_calls 0 ''SecretInfoQuery'' (P_string ''Token:'')])
      (sample_slave\<lparr>ss_greeter_server := None, ss_greeter := False\<rparr>) = None"
    by (rule conjunct2 [OF automatic_login_cannot_answer [where s = sample_session_direct]])
       (simp_all add: of_the_greeter_def)
  then show ?thesis by (simp only: append.simps)
qed

end
