(* ===== verification/Process_World.thy ===== *)
theory Process_World
  imports Worker_Machine
begin

text \<open>
  The world of the processes a slave runs on its display: the X server, the greeter's and the
  chooser's session and the D-Bus daemon they talk over. As elsewhere the list of the system
  calls, newest first, is the trace, and an answer may depend on all of it.

  A process is started by GLib's \<open>g_spawn_async\<close> and its relatives, which call a setup function in the
  child before the program is executed. The child's calls are a trace of their own, which begins
  where the parent's was when it started the child; the child then executes the program, leaves with
  an exit code, or is ended by a bad memory access (\<open>child_end\<close>).

  The second part is the contract the slave's objects for such processes share: the end of a child
  is reported once.
\<close>

subsection \<open>Sequences in the option monad\<close>

lemma bind_SomeE:
  "Option.bind x f = Some y \<Longrightarrow> (\<And>a. x = Some a \<Longrightarrow> f a = Some y \<Longrightarrow> P) \<Longrightarrow> P"
  by (cases x) auto

lemma bind2_SomeE:
  "Option.bind x (\<lambda>(a, b). f a b) = Some y \<Longrightarrow>
     (\<And>a b. x = Some (a, b) \<Longrightarrow> f a b = Some y \<Longrightarrow> P) \<Longrightarrow> P"
  by (cases x) auto

lemma bind3_SomeE:
  "Option.bind x (\<lambda>(a, b, c). f a b c) = Some y \<Longrightarrow>
     (\<And>a b c. x = Some (a, b, c) \<Longrightarrow> f a b c = Some y \<Longrightarrow> P) \<Longrightarrow> P"
  by (cases x) auto

subsection \<open>The trace\<close>

text \<open>What the setup of a greeter's child is given; the X server's setup is given the server's object
  (\<^term>\<open>None\<close>).\<close>

record spawn_child_data =
  cd_user_name :: "string option"
  cd_group_name :: string
  cd_runtime_dir :: "string option"
  cd_log_file :: "string option"
  cd_seat_id :: "string option"

datatype pcall = Spawn "string list" "string list" "spawn_child_data option"
  | Spawn_sync "string list" "string list" "spawn_child_data"
  | Kill_process int | Wait_process int | Run_helper string
  | Access_file string | Create_stamp string | Get_active_vt
  | Set_env string string | Unset_env string
  | CK_new | CK_register nat string "string option" string string bool | CK_unregister | CK_unref
  | Unlink_file string | Rename_file string string | Open_log string nat | Dup_to nat
  | Ignore_signal string | Unblock_signals | Die_with_parent | Set_priority int | Set_process_group
  | Set_session | Set_gid nat | Init_groups string nat | Set_groups "nat list" | Set_uid nat
  | Stat_path string | Make_dir "string option" nat | Change_mode string nat
  | Change_owner "string option" nat nat

type_synonym ptrace = "pcall list"

datatype child_end = Executes | Exits nat | Crashes

text \<open>
  The fields of \<open>process_env\<close>: the integer answer of the newest call (a negative one is an error);
  GLib's parser of command lines; the environment the slave was started with; the order of a hash
  table's traversal; the password and the group database; the existence of a file; \<open>waitpid\<close> by attempt;
  the standard output of a helper that could be run, and of a command that was waited for; the
  contents of a file and whether they are UTF-8; the cookie ConsoleKit gave to the session; the
  configured path of MateConf's defaults; what is
  read behind the end of a string.
\<close>

record process_env =
  p_result :: "ptrace \<Rightarrow> int"
  p_shell_parse :: "string \<Rightarrow> string list option"
  p_environ :: "(string \<times> string) list"
  p_hash_order :: "(string \<times> string) list \<Rightarrow> (string \<times> string) list"
  p_getpwnam :: "ptrace \<Rightarrow> string \<Rightarrow> nat \<Rightarrow> passwd option \<times> errno option"
  p_getgrnam :: "ptrace \<Rightarrow> string \<Rightarrow> nat option"
  p_exists :: "ptrace \<Rightarrow> string \<Rightarrow> bool"
  p_waitpid :: "ptrace \<Rightarrow> nat \<Rightarrow> errno + int"
  p_output :: "ptrace \<Rightarrow> string option"
  p_contents :: "ptrace \<Rightarrow> string \<Rightarrow> string option"
  p_utf8 :: "string \<Rightarrow> bool"
  p_ck_cookie :: "ptrace \<Rightarrow> string option"
  p_mateconf_path :: "string option"
  p_past_end :: "ptrace \<Rightarrow> string \<Rightarrow> string"

definition pcall :: "process_env \<Rightarrow> pcall \<Rightarrow> ptrace \<Rightarrow> int \<times> ptrace" where
  "pcall env c t = (let t = c # t in (p_result env t, t))"

lemma pcall_eq [simp]: "pcall env c t = (p_result env (c # t), c # t)"
  by (simp add: pcall_def Let_def)

definition lookup_user :: "process_env \<Rightarrow> string \<Rightarrow> ptrace \<Rightarrow> passwd option option" where
  "lookup_user env name t = map_option snd (mdm_get_pwent_for_name (p_getpwnam env t name))"

text \<open>The environment of the slave itself, which \<open>g_setenv\<close> and \<open>g_unsetenv\<close> change.\<close>

fun environ_after :: "process_env \<Rightarrow> ptrace \<Rightarrow> (string \<times> string) list" where
  "environ_after env [] = p_environ env"
| "environ_after env (c # t) =
     (case c of
        Set_env key val \<Rightarrow> AList.update key val (environ_after env t)
      | Unset_env key \<Rightarrow> AList.delete key (environ_after env t)
      | _ \<Rightarrow> environ_after env t)"

definition getenv :: "process_env \<Rightarrow> ptrace \<Rightarrow> string \<Rightarrow> string option" where
  "getenv env t name = map_of (environ_after env t) name"

definition listify :: "process_env \<Rightarrow> (string \<times> string) list \<Rightarrow> string list" where
  "listify env h = map (\<lambda>(key, val). key @ ''='' @ val) (p_hash_order env h)"

definition null_string :: "string option \<Rightarrow> string" where
  "null_string s = (case s of None \<Rightarrow> ''(null)'' | Some s \<Rightarrow> s)"

definition is_blank :: "char \<Rightarrow> bool" where
  "is_blank c \<longleftrightarrow> c \<in> {CHR '' '', CHR 0x09, CHR 0x0A, CHR 0x0C, CHR 0x0D}"

definition strip_blanks :: "string \<Rightarrow> string" where
  "strip_blanks s = rev (dropWhile is_blank (rev (dropWhile is_blank s)))"

subsection \<open>The log of a child\<close>

text \<open>\<open>rotate_logs\<close> of \<open>mdm-server.c\<close> and of \<open>mdm-welcome-session.c\<close>, which are the same; its loop runs
  \<open>i\<close> down to 1.\<close>

definition numbered :: "string \<Rightarrow> nat \<Rightarrow> string" where
  "numbered path i = path @ ''.'' @ string_of_nat i"

fun rotate_loop :: "string \<Rightarrow> nat \<Rightarrow> ptrace \<Rightarrow> ptrace" where
  "rotate_loop path 0 t = t"
| "rotate_loop path (Suc i) t =
     (let name_n = numbered path (Suc i);
          name_n1 = (if Suc i > 1 then numbered path i else path);
          t = Unlink_file name_n # t;
          t = Rename_file name_n1 name_n # t
      in rotate_loop path i t)"

definition rotate_files :: "string \<Rightarrow> nat \<Rightarrow> ptrace \<Rightarrow> ptrace" where
  "rotate_files path n_copies t = Unlink_file path # rotate_loop path (n_copies - 1) t"

definition MAX_LOG_FILES :: nat where
  "MAX_LOG_FILES = 5"

text \<open>The new log is created exclusively and becomes the output and the error output.\<close>

definition open_log :: "process_env \<Rightarrow> string \<Rightarrow> ptrace \<Rightarrow> ptrace" where
  "open_log env path t =
     (let t = rotate_files path MAX_LOG_FILES t;
          t = Unlink_file path # t;
          (logfd, t) = pcall env (Open_log path 0x1A4) t
      in if logfd \<noteq> -1 then Dup_to 2 # Dup_to 1 # t else t)"

subsection \<open>Becoming the user\<close>

text \<open>
  The steps both setup functions take in the child, as root: another user's groups and identity,
  each of whose calls must succeed, or root's with the supplementary groups dropped. The group is
  the one of the caller's choice.
\<close>

definition become_user :: "process_env \<Rightarrow> passwd \<Rightarrow> nat \<Rightarrow> ptrace \<Rightarrow> child_end \<times> ptrace" where
  "become_user env pwent grp t =
     (if pw_uid pwent \<noteq> 0 then
        (case pcall env (Set_gid grp) t of (res, t) \<Rightarrow>
           if res < 0 then (Exits 1, t)
           else case pcall env (Init_groups (pw_name pwent) (pw_gid pwent)) t of (res, t) \<Rightarrow>
             if res < 0 then (Exits 1, t)
             else case pcall env (Set_uid (pw_uid pwent)) t of (res, t) \<Rightarrow>
               if res < 0 then (Exits 1, t) else (Executes, t))
      else (Executes, Set_groups [0] # Set_gid 0 # t))"

subsection \<open>The identity of a process\<close>

text \<open>What the kernel makes of the calls of a child: its user, its group and whether it has dropped the
  groups of its parent. The child starts as root with the slave's groups.\<close>

record ids =
  id_uid :: nat
  id_gid :: nat
  id_groups :: "(string \<times> nat) option"

definition root_ids :: ids where
  "root_ids = \<lparr>id_uid = 0, id_gid = 0, id_groups = None\<rparr>"

fun ids_after :: "process_env \<Rightarrow> ptrace \<Rightarrow> ids" where
  "ids_after env [] = root_ids"
| "ids_after env (c # t) =
     (if p_result env (c # t) < 0 then ids_after env t
      else case c of
        Set_uid u \<Rightarrow> (ids_after env t)\<lparr>id_uid := u\<rparr>
      | Set_gid g \<Rightarrow> (ids_after env t)\<lparr>id_gid := g\<rparr>
      | Init_groups name g \<Rightarrow> (ids_after env t)\<lparr>id_groups := Some (name, g)\<rparr>
      | _ \<Rightarrow> ids_after env t)"

text \<open>A process that has become the user holds nothing else.\<close>

lemma become_user_ids:
  "become_user env pwent grp t = (Executes, t') \<Longrightarrow> pw_uid pwent \<noteq> 0 \<Longrightarrow>
     ids_after env t' = \<lparr>id_uid = pw_uid pwent, id_gid = grp,
       id_groups = Some (pw_name pwent, pw_gid pwent)\<rparr>"
  by (auto simp: become_user_def split: if_splits)

lemma become_user_not_crashes [simp]: "fst (become_user env pwent grp t) \<noteq> Crashes"
  by (simp add: become_user_def)

text \<open>The files of a rotated log leave the identity alone.\<close>

definition file_call :: "pcall \<Rightarrow> bool" where
  "file_call c \<longleftrightarrow>
     (case c of Unlink_file _ \<Rightarrow> True | Rename_file _ _ \<Rightarrow> True | Open_log _ _ \<Rightarrow> True | Dup_to _ \<Rightarrow> True
      | _ \<Rightarrow> False)"

lemma rotate_loop_calls:
  "\<exists>new. rotate_loop path n t = new @ t \<and> list_all file_call new"
proof (induction n arbitrary: t)
  case 0
  then show ?case by simp
next
  case (Suc n)
  show ?case
    by (rule exE [OF Suc.IH [of "Rename_file (if Suc n > 1 then numbered path n else path)
        (numbered path (Suc n)) # Unlink_file (numbered path (Suc n)) # t"]])
      (auto simp: Let_def file_call_def)
qed

lemma open_log_calls:
  obtains new where "open_log env path t = new @ t" and "list_all file_call new"
proof -
  obtain new where "rotate_loop path (MAX_LOG_FILES - 1) t = new @ t" and "list_all file_call new"
    using rotate_loop_calls by blast
  then have "\<exists>new. open_log env path t = new @ t \<and> list_all file_call new"
    by (auto simp: open_log_def rotate_files_def file_call_def Let_def)
  with that show thesis by blast
qed

lemma ids_after_append:
  "list_all (\<lambda>c. \<not> (\<exists>u. c = Set_uid u) \<and> \<not> (\<exists>g. c = Set_gid g) \<and> \<not> (\<exists>n g. c = Init_groups n g)) new \<Longrightarrow>
     ids_after env (new @ t) = ids_after env t"
  by (induction new) (auto split: pcall.splits)

lemma file_call_keeps_ids:
  "list_all file_call new \<Longrightarrow> ids_after env (new @ t) = ids_after env t"
  by (rule ids_after_append) (auto simp: file_call_def list_all_iff)

lemma ids_after_open_log [simp]: "ids_after env (open_log env path t) = ids_after env t"
  by (rule open_log_calls [of env path t]) (simp add: file_call_keeps_ids)

subsection \<open>A watched process\<close>

text \<open>
  The contract of an object that starts a child, watches it and stops it: \<open>mdm-server.c\<close>,
  \<open>mdm-welcome-session.c\<close> and \<open>mdm-session-worker-job.c\<close> do it in the same way. The kernel gives a
  child a pid greater than 1 (\<open>kernel_pids\<close>), which is why the objects take a smaller one for no child.

  What becomes of the children is read off the outside, not off the object: the pids the kernel gave
  to the programs that were started, the \<open>SIGTERM\<close>s sent (and whether the kernel took them), the
  pids waited for, and the signals the object emitted.
\<close>

definition kernel_pids :: "process_env \<Rightarrow> bool" where
  "kernel_pids env \<longleftrightarrow> (\<forall>args vars setup_data t. p_result env (Spawn args vars setup_data # t) \<ge> 0 \<longrightarrow>
     p_result env (Spawn args vars setup_data # t) > 1)"

fun spawned :: "process_env \<Rightarrow> ptrace \<Rightarrow> int list" where
  "spawned env [] = []"
| "spawned env (c # t) =
     (case c of Spawn _ _ _ \<Rightarrow> if p_result env (c # t) \<ge> 0 then [p_result env (c # t)] else [] | _ \<Rightarrow> [])
     @ spawned env t"

text \<open>A negative pid is a process group: the D-Bus daemon is stopped by its group, the children here are
  stopped one by one.\<close>

fun killed :: "process_env \<Rightarrow> ptrace \<Rightarrow> (int \<times> bool) list" where
  "killed env [] = []"
| "killed env (c # t) =
     (case c of Kill_process p \<Rightarrow> if p > 0 then [(p, p_result env (c # t) \<ge> 0)] else [] | _ \<Rightarrow> [])
     @ killed env t"

fun waited :: "ptrace \<Rightarrow> int list" where
  "waited [] = []"
| "waited (c # t) = (case c of Wait_process p \<Rightarrow> [p] | _ \<Rightarrow> []) @ waited t"

text \<open>
  The books of the children, newest first: the pid, the number of \<open>SIGTERM\<close>s the kernel refused, and
  the fate: still watched; ended by itself and reported with this status; taken a \<open>SIGTERM\<close> and waited for; or
  left, without a watch, after a refused one.
\<close>

datatype fate = Running | Reported wait_status | Reaped | Left

type_synonym life = "int \<times> nat \<times> fate"

definition life_kills :: "life \<Rightarrow> (int \<times> bool) list" where
  "life_kills l = (case l of (p, n, f) \<Rightarrow> (if f = Reaped then [(p, True)] else []) @ replicate n (p, False))"

definition known_status :: "wait_status \<Rightarrow> wait_status list" where
  "known_status status = (case status of Unknown_status \<Rightarrow> [] | _ \<Rightarrow> [status])"

definition life_reports :: "life \<Rightarrow> wait_status list" where
  "life_reports l = (case l of (p, n, f) \<Rightarrow> case f of Reported status \<Rightarrow> known_status status | _ \<Rightarrow> [])"

definition pids_of :: "life list \<Rightarrow> int list" where
  "pids_of ls = map fst ls"

definition kills_of :: "life list \<Rightarrow> (int \<times> bool) list" where
  "kills_of ls = concat (map life_kills ls)"

definition waits_of :: "life list \<Rightarrow> int list" where
  "waits_of ls = map fst (filter (\<lambda>l. snd (snd l) = Reaped) ls)"

definition reports_of :: "life list \<Rightarrow> wait_status list" where
  "reports_of ls = concat (map life_reports ls)"

text \<open>No child is without a fate: only the newest can still be running, and it does if and only if the
  main loop watches it; one that was left was refused a \<open>SIGTERM\<close>, one that ended by itself was sent none.\<close>

definition life_ok :: "life \<Rightarrow> bool" where
  "life_ok l \<longleftrightarrow> (case l of (p, n, f) \<Rightarrow> p > 1 \<and> (f = Left \<longrightarrow> n > 0) \<and> (f = Left \<or> f = Reaped \<or> n = 0))"

definition lives_ok :: "bool \<Rightarrow> int \<Rightarrow> life list \<Rightarrow> bool" where
  "lives_ok watched pid ls \<longleftrightarrow> list_all life_ok ls \<and> list_all (\<lambda>l. snd (snd l) \<noteq> Running) (tl ls)
     \<and> (watched \<longleftrightarrow> ls \<noteq> [] \<and> snd (snd (hd ls)) = Running)
     \<and> (pid > 1 \<longrightarrow> ls \<noteq> [] \<and> fst (hd ls) = pid \<and> snd (snd (hd ls)) \<in> {Running, Left})
     \<and> (watched \<longrightarrow> pid > 1)"

lemmas books_defs = pids_of_def kills_of_def waits_of_def reports_of_def life_kills_def life_reports_def
  known_status_def

datatype watch_event = Start_it | Stop_it | End_it wait_status

locale watched_process =
  fixes armed :: "'s \<Rightarrow> bool"
    and pid_of :: "'s \<Rightarrow> int"
    and start_it :: "'s \<Rightarrow> (bool \<times> 's) option"
    and stop_it :: "'s \<Rightarrow> 's option"
    and end_it :: "wait_status \<Rightarrow> 's \<Rightarrow> 's option"
    and spawns :: "'s \<Rightarrow> int list"
    and kills :: "'s \<Rightarrow> (int \<times> bool) list"
    and waits :: "'s \<Rightarrow> int list"
    and reports :: "'s \<Rightarrow> wait_status list"
    and valid :: "'s \<Rightarrow> bool"
  assumes valid_pid: "valid s \<Longrightarrow> armed s \<Longrightarrow> pid_of s > 1"
    and started: "valid s \<Longrightarrow> \<not> armed s \<Longrightarrow> start_it s = Some (True, s') \<Longrightarrow>
      valid s' \<and> armed s' \<and> spawns s' = pid_of s' # spawns s
      \<and> kills s' = kills s \<and> waits s' = waits s \<and> reports s' = reports s"
    and not_started: "valid s \<Longrightarrow> \<not> armed s \<Longrightarrow> start_it s = Some (False, s') \<Longrightarrow>
      valid s' \<and> \<not> armed s' \<and> pid_of s' = pid_of s \<and> spawns s' = spawns s
      \<and> kills s' = kills s \<and> waits s' = waits s \<and> reports s' = reports s"
    and nothing_stopped: "valid s \<Longrightarrow> pid_of s \<le> 1 \<Longrightarrow> stop_it s = Some s' \<Longrightarrow> s' = s"
    and stopped: "valid s \<Longrightarrow> pid_of s > 1 \<Longrightarrow> stop_it s = Some s' \<Longrightarrow>
      valid s' \<and> \<not> armed s' \<and> spawns s' = spawns s \<and> reports s' = reports s
      \<and> (pid_of s' = pid_of s \<and> kills s' = (pid_of s, False) # kills s \<and> waits s' = waits s
        \<or> pid_of s' \<le> 1 \<and> kills s' = (pid_of s, True) # kills s \<and> waits s' = pid_of s # waits s)"
    and ended: "valid s \<Longrightarrow> armed s \<Longrightarrow> end_it status s = Some s' \<Longrightarrow>
      valid s' \<and> \<not> armed s' \<and> pid_of s' \<le> 1 \<and> spawns s' = spawns s \<and> kills s' = kills s
      \<and> waits s' = waits s \<and> reports s' = known_status status @ reports s"
begin

text \<open>
  The client starts the process only while none is watched, and the main loop reports ends only while
  the watch is armed. The machine keeps the books: a start that succeeds opens a life, a report ends
  it, and stopping an object that holds a pid does, unless the object still holds it afterwards.
\<close>

fun watch_step :: "watch_event \<Rightarrow> 's \<times> life list \<Rightarrow> ('s \<times> life list) option" where
  "watch_step Start_it (s, ls) =
     (if armed s then Some (s, ls)
      else map_option (\<lambda>(ret, s'). (s', if ret then (pid_of s', 0, Running) # ls else ls)) (start_it s))"
| "watch_step Stop_it (s, ls) =
     map_option (\<lambda>s'. (s',
         if pid_of s \<le> 1 then ls
         else case ls of [] \<Rightarrow> []
           | (p, n, f) # ls \<Rightarrow> (if pid_of s' > 1 then (p, Suc n, Left) else (p, n, Reaped)) # ls))
       (stop_it s)"
| "watch_step (End_it status) (s, ls) =
     (if armed s
      then map_option (\<lambda>s'. (s', case ls of [] \<Rightarrow> [] | (p, n, f) # ls \<Rightarrow> (p, n, Reported status) # ls))
             (end_it status s)
      else Some (s, ls))"

text \<open>The books are those of the time since \<open>s0\<close>.\<close>

definition accounted :: "'s \<Rightarrow> 's \<times> life list \<Rightarrow> bool" where
  "accounted s0 x = (case x of (s, ls) \<Rightarrow> valid s \<and> lives_ok (armed s) (pid_of s) ls
     \<and> spawns s = pids_of ls @ spawns s0 \<and> kills s = kills_of ls @ kills s0
     \<and> waits s = waits_of ls @ waits s0 \<and> reports s = reports_of ls @ reports s0)"

lemma start_accounted:
  assumes "accounted s0 (s, ls)" and "\<not> armed s" and "start_it s = Some (ret, s')"
  shows "accounted s0 (s', if ret then (pid_of s', 0, Running) # ls else ls)"
proof (cases ret)
  case True
  have new: "valid s' \<and> armed s' \<and> spawns s' = pid_of s' # spawns s
      \<and> kills s' = kills s \<and> waits s' = waits s \<and> reports s' = reports s"
    using started [of s s'] assms True by (auto simp: accounted_def)
  with valid_pid have "pid_of s' > 1" by simp
  moreover have "list_all (\<lambda>l. snd (snd l) \<noteq> Running) ls"
    using assms(1,2) by (cases ls) (auto simp: accounted_def lives_ok_def)
  ultimately show ?thesis
    using assms(1) new True by (simp add: accounted_def lives_ok_def life_ok_def books_defs)
next
  case False
  then show ?thesis
    using not_started [of s s'] assms by (auto simp: accounted_def)
qed

lemma stop_accounted:
  assumes "accounted s0 (s, (p, n, f) # ls)" and "pid_of s > 1" and "stop_it s = Some s'"
  shows "accounted s0 (s', (if pid_of s' > 1 then (p, Suc n, Left) else (p, n, Reaped)) # ls)"
proof -
  have head: "p = pid_of s" "f \<noteq> Reaped" "\<And>status. f \<noteq> Reported status"
    using assms(1,2) by (auto simp: accounted_def lives_ok_def)
  show ?thesis
    using assms(1,2) stopped [OF _ assms(2,3)] head
    by (auto simp: accounted_def lives_ok_def life_ok_def books_defs split: fate.splits)
qed

lemma end_accounted:
  assumes "accounted s0 (s, (p, n, f) # ls)" and "armed s" and "end_it status s = Some s'"
  shows "accounted s0 (s', (p, n, Reported status) # ls)"
proof -
  have "f = Running" "n = 0"
    using assms(1,2) by (auto simp: accounted_def lives_ok_def life_ok_def)
  then show ?thesis
    using assms(1) ended [OF _ assms(2,3)]
    by (auto simp: accounted_def lives_ok_def life_ok_def books_defs split: wait_status.splits)
qed

lemma accounted_books: "accounted s0 (s, ls) \<Longrightarrow> armed s \<or> pid_of s > 1 \<Longrightarrow> ls \<noteq> []"
  by (auto simp: accounted_def lives_ok_def)

lemma watch_step_accounted:
  assumes "accounted s0 x" and "watch_step e x = Some y"
  shows "accounted s0 y"
proof -
  obtain s ls where x: "x = (s, ls)" by (cases x)
  show ?thesis
  proof (cases e)
    case Start_it
    with assms x show ?thesis by (auto split: if_splits dest: start_accounted)
  next
    case Stop_it
    show ?thesis
    proof (cases "pid_of s \<le> 1")
      case True
      have "accounted s0 (s', ls)" if "stop_it s = Some s'" for s'
        using assms(1) nothing_stopped [OF _ True that] by (simp add: x accounted_def)
      with assms(2) x Stop_it True show ?thesis by auto
    next
      case False
      then have "ls \<noteq> []" using accounted_books assms(1) by (auto simp: x)
      with False assms x Stop_it show ?thesis
        by (cases ls) (auto dest: stop_accounted)
    qed
  next
    case (End_it status)
    with accounted_books assms x show ?thesis
      by (cases ls) (auto split: if_splits dest: end_accounted)
  qed
qed

end

sublocale watched_process \<subseteq> watch: event_machine watch_step "accounted s0" for s0
  by unfold_locales (rule watch_step_accounted)

context watched_process begin

text \<open>What the outside has seen since the object was made is what the books say: none of the children
  is counted twice, and none is lost.\<close>

lemma watched_accounted:
  assumes "valid s" and "\<not> armed s" and "pid_of s \<le> 1" and "run watch_step es (s, []) = Some (s', ls)"
  shows "lives_ok (armed s') (pid_of s') ls \<and> spawns s' = pids_of ls @ spawns s
    \<and> kills s' = kills_of ls @ kills s \<and> waits s' = waits_of ls @ waits s
    \<and> reports s' = reports_of ls @ reports s"
proof -
  have "accounted s (s, [])"
    using assms(1-3) by (simp add: accounted_def lives_ok_def books_defs)
  with watch.run_inv [of s "(s, [])" es "(s', ls)"] assms(4) show ?thesis by (simp add: accounted_def)
qed

end

end
