(* ===== verification/X_Server.thy ===== *)
theory X_Server
  imports Process_World
begin

text \<open>
  The X server of a display, \<open>daemon/mdm-server.c\<close>: its command line, its environment, the setup of the
  child, and the object that starts it, watches it and stops it.

  The server announces with \<open>SIGUSR1\<close> that it is ready; the handler queues an idle callback, which
  emits the signal \<open>ready\<close>. \<^term>\<open>xs_ready_idles\<close> counts the queued ones, \<^term>\<open>xs_watch_armed\<close> is the
  main loop's side of the child watch.
\<close>

subsection \<open>The object\<close>

datatype server_signal = Server_ready | Server_exited int | Server_died int | Device_changed

record server =
  xs_command :: string
  xs_pid :: int
  xs_disable_tcp :: bool
  xs_priority :: int
  xs_user_name :: "string option"
  xs_session_args :: "string option"
  xs_log_dir :: string
  xs_display_name :: "string option"
  xs_display_device :: "string option"
  xs_auth_file :: "string option"
  xs_is_parented :: bool
  xs_parent_display_name :: "string option"
  xs_parent_auth_file :: "string option"
  xs_chosen_hostname :: "string option"
  xs_child_watch_id :: bool
  xs_watch_armed :: bool
  xs_ready_handler :: bool
  xs_ready_idles :: nat
  xs_signals :: "server_signal list"

definition X_SERVER :: string where
  "X_SERVER = ''/usr/bin/Xorg''"

definition mdm_server_init :: server where
  "mdm_server_init =
     \<lparr>xs_command = X_SERVER @ '' -br -verbose'', xs_pid = -1, xs_disable_tcp = True, xs_priority = 0,
      xs_user_name = None, xs_session_args = None, xs_log_dir = ''/var/log/mdm'',
      xs_display_name = None, xs_display_device = None, xs_auth_file = None, xs_is_parented = False,
      xs_parent_display_name = None, xs_parent_auth_file = None, xs_chosen_hostname = None,
      xs_child_watch_id = False, xs_watch_armed = False, xs_ready_handler = True,
      xs_ready_idles = 0, xs_signals = []\<rparr>"

definition mdm_server_new :: "string option \<Rightarrow> string option \<Rightarrow> server" where
  "mdm_server_new display_name auth_file =
     mdm_server_init\<lparr>xs_display_name := display_name, xs_auth_file := auth_file\<rparr>"

datatype server_property = Prop_display_name "string option" | Prop_auth_file "string option"
  | Prop_user_name "string option" | Prop_disable_tcp bool

definition mdm_server_set_property :: "server_property \<Rightarrow> server \<Rightarrow> server" where
  "mdm_server_set_property prop xs =
     (case prop of
        Prop_display_name name \<Rightarrow> xs\<lparr>xs_display_name := name\<rparr>
      | Prop_auth_file file \<Rightarrow> xs\<lparr>xs_auth_file := file\<rparr>
      | Prop_user_name name \<Rightarrow> xs\<lparr>xs_user_name := name\<rparr>
      | Prop_disable_tcp disabled \<Rightarrow> xs\<lparr>xs_disable_tcp := disabled\<rparr>)"

definition emit :: "server_signal \<Rightarrow> server \<Rightarrow> server" where
  "emit sig xs = xs\<lparr>xs_signals := sig # xs_signals xs\<rparr>"

subsection \<open>The device of the display\<close>

definition query_ck_for_display_device ::
  "process_env \<Rightarrow> server \<Rightarrow> ptrace \<Rightarrow> string option \<times> ptrace" where
  "query_ck_for_display_device env xs t =
     (let t = Run_helper (''/usr/lib/ConsoleKit/ck-get-x11-display-device --display ''
                @ null_string (xs_display_name xs)) # t
      in (map_option strip_blanks (p_output env t), t))"

definition mdm_server_get_display_device ::
  "process_env \<Rightarrow> server \<Rightarrow> ptrace \<Rightarrow> string option \<times> server \<times> ptrace" where
  "mdm_server_get_display_device env xs t =
     (case xs_display_device xs of
        None \<Rightarrow>
          (case query_ck_for_display_device env xs t of (dev, t) \<Rightarrow>
             (dev, emit Device_changed (xs\<lparr>xs_display_device := dev\<rparr>), t))
      | Some dev \<Rightarrow> (Some dev, xs, t))"

subsection \<open>The command line\<close>

text \<open>
  The argument vector is an array of pointers: \<open>g_renew\<close> makes it longer, with cells that hold nothing
  yet. A store behind its end is \<^term>\<open>None\<close>.
\<close>

datatype arg = Arg string | Null_arg | Uninitialised

definition store_arg :: "nat \<Rightarrow> arg \<Rightarrow> arg list \<Rightarrow> arg list option" where
  "store_arg i a argv = (if i < length argv then Some (argv[i := a]) else None)"

definition parsed_argv :: "string list option \<Rightarrow> arg list" where
  "parsed_argv args = (case args of None \<Rightarrow> [] | Some as \<Rightarrow> map Arg as @ [Null_arg])"

definition g_renew_argv :: "nat \<Rightarrow> arg list \<Rightarrow> arg list" where
  "g_renew_argv n argv = take n argv @ replicate (n - length argv) Uninitialised"

text \<open>The loop shifts the arguments behind the first one up by one, \<open>i\<close> running down to 1.\<close>

fun shift_args :: "nat \<Rightarrow> arg list \<Rightarrow> arg list option" where
  "shift_args 0 argv = Some argv"
| "shift_args (Suc i) argv =
     Option.bind (store_arg (Suc i + 1) (argv ! Suc i) argv) (shift_args i)"

definition char_at :: "string \<Rightarrow> nat \<Rightarrow> char" where
  "char_at s i = (if i < length s then s ! i else CHR 0x00)"

definition is_decimal :: "char \<Rightarrow> bool" where
  "is_decimal c \<longleftrightarrow> c \<in> set ''0123456789''"

definition is_vt_arg :: "string \<Rightarrow> bool" where
  "is_vt_arg a \<longleftrightarrow>
     take 2 a = ''vt'' \<and> is_decimal (char_at a 2) \<and>
     (char_at a 3 = CHR 0x00 \<or> (is_decimal (char_at a 3) \<and> char_at a 4 = CHR 0x00))"

definition is_query_arg :: "string \<Rightarrow> bool" where
  "is_query_arg a \<longleftrightarrow> a = ''-query'' \<or> a = ''-indirect''"

definition push_arg :: "arg \<Rightarrow> nat \<times> arg list \<Rightarrow> (nat \<times> arg list) option" where
  "push_arg a x = (case x of (len, argv) \<Rightarrow> map_option (\<lambda>argv. (len + 1, argv)) (store_arg len a argv))"

fun push_args :: "arg list \<Rightarrow> nat \<times> arg list \<Rightarrow> (nat \<times> arg list) option" where
  "push_args [] x = Some x"
| "push_args (a # as) x = Option.bind (push_arg a x) (push_args as)"

definition pointer :: "string option \<Rightarrow> arg" where
  "pointer s = (case s of None \<Rightarrow> Null_arg | Some s \<Rightarrow> Arg s)"

definition mdm_server_resolve_command_line ::
  "process_env \<Rightarrow> string option \<Rightarrow> server \<Rightarrow> (nat \<times> arg list) option" where
  "mdm_server_resolve_command_line env vtarg xs =
     (let args = p_shell_parse env (xs_command xs);
          as = (case args of None \<Rightarrow> [] | Some as \<Rightarrow> as);
          len = length as;
          gotvtarg = list_ex is_vt_arg as;
          query_in_arglist = list_ex is_query_arg as;
          argv = g_renew_argv (len + 10) (parsed_argv args)
      in do {
        argv \<leftarrow> shift_args (len - 1) argv;
        argv \<leftarrow> store_arg 1 (pointer (xs_display_name xs)) argv;
        x \<leftarrow> (case xs_auth_file xs of
                None \<Rightarrow> Some (len + 1, argv)
              | Some file \<Rightarrow> push_args [Arg ''-auth'', Arg file] (len + 1, argv));
        x \<leftarrow> (case xs_chosen_hostname xs of
                None \<Rightarrow> Some x
              | Some host \<Rightarrow> push_args [Arg ''-terminate'', Arg ''-query'', Arg host] x);
        let query_in_arglist = (query_in_arglist \<or> xs_chosen_hostname xs \<noteq> None);
        x \<leftarrow> (if xs_disable_tcp xs \<and> \<not> query_in_arglist
              then push_args [Arg ''-nolisten'', Arg ''tcp''] x else Some x);
        x \<leftarrow> (case vtarg of
                None \<Rightarrow> Some x
              | Some vt \<Rightarrow> if gotvtarg then Some x else push_args [Arg vt] x);
        push_args [Null_arg] x
      })"

text \<open>What the executed program sees of the array: the strings in front of the first NULL.\<close>

fun argv_strings :: "arg list \<Rightarrow> string list option" where
  "argv_strings [] = None"
| "argv_strings (Null_arg # argv) = Some []"
| "argv_strings (Arg s # argv) = map_option (\<lambda>ss. s # ss) (argv_strings argv)"
| "argv_strings (Uninitialised # argv) = None"

subsection \<open>The environment\<close>

text \<open>The slave's environment as a hash table with what the X server gets instead. \<^term>\<open>None\<close> is the end of the
  slave: the entry of a user that does not exist is read through NULL.\<close>

definition get_server_environment ::
  "process_env \<Rightarrow> server \<Rightarrow> ptrace \<Rightarrow> string list option" where
  "get_server_environment env xs t =
     (let hash = fold (\<lambda>(key, val). AList.update key val) (environ_after env t) [];
          hash =
            (if xs_is_parented xs then
               (let hash = (case xs_parent_auth_file xs of None \<Rightarrow> hash
                            | Some file \<Rightarrow> AList.update ''XAUTHORITY'' file hash)
                in case xs_parent_display_name xs of None \<Rightarrow> hash
                   | Some name \<Rightarrow> AList.update ''DISPLAY'' name hash)
             else AList.update ''DISPLAY='' (null_string (xs_display_name xs)) hash)
      in case xs_user_name xs of
           None \<Rightarrow> Some (listify env hash)
         | Some name \<Rightarrow>
             do {
               pwent \<leftarrow> lookup_user env name t;
               pwent \<leftarrow> pwent;
               let hash = AList.update ''HOME''
                            (if p_exists env t (pw_dir pwent) then pw_dir pwent else ''/'') hash;
               let hash = AList.update ''SHELL'' (pw_shell pwent) hash;
               Some (listify env (AList.delete ''MAIL'' hash))
             })"

subsection \<open>The child\<close>

definition change_user :: "process_env \<Rightarrow> server \<Rightarrow> ptrace \<Rightarrow> (child_end \<times> ptrace) option" where
  "change_user env xs t =
     (case xs_user_name xs of
        None \<Rightarrow> Some (Executes, t)
      | Some name \<Rightarrow>
          map_option (\<lambda>pwent. case pwent of
              None \<Rightarrow> (Exits 1, t)
            | Some pwent \<Rightarrow> become_user env pwent (pw_gid pwent) t) (lookup_user env name t))"

definition SERVER_ABORT :: nat where
  "SERVER_ABORT = 253"

fun ignore_signals :: "process_env \<Rightarrow> string list \<Rightarrow> ptrace \<Rightarrow> child_end \<times> ptrace" where
  "ignore_signals env [] t = (Executes, t)"
| "ignore_signals env (sig # sigs) t =
     (case pcall env (Ignore_signal sig) t of (res, t) \<Rightarrow>
        if res < 0 then (Exits SERVER_ABORT, t) else ignore_signals env sigs t)"

definition server_log_path :: "server \<Rightarrow> string" where
  "server_log_path xs =
     g_build_filename [xs_log_dir xs, null_string (xs_display_name xs) @ ''.log'']"

definition server_child_setup ::
  "process_env \<Rightarrow> server \<Rightarrow> ptrace \<Rightarrow> (child_end \<times> ptrace) option" where
  "server_child_setup env xs t =
     (let t = open_log env (server_log_path xs) t
      in case ignore_signals env [''USR1'', ''TTIN'', ''TTOU''] t of
           (Executes, t) \<Rightarrow>
             let t = Die_with_parent # Unblock_signals # t;
                 t = (if xs_priority xs \<noteq> 0 then Set_priority (xs_priority xs) # t else t);
                 t = Set_process_group # t
             in change_user env xs t
         | left \<Rightarrow> Some left)"

subsection \<open>Starting, stopping and the end\<close>

text \<open>The answer to \<^term>\<open>Spawn\<close> is the child's pid, negative when it could not be created: the object's pid
  then stays what it was, and the child watch is added all the same. A command line without a program
  ends the slave.\<close>

definition mdm_server_spawn ::
  "process_env \<Rightarrow> string option \<Rightarrow> server \<Rightarrow> ptrace \<Rightarrow> (bool \<times> server \<times> ptrace) option" where
  "mdm_server_spawn env vtarg xs t =
     do {
       (argc, argv) \<leftarrow> mdm_server_resolve_command_line env vtarg xs;
       _ \<leftarrow> (if xs_session_args xs = None then Some () else None);
       args \<leftarrow> argv_strings argv;
       _ \<leftarrow> (if args = [] then None else Some ());
       vars \<leftarrow> get_server_environment env xs t;
       let t = Create_stamp ''/var/run/mdm/firstserver.stamp'' # t;
       let (child, t) = pcall env (Spawn args vars None) t;
       let ret = (child \<ge> 0);
       let xs = (if ret then xs\<lparr>xs_pid := child\<rparr> else xs);
       Some (ret, xs\<lparr>xs_child_watch_id := True, xs_watch_armed := ret\<rparr>, t)
     }"

text \<open>\<open>get_active_vt\<close> answers the number of the terminal, 0 when it could not be asked.\<close>

definition get_active_vt_as_string :: "process_env \<Rightarrow> ptrace \<Rightarrow> string option \<times> ptrace" where
  "get_active_vt_as_string env t =
     (case pcall env Get_active_vt t of (vt, t) \<Rightarrow>
        (if vt \<le> 0 then None else Some (''vt'' @ string_of_int vt), t))"

definition mdm_server_start ::
  "process_env \<Rightarrow> server \<Rightarrow> ptrace \<Rightarrow> (bool \<times> server \<times> ptrace) option" where
  "mdm_server_start env xs t =
     (case pcall env (Access_file ''/var/run/mdm/firstserver.stamp'') t of (res, t) \<Rightarrow>
        mdm_server_spawn env (if res < 0 then Some ''vt7'' else None) xs t)"

definition mdm_server_start_on_active_vt ::
  "process_env \<Rightarrow> server \<Rightarrow> ptrace \<Rightarrow> (bool \<times> server \<times> ptrace) option" where
  "mdm_server_start_on_active_vt env xs t =
     (let xs = xs\<lparr>xs_command := X_SERVER @ '' -nr -verbose''\<rparr>
      in case get_active_vt_as_string env t of (vt, t) \<Rightarrow> mdm_server_spawn env vt xs t)"

definition server_died :: "process_env \<Rightarrow> server \<Rightarrow> ptrace \<Rightarrow> (server \<times> ptrace) option" where
  "server_died env xs t =
     do {
       let t = Wait_process (xs_pid xs) # t;
       _ \<leftarrow> mdm_wait_on_pid (p_waitpid env t) 0;
       let xs = xs\<lparr>xs_pid := -1\<rparr>;
       Some (if xs_display_device xs \<noteq> None then emit Device_changed (xs\<lparr>xs_display_device := None\<rparr>)
             else xs, t)
     }"

definition mdm_server_stop :: "process_env \<Rightarrow> server \<Rightarrow> ptrace \<Rightarrow> (server \<times> ptrace) option" where
  "mdm_server_stop env xs t =
     (if xs_pid xs \<le> 1 then Some (xs, t)
      else let xs = xs\<lparr>xs_child_watch_id := False, xs_watch_armed := False\<rparr>
        in case pcall env (Kill_process (xs_pid xs)) t of (res, t) \<Rightarrow>
             if res < 0 then Some (xs, t) else server_died env xs t)"

definition server_child_watch :: "wait_status \<Rightarrow> server \<Rightarrow> server" where
  "server_child_watch status xs =
     (let xs = (case status of
                  Status code \<Rightarrow> emit (Server_exited code) xs
                | Signal num \<Rightarrow> emit (Server_died num) xs
                | Unknown_status \<Rightarrow> xs)
      in xs\<lparr>xs_pid := -1, xs_watch_armed := False\<rparr>)"

text \<open>\<open>SIGUSR1\<close> and the idle callback it queues.\<close>

definition signal_cb :: "server \<Rightarrow> server" where
  "signal_cb xs = (if xs_ready_handler xs then xs\<lparr>xs_ready_idles := xs_ready_idles xs + 1\<rparr> else xs)"

definition emit_ready_idle :: "server \<Rightarrow> server" where
  "emit_ready_idle xs =
     (if xs_ready_idles xs > 0
      then emit Server_ready (xs\<lparr>xs_ready_idles := xs_ready_idles xs - 1\<rparr>) else xs)"

definition mdm_server_finalize :: "process_env \<Rightarrow> server \<Rightarrow> ptrace \<Rightarrow> (server \<times> ptrace) option" where
  "mdm_server_finalize env xs t = mdm_server_stop env (xs\<lparr>xs_ready_handler := False\<rparr>) t"

subsection \<open>The command line, as a list\<close>

definition server_args :: "string option \<Rightarrow> server \<Rightarrow> string \<Rightarrow> string list \<Rightarrow> string \<Rightarrow> string list" where
  "server_args vtarg xs prog rest name =
     prog # name # rest
     @ (case xs_auth_file xs of None \<Rightarrow> [] | Some file \<Rightarrow> [''-auth'', file])
     @ (case xs_chosen_hostname xs of None \<Rightarrow> [] | Some host \<Rightarrow> [''-terminate'', ''-query'', host])
     @ (if xs_disable_tcp xs \<and> \<not> (list_ex is_query_arg (prog # rest) \<or> xs_chosen_hostname xs \<noteq> None)
        then [''-nolisten'', ''tcp''] else [])
     @ (case vtarg of None \<Rightarrow> [] | Some vt \<Rightarrow> if list_ex is_vt_arg (prog # rest) then [] else [vt])"

lemma shift_args_eq:
  "shift_args (length as) (a # as @ b # cs) = Some (a # hd (as @ [b]) # as @ cs)"
proof (induction as arbitrary: b cs rule: rev_induct)
  case Nil
  then show ?case by simp
next
  case (snoc x as)
  have "store_arg (Suc (length as) + 1) ((a # (as @ [x]) @ b # cs) ! Suc (length as)) (a # (as @ [x]) @ b # cs)
      = Some (a # as @ x # x # cs)"
    by (simp add: store_arg_def list_update_append nth_append)
  then show ?case
    using snoc [of x "x # cs"] by (cases as) simp_all
qed

lemma push_args_eq:
  "length new \<le> length cs \<Longrightarrow>
     push_args new (length pre, pre @ cs) = Some (length (pre @ new), (pre @ new) @ drop (length new) cs)"
proof (induction new arbitrary: pre cs)
  case Nil
  then show ?case by simp
next
  case (Cons a new)
  then obtain c cs' where cs: "cs = c # cs'" by (cases cs) auto
  have "push_arg a (length pre, pre @ cs) = Some (length (pre @ [a]), (pre @ [a]) @ cs')"
    by (simp add: push_arg_def store_arg_def cs list_update_append)
  with Cons.IH [of cs' "pre @ [a]"] Cons.prems show ?case by (simp add: cs)
qed

lemma push_arg_list:
  assumes "length new \<le> n"
  shows "push_args new (length pre, pre @ replicate n Uninitialised)
     = Some (length (pre @ new), (pre @ new) @ replicate (n - length new) Uninitialised)"
  using push_args_eq [of new "replicate n Uninitialised" pre] assms by simp

lemma argv_strings_eq: "argv_strings (map Arg ss @ Null_arg # cs) = Some ss"
  by (induction ss) simp_all

lemma push_args_append: "push_args (as @ bs) x = Option.bind (push_args as x) (push_args bs)"
  by (induction as arbitrary: x) (auto split: Option.bind_splits)

lemma optional_push:
  "(case a of None \<Rightarrow> Some x | Some f \<Rightarrow> push_args (g f) x) = push_args (case a of None \<Rightarrow> [] | Some f \<Rightarrow> g f) x"
  "(case a of None \<Rightarrow> Some x | Some f \<Rightarrow> if b then Some x else push_args (g f) x)
     = push_args (case a of None \<Rightarrow> [] | Some f \<Rightarrow> if b then [] else g f) x"
  "(if b then push_args new x else Some x) = push_args (if b then new else []) x"
  by (simp_all split: option.split)

text \<open>The arguments fit into the ten cells that were added, with two to spare.\<close>

lemma resolve_command_line_eq:
  assumes "p_shell_parse env (xs_command xs) = Some (prog # rest)" and "xs_display_name xs = Some name"
  shows "\<exists>cs. mdm_server_resolve_command_line env vtarg xs =
      Some (length (server_args vtarg xs prog rest name) + 1,
            map Arg (server_args vtarg xs prog rest name) @ Null_arg # cs)
    \<and> length (server_args vtarg xs prog rest name) + 1 + length cs = length rest + 11
    \<and> length cs \<ge> 2"
proof -
  define pre where "pre = Arg prog # Arg name # map Arg rest"
  define auth where "auth = (case xs_auth_file xs of None \<Rightarrow> [] | Some file \<Rightarrow> [Arg ''-auth'', Arg file])"
  define host where "host = (case xs_chosen_hostname xs of None \<Rightarrow> []
    | Some host \<Rightarrow> [Arg ''-terminate'', Arg ''-query'', Arg host])"
  define tcp where "tcp = (if xs_disable_tcp xs \<and>
      \<not> (list_ex is_query_arg (prog # rest) \<or> xs_chosen_hostname xs \<noteq> None)
    then [Arg ''-nolisten'', Arg ''tcp''] else [])"
  define vt where "vt = (case vtarg of None \<Rightarrow> [] | Some vt \<Rightarrow> if list_ex is_vt_arg (prog # rest) then [] else [Arg vt])"
  define new where "new = auth @ host @ tcp @ vt"
  have few: "length new \<le> 6"
    by (auto simp: new_def auth_def host_def tcp_def vt_def split: option.split)
  have args: "map Arg (server_args vtarg xs prog rest name) = pre @ new"
    by (simp add: server_args_def pre_def new_def auth_def host_def tcp_def vt_def split: option.split)
  have shift: "shift_args (length rest) (Arg prog # map Arg rest @ Null_arg # cs)
      = Some (Arg prog # hd (map Arg rest @ [Null_arg]) # map Arg rest @ cs)" for cs
    using shift_args_eq [of "map Arg rest"] by simp
  have renew: "g_renew_argv (Suc (length rest) + 10) (parsed_argv (Some (prog # rest)))
      = Arg prog # map Arg rest @ Null_arg # replicate 9 Uninitialised"
    by (simp add: g_renew_argv_def parsed_argv_def)
  have store: "store_arg 1 (Arg name) (Arg prog # c # map Arg rest @ replicate 9 Uninitialised)
      = Some (pre @ replicate 9 Uninitialised)" for c
    by (simp add: store_arg_def pre_def)
  have "mdm_server_resolve_command_line env vtarg xs
      = push_args (new @ [Null_arg]) (length pre, pre @ replicate 9 Uninitialised)"
    unfolding mdm_server_resolve_command_line_def Let_def assms(1) option.case optional_push list.size
      push_args_append new_def auth_def host_def tcp_def vt_def
    using renew store shift by (simp add: assms(2) pointer_def pre_def bind_assoc)
  also have "\<dots> = Some (length (pre @ new) + 1, (pre @ new) @ Null_arg # replicate (8 - length new) Uninitialised)"
    using push_arg_list [of "new @ [Null_arg]" 9 pre] few by simp
  finally have "mdm_server_resolve_command_line env vtarg xs =
      Some (length (server_args vtarg xs prog rest name) + 1,
        map Arg (server_args vtarg xs prog rest name) @ Null_arg # replicate (8 - length new) Uninitialised)"
    by (simp only: args [symmetric] length_map)
  moreover have "length (server_args vtarg xs prog rest name) = length rest + 2 + length new"
    using arg_cong [OF args, of length] by (simp add: pre_def)
  ultimately show ?thesis using few by auto
qed

text \<open>What the spawned program is given.\<close>

lemma spawn_eq:
  assumes "p_shell_parse env (xs_command xs) = Some (prog # rest)" and "xs_display_name xs = Some name"
    and "xs_session_args xs = None"
  shows "mdm_server_spawn env vtarg xs t =
    (case get_server_environment env xs t of
       None \<Rightarrow> None
     | Some vars \<Rightarrow>
         let t = Spawn (server_args vtarg xs prog rest name) vars None
                   # Create_stamp ''/var/run/mdm/firstserver.stamp'' # t;
             child = p_result env t
         in Some (child \<ge> 0, (if child \<ge> 0 then xs\<lparr>xs_pid := child\<rparr> else xs)
              \<lparr>xs_child_watch_id := True, xs_watch_armed := (child \<ge> 0)\<rparr>, t))"
proof -
  obtain cs where "mdm_server_resolve_command_line env vtarg xs =
      Some (length (server_args vtarg xs prog rest name) + 1,
            map Arg (server_args vtarg xs prog rest name) @ Null_arg # cs)"
    using resolve_command_line_eq [OF assms(1,2)] by blast
  moreover have "server_args vtarg xs prog rest name \<noteq> []" by (simp add: server_args_def)
  ultimately show ?thesis
    using assms(3) by (simp add: mdm_server_spawn_def argv_strings_eq Let_def split: option.split)
qed

subsection \<open>The contract\<close>

definition server_valid :: "process_env \<Rightarrow> server \<Rightarrow> bool" where
  "server_valid env xs \<longleftrightarrow> kernel_pids env \<and> (xs_watch_armed xs \<longrightarrow> xs_pid xs > 1)"

lemma spawn_result:
  assumes "mdm_server_spawn env vtarg xs t = Some (ret, xs', t')"
  obtains args vars where "t' = Spawn args vars None # Create_stamp ''/var/run/mdm/firstserver.stamp'' # t"
    and "ret = (p_result env t' \<ge> 0)"
    and "xs' = (if ret then xs\<lparr>xs_pid := p_result env t'\<rparr> else xs)
      \<lparr>xs_child_watch_id := True, xs_watch_armed := ret\<rparr>"
  using assms unfolding mdm_server_spawn_def bind_eq_Some_conv Let_def pcall_eq prod.case
  by (elim exE conjE) (auto simp: bind_eq_Some_conv)

text \<open>What the signals say of the ends of the server.\<close>

definition server_reports :: "server \<Rightarrow> wait_status list" where
  "server_reports xs = concat (map (\<lambda>sig. case sig of Server_exited code \<Rightarrow> [Status code]
     | Server_died num \<Rightarrow> [Signal num] | _ \<Rightarrow> []) (xs_signals xs))"

lemma spawn_watch:
  assumes "kernel_pids env" and "mdm_server_spawn env vtarg xs t = Some (ret, xs', t')"
  shows "xs_watch_armed xs' = ret \<and> xs_signals xs' = xs_signals xs
    \<and> killed env t' = killed env t \<and> waited t' = waited t
    \<and> (if ret then xs_pid xs' > 1 \<and> spawned env t' = xs_pid xs' # spawned env t
       else xs_pid xs' = xs_pid xs \<and> spawned env t' = spawned env t)"
  by (rule spawn_result [OF assms(2)]) (use assms(1) in \<open>auto simp: kernel_pids_def\<close>)

lemma start_watch:
  assumes "kernel_pids env" and "mdm_server_start env xs t = Some (ret, xs', t')"
  shows "xs_watch_armed xs' = ret \<and> xs_signals xs' = xs_signals xs
    \<and> killed env t' = killed env t \<and> waited t' = waited t
    \<and> (if ret then xs_pid xs' > 1 \<and> spawned env t' = xs_pid xs' # spawned env t
       else xs_pid xs' = xs_pid xs \<and> spawned env t' = spawned env t)"
  using assms(2) spawn_watch [OF assms(1)] by (fastforce simp: mdm_server_start_def split: if_splits)

text \<open>Stopping: the child is sent \<open>SIGTERM\<close> and waited for, unless the kernel refuses the signal.\<close>

lemma stop_watch:
  assumes "mdm_server_stop env xs t = Some (xs', t')" and "xs_pid xs > 1"
  shows "\<not> xs_watch_armed xs' \<and> server_reports xs' = server_reports xs \<and> spawned env t' = spawned env t
    \<and> (xs_pid xs' = xs_pid xs \<and> killed env t' = (xs_pid xs, False) # killed env t \<and> waited t' = waited t
      \<or> xs_pid xs' \<le> 1 \<and> killed env t' = (xs_pid xs, True) # killed env t \<and> waited t' = xs_pid xs # waited t)"
  using assms by (auto simp: mdm_server_stop_def server_died_def server_reports_def bind_eq_Some_conv Let_def
      emit_def split: if_splits)

lemma end_watch:
  "server_reports (server_child_watch status xs) = known_status status @ server_reports xs"
  "xs_pid (server_child_watch status xs) = -1" "\<not> xs_watch_armed (server_child_watch status xs)"
  by (simp_all add: server_child_watch_def server_reports_def known_status_def emit_def Let_def
      split: wait_status.split)

interpretation watched_server: watched_process
  "\<lambda>x. xs_watch_armed (fst x)"
  "\<lambda>x. xs_pid (fst x)"
  "\<lambda>(xs, t). mdm_server_start env xs t"
  "\<lambda>(xs, t). mdm_server_stop env xs t"
  "\<lambda>status (xs, t). Some (server_child_watch status xs, t)"
  "\<lambda>x. spawned env (snd x)"
  "\<lambda>x. killed env (snd x)"
  "\<lambda>x. waited (snd x)"
  "\<lambda>x. server_reports (fst x)"
  "\<lambda>x. server_valid env (fst x)"
  for env
proof (unfold_locales, goal_cases)
  case (1 s)
  then show ?case by (simp add: server_valid_def)
next
  case (2 s s')
  then show ?case
    using start_watch by (cases s; cases s') (fastforce simp: server_valid_def server_reports_def)
next
  case (3 s s')
  then show ?case
    using start_watch by (cases s; cases s') (fastforce simp: server_valid_def server_reports_def)
next
  case (4 s s')
  then show ?case by (cases s; cases s') (simp add: mdm_server_stop_def)
next
  case (5 s s')
  then show ?case using stop_watch by (cases s; cases s') (simp add: server_valid_def)
next
  case (6 s status s')
  then show ?case by (cases s; cases s') (auto simp: server_valid_def end_watch)
qed

end
