(* ===== verification/Welcome_Session.thy ===== *)
theory Welcome_Session
  imports Process_World "HOL-Library.Word"
begin

text \<open>
  The process a slave runs on its display before anybody is logged in, \<open>daemon/mdm-welcome-session.c\<close>: the
  greeter (\<open>mdm-greeter-session.c\<close>) or the host chooser (\<open>mdm-chooser-session.c\<close>). It is registered with
  ConsoleKit, gets a D-Bus daemon of its own and a clean environment, and runs as the user \<open>mdm\<close>.

  \<^term>\<open>ws_ckc\<close> says whether there is a ConsoleKit connector, \<^term>\<open>ws_watch_armed\<close> is the main loop's side of
  the child watch.
\<close>

subsection \<open>The object\<close>

datatype welcome_signal = Welcome_exited int | Welcome_died int

record welcome_session =
  ws_command :: "string option"
  ws_pid :: int
  ws_ckc :: bool
  ws_user_name :: string
  ws_group_name :: string
  ws_runtime_dir :: "string option"
  ws_x11_display_name :: "string option"
  ws_x11_display_seat_id :: "string option"
  ws_x11_display_device :: "string option"
  ws_x11_display_hostname :: "string option"
  ws_x11_authority_file :: "string option"
  ws_x11_display_is_local :: bool
  ws_child_watch_id :: bool
  ws_watch_armed :: bool
  ws_dbus_pid :: int
  ws_dbus_bus_address :: "string option"
  ws_server_dbus_path :: "string option"
  ws_server_dbus_interface :: "string option"
  ws_server_env_var_name :: "string option"
  ws_register_ck_session :: bool
  ws_server_address :: "string option"
  ws_signals :: "welcome_signal list"

text \<open>The properties that are not given keep the defaults of the class.\<close>

definition mdm_welcome_session_init :: welcome_session where
  "mdm_welcome_session_init =
     \<lparr>ws_command = None, ws_pid = -1, ws_ckc = False, ws_user_name = ''mdm'', ws_group_name = ''mdm'',
      ws_runtime_dir = None, ws_x11_display_name = None, ws_x11_display_seat_id = None,
      ws_x11_display_device = None, ws_x11_display_hostname = None, ws_x11_authority_file = None,
      ws_x11_display_is_local = False, ws_child_watch_id = False, ws_watch_armed = False,
      ws_dbus_pid = 0, ws_dbus_bus_address = None, ws_server_dbus_path = None,
      ws_server_dbus_interface = None, ws_server_env_var_name = None,
      ws_register_ck_session = False, ws_server_address = None, ws_signals = []\<rparr>"

definition mdm_greeter_session_new ::
  "string option \<Rightarrow> string option \<Rightarrow> string option \<Rightarrow> string option \<Rightarrow> bool \<Rightarrow> welcome_session" where
  "mdm_greeter_session_new name seat dev host is_local =
     mdm_welcome_session_init
       \<lparr>ws_command := Some ''/usr/bin/mate-session --autostart=/usr/share/mdm/autostart/LoginWindow/'',
        ws_server_dbus_path := Some ''/org/mate/DisplayManager/GreeterServer'',
        ws_server_dbus_interface := Some ''org.mate.DisplayManager.GreeterServer'',
        ws_server_env_var_name := Some ''MDM_GREETER_DBUS_ADDRESS'',
        ws_register_ck_session := True,
        ws_x11_display_name := name,
        ws_x11_display_seat_id := seat,
        ws_x11_display_device := dev,
        ws_x11_display_hostname := host,
        ws_x11_display_is_local := is_local,
        ws_runtime_dir := Some ''/var/run/mdm/greeter''\<rparr>"

definition mdm_chooser_session_new ::
  "string option \<Rightarrow> string option \<Rightarrow> string option \<Rightarrow> welcome_session" where
  "mdm_chooser_session_new name dev host =
     mdm_welcome_session_init
       \<lparr>ws_command := Some ''/usr/libexec/mdm-simple-chooser'',
        ws_server_dbus_path := Some ''/org/mate/DisplayManager/ChooserServer'',
        ws_server_dbus_interface := Some ''org.mate.DisplayManager.ChooserServer'',
        ws_server_env_var_name := Some ''MDM_CHOOSER_DBUS_ADDRESS'',
        ws_register_ck_session := False,
        ws_x11_display_name := name,
        ws_x11_display_device := dev,
        ws_x11_display_hostname := host\<rparr>"

text \<open>The writable properties.\<close>

datatype welcome_property = Ws_x11_display_name "string option" | Ws_x11_display_seat_id "string option"
  | Ws_x11_display_hostname "string option" | Ws_x11_display_device "string option"
  | Ws_x11_display_is_local bool | Ws_x11_authority_file "string option"
  | Ws_user_name string | Ws_group_name string | Ws_runtime_dir "string option"
  | Ws_server_address "string option" | Ws_server_dbus_path "string option"
  | Ws_server_dbus_interface "string option" | Ws_register_ck_session bool
  | Ws_server_env_var_name "string option" | Ws_command "string option"

definition mdm_welcome_session_set_server_address ::
  "string option \<Rightarrow> welcome_session \<Rightarrow> welcome_session" where
  "mdm_welcome_session_set_server_address address ws = ws\<lparr>ws_server_address := address\<rparr>"

definition mdm_welcome_session_set_property ::
  "welcome_property \<Rightarrow> welcome_session \<Rightarrow> welcome_session" where
  "mdm_welcome_session_set_property prop ws =
     (case prop of
        Ws_x11_display_name v \<Rightarrow> ws\<lparr>ws_x11_display_name := v\<rparr>
      | Ws_x11_display_seat_id v \<Rightarrow> ws\<lparr>ws_x11_display_seat_id := v\<rparr>
      | Ws_x11_display_hostname v \<Rightarrow> ws\<lparr>ws_x11_display_hostname := v\<rparr>
      | Ws_x11_display_device v \<Rightarrow> ws\<lparr>ws_x11_display_device := v\<rparr>
      | Ws_x11_display_is_local v \<Rightarrow> ws\<lparr>ws_x11_display_is_local := v\<rparr>
      | Ws_x11_authority_file v \<Rightarrow> ws\<lparr>ws_x11_authority_file := v\<rparr>
      | Ws_user_name v \<Rightarrow> ws\<lparr>ws_user_name := v\<rparr>
      | Ws_group_name v \<Rightarrow> ws\<lparr>ws_group_name := v\<rparr>
      | Ws_runtime_dir v \<Rightarrow> ws\<lparr>ws_runtime_dir := v\<rparr>
      | Ws_server_address v \<Rightarrow> mdm_welcome_session_set_server_address v ws
      | Ws_server_dbus_path v \<Rightarrow> ws\<lparr>ws_server_dbus_path := v\<rparr>
      | Ws_server_dbus_interface v \<Rightarrow> ws\<lparr>ws_server_dbus_interface := v\<rparr>
      | Ws_register_ck_session v \<Rightarrow> ws\<lparr>ws_register_ck_session := v\<rparr>
      | Ws_server_env_var_name v \<Rightarrow> ws\<lparr>ws_server_env_var_name := v\<rparr>
      | Ws_command v \<Rightarrow> ws\<lparr>ws_command := v\<rparr>)"

subsection \<open>ConsoleKit\<close>

definition open_welcome_session ::
  "process_env \<Rightarrow> welcome_session \<Rightarrow> ptrace \<Rightarrow> (bool \<times> welcome_session \<times> ptrace) option" where
  "open_welcome_session env ws t =
     do {
       pwent \<leftarrow> lookup_user env (ws_user_name ws) t;
       case pwent of
         None \<Rightarrow> Some (False, ws, t)
       | Some pwent \<Rightarrow>
           (case pcall env CK_new t of (res, t) \<Rightarrow>
              if res < 0 then Some (False, ws\<lparr>ws_ckc := False\<rparr>, t)
              else
                let ws = ws\<lparr>ws_ckc := True\<rparr>;
                    host = (case ws_x11_display_hostname ws of None \<Rightarrow> [] | Some h \<Rightarrow> h);
                    dev = (case ws_x11_display_device ws of None \<Rightarrow> [] | Some d \<Rightarrow> d);
                    (res, t) = pcall env (CK_register (pw_uid pwent) ''LoginWindow''
                      (ws_x11_display_name ws) dev host (ws_x11_display_is_local ws)) t
                in Some (res > 0, ws, t))
     }"

definition close_welcome_session ::
  "process_env \<Rightarrow> welcome_session \<Rightarrow> ptrace \<Rightarrow> bool \<times> ptrace" where
  "close_welcome_session env ws t =
     (if \<not> ws_ckc ws then (False, t)
      else case pcall env CK_unregister t of (res, t) \<Rightarrow> (res > 0, t))"

subsection \<open>The language of the system\<close>

definition optional_environment :: "string list" where
  "optional_environment =
     [''LANG'', ''LANGUAGE'', ''LC_CTYPE'', ''LC_NUMERIC'', ''LC_TIME'', ''LC_COLLATE'', ''LC_MONETARY'',
      ''LC_MESSAGES'', ''LC_PAPER'', ''LC_NAME'', ''LC_ADDRESS'', ''LC_TELEPHONE'', ''LC_MEASUREMENT'',
      ''LC_IDENTIFICATION'', ''LC_ALL'']"

text \<open>
  The pattern is \<open>(?P<key>(LANG|LANGUAGE|...))=(")?(?P<value>[^"]*)?(")?\<close>, not anchored: the first
  place of the line where one of the names is followed by an equals sign. The value goes up to the
  next quote.
\<close>

fun strip_prefix :: "string \<Rightarrow> string \<Rightarrow> string option" where
  "strip_prefix [] s = Some s"
| "strip_prefix (c # cs) [] = None"
| "strip_prefix (c # cs) (d # ds) = (if c = d then strip_prefix cs ds else None)"

fun match_key :: "string list \<Rightarrow> string \<Rightarrow> (string \<times> string) option" where
  "match_key [] s = None"
| "match_key (key # keys) s =
     (case strip_prefix (key @ ''='') s of
        None \<Rightarrow> match_key keys s
      | Some rest \<Rightarrow> Some (key, rest))"

definition is_quote :: "char \<Rightarrow> bool" where
  "is_quote c \<longleftrightarrow> c = CHR 0x22"

definition quoted_value :: "string \<Rightarrow> string" where
  "quoted_value rest =
     takeWhile (\<lambda>c. \<not> is_quote c)
       (case rest of [] \<Rightarrow> [] | c # cs \<Rightarrow> if is_quote c then cs else rest)"

fun regex_match :: "string list \<Rightarrow> string \<Rightarrow> (string \<times> string) option" where
  "regex_match keys [] = None"
| "regex_match keys (c # cs) =
     (case match_key keys (c # cs) of
        Some (key, rest) \<Rightarrow> Some (key, quoted_value rest)
      | None \<Rightarrow> regex_match keys cs)"

definition language_line :: "string list \<Rightarrow> string \<Rightarrow> ptrace \<Rightarrow> ptrace" where
  "language_line keys line t =
     (if line \<noteq> [] \<and> hd line = CHR ''#'' then t
      else case regex_match keys line of
        None \<Rightarrow> t
      | Some (key, val) \<Rightarrow> if val \<noteq> [] then Set_env key val # t else Unset_env key # t)"

text \<open>The loop over the characters of the file: a line is looked at when its end is read.\<close>

fun language_loop :: "string list \<Rightarrow> string \<Rightarrow> string \<Rightarrow> ptrace \<Rightarrow> ptrace" where
  "language_loop keys line [] t = t"
| "language_loop keys line (c # p) t =
     (if c \<noteq> CHR 0x0A then language_loop keys (line @ [c]) p t
      else language_loop keys [] p (language_line keys line t))"

definition load_lang_config_file :: "process_env \<Rightarrow> string \<Rightarrow> string list \<Rightarrow> ptrace \<Rightarrow> ptrace" where
  "load_lang_config_file env config_file keys t =
     (if \<not> p_exists env t config_file then t
      else case p_contents env t config_file of
        None \<Rightarrow> t
      | Some contents \<Rightarrow>
          if \<not> p_utf8 env contents \<or> CHR 0x00 \<in> set contents then t
          else language_loop keys [] contents t)"

subsection \<open>The environment\<close>

definition LANG_CONFIG_FILE :: string where
  "LANG_CONFIG_FILE = ''/etc/sysconfig/i18n''"

definition seat_name :: "process_env \<Rightarrow> ptrace \<Rightarrow> string \<Rightarrow> string" where
  "seat_name env t seat =
     (let n = length ''/org/freedesktop/ConsoleKit/''
      in if n \<le> length seat then drop n seat else p_past_end env t seat)"

definition copied_variables :: "process_env \<Rightarrow> ptrace \<Rightarrow> string list \<Rightarrow> (string \<times> string) list" where
  "copied_variables env t names =
     fold (\<lambda>name hash. case getenv env t name of
         None \<Rightarrow> hash
       | Some val \<Rightarrow> AList.update name val hash) names []"

text \<open>
  The order of the updates is the code's. A NULL value is written as \<open>(null)\<close> when the table is listed.
  \<^term>\<open>None\<close>: the assertion that an address comes with the name of its variable fails.
\<close>

definition address_variables ::
  "process_env \<Rightarrow> welcome_session \<Rightarrow> ptrace \<Rightarrow> (string \<times> string option) list option" where
  "address_variables env ws t =
     (let hash = map (\<lambda>(key, val). (key, Some val)) (copied_variables env t optional_environment);
          hash = (case ws_dbus_bus_address ws of None \<Rightarrow> hash
                  | Some a \<Rightarrow> AList.update ''DBUS_SESSION_BUS_ADDRESS'' (Some a) hash)
      in case ws_server_address ws of
           None \<Rightarrow> Some hash
         | Some a \<Rightarrow> map_option (\<lambda>var. AList.update var (Some a) hash) (ws_server_env_var_name ws))"

definition user_variables ::
  "string option \<Rightarrow> passwd option \<Rightarrow> welcome_session \<Rightarrow> (string \<times> string option) list \<Rightarrow>
     (string \<times> string option) list" where
  "user_variables cookie pwent ws hash =
     (let set = (\<lambda>key val. AList.update key val);
          hash = set ''XAUTHORITY'' (ws_x11_authority_file ws) hash;
          hash = set ''DISPLAY'' (ws_x11_display_name ws) hash;
          hash = (case cookie of None \<Rightarrow> hash | Some c \<Rightarrow> set ''XDG_SESSION_COOKIE'' (Some c) hash);
          hash = set ''LOGNAME'' (Some (ws_user_name ws)) hash;
          hash = set ''USER'' (Some (ws_user_name ws)) hash;
          hash = set ''USERNAME'' (Some (ws_user_name ws)) hash;
          hash = set ''MDM_VERSION'' (Some ''1.0.8'') hash;
          hash = AList.delete ''MAIL'' hash;
          hash = set ''HOME'' (Some ''/'') hash;
          hash = set ''PWD'' (Some ''/'') hash;
          hash = set ''SHELL'' (Some ''/bin/sh'') hash
      in case pwent of
           None \<Rightarrow> hash
         | Some p \<Rightarrow> set ''SHELL'' (Some (pw_shell p))
             (if pw_dir p \<noteq> [] then set ''PWD'' (Some (pw_dir p)) (set ''HOME'' (Some (pw_dir p)) hash)
              else hash))"

definition display_variables ::
  "process_env \<Rightarrow> bool \<Rightarrow> welcome_session \<Rightarrow> ptrace \<Rightarrow> (string \<times> string option) list \<Rightarrow>
     (string \<times> string option) list" where
  "display_variables env start_session ws t hash =
     (let set = (\<lambda>key val. AList.update key val);
          hash = (case ws_x11_display_seat_id ws of
              None \<Rightarrow> hash
            | Some seat \<Rightarrow>
                if start_session
                then set ''MDM_SEAT_ID'' (Some (seat_name env t seat))
                       (set ''MATECONF_DEFAULT_SOURCE_PATH'' (p_mateconf_path env) hash)
                else hash);
          hash = set ''PATH'' (getenv env t ''PATH'') hash;
          hash = set ''WINDOWPATH'' (getenv env t ''WINDOWPATH'') hash;
          hash = set ''RUNNING_UNDER_MDM'' (Some ''true'') hash
      in set ''GVFS_DISABLE_FUSE'' (Some ''1'') hash)"

definition get_welcome_environment ::
  "process_env \<Rightarrow> welcome_session \<Rightarrow> bool \<Rightarrow> ptrace \<Rightarrow> (string list \<times> ptrace) option" where
  "get_welcome_environment env ws start_session t =
     do {
       let t = load_lang_config_file env LANG_CONFIG_FILE optional_environment t;
       pwent \<leftarrow> lookup_user env (ws_user_name ws) t;
       hash \<leftarrow> address_variables env ws t;
       let hash = user_variables (if ws_ckc ws then p_ck_cookie env t else None) pwent ws hash;
       let hash = display_variables env start_session ws t hash;
       Some (listify env (map (\<lambda>(key, val). (key, null_string val)) hash), t)
     }"

subsection \<open>The child\<close>

text \<open>The directory of the seat, made by root and given to the user; modes 750 and 755 in octal.\<close>

definition make_seat_dir :: "process_env \<Rightarrow> string \<Rightarrow> passwd \<Rightarrow> nat \<Rightarrow> ptrace \<Rightarrow> ptrace" where
  "make_seat_dir env seat pwent grp t =
     (let dir = pw_dir pwent @ ''/'' @ seat_name env t seat;
          (r, t) = pcall env (Stat_path dir) t
      in if r < 0
         then Change_owner (Some dir) (pw_uid pwent) grp # Change_mode dir 0x1E8 # Make_dir (Some dir) 0x1E8 # t
         else t)"

definition make_runtime_dir :: "string option \<Rightarrow> passwd \<Rightarrow> ptrace \<Rightarrow> ptrace" where
  "make_runtime_dir dir pwent t =
     Change_owner dir (pw_uid pwent) (pw_gid pwent) # Make_dir dir 0x1ED # t"

text \<open>
  The setup that runs in the child. The seat's name is read behind the pointer without a test for NULL,
  which ends the child (\<^term>\<open>Crashes\<close>). \<^term>\<open>None\<close>: a lookup that is interrupted for ever.
\<close>

definition spawn_child_setup ::
  "process_env \<Rightarrow> spawn_child_data \<Rightarrow> ptrace \<Rightarrow> (child_end \<times> ptrace) option" where
  "spawn_child_setup env data t =
     (case cd_user_name data of
        None \<Rightarrow> Some (Executes, t)
      | Some name \<Rightarrow>
          map_option (\<lambda>pwent. case pwent of
              None \<Rightarrow> (Exits 1, t)
            | Some pwent \<Rightarrow>
                (case p_getgrnam env t (cd_group_name data) of
                   None \<Rightarrow> (Exits 1, t)
                 | Some grp \<Rightarrow>
                     (case cd_seat_id data of
                        None \<Rightarrow> (Crashes, t)
                      | Some seat \<Rightarrow>
                          let t = make_seat_dir env seat pwent grp t;
                              t = make_runtime_dir (cd_runtime_dir data) pwent t
                          in case become_user env pwent grp t of
                               (Executes, t) \<Rightarrow>
                                 (case pcall env Set_session t of (res, t) \<Rightarrow>
                                    if res < 0 then (Exits 2, t)
                                    else case cd_log_file data of
                                      None \<Rightarrow> (Executes, t)
                                    | Some path \<Rightarrow> (Executes, open_log env path t))
                             | left \<Rightarrow> left)))
            (lookup_user env name t))"

definition child_data :: "string option \<Rightarrow> welcome_session \<Rightarrow> spawn_child_data" where
  "child_data log_file ws =
     \<lparr>cd_user_name = Some (ws_user_name ws), cd_group_name = ws_group_name ws,
      cd_runtime_dir = ws_runtime_dir ws, cd_log_file = log_file,
      cd_seat_id = ws_x11_display_seat_id ws\<rparr>"

text \<open>Running a command and waiting for its output, or starting it: the answer of \<^term>\<open>Spawn\<close> is the pid.\<close>

definition spawn_command_line_sync_as_user ::
  "process_env \<Rightarrow> string \<Rightarrow> spawn_child_data \<Rightarrow> string list \<Rightarrow> ptrace \<Rightarrow> string option \<times> ptrace" where
  "spawn_command_line_sync_as_user env command_line data vars t =
     (case p_shell_parse env command_line of
        None \<Rightarrow> (None, t)
      | Some args \<Rightarrow>
          (case pcall env (Spawn_sync args vars data) t of (res, t) \<Rightarrow>
             (if res < 0 then None
              else Some (case p_output env t of None \<Rightarrow> [] | Some out \<Rightarrow> out), t)))"

definition spawn_command_line_async_as_user ::
  "process_env \<Rightarrow> string \<Rightarrow> spawn_child_data \<Rightarrow> string list \<Rightarrow> ptrace \<Rightarrow> int option \<times> ptrace" where
  "spawn_command_line_async_as_user env command_line data vars t =
     (case p_shell_parse env command_line of
        None \<Rightarrow> (None, t)
      | Some args \<Rightarrow>
          (case pcall env (Spawn args vars (Some data)) t of (child, t) \<Rightarrow>
             (if child < 0 then None else Some child, t)))"

subsection \<open>The D-Bus daemon\<close>

definition is_decimal :: "char \<Rightarrow> bool" where
  "is_decimal c \<longleftrightarrow> c \<in> set ''0123456789''"

definition digit_value :: "char \<Rightarrow> int" where
  "digit_value c = int (of_char c) - 48"

definition digits_value :: "string \<Rightarrow> int" where
  "digits_value ds = foldl (\<lambda>n c. 10 * n + digit_value c) 0 ds"

text \<open>\<open>strtol\<close> in base 10 for a \<open>long\<close> of 64 bits: the value, what is left of the string, and whether the value
  was cut off at the type's end. Without a digit nothing is read.\<close>

definition strtol :: "string \<Rightarrow> int \<times> string \<times> bool" where
  "strtol s =
     (let body = dropWhile (\<lambda>c. is_blank c \<or> c = CHR 0x0B) s;
          neg = (body \<noteq> [] \<and> hd body = CHR ''-'');
          body = (if body \<noteq> [] \<and> (hd body = CHR ''-'' \<or> hd body = CHR ''+'') then tl body else body);
          ds = takeWhile is_decimal body;
          n = (if neg then - digits_value ds else digits_value ds)
      in if ds = [] then (0, s, False)
         else if n > 2 ^ 63 - 1 then (2 ^ 63 - 1, dropWhile is_decimal body, True)
         else if n < - (2 ^ 63) then (- (2 ^ 63), dropWhile is_decimal body, True)
         else (n, dropWhile is_decimal body, False))"

definition parse_value_as_integer :: "string \<Rightarrow> int option" where
  "parse_value_as_integer val =
     (case strtol val of (long_value, end_of_valid_int, erange) \<Rightarrow>
        if val = [] \<or> end_of_valid_int \<noteq> [] then None
        else let int_value = sint (word_of_int long_value :: 32 word)
          in if int_value \<noteq> long_value \<or> erange then None else Some int_value)"

text \<open>The pattern is \<open>DBUS_SESSION_BUS_ADDRESS=(.+)\\nDBUS_SESSION_BUS_PID=([0-9]+)\<close>: the first place where it
  matches. The dot matches no end of a line.\<close>

definition is_line_end :: "char \<Rightarrow> bool" where
  "is_line_end c \<longleftrightarrow> c \<in> {CHR 0x0A, CHR 0x0B, CHR 0x0C, CHR 0x0D}"

definition match_dbus_output_here :: "string \<Rightarrow> (string \<times> string) option" where
  "match_dbus_output_here s =
     do {
       rest \<leftarrow> strip_prefix ''DBUS_SESSION_BUS_ADDRESS='' s;
       let address = takeWhile (\<lambda>c. \<not> is_line_end c) rest;
       rest \<leftarrow> strip_prefix (CHR 0x0A # ''DBUS_SESSION_BUS_PID='')
                 (dropWhile (\<lambda>c. \<not> is_line_end c) rest);
       let ds = takeWhile is_decimal rest;
       if address = [] \<or> ds = [] then None else Some (address, ds)
     }"

fun match_dbus_output :: "string \<Rightarrow> (string \<times> string) option" where
  "match_dbus_output [] = None"
| "match_dbus_output (c # cs) =
     (case match_dbus_output_here (c # cs) of
        Some m \<Rightarrow> Some m
      | None \<Rightarrow> match_dbus_output cs)"

definition parse_dbus_launch_output :: "string \<Rightarrow> (string \<times> int) option" where
  "parse_dbus_launch_output out =
     (case match_dbus_output out of
        None \<Rightarrow> None
      | Some (address, ds) \<Rightarrow>
          Some (address, case parse_value_as_integer ds of None \<Rightarrow> 0 | Some n \<Rightarrow> n))"

definition DBUS_LAUNCH_COMMAND :: string where
  "DBUS_LAUNCH_COMMAND = ''/usr/bin/dbus-launch''"

definition start_dbus_daemon ::
  "process_env \<Rightarrow> welcome_session \<Rightarrow> ptrace \<Rightarrow> (bool \<times> welcome_session \<times> ptrace) option" where
  "start_dbus_daemon env ws t =
     do {
       (vars, t) \<leftarrow> get_welcome_environment env ws False t;
       let (std_out, t) = spawn_command_line_sync_as_user env DBUS_LAUNCH_COMMAND (child_data None ws) vars t;
       Some (case std_out of
           None \<Rightarrow> (False, ws, t)
         | Some out \<Rightarrow>
             (case parse_dbus_launch_output out of
                None \<Rightarrow> (False, ws, t)
              | Some (address, dbus) \<Rightarrow>
                  (True, ws\<lparr>ws_dbus_bus_address := Some address, ws_dbus_pid := dbus\<rparr>, t)))
     }"

text \<open>The daemon is the leader of a process group of its own, all of which is signalled.\<close>

definition stop_dbus_daemon ::
  "process_env \<Rightarrow> welcome_session \<Rightarrow> ptrace \<Rightarrow> welcome_session \<times> ptrace" where
  "stop_dbus_daemon env ws t =
     (if ws_dbus_pid ws > 0 then
        (case pcall env (Kill_process (-1 * ws_dbus_pid ws)) t of (res, t) \<Rightarrow>
           (if res < 0 then ws else ws\<lparr>ws_dbus_pid := 0\<rparr>, t))
      else (ws, t))"

subsection \<open>Starting, stopping and the end\<close>

definition greeter_log_path :: "welcome_session \<Rightarrow> string" where
  "greeter_log_path ws =
     g_build_filename [''/var/log/mdm'', null_string (ws_x11_display_name ws) @ ''-greeter.log'']"

definition mdm_welcome_session_spawn ::
  "process_env \<Rightarrow> welcome_session \<Rightarrow> ptrace \<Rightarrow> (bool \<times> welcome_session \<times> ptrace) option" where
  "mdm_welcome_session_spawn env ws t =
     do {
       (res, ws, t) \<leftarrow> (if ws_register_ck_session ws then open_welcome_session env ws t
                          else Some (False, ws, t));
       (res, ws, t) \<leftarrow> start_dbus_daemon env ws t;
       (vars, t) \<leftarrow> get_welcome_environment env ws True t;
       command_line \<leftarrow> ws_command ws;
       let (child, t) = spawn_command_line_async_as_user env command_line
         (child_data (Some (greeter_log_path ws)) ws) vars t;
       Some (case child of
           None \<Rightarrow> (False, ws, t)
         | Some n \<Rightarrow> (True, ws\<lparr>ws_pid := n, ws_child_watch_id := True, ws_watch_armed := True\<rparr>, t))
     }"

definition mdm_welcome_session_start ::
  "process_env \<Rightarrow> welcome_session \<Rightarrow> ptrace \<Rightarrow> (bool \<times> welcome_session \<times> ptrace) option" where
  "mdm_welcome_session_start env ws t = mdm_welcome_session_spawn env ws t"

definition welcome_session_died ::
  "process_env \<Rightarrow> welcome_session \<Rightarrow> ptrace \<Rightarrow> (welcome_session \<times> ptrace) option" where
  "welcome_session_died env ws t =
     do {
       let t = Wait_process (ws_pid ws) # t;
       _ \<leftarrow> mdm_wait_on_pid (p_waitpid env t) 0;
       Some (ws\<lparr>ws_pid := -1\<rparr>, t)
     }"

definition mdm_welcome_session_stop ::
  "process_env \<Rightarrow> welcome_session \<Rightarrow> ptrace \<Rightarrow> (welcome_session \<times> ptrace) option" where
  "mdm_welcome_session_stop env ws t =
     (if ws_pid ws \<le> 1 then Some (ws, t)
      else do {
        let ws = ws\<lparr>ws_child_watch_id := False, ws_watch_armed := False\<rparr>;
        let (res, t) = pcall env (Kill_process (ws_pid ws)) t;
        (ws, t) \<leftarrow> (if res < 0 then Some (ws, t) else welcome_session_died env ws t);
        let t = (if ws_ckc ws then snd (close_welcome_session env ws t) else t);
        Some (stop_dbus_daemon env ws t)
      })"

definition welcome_session_child_watch ::
  "process_env \<Rightarrow> wait_status \<Rightarrow> welcome_session \<Rightarrow> ptrace \<Rightarrow> welcome_session \<times> ptrace" where
  "welcome_session_child_watch env status ws t =
     (let ws = (case status of
                  Status code \<Rightarrow> ws\<lparr>ws_signals := Welcome_exited code # ws_signals ws\<rparr>
                | Signal num \<Rightarrow> ws\<lparr>ws_signals := Welcome_died num # ws_signals ws\<rparr>
                | Unknown_status \<Rightarrow> ws);
          ws = ws\<lparr>ws_pid := -1, ws_watch_armed := False\<rparr>;
          t = (if ws_ckc ws then snd (close_welcome_session env ws t) else t)
      in stop_dbus_daemon env ws t)"

text \<open>The connector, whose only reference is this one, is freed, and its private connection to the system bus is
  closed. Nothing is left of the object but what it has done.\<close>

definition mdm_welcome_session_finalize ::
  "process_env \<Rightarrow> welcome_session \<Rightarrow> ptrace \<Rightarrow> ptrace option" where
  "mdm_welcome_session_finalize env ws t =
     do {
       (ws, t) \<leftarrow> mdm_welcome_session_stop env ws t;
       Some (if ws_ckc ws then CK_unref # t else t)
     }"

subsection \<open>Numbers read back\<close>

lemma digit_char_value: "n < 10 \<Longrightarrow> digit_value (digit_char n) = int n \<and> is_decimal (digit_char n)"
proof -
  have "\<forall>n \<in> set [0..<10]. digit_value (digit_char n) = int n \<and> is_decimal (digit_char n)"
    by code_simp
  then show "n < 10 \<Longrightarrow> digit_value (digit_char n) = int n \<and> is_decimal (digit_char n)" by simp
qed

lemma string_of_nat_digits:
  "digits_value (string_of_nat n) = int n \<and> (\<forall>c \<in> set (string_of_nat n). is_decimal c)"
proof (induction n rule: string_of_nat.induct)
  case (1 n)
  show ?case
  proof (cases "n < 10")
    case True
    then show ?thesis using digit_char_value by (simp add: string_of_nat_cases digits_value_def)
  next
    case False
    moreover have "10 * int (n div 10) + int (n mod 10) = int n"
      by (simp add: zdiv_int zmod_int)
    ultimately show ?thesis
      using 1 digit_char_value [of "n mod 10"] by (auto simp: string_of_nat_cases digits_value_def)
  qed
qed

lemma decimal_not_blank: "is_decimal c \<Longrightarrow> \<not> (is_blank c \<or> c = CHR 0x0B) \<and> c \<noteq> CHR ''-'' \<and> c \<noteq> CHR ''+''"
  by (auto simp: is_decimal_def is_blank_def)

lemma digits_value_nonneg: "\<forall>c \<in> set ds. is_decimal c \<Longrightarrow> 0 \<le> digits_value ds"
proof (induction ds rule: rev_induct)
  case Nil
  then show ?case by (simp add: digits_value_def)
next
  case (snoc d ds)
  then have "is_decimal d" by simp
  then have "0 \<le> digit_value d" by (auto simp: is_decimal_def digit_value_def)
  with snoc show ?case by (simp add: digits_value_def)
qed

lemma strtol_digits:
  assumes "ds \<noteq> []" and "\<forall>c \<in> set ds. is_decimal c"
  shows "strtol ds = (if digits_value ds > 2 ^ 63 - 1 then (2 ^ 63 - 1, [], True) else (digits_value ds, [], False))"
proof -
  obtain c cs where ds: "ds = c # cs" and c: "is_decimal c" using assms by (cases ds) auto
  have whole: "takeWhile is_decimal ds = ds" "dropWhile is_decimal ds = []" using assms(2) by auto
  have "dropWhile (\<lambda>c. is_blank c \<or> c = CHR 0x0B) ds = ds" "hd ds \<noteq> CHR ''-''" "hd ds \<noteq> CHR ''+''"
    using decimal_not_blank [OF c] by (simp_all add: ds)
  then show ?thesis
    using digits_value_nonneg [OF assms(2)] assms(1) by (simp add: strtol_def Let_def whole)
qed

lemma sint32_id: "sint (word_of_int n :: 32 word) = n \<longleftrightarrow> - (2 ^ 31) \<le> n \<and> n < 2 ^ 31"
  by (simp add: sint_sbintrunc' signed_take_bit_int_eq_self_iff)

lemma parse_value_digits:
  assumes "ds \<noteq> []" and "\<forall>c \<in> set ds. is_decimal c"
  shows "parse_value_as_integer ds = (if digits_value ds < 2 ^ 31 then Some (digits_value ds) else None)"
  using strtol_digits [OF assms] assms(1) digits_value_nonneg [OF assms(2)] sint32_id
  by (simp add: parse_value_as_integer_def Let_def)

lemma takeWhile_decimal:
  assumes "\<forall>c \<in> set ds. is_decimal c"
  shows "takeWhile is_decimal (ds @ CHR 0x0A # rest) = ds"
proof -
  have "takeWhile is_decimal ds = ds" using assms by auto
  moreover have "\<not> is_decimal (CHR 0x0A)" by (simp add: is_decimal_def)
  ultimately show ?thesis using assms by (simp add: takeWhile_append)
qed

lemma strip_prefix_append [simp]: "strip_prefix p (p @ s) = Some s"
  by (induction p) simp_all

subsection \<open>The file of the system's language, by lines\<close>

lemma language_loop_line:
  "CHR 0x0A \<notin> set l \<Longrightarrow>
     language_loop keys line (l @ CHR 0x0A # p) t = language_loop keys [] p (language_line keys (line @ l) t)"
  by (induction l arbitrary: line) auto

lemma language_loop_unterminated: "CHR 0x0A \<notin> set l \<Longrightarrow> language_loop keys line l t = t"
  by (induction l arbitrary: line) auto

lemma language_loop_lines:
  "\<forall>l \<in> set lines. CHR 0x0A \<notin> set l \<Longrightarrow> CHR 0x0A \<notin> set rest \<Longrightarrow>
     language_loop keys [] (concat (map (\<lambda>l. l @ [CHR 0x0A]) lines) @ rest) t = fold (language_line keys) lines t"
  by (induction lines arbitrary: t) (simp_all add: language_loop_line language_loop_unterminated)

subsection \<open>The contract\<close>

definition welcome_valid :: "process_env \<Rightarrow> welcome_session \<Rightarrow> bool" where
  "welcome_valid env ws \<longleftrightarrow> kernel_pids env \<and> (ws_watch_armed ws \<longrightarrow> ws_pid ws > 1)"

text \<open>What the signals say of the ends of the greeter.\<close>

definition welcome_reports :: "welcome_session \<Rightarrow> wait_status list" where
  "welcome_reports ws = map (\<lambda>sig. case sig of Welcome_exited code \<Rightarrow> Status code | Welcome_died num \<Rightarrow> Signal num)
     (ws_signals ws)"

text \<open>Between two states of the object only calls about other things than its child have happened.\<close>

definition other_call :: "pcall \<Rightarrow> bool" where
  "other_call c \<longleftrightarrow> (case c of Spawn _ _ _ \<Rightarrow> False | Kill_process p \<Rightarrow> p \<le> 0 | Wait_process _ \<Rightarrow> False | _ \<Rightarrow> True)"

definition same_child :: "process_env \<Rightarrow> welcome_session \<times> ptrace \<Rightarrow> welcome_session \<times> ptrace \<Rightarrow> bool" where
  "same_child env x y \<longleftrightarrow> ws_watch_armed (fst y) = ws_watch_armed (fst x) \<and> ws_pid (fst y) = ws_pid (fst x)
     \<and> ws_signals (fst y) = ws_signals (fst x) \<and> spawned env (snd y) = spawned env (snd x)
     \<and> killed env (snd y) = killed env (snd x) \<and> waited (snd y) = waited (snd x)"

lemma same_child_refl [simp]: "same_child env x x"
  by (simp add: same_child_def)

lemma same_child_trans: "same_child env x y \<Longrightarrow> same_child env y z \<Longrightarrow> same_child env x z"
  by (simp add: same_child_def)

lemma other_call_books [simp]:
  "other_call c \<Longrightarrow> spawned env (c # t) = spawned env t"
  "other_call c \<Longrightarrow> killed env (c # t) = killed env t"
  "other_call c \<Longrightarrow> waited (c # t) = waited t"
  by (cases c; simp add: other_call_def)+

lemma open_welcome_keeps:
  "open_welcome_session env ws t = Some (r, ws', t') \<Longrightarrow> same_child env (ws, t) (ws', t')"
  by (auto simp: open_welcome_session_def bind_eq_Some_conv Let_def same_child_def other_call_def
      split: option.splits if_splits)

lemma close_welcome_keeps: "same_child env (ws, t) (ws, snd (close_welcome_session env ws t))"
  by (simp add: close_welcome_session_def same_child_def other_call_def Let_def)

lemma language_loop_keeps: "same_child env (ws, t) (ws, language_loop keys line p t)"
proof (induction p arbitrary: line t)
  case Nil
  then show ?case by simp
next
  case (Cons c p)
  have "same_child env (ws, t) (ws, language_line keys line t)"
    by (simp add: language_line_def same_child_def other_call_def split: option.split)
  with Cons same_child_trans show ?case by (auto split: if_splits)
qed

lemma welcome_environment_keeps:
  "get_welcome_environment env ws b t = Some (vars, t') \<Longrightarrow> same_child env (ws, t) (ws, t')"
  by (auto simp: get_welcome_environment_def load_lang_config_file_def bind_eq_Some_conv Let_def
      intro: language_loop_keeps split: if_splits option.splits)

lemma start_dbus_keeps:
  assumes "start_dbus_daemon env ws t = Some (r, ws', t')"
  shows "same_child env (ws, t) (ws', t')"
proof -
  obtain vars u where vars: "get_welcome_environment env ws False t = Some (vars, u)"
    using assms by (auto simp: start_dbus_daemon_def bind_eq_Some_conv)
  let ?spawn = "spawn_command_line_sync_as_user env DBUS_LAUNCH_COMMAND (child_data None ws) vars u"
  have "same_child env (ws, u) (ws, snd ?spawn)"
    by (simp add: spawn_command_line_sync_as_user_def same_child_def other_call_def split: option.split)
  moreover have "same_child env (ws, snd ?spawn) (ws', t')"
    using assms vars by (cases ?spawn) (auto simp: start_dbus_daemon_def same_child_def split: option.splits)
  ultimately show ?thesis
    using welcome_environment_keeps [OF vars] same_child_trans by blast
qed

lemma stop_dbus_keeps: "same_child env (ws, t) (stop_dbus_daemon env ws t)"
  by (simp add: stop_dbus_daemon_def same_child_def other_call_def)

text \<open>A greeter that is started is the program spawned last; if it is not, nothing has become of its child.\<close>

lemma welcome_spawn_result:
  assumes "mdm_welcome_session_start env ws t = Some (ret, ws', t')"
  obtains args vars data u vs where "ret" and "t' = Spawn args vars (Some data) # u" and "p_result env t' \<ge> 0"
      and "ws' = vs\<lparr>ws_pid := p_result env t', ws_child_watch_id := True, ws_watch_armed := True\<rparr>"
      and "same_child env (ws, t) (vs, u)"
    | "\<not> ret" and "same_child env (ws, t) (ws', t')"
  using assms unfolding mdm_welcome_session_start_def mdm_welcome_session_spawn_def
proof (elim bind3_SomeE bind2_SomeE bind_SomeE)
  fix r1 ws1 t1 r2 ws2 t2 vars t3 command_line
  assume ck: "(if ws_register_ck_session ws then open_welcome_session env ws t else Some (False, ws, t))
      = Some (r1, ws1, t1)"
    and dbus: "start_dbus_daemon env ws1 t1 = Some (r2, ws2, t2)"
    and vars: "get_welcome_environment env ws2 True t2 = Some (vars, t3)"
    and last: "(let (child, t) = spawn_command_line_async_as_user env command_line
          (child_data (Some (greeter_log_path ws2)) ws2) vars t3 in
        Some (case child of None \<Rightarrow> (False, ws2, t)
          | Some n \<Rightarrow> (True, ws2\<lparr>ws_pid := n, ws_child_watch_id := True, ws_watch_armed := True\<rparr>, t)))
      = Some (ret, ws', t')"
  let ?data = "child_data (Some (greeter_log_path ws2)) ws2"
  have "same_child env (ws, t) (ws1, t1)"
    using ck open_welcome_keeps by (auto split: if_splits)
  then have keeps: "same_child env (ws, t) (ws2, t3)"
    using start_dbus_keeps [OF dbus] welcome_environment_keeps [OF vars] same_child_trans by blast
  show thesis
  proof (cases "fst (spawn_command_line_async_as_user env command_line ?data vars t3)")
    case None
    then have "\<not> ret" "ws' = ws2" and t': "t' = snd (spawn_command_line_async_as_user env command_line ?data vars t3)"
      using last by (auto simp: Let_def case_prod_beta)
    moreover have "same_child env (ws2, t3) (ws2, t')"
      using None unfolding t'
      by (auto simp: spawn_command_line_async_as_user_def same_child_def split: option.splits if_splits)
    ultimately show ?thesis using that(2) keeps same_child_trans by blast
  next
    case (Some n)
    then obtain args where "p_shell_parse env command_line = Some args"
      and "0 \<le> p_result env (Spawn args vars (Some ?data) # t3)"
      by (auto simp: spawn_command_line_async_as_user_def split: option.splits if_splits)
    with last keeps that(1) [of args vars _ t3 ws2] show ?thesis
      by (auto simp: spawn_command_line_async_as_user_def)
  qed
qed

lemma welcome_started:
  assumes "kernel_pids env" and "mdm_welcome_session_start env ws t = Some (True, ws', t')"
  shows "ws_watch_armed ws'" and "ws_pid ws' > 1" and "spawned env t' = ws_pid ws' # spawned env t"
    and "killed env t' = killed env t" and "waited t' = waited t" and "ws_signals ws' = ws_signals ws"
  by (rule welcome_spawn_result [OF assms(2)]; use assms(1) in \<open>auto simp: kernel_pids_def same_child_def\<close>)+

text \<open>Stopping: the child is sent \<open>SIGTERM\<close> and waited for, unless the kernel refuses the signal.\<close>

lemma welcome_stopped:
  assumes "mdm_welcome_session_stop env ws t = Some (ws', t')" and "ws_pid ws > 1"
  shows "\<not> ws_watch_armed ws' \<and> ws_signals ws' = ws_signals ws \<and> spawned env t' = spawned env t
    \<and> (ws_pid ws' = ws_pid ws \<and> killed env t' = (ws_pid ws, False) # killed env t \<and> waited t' = waited t
      \<or> ws_pid ws' \<le> 1 \<and> killed env t' = (ws_pid ws, True) # killed env t \<and> waited t' = ws_pid ws # waited t)"
proof -
  let ?off = "ws\<lparr>ws_child_watch_id := False, ws_watch_armed := False\<rparr>"
  let ?kill = "Kill_process (ws_pid ws) # t"
  obtain vs u where end_of_child: "(if p_result env ?kill < 0 then Some (?off, ?kill)
      else welcome_session_died env ?off ?kill) = Some (vs, u)"
    and rest: "stop_dbus_daemon env vs (if ws_ckc vs then snd (close_welcome_session env vs u) else u) = (ws', t')"
    using assms unfolding mdm_welcome_session_stop_def
    by (auto simp: Let_def elim!: bind2_SomeE split: if_splits)
  have "same_child env (vs, u) (vs, if ws_ckc vs then snd (close_welcome_session env vs u) else u)"
    using close_welcome_keeps by auto
  then have "same_child env (vs, u) (ws', t')"
    using stop_dbus_keeps rest same_child_trans by metis
  moreover have "\<not> ws_watch_armed vs \<and> ws_signals vs = ws_signals ws \<and> spawned env u = spawned env t
    \<and> (ws_pid vs = ws_pid ws \<and> killed env u = (ws_pid ws, False) # killed env t \<and> waited u = waited t
      \<or> ws_pid vs \<le> 1 \<and> killed env u = (ws_pid ws, True) # killed env t \<and> waited u = ws_pid ws # waited t)"
    using end_of_child assms(2) by (auto simp: welcome_session_died_def bind_eq_Some_conv Let_def split: if_splits)
  ultimately show ?thesis by (simp add: same_child_def)
qed

lemma welcome_ended:
  assumes "welcome_session_child_watch env status ws t = (ws', t')"
  shows "\<not> ws_watch_armed ws' \<and> ws_pid ws' = -1 \<and> spawned env t' = spawned env t \<and> killed env t' = killed env t
    \<and> waited t' = waited t \<and> welcome_reports ws' = known_status status @ welcome_reports ws"
proof -
  define us where "us = (case status of
      Status code \<Rightarrow> ws\<lparr>ws_signals := Welcome_exited code # ws_signals ws\<rparr>
    | Signal num \<Rightarrow> ws\<lparr>ws_signals := Welcome_died num # ws_signals ws\<rparr>
    | Unknown_status \<Rightarrow> ws)"
  define vs where "vs = us\<lparr>ws_pid := -1, ws_watch_armed := False\<rparr>"
  have "same_child env (vs, t) (vs, if ws_ckc vs then snd (close_welcome_session env vs t) else t)"
    using close_welcome_keeps by auto
  moreover have "stop_dbus_daemon env vs (if ws_ckc vs then snd (close_welcome_session env vs t) else t) = (ws', t')"
    using assms by (simp only: welcome_session_child_watch_def Let_def us_def [symmetric] vs_def [symmetric])
  ultimately have "same_child env (vs, t) (ws', t')"
    using stop_dbus_keeps same_child_trans by metis
  moreover have "welcome_reports vs = known_status status @ welcome_reports ws" "ws_pid vs = -1" "\<not> ws_watch_armed vs"
    by (simp_all add: vs_def us_def welcome_reports_def known_status_def split: wait_status.split)
  ultimately show ?thesis by (simp add: same_child_def welcome_reports_def)
qed

interpretation watched_welcome: watched_process
  "\<lambda>x. ws_watch_armed (fst x)"
  "\<lambda>x. ws_pid (fst x)"
  "\<lambda>(ws, t). mdm_welcome_session_start env ws t"
  "\<lambda>(ws, t). mdm_welcome_session_stop env ws t"
  "\<lambda>status (ws, t). Some (welcome_session_child_watch env status ws t)"
  "\<lambda>x. spawned env (snd x)"
  "\<lambda>x. killed env (snd x)"
  "\<lambda>x. waited (snd x)"
  "\<lambda>x. welcome_reports (fst x)"
  "\<lambda>x. welcome_valid env (fst x)"
  for env
proof (unfold_locales, goal_cases)
  case (1 s)
  then show ?case by (simp add: welcome_valid_def)
next
  case (2 s s')
  then show ?case
    using welcome_started by (cases s; cases s') (simp add: welcome_valid_def welcome_reports_def)
next
  case (3 s s')
  then show ?case
    by (cases s; cases s') (auto simp: welcome_valid_def welcome_reports_def same_child_def elim: welcome_spawn_result)
next
  case (4 s s')
  then show ?case by (cases s; cases s') (simp add: mdm_welcome_session_stop_def)
next
  case (5 s s')
  then show ?case
    using welcome_stopped by (cases s; cases s') (simp add: welcome_valid_def welcome_reports_def)
next
  case (6 s status s')
  then show ?case
    using welcome_ended by (cases s; cases s') (auto simp: welcome_valid_def)
qed

subsection \<open>What is in the environment\<close>

definition greeter_variables :: "string list" where
  "greeter_variables = optional_environment @
     [''DBUS_SESSION_BUS_ADDRESS'', ''XAUTHORITY'', ''DISPLAY'', ''XDG_SESSION_COOKIE'', ''LOGNAME'', ''USER'',
      ''USERNAME'', ''MDM_VERSION'', ''HOME'', ''PWD'', ''SHELL'', ''MATECONF_DEFAULT_SOURCE_PATH'',
      ''MDM_SEAT_ID'', ''PATH'', ''WINDOWPATH'', ''RUNNING_UNDER_MDM'', ''GVFS_DISABLE_FUSE'']"

definition keys_in :: "string set \<Rightarrow> (string \<times> 'v) list \<Rightarrow> bool" where
  "keys_in S hash \<longleftrightarrow> fst ` set hash \<subseteq> S"

lemma keys_in_update: "key \<in> S \<Longrightarrow> keys_in S hash \<Longrightarrow> keys_in S (AList.update key val hash)"
  by (auto simp: keys_in_def AList.dom_update)

lemma keys_in_delete: "keys_in S hash \<Longrightarrow> keys_in S (AList.delete key hash)"
  by (auto simp: keys_in_def AList.delete_eq)

lemma keys_in_copied: "keys_in (set names) (copied_variables env t names)"
proof -
  have "keys_in S (fold (\<lambda>name hash. case getenv env t name of None \<Rightarrow> hash
      | Some val \<Rightarrow> AList.update name val hash) names hash)"
    if "set names \<subseteq> S" and "keys_in S hash" for S hash
    using that by (induction names arbitrary: hash) (auto split: option.splits intro: keys_in_update)
  then show ?thesis by (simp add: copied_variables_def keys_in_def)
qed

lemma keys_in_mono: "keys_in A hash \<Longrightarrow> A \<subseteq> B \<Longrightarrow> keys_in B hash"
  by (auto simp: keys_in_def)

lemma keys_in_map [simp]: "keys_in S (map (\<lambda>(key, val). (key, f val)) hash) = keys_in S hash"
  by (simp add: keys_in_def image_image case_prod_beta)

lemma keys_in_option:
  "(x = None \<Longrightarrow> keys_in S h) \<Longrightarrow> (\<And>a. x = Some a \<Longrightarrow> keys_in S (f a)) \<Longrightarrow>
     keys_in S (case x of None \<Rightarrow> h | Some a \<Rightarrow> f a)"
  by (cases x) simp_all

lemma keys_in_if: "keys_in S h \<Longrightarrow> keys_in S h' \<Longrightarrow> keys_in S (if b then h else h')"
  by simp

definition greeter_keys :: "welcome_session \<Rightarrow> string set" where
  "greeter_keys ws = set greeter_variables \<union> set_option (ws_server_env_var_name ws)"

lemma greeter_key: "key \<in> set greeter_variables \<Longrightarrow> key \<in> greeter_keys ws"
  by (simp add: greeter_keys_def)

lemma address_variables_keys:
  assumes "address_variables env ws t = Some hash"
  shows "keys_in (greeter_keys ws) hash"
proof -
  have "keys_in (greeter_keys ws) (map (\<lambda>(key, val). (key, Some val))
      (copied_variables env t optional_environment) :: (string \<times> string option) list)"
    by (auto simp: greeter_keys_def greeter_variables_def intro: keys_in_mono [OF keys_in_copied])
  with assms show ?thesis
    by (auto simp: address_variables_def Let_def greeter_keys_def greeter_variables_def
        split: option.splits intro!: keys_in_update)
qed

lemma user_variables_keys:
  "keys_in (greeter_keys ws) hash \<Longrightarrow> keys_in (greeter_keys ws) (user_variables cookie pwent ws hash)"
  unfolding user_variables_def Let_def
  by (intro keys_in_option keys_in_if keys_in_update keys_in_delete greeter_key)
    (simp_all add: greeter_variables_def)

lemma display_variables_keys:
  "keys_in (greeter_keys ws) hash \<Longrightarrow> keys_in (greeter_keys ws) (display_variables env start_session ws t hash)"
  unfolding display_variables_def Let_def
  by (intro keys_in_option keys_in_if keys_in_update keys_in_delete greeter_key)
    (simp_all add: greeter_variables_def)

lemma user_variable:
  "map_of (user_variables cookie pwent ws hash) ''USER'' = Some (Some (ws_user_name ws))"
  "map_of (user_variables cookie pwent ws hash) ''DISPLAY'' = Some (ws_x11_display_name ws)"
  unfolding user_variables_def Let_def
  by (simp_all add: AList.update_conv' AList.delete_conv' split: option.split)

lemma display_variable:
  "map_of (display_variables env start_session ws t hash) ''WINDOWPATH'' = Some (getenv env t ''WINDOWPATH'')"
  "map_of (display_variables env start_session ws t hash) ''USER'' = map_of hash ''USER''"
  "map_of (display_variables env start_session ws t hash) ''DISPLAY'' = map_of hash ''DISPLAY''"
  unfolding display_variables_def Let_def
  by (simp_all add: AList.update_conv' split: option.split)

end
