(* ===== verification/Process_Properties.thy ===== *)
theory Process_Properties
  imports X_Server Welcome_Session Slave_Properties
begin

text \<open>
  The properties of the processes of a display: the X server, the greeter and the chooser; and the
  same contract for the process of the session worker.
\<close>

subsection \<open>The worker's process keeps the contract too\<close>











subsection \<open>A sample world\<close>

text \<open>Every call succeeds and a child gets the pid 42; the user \<open>mdm\<close> exists.\<close>

definition sample_mdm_user :: passwd where
  "sample_mdm_user = \<lparr>pw_name = ''mdm'', pw_uid = 120, pw_gid = 121, pw_dir = ''/var/lib/mdm'',
     pw_shell = ''/bin/false''\<rparr>"

definition sample_process_env :: process_env where
  "sample_process_env =
     \<lparr>p_result = (\<lambda>t. 42),
      p_shell_parse = (\<lambda>s. if hd s = CHR ''/'' then Some [s, ''-verbose''] else None),
      p_environ = [(''PATH'', ''/usr/bin''), (''DISPLAY'', '':7'')],
      p_hash_order = (\<lambda>h. h),
      p_getpwnam = (\<lambda>t name i. (if name = ''mdm'' then Some sample_mdm_user else None, None)),
      p_getgrnam = (\<lambda>t name. if name = ''mdm'' then Some 121 else None),
      p_exists = (\<lambda>t f. False),
      p_waitpid = (\<lambda>t i. Inr 0),
      p_output = (\<lambda>t. Some (''DBUS_SESSION_BUS_ADDRESS=unix:x'' @ CHR 0x0A # ''DBUS_SESSION_BUS_PID=77'')),
      p_contents = (\<lambda>t f. None),
      p_utf8 = (\<lambda>s. True),
      p_ck_cookie = (\<lambda>t. None),
      p_mateconf_path = None,
      p_past_end = (\<lambda>t s. [])\<rparr>"


lemma sample_lookup: "lookup_user sample_process_env ''mdm'' t = Some (Some sample_mdm_user)"
  by (simp add: lookup_user_def mdm_get_pwent_for_name_def pwent_loop.simps sample_process_env_def)

definition sample_server :: server where
  "sample_server = mdm_server_new (Some '':0'') (Some ''/run/a'')"

subsection \<open>The X server\<close>

text \<open>
  C22: The X server is started with the program and the arguments of the configured command, the display's
  name in the first place, then the authority file, the chosen host, no TCP unless the host is
  queried, and the terminal unless the command names one. The array of the arguments is written
  inside its bounds, and the arguments in front of its end are these.
\<close>

theorem server_command_line:
  assumes "p_shell_parse env (xs_command xs) = Some (prog # rest)"
    and "xs_display_name xs = Some name" and "xs_session_args xs = None"
    and "mdm_server_spawn env vtarg xs t = Some (ret, xs', t')"
  shows "\<exists>n argv. mdm_server_resolve_command_line env vtarg xs = Some (n, argv)
      \<and> n \<le> length argv \<and> length argv = length (prog # rest) + 10
      \<and> argv_strings argv = Some (server_args vtarg xs prog rest name)
      \<and> (\<exists>vars. t' = Spawn (server_args vtarg xs prog rest name) vars None
            # Create_stamp ''/var/run/mdm/firstserver.stamp'' # t)"
proof -
  obtain cs where cs: "mdm_server_resolve_command_line env vtarg xs =
      Some (length (server_args vtarg xs prog rest name) + 1,
            map Arg (server_args vtarg xs prog rest name) @ Null_arg # cs)"
    and "length (server_args vtarg xs prog rest name) + 1 + length cs = length rest + 11"
    using resolve_command_line_eq [OF assms(1,2)] by blast
  moreover obtain vars where "t' = Spawn (server_args vtarg xs prog rest name) vars None
      # Create_stamp ''/var/run/mdm/firstserver.stamp'' # t"
    using assms(4) spawn_eq [OF assms(1-3), of vtarg t] by (auto simp: Let_def split: option.splits)
  ultimately show ?thesis by (simp add: argv_strings_eq)
qed

theorem server_command_line_witness:
  "mdm_server_spawn sample_process_env (Some ''vt7'') sample_server [] \<noteq> None \<and>
   (\<exists>n argv. mdm_server_resolve_command_line sample_process_env (Some ''vt7'') sample_server = Some (n, argv)
      \<and> argv_strings argv = Some [''/usr/bin/Xorg -br -verbose'', '':0'', ''-verbose'', ''-auth'', ''/run/a'',
          ''-nolisten'', ''tcp'', ''vt7''])"
proof -
  have parse: "p_shell_parse sample_process_env (xs_command sample_server)
      = Some (''/usr/bin/Xorg -br -verbose'' # [''-verbose''])"
    by (simp add: sample_process_env_def sample_server_def mdm_server_new_def mdm_server_init_def X_SERVER_def)
  have fields: "xs_display_name sample_server = Some '':0''" "xs_session_args sample_server = None"
    by (simp_all add: sample_server_def mdm_server_new_def mdm_server_init_def)
  have "get_server_environment sample_process_env sample_server [] \<noteq> None"
    by (simp add: get_server_environment_def sample_server_def mdm_server_new_def mdm_server_init_def)
  then obtain x where x: "mdm_server_spawn sample_process_env (Some ''vt7'') sample_server [] = Some x"
    using spawn_eq [OF parse fields] by (auto simp: Let_def)
  obtain ret xs' t' where "x = (ret, xs', t')" by (cases x)
  moreover have "server_args (Some ''vt7'') sample_server ''/usr/bin/Xorg -br -verbose'' [''-verbose''] '':0''
      = [''/usr/bin/Xorg -br -verbose'', '':0'', ''-verbose'', ''-auth'', ''/run/a'', ''-nolisten'', ''tcp'', ''vt7'']"
    by (simp add: server_args_def sample_server_def mdm_server_new_def mdm_server_init_def is_query_arg_def
        is_vt_arg_def)
  ultimately show ?thesis using server_command_line [OF parse fields] x by fastforce
qed






subsection \<open>The greeter\<close>

lemma ids_after_keep [simp]:
  "\<not> p_result env (c # t) < 0 \<Longrightarrow> ids_after env (c # t) =
     (case c of Set_uid u \<Rightarrow> (ids_after env t)\<lparr>id_uid := u\<rparr>
      | Set_gid g \<Rightarrow> (ids_after env t)\<lparr>id_gid := g\<rparr>
      | Init_groups name g \<Rightarrow> (ids_after env t)\<lparr>id_groups := Some (name, g)\<rparr>
      | _ \<Rightarrow> ids_after env t)"
  by simp

text \<open>
  C21: When the child of a greeter executes its program and its user is not root, it has that user's
  identity and groups and the configured group, and it opened its log with this identity.
\<close>

theorem greeter_runs_as_its_user:
  assumes "spawn_child_setup env data t = Some (Executes, t')"
    and "cd_user_name data = Some name" and "lookup_user env name t = Some (Some pwent)"
    and "pw_uid pwent \<noteq> 0"
  shows "\<exists>grp user_ids u. p_getgrnam env t (cd_group_name data) = Some grp
      \<and> user_ids = \<lparr>id_uid = pw_uid pwent, id_gid = grp, id_groups = Some (pw_name pwent, pw_gid pwent)\<rparr>
      \<and> ids_after env t' = user_ids \<and> ids_after env u = user_ids
      \<and> t' = (case cd_log_file data of None \<Rightarrow> u | Some path \<Rightarrow> open_log env path u)"
proof -
  obtain grp seat where grp: "p_getgrnam env t (cd_group_name data) = Some grp"
    and seat: "cd_seat_id data = Some seat"
    using assms by (auto simp: spawn_child_setup_def split: option.splits)
  define t1 where "t1 = make_runtime_dir (cd_runtime_dir data) pwent (make_seat_dir env seat pwent grp t)"
  obtain t2 where t2: "become_user env pwent grp t1 = (Executes, t2)"
    and last: "0 \<le> p_result env (Set_session # t2)"
    and t': "t' = (case cd_log_file data of None \<Rightarrow> Set_session # t2
      | Some path \<Rightarrow> open_log env path (Set_session # t2))"
    using assms grp seat
    by (auto simp: spawn_child_setup_def Let_def t1_def [symmetric] split: prod.splits child_end.splits
        if_splits option.splits)
  have ids: "ids_after env (Set_session # t2)
      = \<lparr>id_uid = pw_uid pwent, id_gid = grp, id_groups = Some (pw_name pwent, pw_gid pwent)\<rparr>"
    using become_user_ids [OF t2 assms(4)] last by simp
  then have "ids_after env t' = ids_after env (Set_session # t2)"
    by (simp only: t' option.case ids_after_open_log split: option.split) simp
  with ids grp t' show ?thesis by (intro exI [of _ "Set_session # t2"] exI) auto
qed

lemma sample_process_simps:
  "p_result sample_process_env u = 42" "p_environ sample_process_env = [(''PATH'', ''/usr/bin''), (''DISPLAY'', '':7'')]"
  "p_getgrnam sample_process_env u name = (if name = ''mdm'' then Some 121 else None)"
  "p_hash_order sample_process_env h = h" "p_exists sample_process_env u f = False"
  "p_shell_parse sample_process_env s = (if hd s = CHR ''/'' then Some [s, ''-verbose''] else None)"
  "p_output sample_process_env u
     = Some (''DBUS_SESSION_BUS_ADDRESS=unix:x'' @ CHR 0x0A # ''DBUS_SESSION_BUS_PID=77'')"
  by (simp_all add: sample_process_env_def)

definition sample_greeter :: welcome_session where
  "sample_greeter = mdm_greeter_session_new (Some '':0'') (Some ''/org/freedesktop/ConsoleKit/Seat1'') None None True"

lemma sample_greeter_child:
  "spawn_child_setup sample_process_env (child_data None sample_greeter) []
     = Some (Executes, [Set_session, Set_uid 120, Init_groups ''mdm'' 121, Set_gid 121,
         Change_owner (Some ''/var/run/mdm/greeter'') 120 121, Make_dir (Some ''/var/run/mdm/greeter'') 493,
         Stat_path ''/var/lib/mdm/Seat1''])"
  by (simp add: spawn_child_setup_def child_data_def sample_greeter_def mdm_greeter_session_new_def
      mdm_welcome_session_init_def sample_lookup make_seat_dir_def make_runtime_dir_def become_user_def
      seat_name_def Let_def sample_process_simps sample_mdm_user_def)

theorem greeter_runs_as_its_user_witness:
  "ids_after sample_process_env [Set_session, Set_uid 120, Init_groups ''mdm'' 121, Set_gid 121,
      Change_owner (Some ''/var/run/mdm/greeter'') 120 121, Make_dir (Some ''/var/run/mdm/greeter'') 493,
      Stat_path ''/var/lib/mdm/Seat1'']
     = \<lparr>id_uid = 120, id_gid = 121, id_groups = Some (''mdm'', 121)\<rparr>"
  using greeter_runs_as_its_user [OF sample_greeter_child _ sample_lookup]
  by (simp add: child_data_def sample_greeter_def mdm_greeter_session_new_def mdm_welcome_session_init_def
      sample_mdm_user_def sample_process_simps)

text \<open>
  C24: The chooser's session has no seat, and the setup of its child reads the seat's name behind a NULL
  pointer: the child is ended before the chooser is executed, and so is the one of its D-Bus daemon.
\<close>

theorem chooser_never_runs:
  assumes "lookup_user env ''mdm'' t = Some (Some pwent)" and "p_getgrnam env t ''mdm'' \<noteq> None"
  shows "spawn_child_setup env (child_data log_file (mdm_chooser_session_new name dev host)) t
      = Some (Crashes, t)"
  using assms
  by (auto simp: spawn_child_setup_def child_data_def mdm_chooser_session_new_def mdm_welcome_session_init_def)

theorem chooser_never_runs_witness:
  "spawn_child_setup sample_process_env
     (child_data (Some ''/var/log/mdm/:0-greeter.log'') (mdm_chooser_session_new (Some '':0'') None None)) []
     = Some (Crashes, [])"
  by (rule chooser_never_runs [OF sample_lookup]) (simp add: sample_process_env_def)

text \<open>
  C25: Stopping a greeter that could not be started does nothing: \<open>CloseSession\<close> is not called and the D-Bus
  daemon that was started for it is not signalled. When the object is freed its connector to ConsoleKit
  is, and with it the connection its session is bound to; the D-Bus daemon is not signalled then either.
\<close>

theorem failed_greeter_start_leaks:
  assumes "mdm_welcome_session_start env ws t = Some (False, ws', t')" and "ws_pid ws \<le> 1"
  shows "mdm_welcome_session_stop env ws' t' = Some (ws', t')
    \<and> mdm_welcome_session_finalize env ws' t' = Some (if ws_ckc ws' then CK_unref # t' else t')"
proof -
  have "ws_pid ws' \<le> 1"
    by (rule welcome_spawn_result [OF assms(1)]) (use assms(2) in \<open>simp_all add: same_child_def\<close>)
  then show ?thesis
    by (simp add: mdm_welcome_session_stop_def mdm_welcome_session_finalize_def)
qed

lemma address_variables_total:
  "ws_server_address ws = None \<or> ws_server_env_var_name ws \<noteq> None \<Longrightarrow> \<exists>h. address_variables env ws t = Some h"
  by (auto simp: address_variables_def Let_def split: option.split)

lemma sample_environment:
  assumes "ws_server_address ws = None" and "ws_user_name ws = ''mdm''"
  shows "\<exists>vars. get_welcome_environment sample_process_env ws b t = Some (vars, t)"
  using address_variables_total [of ws sample_process_env t] assms
  by (auto simp: get_welcome_environment_def load_lang_config_file_def sample_process_simps sample_lookup)

lemma sample_dbus_output:
  "parse_dbus_launch_output (''DBUS_SESSION_BUS_ADDRESS=unix:x'' @ CHR 0x0A # ''DBUS_SESSION_BUS_PID=77'')
     = Some (''unix:x'', 77)"
  by code_simp

text \<open>The command of the greeter cannot be parsed; its D-Bus daemon runs.\<close>

lemma sample_failed_start:
  assumes "ws_server_address ws = None" and "ws_user_name ws = ''mdm''" and "ws_command ws = Some ''mate''"
    and "ws_register_ck_session ws"
  shows "\<exists>t'. mdm_welcome_session_start sample_process_env ws t =
      Some (False, ws\<lparr>ws_ckc := True, ws_dbus_bus_address := Some ''unix:x'', ws_dbus_pid := 77\<rparr>, t')"
proof -
  let ?ws1 = "ws\<lparr>ws_ckc := True\<rparr>"
  let ?ws2 = "?ws1\<lparr>ws_dbus_bus_address := Some ''unix:x'', ws_dbus_pid := 77\<rparr>"
  obtain t1 where open_ck: "open_welcome_session sample_process_env ws t = Some (True, ?ws1, t1)"
    using assms(2) by (auto simp: open_welcome_session_def sample_lookup sample_process_simps Let_def)
  obtain vars1 where vars1: "get_welcome_environment sample_process_env ?ws1 False t1 = Some (vars1, t1)"
    using sample_environment [of ?ws1] assms by auto
  have dbus: "start_dbus_daemon sample_process_env ?ws1 t1
      = Some (True, ?ws2, Spawn_sync [''/usr/bin/dbus-launch'', ''-verbose''] vars1 (child_data None ?ws1) # t1)"
    by (simp add: start_dbus_daemon_def vars1 spawn_command_line_sync_as_user_def DBUS_LAUNCH_COMMAND_def
        sample_process_simps sample_dbus_output [simplified])
  obtain vars2 where "get_welcome_environment sample_process_env ?ws2 True
      (Spawn_sync [''/usr/bin/dbus-launch'', ''-verbose''] vars1 (child_data None ?ws1) # t1)
      = Some (vars2, Spawn_sync [''/usr/bin/dbus-launch'', ''-verbose''] vars1 (child_data None ?ws1) # t1)"
    using sample_environment [of ?ws2] assms by auto
  then show ?thesis
    using open_ck dbus assms(3,4)
    by (simp add: mdm_welcome_session_start_def mdm_welcome_session_spawn_def
        spawn_command_line_async_as_user_def sample_process_simps)
qed

theorem failed_greeter_start_leaks_witness:
  "\<exists>ws' t'. mdm_welcome_session_start sample_process_env (sample_greeter\<lparr>ws_command := Some ''mate''\<rparr>) []
      = Some (False, ws', t')
    \<and> ws_dbus_pid ws' = 77 \<and> mdm_welcome_session_stop sample_process_env ws' t' = Some (ws', t')
    \<and> mdm_welcome_session_finalize sample_process_env ws' t' = Some (CK_unref # t')"
proof -
  let ?ws = "sample_greeter\<lparr>ws_command := Some ''mate''\<rparr>"
  obtain t' where start: "mdm_welcome_session_start sample_process_env ?ws [] =
      Some (False, ?ws\<lparr>ws_ckc := True, ws_dbus_bus_address := Some ''unix:x'', ws_dbus_pid := 77\<rparr>, t')"
    using sample_failed_start [of ?ws "[]"]
    by (auto simp: sample_greeter_def mdm_greeter_session_new_def mdm_welcome_session_init_def)
  have "ws_pid ?ws \<le> 1"
    by (simp add: sample_greeter_def mdm_greeter_session_new_def mdm_welcome_session_init_def)
  from failed_greeter_start_leaks [OF start this] start show ?thesis by fastforce
qed

text \<open>
  C23: The greeter inherits nothing of the slave's environment but the language, \<open>PATH\<close> and \<open>WINDOWPATH\<close>: every
  variable it gets is one of a fixed list or the one of its server's address. It is told its own user
  and display; a \<open>WINDOWPATH\<close> or authority file the slave does not have is passed on as \<open>(null)\<close>.
\<close>

theorem greeter_environment_is_clean:
  assumes "get_welcome_environment env ws start_session t = Some (vars, t')"
    and "\<forall>h. set (p_hash_order env h) = set h"
  shows "(\<forall>v \<in> set vars. \<exists>key val. v = key @ ''='' @ val
        \<and> (key \<in> set greeter_variables \<or> ws_server_env_var_name ws = Some key))
    \<and> ''USER='' @ ws_user_name ws \<in> set vars
    \<and> ''DISPLAY='' @ null_string (ws_x11_display_name ws) \<in> set vars
    \<and> ''WINDOWPATH='' @ null_string (getenv env t' ''WINDOWPATH'') \<in> set vars"
proof -
  obtain pwent hash0 cookie where t': "t' = load_lang_config_file env LANG_CONFIG_FILE optional_environment t"
    and hash0: "address_variables env ws t' = Some hash0"
    and vars: "vars = listify env (map (\<lambda>(key, val). (key, null_string val))
      (display_variables env start_session ws t' (user_variables cookie pwent ws hash0)))"
    using assms(1) unfolding get_welcome_environment_def Let_def by (auto elim!: bind_SomeE)
  define hash where "hash = display_variables env start_session ws t' (user_variables cookie pwent ws hash0)"
  have set_vars: "set vars = (\<lambda>(key, val). key @ ''='' @ null_string val) ` set hash"
    using assms(2) by (simp add: vars hash_def listify_def image_image case_prod_beta)
  have "keys_in (greeter_keys ws) hash"
    unfolding hash_def by (intro display_variables_keys user_variables_keys address_variables_keys [OF hash0])
  then have "\<forall>v \<in> set vars. \<exists>key val. v = key @ ''='' @ val
        \<and> (key \<in> set greeter_variables \<or> ws_server_env_var_name ws = Some key)"
    by (fastforce simp: set_vars keys_in_def greeter_keys_def)
  moreover have "map_of hash key = Some val \<Longrightarrow> key @ ''='' @ null_string val \<in> set vars" for key val
    using map_of_SomeD by (fastforce simp: set_vars)
  moreover have "map_of hash ''USER'' = Some (Some (ws_user_name ws))"
      "map_of hash ''DISPLAY'' = Some (ws_x11_display_name ws)"
      "map_of hash ''WINDOWPATH'' = Some (getenv env t' ''WINDOWPATH'')"
    by (simp_all add: hash_def display_variable user_variable)
  ultimately show ?thesis by (fastforce simp: null_string_def)
qed

theorem greeter_environment_is_clean_witness:
  "\<exists>vars. get_welcome_environment sample_process_env sample_greeter True [] = Some (vars, [])
     \<and> ''DISPLAY=:0'' \<in> set vars \<and> ''WINDOWPATH=(null)'' \<in> set vars"
proof -
  obtain vars where vars: "get_welcome_environment sample_process_env sample_greeter True [] = Some (vars, [])"
    using sample_environment [of sample_greeter]
    by (auto simp: sample_greeter_def mdm_greeter_session_new_def mdm_welcome_session_init_def)
  have "ws_x11_display_name sample_greeter = Some '':0''" "getenv sample_process_env [] ''WINDOWPATH'' = None"
    by (simp_all add: sample_greeter_def mdm_greeter_session_new_def mdm_welcome_session_init_def getenv_def
        sample_process_simps)
  then show ?thesis
    using greeter_environment_is_clean [OF vars] vars by (simp add: sample_process_simps null_string_def)
qed

subsection \<open>The D-Bus daemon and the language\<close>

text \<open>
  C26: What \<open>dbus-launch\<close> prints is read back: the address whole, and the pid when it fits into an \<open>int\<close> of
  32 bits; a larger one is taken for 0, that is, no daemon to stop.
\<close>

theorem dbus_launch_output_roundtrip:
  assumes "address \<noteq> []" and "\<forall>c \<in> set address. \<not> is_line_end c"
  shows "parse_dbus_launch_output (''DBUS_SESSION_BUS_ADDRESS='' @ address @ CHR 0x0A #
      ''DBUS_SESSION_BUS_PID='' @ string_of_nat n @ CHR 0x0A # rest)
     = Some (address, if int n < 2 ^ 31 then int n else 0)"
proof -
  have digits: "\<forall>c \<in> set (string_of_nat n). is_decimal c" "digits_value (string_of_nat n) = int n"
    using string_of_nat_digits by auto
  have "takeWhile (\<lambda>c. \<not> is_line_end c) (address @ CHR 0x0A # s) = address"
    and "dropWhile (\<lambda>c. \<not> is_line_end c) (address @ CHR 0x0A # s) = CHR 0x0A # s" for s
    using assms(2) by (induction address) (simp_all add: is_line_end_def)
  then have "match_dbus_output_here (''DBUS_SESSION_BUS_ADDRESS='' @ address @ CHR 0x0A #
      ''DBUS_SESSION_BUS_PID='' @ string_of_nat n @ CHR 0x0A # rest) = Some (address, string_of_nat n)"
    using strip_prefix_append [of "CHR 0x0A # ''DBUS_SESSION_BUS_PID=''"] assms(1)
      takeWhile_decimal [OF digits(1)]
    unfolding match_dbus_output_here_def strip_prefix_append by simp
  then have "match_dbus_output (''DBUS_SESSION_BUS_ADDRESS='' @ address @ CHR 0x0A #
      ''DBUS_SESSION_BUS_PID='' @ string_of_nat n @ CHR 0x0A # rest) = Some (address, string_of_nat n)"
    by simp
  then show ?thesis
    using parse_value_digits [OF string_of_nat_not_Nil(1) digits(1)]
    by (simp add: parse_dbus_launch_output_def digits(2))
qed

theorem dbus_launch_output_roundtrip_witness:
  "parse_dbus_launch_output (''DBUS_SESSION_BUS_ADDRESS='' @ ''unix:path=/tmp/x'' @ CHR 0x0A #
      ''DBUS_SESSION_BUS_PID='' @ string_of_nat 4321 @ CHR 0x0A # []) = Some (''unix:path=/tmp/x'', 4321)"
  using dbus_launch_output_roundtrip [of "''unix:path=/tmp/x''" 4321 "[]"] by (simp add: is_line_end_def)

text \<open>
  The file of the system's language is read line by line, a line that names no variable changing
  nothing; a last line without its end is not read at all.
\<close>

theorem language_file_by_lines:
  assumes "p_exists env t file" and "p_contents env t file = Some (concat (map (\<lambda>l. l @ [CHR 0x0A]) lines) @ rest)"
    and "\<forall>l \<in> set lines. CHR 0x0A \<notin> set l \<and> CHR 0x00 \<notin> set l"
    and "CHR 0x0A \<notin> set rest" and "CHR 0x00 \<notin> set rest" and "\<forall>s. p_utf8 env s"
  shows "load_lang_config_file env file keys t = fold (language_line keys) lines t"
  using assms language_loop_lines [of lines rest keys t]
  by (auto simp: load_lang_config_file_def)

theorem language_file_by_lines_witness:
  "load_lang_config_file (sample_process_env\<lparr>p_exists := \<lambda>t f. True,
       p_contents := \<lambda>t f. Some (''LANG=C'' @ CHR 0x0A # ''LC_ALL=de'')\<rparr>) ''/etc/sysconfig/i18n'' [''LANG'', ''LC_ALL''] []
     = [Set_env ''LANG'' ''C'']"
  using language_file_by_lines [of "sample_process_env\<lparr>p_exists := \<lambda>t f. True,
       p_contents := \<lambda>t f. Some (''LANG=C'' @ CHR 0x0A # ''LC_ALL=de'')\<rparr>" "[]" "''/etc/sysconfig/i18n''" "[''LANG=C'']"
      "''LC_ALL=de''" "[''LANG'', ''LC_ALL'']"]
  by (simp add: language_line_def quoted_value_def is_quote_def) (simp add: sample_process_env_def)

end
