(* ===== verification/Spec2Isabelle.thy ===== *)
theory Spec2Isabelle
  imports Worker_Properties Display_Properties Daemon_Properties Session_Properties Process_Properties
begin

text \<open>
  A verification development for MDM, the MATE display manager (C, on GLib and D-Bus).

  \<^bold>\<open>The program.\<close> One daemon owns the displays. For each display it starts a slave process,
  which runs the X server and the greeter; for each login the slave starts a session worker, which
  talks to PAM, becomes the user and runs the session. Displays of other hosts come in over XDMCP: the
  daemon answers their packets and creates displays for them beside its own. The development models
  the three kinds of process: the session worker (\<open>daemon/mdm-session-worker.c\<close>), the slave that leads a
  login between the greeter and the worker (\<open>daemon/mdm-simple-slave.c\<close>, \<open>daemon/mdm-session-direct.c\<close>,
  \<open>daemon/mdm-slave.c\<close>, \<open>daemon/mdm-greeter-server.c\<close>), and the daemon's management of the displays
  (\<open>daemon/mdm-local-display-factory.c\<close>, \<open>daemon/mdm-xdmcp-display-factory.c\<close>, \<open>daemon/mdm-display.c\<close>
  and what they use).

  \<^bold>\<open>Conventions.\<close> A GObject is a record; a pointer to an object whose sharing matters is a key of a
  heap with reference counts (the displays), otherwise the object is a field of its owner. A \<open>char *\<close>
  that may be NULL is a \<^typ>\<open>string option\<close>. An operation that can fail an assertion or dereference
  NULL returns an option, and \<^term>\<open>None\<close> is the end of the process; an error the code reports is a value
  (a sum type, a boolean). Integers whose wrap-around matters are machine words: the sizes of
  \<open>_read_bytes\<close>, display, serial and session numbers, counts, the fields of packets. The outside world is a record
  of answers (\<open>env\<close> for the worker, \<open>slave_env\<close> for the slave, \<open>process_env\<close> for the processes of its display, \<open>daemon_env\<close> for the daemon, \<open>xdmcp_env\<close> for its XDMCP factory): each answer may depend on the trace of
  all calls made so far, so that every theorem holds for every behaviour of PAM, the D-Bus peers, the
  kernel and the file system, unless a hypothesis says otherwise. A component that reacts to events
  is a step function; \<open>run\<close> (\<open>Mdm_Prelude\<close>) delivers a list of events.

  \<^bold>\<open>The theories.\<close>
  \<^item> \<open>Mdm_Prelude\<close>: C strings and file names as GLib builds them, decimal numbers, runs, and the
    locales \<open>event_machine\<close> and \<open>live_machine\<close>, the contracts of an event-driven component.
  \<^item> \<open>Mdm_Common\<close>: \<open>common/mdm-common.c\<close>.
  \<^item> \<open>Session_Settings\<close>, \<open>Session_Auditor\<close>: \<open>daemon/mdm-session-settings.c\<close> and
    \<open>daemon/mdm-session-auditor.c\<close>, which the worker uses.
  \<^item> \<open>Worker_Types\<close> (the private structure and the outside world), \<open>Worker_Conversation\<close> (D-Bus methods
    and the PAM conversation), \<open>Worker_Pam\<close> (the operations on the transaction), \<open>Worker_Files\<close> and
    \<open>Worker_Session\<close> (cache, environment, \<open>PATH\<close>, log, child process), \<open>Worker_Machine\<close> (steps,
    handlers, \<open>worker_step\<close>): \<open>daemon/mdm-session-worker.c\<close>, in the order of the file.
  \<^item> \<open>Pam_Protocol\<close>: the abstract specification, an automaton over the calls into PAM. What a failed
    \<open>pam_start\<close> leaves in the handle is an answer of the outside, NULL or not; the automaton has a phase of its
    own for it, in which only \<open>pam_end\<close> and a new \<open>pam_start\<close> are allowed. \<open>Worker_Invariant\<close>
    shows that every step of the worker keeps its state and the automaton's phase together, and
    interprets \<open>event_machine\<close> on the worker; \<open>Worker_Liveness\<close> shows that no step aborts on a
    well-behaved system and interprets \<open>live_machine\<close>: the retried calls return in the end, and
    \<open>PAM_USER\<close> is set once the user has been authenticated, as \<open>pam_set_item(3)\<close> documents, and may be NULL
    before, as in a login without a user name. \<open>Worker_Start\<close> is about the session's process;
    \<open>Worker_Properties\<close> holds the properties.
  \<^item> \<open>Slave_World\<close> (what a slave does and what the world answers), \<open>Session_Record\<close> and \<open>Worker_Job\<close>
    (\<open>daemon/mdm-session-record.c\<close>, \<open>daemon/mdm-session-worker-job.c\<close>), \<open>Session_Direct\<close> (the object's
    state, session files, defaults and choices) and \<open>Session_Handlers\<close> (the worker's method calls, the
    setup, start and end of a conversation): \<open>daemon/mdm-session-direct.c\<close>; \<open>Mdm_Slave\<close> and
    \<open>Greeter_Server\<close>: the files of the same names; \<open>Simple_Slave\<close>: \<open>daemon/mdm-simple-slave.c\<close>, up to
    \<open>slave_step\<close>, which delivers the events of the main loop, of the two private connections and of the
    X server. The signals the slave sends to the worker are the type \<open>signal\<close> that the worker's model
    handles, and the replies to the worker's calls the type \<open>dbus_reply\<close> that it receives.
  \<^item> \<open>Slave_Frames\<close> (a weakest precondition for operations that may end the process, and what each
    operation sends to the worker), \<open>Slave_Causes\<close> and \<open>Slave_Runs\<close> (the handlers and the steps, and the
    event that causes each signal): the way to \<open>signals_have_causes\<close>. \<open>Slave_Properties\<close> and
    \<open>Session_Properties\<close> hold the properties of the slave and of the session object.
  \<^item> \<open>Process_World\<close>: the world of the processes of a display, what GLib's spawning and a child's setup
    do to it, and the locale \<open>watched_process\<close>, the contract of an object that starts, watches and stops a
    child: the pids the kernel gave, the \<open>SIGTERM\<close>s sent, the pids waited for and the signals emitted are
    read off the trace and the object, and must be those of the books of the children's lives. \<open>X_Server\<close> (\<open>daemon/mdm-server.c\<close>) and \<open>Welcome_Session\<close> (\<open>daemon/mdm-welcome-session.c\<close> with
    \<open>mdm-greeter-session.c\<close> and \<open>mdm-chooser-session.c\<close>) interpret it on their objects, \<open>Process_Properties\<close>
    on the worker's job, and holds the properties.
  \<^item> \<open>Access_File\<close>, \<open>Slave_Proxy\<close>, \<open>Display_Store\<close> (with the contract of the store as a locale),
    \<open>Mdm_Display\<close>, \<open>Local_Factory\<close>: the daemon's files of the same names and the display classes
    \<open>daemon/mdm-static-display.c\<close>, \<open>mdm-transient-display.c\<close>, \<open>mdm-product-display.c\<close>.
    \<open>daemon_step\<close> delivers the events of the main loop and the methods of the factory.
  \<^item> \<open>Display_Invariant\<close>: the locale of the predicates that every operation on displays keeps;
    \<open>Factory_Invariant\<close> extends it to the events of the local factory. \<open>Display_Numbers\<close> interprets both,
    and \<open>event_machine\<close>, on the daemon's numbers.
    \<open>Display_Lifecycle\<close> has the exact effect of the operations on one display, up to the call that
    spawns its slave; \<open>Display_Settled\<close> the invariant between two events, the relation \<open>one_event\<close> (the
    abstract life cycle) and \<open>event_effect\<close>, which says of each event what it does; \<open>Display_Properties\<close> holds the
    properties of single displays.
  \<^item> \<open>Mdm_Address\<close>: \<open>common/mdm-address.c\<close>, and packets with the size of their fields. \<open>Xdmcp_World\<close> (the
    state of the XDMCP factory, which contains the daemon of the local one, and the readers of libXdmcp as
    parameters), \<open>Xdmcp_Queries\<close> (queries, the tables of clients and forwards), \<open>Xdmcp_Factory\<close> (from
    REQUEST to KEEPALIVE, and the remote display classes), \<open>Xdmcp_Machine\<close> (dispatch, socket, configuration
    and \<open>xdmcp_step\<close>): \<open>daemon/mdm-xdmcp-display-factory.c\<close>, \<open>daemon/mdm-xdmcp-greeter-display.c\<close>,
    \<open>daemon/mdm-xdmcp-chooser-display.c\<close>. \<open>Xdmcp_Invariant\<close> interprets the locales of the displays and
    \<open>event_machine\<close> on it; \<open>Xdmcp_Sessions\<close> has the effect of a request and of the start of a session;
    \<open>Xdmcp_Properties\<close> holds the properties.
  \<^item> \<open>Daemon_Properties\<close>: the properties of the daemon as a whole, over the runs of \<open>xdmcp_step\<close>, which has the
    events of both factories. Two of them are about a daemon that never starts its XDMCP factory, the default
    of \<open>data/mdm.schemas\<close>: a remote display keeps the reference of its creator and takes the number its host has
    chosen, so that neither the store owns it nor its number is the daemon's.

  \<^bold>\<open>Loops and bounds.\<close> A retry loop on \<open>EINTR\<close> is a \<open>partial_function\<close> over the sequence of answers, so
  that not returning is \<^term>\<open>None\<close>; that it returns is proved under the hypothesis that some answer is
  not \<open>EINTR\<close>. A PAM call is an interaction tree, so that the conversation may be of any length. The
  daemon's serial numbers repeat after 2^31 - 1 displays and its display numbers after 2^32: properties
  that need them to be fresh say so in a hypothesis on the number of events or displays. The slave polls
  its X server at most ten times, which is proved.

  \<^bold>\<open>Not modelled.\<close> The slaves that divide login and session between two displays (product and factory)
  with the relay of their conversation, and the chooser's slave; the manager, the user manager
  and the settings daemon; and the graphical programs. Libraries (GLib's key files, D-Bus, PAM,
  ConsoleKit, libXau, libXdmcp, Xlib) are parameters. The slave's model has
  the starts and ends of its X server, greeter and worker as entries of its trace and as events; the models
  of these objects are separate ones. Main functions, property tables of GObject classes and debug output
  carry no logic of their own. Of the slave, a GObject signal whose handlers only write to the greeter runs where it is
  emitted, and any other at the end of the operation that emits it, which is where the code emits them; the contents of the
  root window and the cursor are left out.
\<close>

end
